(* ===== verification/Prelude.thy ===== *)
theory Prelude
  imports Complex_Main "HOL-Library.Sublist" "HOL-Library.Multiset"
begin

text \<open>
  Shared vocabulary of the development: the JavaScript operations the sources use on strings,
  numbers and optional values, the key-value store that stands for \<open>localStorage\<close>, a generic
  runner of state machines, and the interfaces (locales) the components rely on.

  Conventions. A string is the list of bytes of its UTF-8 encoding, so that percent-encoding
  works on it as the platform does; \<open>js_length\<close> counts UTF-16 code units of such a list.
  \<open>undefined\<close> and \<open>null\<close> are \<open>None\<close>. A number is a rational: binary rounding, NaN and the
  infinities are modelled only where the text says so. Case mapping and white space are the
  ASCII ones.
\<close>

named_theorems js_simps \<open>unfolding rules of the JavaScript operations\<close>
named_theorems store_simps \<open>reads after writes of the key-value store\<close>

section \<open>Optional values and truthiness\<close>

text \<open>\<open>a ?? b\<close>.\<close>

definition nullish :: "'a option \<Rightarrow> 'a \<Rightarrow> 'a" where
  "nullish a b = (case a of None \<Rightarrow> b | Some x \<Rightarrow> x)"

text \<open>\<open>!!s\<close> for a string that may be missing; \<open>s || undefined\<close>; \<open>s || t\<close>.\<close>

definition truthy :: "string option \<Rightarrow> bool" where
  "truthy s = (case s of None \<Rightarrow> False | Some t \<Rightarrow> t \<noteq> [])"

definition or_undefined :: "string \<Rightarrow> string option" where
  "or_undefined s = (if s = [] then None else Some s)"

definition or_else :: "string \<Rightarrow> string \<Rightarrow> string" where
  "or_else s t = (if s = [] then t else s)"

lemma nullish_simps [simp]: "nullish None b = b" "nullish (Some x) b = x"
  by (simp_all add: nullish_def)

lemma truthy_simps [simp]: "\<not> truthy None" "truthy (Some s) \<longleftrightarrow> s \<noteq> []"
  by (simp_all add: truthy_def)

lemma truthy_iff: "truthy s \<longleftrightarrow> (\<exists>t. s = Some t \<and> t \<noteq> [])"
  by (cases s) simp_all

lemma truthy_or_undefined [simp]: "truthy (or_undefined s) \<longleftrightarrow> s \<noteq> []"
  by (simp add: or_undefined_def)

section \<open>Characters and strings\<close>

abbreviation code :: "char \<Rightarrow> nat" where
  "code c \<equiv> of_char c"

definition is_digit :: "char \<Rightarrow> bool" where
  "is_digit c \<longleftrightarrow> 48 \<le> code c \<and> code c \<le> 57"

definition is_lower :: "char \<Rightarrow> bool" where
  "is_lower c \<longleftrightarrow> 97 \<le> code c \<and> code c \<le> 122"

definition is_upper :: "char \<Rightarrow> bool" where
  "is_upper c \<longleftrightarrow> 65 \<le> code c \<and> code c \<le> 90"

definition is_alnum :: "char \<Rightarrow> bool" where
  "is_alnum c \<longleftrightarrow> is_digit c \<or> is_lower c \<or> is_upper c"

definition is_space :: "char \<Rightarrow> bool" where
  "is_space c \<longleftrightarrow> code c = 32 \<or> (9 \<le> code c \<and> code c \<le> 13)"

definition upper_char :: "char \<Rightarrow> char" where
  "upper_char c = (if is_lower c then char_of (code c - 32) else c)"

definition lower_char :: "char \<Rightarrow> char" where
  "lower_char c = (if is_upper c then char_of (code c + 32) else c)"

definition toUpperCase :: "string \<Rightarrow> string" where
  "toUpperCase s = map upper_char s"

definition toLowerCase :: "string \<Rightarrow> string" where
  "toLowerCase s = map lower_char s"

definition js_trim :: "string \<Rightarrow> string" where
  "js_trim s = rev (dropWhile is_space (rev (dropWhile is_space s)))"

definition startsWith :: "string \<Rightarrow> string \<Rightarrow> bool" where
  "startsWith s p = prefix p s"

text \<open>UTF-16 length: one unit per code point, two for the code points of four bytes.\<close>

definition js_length :: "string \<Rightarrow> nat" where
  "js_length s = length (filter (\<lambda>c. code c < 128 \<or> 192 \<le> code c) s)
               + length (filter (\<lambda>c. 240 \<le> code c) s)"

text \<open>\<open>s.split(c)\<close> for a separator of one character, and \<open>xs.join(sep)\<close>.\<close>

fun split_on :: "char \<Rightarrow> string \<Rightarrow> string list" where
  "split_on c [] = [[]]"
| "split_on c (x # xs) =
     (if x = c then [] # split_on c xs
      else (case split_on c xs of [] \<Rightarrow> [[x]] | p # ps \<Rightarrow> (x # p) # ps))"

fun join_with :: "string \<Rightarrow> string list \<Rightarrow> string" where
  "join_with sep [] = []"
| "join_with sep [x] = x"
| "join_with sep (x # y # ys) = x @ sep @ join_with sep (y # ys)"

lemma split_on_nonempty [simp]: "split_on c s \<noteq> []"
  by (induction s) (auto split: list.splits)

lemma hd_split_on: "hd (split_on c s) = takeWhile (\<lambda>x. x \<noteq> c) s"
  by (induction s) (auto split: list.splits simp: hd_conv_nth)

lemma split_on_no_sep: "p \<in> set (split_on c s) \<Longrightarrow> c \<notin> set p"
  by (induction s arbitrary: p) (auto split: list.splits if_splits)

lemma split_on_absent: "c \<notin> set s \<Longrightarrow> split_on c s = [s]"
  by (induction s) auto

lemma split_on_append:
  "c \<notin> set s \<Longrightarrow> split_on c (s @ c # t) = s # split_on c t"
  by (induction s) auto

lemma split_on_join:
  "xs \<noteq> [] \<Longrightarrow> (\<And>x. x \<in> set xs \<Longrightarrow> c \<notin> set x) \<Longrightarrow> split_on c (join_with [c] xs) = xs"
proof (induction "[c]" xs rule: join_with.induct)
  case (3 x y ys)
  then show ?case by (simp add: split_on_append)
qed (simp_all add: split_on_absent)

lemma join_split_on: "join_with [c] (split_on c s) = s"
proof (induction s)
  case (Cons x xs)
  obtain p ps where p: "split_on c xs = p # ps"
    by (cases "split_on c xs") auto
  with Cons show ?case by (cases ps) auto
qed simp

section \<open>Numbers as text\<close>

definition digit_char :: "nat \<Rightarrow> char" where
  "digit_char d = char_of (48 + d)"

definition digit_val :: "char \<Rightarrow> nat" where
  "digit_val c = code c - 48"

fun show_nat :: "nat \<Rightarrow> string" where
  "show_nat n = (if n < 10 then [digit_char n] else show_nat (n div 10) @ [digit_char (n mod 10)])"

declare show_nat.simps [simp del]

lemmas show_nat_code [code] = show_nat.simps

definition show_int :: "int \<Rightarrow> string" where
  "show_int i = (if i < 0 then CHR ''-'' # show_nat (nat (- i)) else show_nat (nat i))"

definition read_nat :: "string \<Rightarrow> nat" where
  "read_nat ds = foldl (\<lambda>n c. 10 * n + digit_val c) 0 ds"

text \<open>The decimal expansion of a fraction in [0, 1), at most \<open>k\<close> digits of it.\<close>

fun frac_digits :: "nat \<Rightarrow> rat \<Rightarrow> string" where
  "frac_digits 0 r = []"
| "frac_digits (Suc k) r =
     (if r = 0 then []
      else digit_char (nat \<lfloor>10 * r\<rfloor>) # frac_digits k (10 * r - of_int \<lfloor>10 * r\<rfloor>))"

text \<open>\<open>String(n)\<close>: an integer in decimal, any other number with at most 17 decimals (the
  range where JavaScript prints neither an exponent nor more digits).\<close>

definition number_to_string :: "rat \<Rightarrow> string" where
  "number_to_string r =
     (if r = of_int \<lfloor>r\<rfloor> then show_int \<lfloor>r\<rfloor>
      else (if r < 0 then ''-'' else '''') @ show_int \<lfloor>\<bar>r\<bar>\<rfloor> @ ''.''
           @ frac_digits 17 (\<bar>r\<bar> - of_int \<lfloor>\<bar>r\<bar>\<rfloor>))"

text \<open>\<open>Math.round\<close> rounds halves up.\<close>

definition js_round :: "rat \<Rightarrow> int" where
  "js_round r = \<lfloor>r + 1 / 2\<rfloor>"

text \<open>\<open>r.toFixed(k)\<close> for a rational: the multiple of \<open>10 ^ -k\<close> nearest to r, the larger of
  two, printed with k decimals.\<close>

definition to_fixed :: "nat \<Rightarrow> rat \<Rightarrow> string" where
  "to_fixed k r =
     (let n = nat (js_round (\<bar>r\<bar> * 10 ^ k)); q = n div 10 ^ k; d = show_nat (n mod 10 ^ k)
      in (if r < 0 then ''-'' else '''') @ show_nat q
         @ (if k = 0 then [] else ''.'' @ replicate (k - length d) (CHR ''0'') @ d))"

definition pow10 :: "int \<Rightarrow> rat" where
  "pow10 e = (if 0 \<le> e then 10 ^ nat e else 1 / 10 ^ nat (- e))"

text \<open>\<open>Number(s)\<close> of decimal text, with a sign, a fraction and an exponent; \<open>None\<close> is NaN and
  the empty string is 0. Hexadecimal text and \<open>Infinity\<close> are left out.\<close>

definition take_sign :: "string \<Rightarrow> rat \<times> string" where
  "take_sign s =
     (case s of
        [] \<Rightarrow> (1, [])
      | c # r \<Rightarrow> if c = CHR ''-'' then (- 1, r) else if c = CHR ''+'' then (1, r) else (1, s))"

definition take_exponent :: "string \<Rightarrow> int option" where
  "take_exponent s =
     (case s of
        [] \<Rightarrow> Some 0
      | c # r \<Rightarrow>
          if c = CHR ''e'' \<or> c = CHR ''E''
          then (let (sg, ds) = take_sign r
                in if ds \<noteq> [] \<and> list_all is_digit ds then Some (\<lfloor>sg\<rfloor> * int (read_nat ds)) else None)
          else None)"

definition number_of_string :: "string \<Rightarrow> rat option" where
  "number_of_string s =
     (let t = js_trim s
      in if t = [] then Some 0
         else (let (sg, u) = take_sign t;
                   ds = takeWhile is_digit u;
                   r = dropWhile is_digit u;
                   (fs, r2) = (case r of
                      c # q \<Rightarrow> if c = CHR ''.'' then (takeWhile is_digit q, dropWhile is_digit q) else ([], r)
                    | [] \<Rightarrow> ([], r))
               in if ds = [] \<and> fs = [] then None
                  else map_option (\<lambda>e. sg * (of_nat (read_nat ds)
                                  + of_nat (read_nat fs) / 10 ^ length fs) * pow10 e)
                         (take_exponent r2)))"

lemma digit_chars [simp]:
  "digit_char 0 = CHR ''0''" "digit_char 1 = CHR ''1''" "digit_char (Suc 0) = CHR ''1''"
  "digit_char 2 = CHR ''2''" "digit_char 3 = CHR ''3''" "digit_char 4 = CHR ''4''"
  "digit_char 5 = CHR ''5''" "digit_char 6 = CHR ''6''" "digit_char 7 = CHR ''7''"
  "digit_char 8 = CHR ''8''" "digit_char 9 = CHR ''9''"
  by code_simp+

lemma show_nat_simps:
  "n < 10 \<Longrightarrow> show_nat n = [digit_char n]"
  "10 \<le> n \<Longrightarrow> show_nat n = show_nat (n div 10) @ [digit_char (n mod 10)]"
  by (subst show_nat.simps, simp)+

lemma of_char_char_of_nat [simp]: "n < 256 \<Longrightarrow> code (char_of n) = n"
  by simp

lemma is_digit_digit_char [simp]: "d < 10 \<Longrightarrow> is_digit (digit_char d)"
  by (simp add: is_digit_def digit_char_def)

lemma digit_val_digit_char [simp]: "d < 10 \<Longrightarrow> digit_val (digit_char d) = d"
  by (simp add: digit_val_def digit_char_def)

lemma show_nat_digits: "list_all is_digit (show_nat n)"
proof (induction n rule: show_nat.induct)
  case (1 n)
  then show ?case by (subst show_nat.simps) simp
qed

lemma show_nat_nonempty [simp]: "show_nat n \<noteq> []"
  by (subst show_nat.simps) simp

lemma read_nat_snoc: "read_nat (ds @ [c]) = 10 * read_nat ds + digit_val c"
  by (simp add: read_nat_def)

lemma read_show_nat [simp]: "read_nat (show_nat n) = n"
proof (induction n rule: show_nat.induct)
  case (1 n)
  show ?case
  proof (cases "n < 10")
    case True
    then show ?thesis by (subst show_nat.simps) (simp add: read_nat_def)
  next
    case False
    with 1 have "read_nat (show_nat (n div 10)) = n div 10" by simp
    with False show ?thesis
      by (subst show_nat.simps) (simp add: read_nat_snoc)
  qed
qed

lemma show_nat_hd_zero: "hd (show_nat n) = CHR ''0'' \<Longrightarrow> n = 0"
proof (induction n rule: show_nat.induct)
  case (1 n)
  show ?case
  proof (cases "n < 10")
    case True
    with "1.prems" have "digit_char n = CHR ''0''"
      by (subst (asm) show_nat.simps) simp
    then have "digit_val (digit_char n) = 0" by (simp add: digit_val_def)
    with True show ?thesis by simp
  next
    case False
    with "1.prems" have "hd (show_nat (n div 10)) = CHR ''0''"
      by (subst (asm) show_nat.simps) simp
    with "1.IH" False have "n div 10 = 0" by simp
    with False show ?thesis by simp
  qed
qed

lemma digit_not_space: "is_digit c \<Longrightarrow> \<not> is_space c"
  by (auto simp: is_digit_def is_space_def)

lemma dropWhile_no_space: "list_all (\<lambda>c. \<not> is_space c) s \<Longrightarrow> dropWhile is_space s = s"
  by (cases s) auto

lemma js_trim_no_space: "list_all (\<lambda>c. \<not> is_space c) s \<Longrightarrow> js_trim s = s"
  by (simp add: js_trim_def dropWhile_no_space list.pred_set)

lemma digit_not_minus: "is_digit c \<Longrightarrow> c \<noteq> CHR ''-''"
  by (auto simp: is_digit_def)

lemma takeWhile_all: "list_all P xs \<Longrightarrow> takeWhile P xs = xs \<and> dropWhile P xs = []"
  by (induction xs) auto

lemma number_of_show_int: "number_of_string (show_int i) = Some (of_int i)"
proof -
  have d: "list_all is_digit (show_nat n)" for n by (rule show_nat_digits)
  have ns: "list_all (\<lambda>c. \<not> is_space c) (show_nat n)" for n
    using d [of n] by (auto simp: list.pred_set dest: digit_not_space)
  then have t': "js_trim (CHR ''-'' # show_nat n) = CHR ''-'' # show_nat n" for n
    by (intro js_trim_no_space) (simp add: is_space_def)
  from ns have t: "js_trim (show_nat n) = show_nat n" for n
    by (rule js_trim_no_space)
  have s: "take_sign (show_nat n) = (1, show_nat n)" for n
    using d [of n] by (cases "show_nat n") (auto simp: take_sign_def is_digit_def)
  have r0: "read_nat [] = 0" by (simp add: read_nat_def)
  note facts = number_of_string_def t t' s takeWhile_all [OF d] take_exponent_def pow10_def r0
  show ?thesis
  proof (cases "i < 0")
    case True
    then show ?thesis by (simp add: show_int_def facts take_sign_def)
  next
    case False
    then show ?thesis by (simp add: show_int_def facts)
  qed
qed

section \<open>The key-value store\<close>

text \<open>\<open>localStorage\<close>: a map from keys to strings.\<close>

type_synonym storage = "string \<Rightarrow> string option"

definition getItem :: "storage \<Rightarrow> string \<Rightarrow> string option" where
  "getItem m k = m k"

definition setItem :: "string \<Rightarrow> string \<Rightarrow> storage \<Rightarrow> storage" where
  "setItem k v m = m(k \<mapsto> v)"

definition removeItem :: "string \<Rightarrow> storage \<Rightarrow> storage" where
  "removeItem k m = m(k := None)"

locale kv_store =
  fixes get :: "'m \<Rightarrow> 'k \<Rightarrow> 'v option"
    and put :: "'k \<Rightarrow> 'v \<Rightarrow> 'm \<Rightarrow> 'm"
    and del :: "'k \<Rightarrow> 'm \<Rightarrow> 'm"
  assumes get_put: "get (put k v m) k' = (if k' = k then Some v else get m k')"
    and get_del: "get (del k m) k' = (if k' = k then None else get m k')"
begin

lemma get_put_list:
  "distinct (map fst kvs) \<Longrightarrow>
   get (fold (\<lambda>(k, v). put k v) kvs m) k' = (case map_of kvs k' of None \<Rightarrow> get m k' | Some v \<Rightarrow> Some v)"
proof (induction kvs arbitrary: m)
  case (Cons kv kvs)
  obtain k v where kv: "kv = (k, v)" by fastforce
  from Cons.prems kv have "map_of kvs k = None" by (simp add: map_of_eq_None_iff)
  with Cons kv show ?case by (auto simp: get_put split: option.splits)
qed simp

lemma get_del_list:
  "get (fold del ks m) k' = (if k' \<in> set ks then None else get m k')"
  by (induction ks arbitrary: m) (auto simp: get_del)

end

interpretation ls: kv_store getItem setItem removeItem
  by unfold_locales (simp_all add: getItem_def setItem_def removeItem_def)

lemmas [store_simps] = ls.get_put ls.get_del

section \<open>State machines\<close>

text \<open>A component with state is a step function; a run folds it over the events.\<close>

definition run :: "('s \<Rightarrow> 'e \<Rightarrow> 's) \<Rightarrow> 's \<Rightarrow> 'e list \<Rightarrow> 's" where
  "run step s es = foldl step s es"

lemma run_simps [simp]:
  "run step s [] = s" "run step s (e # es) = run step (step s e) es"
  "run step s (es @ es') = run step (run step s es) es'"
  by (simp_all add: run_def)

locale inv_machine =
  fixes step :: "'s \<Rightarrow> 'e \<Rightarrow> 's"
    and inv :: "'s \<Rightarrow> bool"
  assumes inv_step: "inv s \<Longrightarrow> inv (step s e)"
begin

lemma inv_run: "inv s \<Longrightarrow> inv (run step s es)"
  by (induction es arbitrary: s) (auto intro: inv_step)

end

section \<open>Objects\<close>

text \<open>An object is the list of its properties in the order they were set; \<open>{ ...a, ...b }\<close> sets those of \<open>b\<close> over those of \<open>a\<close>.\<close>

fun assoc_put :: "'k \<Rightarrow> 'v \<Rightarrow> ('k \<times> 'v) list \<Rightarrow> ('k \<times> 'v) list" where
  "assoc_put k v [] = [(k, v)]"
| "assoc_put k v ((k', v') # r) = (if k = k' then (k, v) # r else (k', v') # assoc_put k v r)"

definition assoc_spread :: "('k \<times> 'v) list \<Rightarrow> ('k \<times> 'v) list \<Rightarrow> ('k \<times> 'v) list" where
  "assoc_spread a b = fold (\<lambda>(k, v). assoc_put k v) b a"

lemma assoc_spread_simps [simp]:
  "assoc_spread a [] = a" "assoc_spread a ((k, v) # b) = assoc_spread (assoc_put k v a) b"
  by (simp_all add: assoc_spread_def)

lemma assoc_put_map: "map_of (assoc_put k v kvs) = (map_of kvs)(k \<mapsto> v)"
  by (induction k v kvs rule: assoc_put.induct) auto

lemma assoc_spread_map: "distinct (map fst b) \<Longrightarrow> map_of (assoc_spread a b) = map_of a ++ map_of b"
proof (induction b arbitrary: a)
  case (Cons kv b)
  obtain k v where kv: "kv = (k, v)" by fastforce
  with Cons.prems have "k \<notin> dom (map_of b)" by (simp add: dom_map_of_conv_image_fst)
  with Cons kv show ?case by (auto simp: assoc_put_map map_add_def fun_eq_iff split: option.splits)
qed simp

section \<open>Codecs\<close>

text \<open>What a query string or a stored token relies on: decoding undoes encoding, and the
  encoded text is free of the characters that delimit it.\<close>

locale text_codec =
  fixes enc :: "string \<Rightarrow> string"
    and dec :: "string \<Rightarrow> string option"
    and reserved :: "char set"
  assumes dec_enc: "dec (enc s) = Some s"
    and enc_free: "c \<in> set (enc s) \<Longrightarrow> c \<notin> reserved"
begin

lemma enc_inj: "enc s = enc t \<Longrightarrow> s = t"
  by (metis dec_enc option.inject)

end

end
