(* ===== verification/Json.thy ===== *)
theory Json
  imports Prelude
begin

text \<open>
  JSON values, \<open>JSON.stringify\<close> and \<open>JSON.parse\<close> as the sources use them, with the exceptions
  a script may throw. Strings are UTF-8 byte lists, object members keep their insertion order
  and a repeated key keeps its first place with its last value.
\<close>

datatype js_error =
    Error string        \<comment> \<open>\<open>new Error(message)\<close>\<close>
  | SyntaxError         \<comment> \<open>from \<open>JSON.parse\<close>\<close>
  | TypeError           \<comment> \<open>a property of \<open>null\<close> or \<open>undefined\<close>\<close>
  | NetworkError        \<comment> \<open>a rejected \<open>fetch\<close>\<close>

datatype json =
    JNull
  | JBool bool
  | JNum rat
  | JStr string
  | JArr "json list"
  | JObj "(string \<times> json) list"

section \<open>Printing\<close>

definition hex_digit :: "nat \<Rightarrow> char" where
  "hex_digit d = (if d < 10 then char_of (48 + d) else char_of (87 + d))"

definition quote_char :: "char \<Rightarrow> string" where
  "quote_char c =
     (if code c = 34 then [char_of (92::nat), char_of (34::nat)]
      else if code c = 92 then [char_of (92::nat), char_of (92::nat)]
      else if code c = 8 then [char_of (92::nat), CHR ''b'']
      else if code c = 9 then [char_of (92::nat), CHR ''t'']
      else if code c = 10 then [char_of (92::nat), CHR ''n'']
      else if code c = 12 then [char_of (92::nat), CHR ''f'']
      else if code c = 13 then [char_of (92::nat), CHR ''r'']
      else if code c < 32
        then [char_of (92::nat), CHR ''u'', CHR ''0'', CHR ''0'',
              hex_digit (code c div 16), hex_digit (code c mod 16)]
      else [c])"

abbreviation dquote :: char where
  "dquote \<equiv> CHR 0x22"

definition quote_json :: "string \<Rightarrow> string" where
  "quote_json s = [dquote] @ concat (map quote_char s) @ [dquote]"

fun stringify :: "json \<Rightarrow> string" where
  "stringify JNull = ''null''"
| "stringify (JBool b) = (if b then ''true'' else ''false'')"
| "stringify (JNum n) = number_to_string n"
| "stringify (JStr s) = quote_json s"
| "stringify (JArr vs) = ''['' @ join_with '','' (map stringify vs) @ '']''"
| "stringify (JObj kvs) =
     ''{'' @ join_with '','' (map (\<lambda>(k, v). quote_json k @ '':'' @ stringify v) kvs) @ ''}''"

section \<open>Parsing\<close>

definition json_ws :: "char \<Rightarrow> bool" where
  "json_ws c \<longleftrightarrow> code c = 32 \<or> code c = 9 \<or> code c = 10 \<or> code c = 13"

definition skip_ws :: "string \<Rightarrow> string" where
  "skip_ws s = dropWhile json_ws s"

definition hex_val :: "char \<Rightarrow> nat option" where
  "hex_val c =
     (if is_digit c then Some (code c - 48)
      else if 97 \<le> code c \<and> code c \<le> 102 then Some (code c - 87)
      else if 65 \<le> code c \<and> code c \<le> 70 then Some (code c - 55)
      else None)"

fun hex4 :: "string \<Rightarrow> (nat \<times> string) option" where
  "hex4 (a # b # c # d # r) =
     (case (hex_val a, hex_val b, hex_val c, hex_val d) of
        (Some p, Some q, Some s, Some t) \<Rightarrow> Some (((p * 16 + q) * 16 + s) * 16 + t, r)
      | _ \<Rightarrow> None)"
| "hex4 _ = None"

text \<open>UTF-8 bytes of a code point.\<close>

definition utf8 :: "nat \<Rightarrow> string" where
  "utf8 n =
     (if n < 128 then [char_of n]
      else if n < 2048 then [char_of (192 + n div 64), char_of (128 + n mod 64)]
      else if n < 65536
        then [char_of (224 + n div 4096), char_of (128 + n div 64 mod 64), char_of (128 + n mod 64)]
      else [char_of (240 + n div 262144), char_of (128 + n div 4096 mod 64),
            char_of (128 + n div 64 mod 64), char_of (128 + n mod 64)])"

text \<open>A high surrogate followed by an escaped low surrogate is one code point.\<close>

definition low_surrogate :: "string \<Rightarrow> (nat \<times> string) option" where
  "low_surrogate s =
     (case s of
        b # u # r \<Rightarrow>
          if code b = 92 \<and> u = CHR ''u''
          then (case hex4 r of
                  Some (m, r') \<Rightarrow> if 56320 \<le> m \<and> m < 57344 then Some (m, r') else None
                | None \<Rightarrow> None)
          else None
      | _ \<Rightarrow> None)"

definition unit_escape :: "string \<Rightarrow> (string \<times> string) option" where
  "unit_escape s =
     (case hex4 s of
        None \<Rightarrow> None
      | Some (n, r) \<Rightarrow>
          if 55296 \<le> n \<and> n < 56320
          then (case low_surrogate r of
                  Some (m, r') \<Rightarrow> Some (utf8 (65536 + (n - 55296) * 1024 + (m - 56320)), r')
                | None \<Rightarrow> Some (utf8 n, r))
          else Some (utf8 n, r))"

definition simple_escape :: "char \<Rightarrow> char option" where
  "simple_escape c =
     (if code c = 34 \<or> code c = 92 \<or> c = CHR ''/'' then Some c
      else if c = CHR ''b'' then Some (char_of (8::nat))
      else if c = CHR ''f'' then Some (char_of (12::nat))
      else if c = CHR ''n'' then Some (char_of (10::nat))
      else if c = CHR ''r'' then Some (char_of (13::nat))
      else if c = CHR ''t'' then Some (char_of (9::nat))
      else None)"

lemma hex4_shorter: "hex4 s = Some (n, r) \<Longrightarrow> length r < length s"
  by (induction s rule: hex4.induct) (auto split: option.splits)

lemma low_surrogate_shorter: "low_surrogate s = Some (n, r) \<Longrightarrow> length r < length s"
  by (auto simp: low_surrogate_def split: list.splits if_splits option.splits dest!: hex4_shorter)

lemma unit_escape_shorter: "unit_escape s = Some (t, r) \<Longrightarrow> length r < length s"
  by (auto simp: unit_escape_def split: if_splits option.splits
      dest!: hex4_shorter low_surrogate_shorter)

text \<open>The rest of a string literal after its opening quote.\<close>

function parse_str :: "string \<Rightarrow> (string \<times> string) option" where
  "parse_str [] = None"
| "parse_str (c # cs) =
     (if code c = 34 then Some ([], cs)
      else if code c = 92 then
        (case cs of
           [] \<Rightarrow> None
         | e # cs' \<Rightarrow>
             (case simple_escape e of
                Some x \<Rightarrow> map_option (\<lambda>(t, r). (x # t, r)) (parse_str cs')
              | None \<Rightarrow>
                  if e = CHR ''u''
                  then (case unit_escape cs' of
                          None \<Rightarrow> None
                        | Some (u, r') \<Rightarrow> map_option (\<lambda>(t, r). (u @ t, r)) (parse_str r'))
                  else None))
      else if code c < 32 then None
      else map_option (\<lambda>(t, r). (c # t, r)) (parse_str cs))"
  by pat_completeness auto
termination
  by (relation "measure length") (auto dest!: unit_escape_shorter)

definition parse_frac :: "string \<Rightarrow> (string \<times> string) option" where
  "parse_frac s =
     (case s of
        c # r \<Rightarrow>
          if c = CHR ''.''
          then (let ds = takeWhile is_digit r in if ds = [] then None else Some (ds, dropWhile is_digit r))
          else Some ([], s)
      | [] \<Rightarrow> Some ([], s))"

definition parse_exp :: "string \<Rightarrow> (int \<times> string) option" where
  "parse_exp s =
     (case s of
        c # r \<Rightarrow>
          if c = CHR ''e'' \<or> c = CHR ''E''
          then (let (sg, r') = (case r of
                       x # y \<Rightarrow> if x = CHR ''-'' then (-1, y) else if x = CHR ''+'' then (1, y) else (1, r)
                     | [] \<Rightarrow> (1, r));
                    ds = takeWhile is_digit r'
                in if ds = [] then None else Some (sg * int (read_nat ds), dropWhile is_digit r'))
          else Some (0, s)
      | [] \<Rightarrow> Some (0, s))"

definition parse_num :: "string \<Rightarrow> (json \<times> string) option" where
  "parse_num s =
     (let (neg, s1) = (case s of c # r \<Rightarrow> if c = CHR ''-'' then (True, r) else (False, s)
                       | [] \<Rightarrow> (False, s));
          ds = takeWhile is_digit s1
      in if ds = [] \<or> (hd ds = CHR ''0'' \<and> 1 < length ds) then None
         else (case parse_frac (dropWhile is_digit s1) of
                 None \<Rightarrow> None
               | Some (fs, r2) \<Rightarrow>
                   (case parse_exp r2 of
                      None \<Rightarrow> None
                    | Some (e, r3) \<Rightarrow>
                        Some (JNum ((if neg then -1 else 1)
                                    * (of_nat (read_nat ds) + of_nat (read_nat fs) / 10 ^ length fs)
                                    * pow10 e), r3))))"

definition lit :: "string \<Rightarrow> json \<Rightarrow> string \<Rightarrow> (json \<times> string) option" where
  "lit w v s = (if prefix w s then Some (v, drop (length w) s) else None)"

text \<open>A member stored under a key that is there already replaces its value.\<close>

fun obj_put :: "string \<Rightarrow> json \<Rightarrow> (string \<times> json) list \<Rightarrow> (string \<times> json) list" where
  "obj_put k v [] = [(k, v)]"
| "obj_put k v ((k', v') # kvs) = (if k = k' then (k, v) # kvs else (k', v') # obj_put k v kvs)"

fun parse_value :: "nat \<Rightarrow> string \<Rightarrow> (json \<times> string) option"
  and parse_elems :: "nat \<Rightarrow> json list \<Rightarrow> string \<Rightarrow> (json \<times> string) option"
  and parse_members :: "nat \<Rightarrow> (string \<times> json) list \<Rightarrow> string \<Rightarrow> (json \<times> string) option"
where
  "parse_value 0 s = None"
| "parse_value (Suc n) s =
     (case skip_ws s of
        [] \<Rightarrow> None
      | c # cs \<Rightarrow>
          if c = dquote then map_option (\<lambda>(t, r). (JStr t, r)) (parse_str cs)
          else if c = CHR ''['' then
            (case skip_ws cs of
               d # r \<Rightarrow> if d = CHR '']'' then Some (JArr [], r) else parse_elems n [] cs
             | [] \<Rightarrow> None)
          else if c = CHR ''{'' then
            (case skip_ws cs of
               d # r \<Rightarrow> if d = CHR ''}'' then Some (JObj [], r) else parse_members n [] cs
             | [] \<Rightarrow> None)
          else if c = CHR ''n'' then lit ''ull'' JNull cs
          else if c = CHR ''t'' then lit ''rue'' (JBool True) cs
          else if c = CHR ''f'' then lit ''alse'' (JBool False) cs
          else parse_num (c # cs))"
| "parse_elems 0 acc s = None"
| "parse_elems (Suc n) acc s =
     (case parse_value n s of
        None \<Rightarrow> None
      | Some (v, r) \<Rightarrow>
          (case skip_ws r of
             d # r' \<Rightarrow>
               if d = CHR '','' then parse_elems n (acc @ [v]) r'
               else if d = CHR '']'' then Some (JArr (acc @ [v]), r') else None
           | [] \<Rightarrow> None))"
| "parse_members 0 acc s = None"
| "parse_members (Suc n) acc s =
     (case skip_ws s of
        [] \<Rightarrow> None
      | q # s1 \<Rightarrow>
          if q \<noteq> dquote then None
          else (case parse_str s1 of
                  None \<Rightarrow> None
                | Some (k, r) \<Rightarrow>
                    (case skip_ws r of
                       [] \<Rightarrow> None
                     | d # r1 \<Rightarrow>
                         if d \<noteq> CHR '':'' then None
                         else (case parse_value n r1 of
                                 None \<Rightarrow> None
                               | Some (v, r2) \<Rightarrow>
                                   (case skip_ws r2 of
                                      e # r3 \<Rightarrow>
                                        if e = CHR '','' then parse_members n (obj_put k v acc) r3
                                        else if e = CHR ''}'' then Some (JObj (obj_put k v acc), r3)
                                        else None
                                    | [] \<Rightarrow> None)))))"

definition json_parse :: "string \<Rightarrow> js_error + json" where
  "json_parse s =
     (case parse_value (2 * length s + 2) s of
        Some (v, r) \<Rightarrow> if skip_ws r = [] then Inr v else Inl SyntaxError
      | None \<Rightarrow> Inl SyntaxError)"

section \<open>Reading properties\<close>

text \<open>\<open>v.k\<close>; \<open>undefined\<close> is \<open>None\<close>.\<close>

fun jprop :: "json \<Rightarrow> string \<Rightarrow> js_error + json option" where
  "jprop JNull k = Inl TypeError"
| "jprop (JObj kvs) k = Inr (map_of kvs k)"
| "jprop v k = Inr None"

text \<open>\<open>v ?? w\<close>: \<open>null\<close> and \<open>undefined\<close> give way.\<close>

definition jnullish :: "json option \<Rightarrow> json \<Rightarrow> json" where
  "jnullish v w = (case v of None \<Rightarrow> w | Some JNull \<Rightarrow> w | Some x \<Rightarrow> x)"

fun jtruthy :: "json \<Rightarrow> bool" where
  "jtruthy JNull = False"
| "jtruthy (JBool b) = b"
| "jtruthy (JNum n) = (n \<noteq> 0)"
| "jtruthy (JStr s) = (s \<noteq> [])"
| "jtruthy (JArr vs) = True"
| "jtruthy (JObj kvs) = True"

text \<open>\<open>String(v)\<close>; an array joins its elements, an object has no text of its own.\<close>

fun jstring :: "json \<Rightarrow> string" where
  "jstring JNull = ''null''"
| "jstring (JBool b) = (if b then ''true'' else ''false'')"
| "jstring (JNum n) = number_to_string n"
| "jstring (JStr s) = s"
| "jstring (JArr vs) = join_with '','' (map (\<lambda>v. if v = JNull then [] else jstring v) vs)"
| "jstring (JObj kvs) = ''[object Object]''"

text \<open>\<open>Number(v)\<close>; \<open>None\<close> is NaN.\<close>

definition jnumber :: "json option \<Rightarrow> rat option" where
  "jnumber v =
     (case v of
        None \<Rightarrow> None
      | Some JNull \<Rightarrow> Some 0
      | Some (JBool b) \<Rightarrow> Some (if b then 1 else 0)
      | Some (JNum n) \<Rightarrow> Some n
      | Some (JStr s) \<Rightarrow> number_of_string s
      | Some (JArr vs) \<Rightarrow> number_of_string (jstring (JArr vs))
      | Some (JObj kvs) \<Rightarrow> None)"

section \<open>String literals\<close>

lemma hex_val_hex_digit [simp]: "d < 16 \<Longrightarrow> hex_val (hex_digit d) = Some d"
  by (auto simp: hex_val_def hex_digit_def is_digit_def)

lemma hex_val_0 [simp]: "hex_val CHR ''0'' = Some 0"
  by (simp add: hex_val_def is_digit_def)

lemma unit_escape_control:
  "n < 32 \<Longrightarrow>
   unit_escape (CHR ''0'' # CHR ''0'' # hex_digit (n div 16) # hex_digit (n mod 16) # t)
   = Some ([char_of n], t)"
  by (simp add: unit_escape_def utf8_def)

lemma parse_str_quote_char:
  "parse_str (quote_char c @ t) = map_option (\<lambda>(u, r). (c # u, r)) (parse_str t)"
proof -
  have c: "c = char_of (code c)" by simp
  consider "code c = 34" | "code c = 92" | "code c = 8" | "code c = 9" | "code c = 10"
    | "code c = 12" | "code c = 13"
    | "code c < 32" "code c \<notin> {8, 9, 10, 12, 13}"
    | "32 \<le> code c" "code c \<noteq> 34" "code c \<noteq> 92"
    by fastforce
  then show ?thesis
  proof cases
    case 8
    then have "quote_char c = [char_of (92::nat), CHR ''u'', CHR ''0'', CHR ''0'',
        hex_digit (code c div 16), hex_digit (code c mod 16)]"
      by (simp add: quote_char_def)
    moreover have "simple_escape CHR ''u'' = None"
      by (simp add: simple_escape_def)
    ultimately show ?thesis
      using 8 by (simp add: unit_escape_control del: hex4.simps)
  next
    case 9
    then show ?thesis by (simp add: quote_char_def)
  qed (subst (2) c, simp add: quote_char_def simple_escape_def del: char_of_char)+
qed

lemma parse_str_quote_json:
  "parse_str (concat (map quote_char s) @ dquote # rest) = Some (s, rest)"
  by (induction s) (simp_all add: parse_str_quote_char)

section \<open>Printing and parsing back\<close>

text \<open>The values that print faithfully: integers and objects without repeated keys.\<close>

fun wf_json :: "json \<Rightarrow> bool" where
  "wf_json (JNum n) \<longleftrightarrow> n = of_int \<lfloor>n\<rfloor>"
| "wf_json (JArr vs) \<longleftrightarrow> (\<forall>v \<in> set vs. wf_json v)"
| "wf_json (JObj kvs) \<longleftrightarrow> distinct (map fst kvs) \<and> (\<forall>(k, v) \<in> set kvs. wf_json v)"
| "wf_json v \<longleftrightarrow> True"

definition num_end :: "string \<Rightarrow> bool" where
  "num_end s \<longleftrightarrow> (case s of [] \<Rightarrow> True
     | c # _ \<Rightarrow> \<not> is_digit c \<and> c \<noteq> CHR ''.'' \<and> c \<noteq> CHR ''e'' \<and> c \<noteq> CHR ''E'')"

lemma num_end_simps [simp]:
  "num_end []" "num_end (CHR '','' # s)" "num_end (CHR '']'' # s)" "num_end (CHR ''}'' # s)"
  by (simp_all add: num_end_def is_digit_def)

lemma takeWhile_digits:
  "list_all is_digit ds \<Longrightarrow> num_end rest \<Longrightarrow>
   takeWhile is_digit (ds @ rest) = ds \<and> dropWhile is_digit (ds @ rest) = rest"
  by (induction ds) (auto simp: num_end_def split: list.splits)

lemma parse_frac_end: "num_end rest \<Longrightarrow> parse_frac rest = Some ([], rest)"
  by (auto simp: parse_frac_def num_end_def split: list.splits)

lemma parse_exp_end: "num_end rest \<Longrightarrow> parse_exp rest = Some (0, rest)"
  by (auto simp: parse_exp_def num_end_def split: list.splits)

lemma show_nat_lead: "hd (show_nat n) = CHR ''0'' \<Longrightarrow> length (show_nat n) = 1"
  by (frule show_nat_hd_zero) (simp add: show_nat.simps)

lemma parse_num_digits:
  assumes "list_all is_digit ds" "ds \<noteq> []" "hd ds = CHR ''0'' \<Longrightarrow> length ds = 1" "num_end rest"
  shows "parse_num (ds @ rest) = Some (JNum (of_nat (read_nat ds)), rest)"
    and "parse_num (CHR ''-'' # ds @ rest) = Some (JNum (- of_nat (read_nat ds)), rest)"
proof -
  obtain c cs where c: "ds = c # cs" using assms(2) by (cases ds) auto
  with assms(1) have m: "c \<noteq> CHR ''-''" by (auto dest: digit_not_minus)
  have z: "\<not> (hd ds = CHR ''0'' \<and> 1 < length ds)" using assms(3) by auto
  note e = takeWhile_digits [OF assms(1,4)] parse_frac_end [OF assms(4)] parse_exp_end [OF assms(4)]
  have hd: "(case ds @ rest of c # r \<Rightarrow> if c = CHR ''-'' then (True, r) else (False, ds @ rest)
      | [] \<Rightarrow> (False, ds @ rest)) = (False, ds @ rest)"
    using c m by simp
  have r0: "read_nat [] = 0" by (simp add: read_nat_def)
  show "parse_num (ds @ rest) = Some (JNum (of_nat (read_nat ds)), rest)"
    unfolding parse_num_def hd using e z assms(2) by (simp add: Let_def r0 pow10_def)
  show "parse_num (CHR ''-'' # ds @ rest) = Some (JNum (- of_nat (read_nat ds)), rest)"
    unfolding parse_num_def using e z assms(2) by (simp add: Let_def r0 pow10_def)
qed

lemma parse_num_show_int:
  assumes "num_end rest"
  shows "parse_num (show_int i @ rest) = Some (JNum (of_int i), rest)"
proof -
  note p = parse_num_digits [OF show_nat_digits show_nat_nonempty show_nat_lead assms]
  show ?thesis
    by (cases "i < 0") (simp_all add: show_int_def p)
qed

lemma show_int_head:
  "\<exists>c cs. show_int i = c # cs \<and> (is_digit c \<or> c = CHR ''-'')"
  using show_nat_digits [of "nat i"]
  by (cases "show_nat (nat i)") (auto simp: show_int_def)

lemma stringify_head:
  assumes "wf_json v"
  shows "\<exists>c cs. stringify v = c # cs \<and> \<not> json_ws c \<and> c \<noteq> CHR '']''"
proof (cases v)
  case (JNum n)
  with assms have "stringify v = show_int \<lfloor>n\<rfloor>" by (simp add: number_to_string_def)
  with show_int_head [of "\<lfloor>n\<rfloor>"] show ?thesis
    by (auto simp: json_ws_def is_digit_def)
qed (auto simp: json_ws_def quote_json_def)

lemma skip_ws_stringify:
  "wf_json v \<Longrightarrow> skip_ws (stringify v @ rest) = stringify v @ rest"
  using stringify_head [of v] by (auto simp: skip_ws_def)

lemma parse_value_num:
  assumes "wf_json (JNum n)" "num_end rest"
  shows "parse_value (Suc f) (stringify (JNum n) @ rest) = Some (JNum n, rest)"
proof -
  let ?s = "show_int \<lfloor>n\<rfloor>"
  from assms(1) have s: "stringify (JNum n) = ?s" by (simp add: number_to_string_def)
  obtain c cs where c: "?s = c # cs" "is_digit c \<or> c = CHR ''-''"
    using show_int_head by blast
  have "skip_ws (?s @ rest) = c # cs @ rest"
    using skip_ws_stringify [OF assms(1), of rest] s c by simp
  moreover have "parse_num (c # cs @ rest) = Some (JNum n, rest)"
    using parse_num_show_int [OF assms(2), of "\<lfloor>n\<rfloor>"] c assms(1) by simp
  moreover have "c \<noteq> dquote" "c \<notin> {CHR ''['', CHR ''{'', CHR ''n'', CHR ''t'', CHR ''f''}"
    using c(2) by (auto simp: is_digit_def)
  ultimately show ?thesis using s by simp
qed

lemma obj_put_new: "k \<notin> fst ` set kvs \<Longrightarrow> obj_put k v kvs = kvs @ [(k, v)]"
  by (induction kvs) auto

lemma skip_ws_id [simp]:
  "skip_ws (CHR '','' # s) = CHR '','' # s" "skip_ws (CHR '']'' # s) = CHR '']'' # s"
  "skip_ws (CHR ''}'' # s) = CHR ''}'' # s" "skip_ws (CHR '':'' # s) = CHR '':'' # s"
  "skip_ws (dquote # s) = dquote # s" "skip_ws (CHR ''['' # s) = CHR ''['' # s"
  "skip_ws (CHR ''{'' # s) = CHR ''{'' # s"
  by (simp_all add: skip_ws_def json_ws_def)

lemma skip_ws_cons: "\<not> json_ws c \<Longrightarrow> skip_ws (c # cs) = c # cs"
  by (simp add: skip_ws_def)

lemma parse_elems_print:
  assumes "\<And>v n rest. v \<in> set vs \<Longrightarrow> 2 * length (stringify v) < n \<Longrightarrow> num_end rest
             \<Longrightarrow> parse_value n (stringify v @ rest) = Some (v, rest)"
    and "vs \<noteq> []" "2 * length (join_with '','' (map stringify vs)) + 1 < n"
  shows "parse_elems n acc (join_with '','' (map stringify vs) @ CHR '']'' # rest)
         = Some (JArr (acc @ vs), rest)"
  using assms
proof (induction vs arbitrary: n acc)
  case (Cons v vs)
  then obtain m where n: "n = Suc m" by (cases n) auto
  show ?case
  proof (cases vs)
    case Nil
    with Cons.prems(1) [of v m "CHR '']'' # rest"] Cons.prems(3) n show ?thesis by simp
  next
    case (Cons w ws)
    let ?t = "join_with '','' (map stringify vs)"
    have s: "join_with '','' (map stringify (v # vs)) = stringify v @ CHR '','' # ?t"
      using Cons by simp
    have "parse_value m (stringify v @ CHR '','' # ?t @ CHR '']'' # rest)
          = Some (v, CHR '','' # ?t @ CHR '']'' # rest)"
      using Cons.prems(1) [of v m] Cons.prems(3) n s by simp
    moreover have "parse_elems m (acc @ [v]) (?t @ CHR '']'' # rest)
          = Some (JArr ((acc @ [v]) @ vs), rest)"
      using Cons.prems(1,3) n s \<open>vs = w # ws\<close> by (intro Cons.IH) auto
    ultimately show ?thesis using n s by simp
  qed
qed simp

lemma parse_members_print:
  assumes "\<And>k v n rest. (k, v) \<in> set kvs \<Longrightarrow> 2 * length (stringify v) < n \<Longrightarrow> num_end rest
             \<Longrightarrow> parse_value n (stringify v @ rest) = Some (v, rest)"
    and "kvs \<noteq> []" "distinct (map fst (acc @ kvs))"
    and "2 * length (join_with '','' (map (\<lambda>(k, v). quote_json k @ '':'' @ stringify v) kvs)) + 1 < n"
  shows "parse_members n acc
           (join_with '','' (map (\<lambda>(k, v). quote_json k @ '':'' @ stringify v) kvs) @ CHR ''}'' # rest)
         = Some (JObj (acc @ kvs), rest)"
  using assms
proof (induction kvs arbitrary: n acc)
  case (Cons kv kvs)
  let ?p = "\<lambda>(k, v). quote_json k @ '':'' @ stringify v"
  obtain k v where kv: "kv = (k, v)" by fastforce
  from Cons.prems obtain m where n: "n = Suc m" by (cases n) auto
  have put: "obj_put k v acc = acc @ [(k, v)]"
    using Cons.prems(3) kv by (intro obj_put_new) auto
  have key: "parse_str (concat (map quote_char k) @ dquote # t) = Some (k, t)" for t
    by (rule parse_str_quote_json)
  show ?case
  proof (cases kvs)
    case Nil
    have "parse_value m (stringify v @ CHR ''}'' # rest) = Some (v, CHR ''}'' # rest)"
      using Cons.prems(1) [of k v m] Cons.prems(4) kv n Nil by (simp add: quote_json_def)
    with Nil kv n put show ?thesis by (simp add: quote_json_def key)
  next
    case (Cons w ws)
    let ?t = "join_with '','' (map ?p kvs)"
    have s: "join_with '','' (map ?p (kv # kvs))
             = dquote # concat (map quote_char k) @ dquote # CHR '':'' # stringify v @ CHR '','' # ?t"
      using Cons kv by (simp add: quote_json_def)
    have "parse_value m (stringify v @ CHR '','' # ?t @ CHR ''}'' # rest)
          = Some (v, CHR '','' # ?t @ CHR ''}'' # rest)"
      using Cons.prems(1) [of k v m] Cons.prems(4) n s kv by simp
    moreover have "parse_members m (acc @ [(k, v)]) (?t @ CHR ''}'' # rest)
          = Some (JObj ((acc @ [(k, v)]) @ kvs), rest)"
      using Cons.prems(1,3,4) n s kv \<open>kvs = w # ws\<close> by (intro Cons.IH) auto
    ultimately show ?thesis using n s kv put by (simp add: key)
  qed
qed simp

lemma parse_value_print:
  "wf_json v \<Longrightarrow> 2 * length (stringify v) < n \<Longrightarrow> num_end rest
   \<Longrightarrow> parse_value n (stringify v @ rest) = Some (v, rest)"
proof (induction v arbitrary: n rest)
  case (JNum q)
  then obtain m where "n = Suc m" by (cases n) auto
  with JNum show ?case using parse_value_num by blast
next
  case (JStr s)
  then obtain m where "n = Suc m" by (cases n) auto
  then show ?case by (simp add: quote_json_def parse_str_quote_json)
next
  case (JArr vs)
  then obtain m where n: "n = Suc m" by (cases n) auto
  show ?case
  proof (cases "vs = []")
    case False
    let ?t = "join_with '','' (map stringify vs) @ CHR '']'' # rest"
    have "parse_elems m [] ?t = Some (JArr ([] @ vs), rest)"
      using JArr n False by (intro parse_elems_print) auto
    moreover obtain v ws where "vs = v # ws" using False by (cases vs) auto
    then obtain c cs where "?t = c # cs" "\<not> json_ws c" "c \<noteq> CHR '']''"
      using JArr.prems(1) stringify_head [of v] by (cases ws) auto
    ultimately show ?thesis using n by (simp add: skip_ws_cons)
  qed (use n in simp)
next
  case (JObj kvs)
  then obtain m where n: "n = Suc m" by (cases n) auto
  show ?case
  proof (cases "kvs = []")
    case False
    let ?p = "\<lambda>(k, v). quote_json k @ '':'' @ stringify v"
    let ?t = "join_with '','' (map ?p kvs) @ CHR ''}'' # rest"
    have "parse_members m [] ?t = Some (JObj ([] @ kvs), rest)"
      using JObj n False by (intro parse_members_print) fastforce+
    moreover obtain kv ws where "kvs = kv # ws" using False by (cases kvs) auto
    then obtain cs where "?t = dquote # cs"
      by (cases ws; cases kv) (auto simp: quote_json_def)
    ultimately show ?thesis using n by simp
  qed (use n in simp)
next
  case JNull
  then show ?case by (cases n) (simp_all add: lit_def skip_ws_def json_ws_def)
next
  case (JBool b)
  then show ?case by (cases n) (auto simp: lit_def skip_ws_def json_ws_def)
qed

lemma parse_stringify: "wf_json v \<Longrightarrow> json_parse (stringify v) = Inr v"
  using parse_value_print [of v "2 * length (stringify v) + 2" "[]"]
  by (simp add: json_parse_def skip_ws_def)

section \<open>The fuel of the parser is enough\<close>

lemma skip_ws_le: "length (skip_ws s) \<le> length s"
  by (simp add: skip_ws_def length_dropWhile_le)

lemma skip_ws_Cons_le: "skip_ws s = c # cs \<Longrightarrow> length cs < length s"
  using skip_ws_le [of s] by simp

lemma parse_str_step:
  "parse_str (c # cs) = Some (t, r) \<Longrightarrow>
   r = cs \<or> (\<exists>ys u. length ys \<le> length cs \<and> parse_str ys = Some (u, r))"
  by (auto split: if_splits list.splits option.splits dest!: unit_escape_shorter
      intro: exI [of _ cs] exI [of _ "tl cs"] less_imp_le le_SucI)

lemma parse_str_shorter: "parse_str s = Some (t, r) \<Longrightarrow> length r < length s"
proof (induction s arbitrary: t r rule: length_induct)
  case (1 s)
  show ?case
  proof (cases s)
    case (Cons c cs)
    with 1(2) consider "r = cs"
      | ys u where "length ys \<le> length cs" "parse_str ys = Some (u, r)"
      using parse_str_step by blast
    then show ?thesis
    proof cases
      case 2
      with 1(1) Cons have "length r < length ys" by (simp add: le_imp_less_Suc)
      with 2 Cons show ?thesis by simp
    qed (use Cons in simp)
  qed (use 1 in simp)
qed

lemma parse_exp_le: "parse_exp s = Some (e, r) \<Longrightarrow> length r \<le> length s"
  by (auto simp: parse_exp_def Let_def length_dropWhile_le le_SucI split: list.splits if_splits prod.splits)

lemma parse_frac_le: "parse_frac s = Some (e, r) \<Longrightarrow> length r \<le> length s"
  by (auto simp: parse_frac_def Let_def length_dropWhile_le le_SucI split: list.splits if_splits)

lemma dropWhile_digits_less: "takeWhile P s \<noteq> [] \<Longrightarrow> length (dropWhile P s) < length s"
  by (cases s) (auto simp: length_dropWhile_le le_imp_less_Suc split: if_splits)

lemma parse_num_shorter: 
  assumes "parse_num s = Some (v, r)" shows "length r < length s"
proof -
  define s1 where "s1 = (case s of c # t \<Rightarrow> if c = CHR ''-'' then t else s | [] \<Rightarrow> s)"
  have "length s1 \<le> length s" by (auto simp: s1_def split: list.splits)
  moreover obtain fs r2 e where "takeWhile is_digit s1 \<noteq> []" "parse_frac (dropWhile is_digit s1) = Some (fs, r2)" "parse_exp r2 = Some (e, r)"
    using assms by (auto simp: parse_num_def s1_def Let_def split: list.splits if_splits option.splits prod.splits)
  moreover note dropWhile_digits_less [OF this(1)] parse_frac_le [OF this(2)] parse_exp_le [OF this(3)]
  ultimately show ?thesis by linarith
qed
lemma lit_shorter: "lit w v s = Some (x, r) \<Longrightarrow> length r \<le> length s"
  by (auto simp: lit_def split: if_splits)

lemma parse_shorter:
  "parse_value n s = Some (v, r) \<Longrightarrow> length r < length s"
  "parse_elems n vs s = Some (v, r) \<Longrightarrow> length r < length s"
  "parse_members n kvs s = Some (v, r) \<Longrightarrow> length r < length s"
proof (induction n s and n vs s and n kvs s arbitrary: v r and v r and v r rule: parse_value_parse_elems_parse_members.induct)
  case (2 n s)
  then show ?case
    by (fastforce split: list.splits if_splits dest!: skip_ws_Cons_le parse_str_shorter parse_num_shorter lit_shorter)
next
  case (4 n vs s)
  then show ?case
    by (fastforce split: list.splits if_splits option.splits dest!: skip_ws_Cons_le)
next
  case (6 n vs s)
  then show ?case
    by (fastforce split: list.splits if_splits option.splits dest!: skip_ws_Cons_le parse_str_shorter)
qed simp_all

lemma parse_fuel_step:
  "2 * length s + 1 \<le> n \<Longrightarrow> parse_value (Suc n) s = parse_value n s"
  "2 * length s + 2 \<le> n \<Longrightarrow> parse_elems (Suc n) vs s = parse_elems n vs s"
  "2 * length s + 2 \<le> n \<Longrightarrow> parse_members (Suc n) kvs s = parse_members n kvs s"
proof (induction n s and n vs s and n kvs s rule: parse_value_parse_elems_parse_members.induct)
  case (2 n s)
  show ?case
  proof (cases "skip_ws s")
    case (Cons c cs)
    then have l: "2 * length cs + 2 \<le> n" using skip_ws_Cons_le [OF Cons] 2(3) by simp
    show ?thesis
      unfolding parse_value.simps(2) [of "Suc n"] parse_value.simps(2) [of n] Cons
      using 2(1) [OF Cons _ _ _ _ l] 2(2) [OF Cons _ _ _ _ _ l]
      by (simp split: list.split)
  qed simp
next
  case (4 n vs s)
  then have v: "parse_value (Suc n) s = parse_value n s" by simp
  show ?case
  proof (cases "parse_value n s")
    case (Some p)
    obtain v r where p: "p = (v, r)" by fastforce
    with Some have "length r < length s" by (auto dest: parse_shorter)
    then have "skip_ws r = d # r' \<Longrightarrow> 2 * length r' + 2 \<le> n" for d r'
      using 4(3) by (auto dest!: skip_ws_Cons_le)
    then show ?thesis
      unfolding parse_elems.simps(2) [of "Suc n"] parse_elems.simps(2) [of n] v
      using 4(2) [OF Some p [symmetric]] Some p
      by (simp split: list.split)
  qed (simp add: v del: parse_value.simps)
next
  case (6 n kvs s)
  show ?case
  proof (cases "skip_ws s")
    case (Cons q s1)
    show ?thesis
    proof (cases "parse_str s1")
      case (Some p)
      obtain k r where p: "p = (k, r)" by fastforce
      from Cons Some p have lr: "Suc (length r) < length s"
        by (auto dest!: skip_ws_Cons_le parse_str_shorter)
      show ?thesis
      proof (cases "skip_ws r")
        case (Cons d r1)
        with lr have l1: "length r1 + 1 < length s" by (auto dest!: skip_ws_Cons_le)
        then have v: "d = CHR '':'' \<Longrightarrow> q = dquote \<Longrightarrow> parse_value (Suc n) r1 = parse_value n r1"
          using 6(1) [OF \<open>skip_ws s = q # s1\<close> _ Some p [symmetric] Cons] 6(3) by simp
        show ?thesis
        proof (cases "parse_value n r1")
          case (Some p2)
          obtain v r2 where p2: "p2 = (v, r2)" by fastforce
          with Some l1 have "skip_ws r2 = e # r3 \<Longrightarrow> 2 * length r3 + 2 \<le> n" for e r3
            using 6(3) by (auto dest!: skip_ws_Cons_le parse_shorter(1))
          then show ?thesis
            unfolding parse_members.simps(2) [of "Suc n"] parse_members.simps(2) [of n]
            using 6(2) [OF \<open>skip_ws s = q # s1\<close> _ \<open>parse_str s1 = Some p\<close> p [symmetric] \<open>skip_ws r = d # r1\<close> _ Some p2 [symmetric]]
              v Some p2 \<open>skip_ws s = q # s1\<close> \<open>parse_str s1 = Some p\<close> p \<open>skip_ws r = d # r1\<close>
            by (simp split: list.split del: parse_value.simps)
        qed (use v Some Cons p \<open>skip_ws s = q # s1\<close> in \<open>simp del: parse_value.simps\<close>)
      qed (use Some Cons p in simp)
    qed (use Cons in simp)
  qed simp
qed simp_all

lemma parse_fuel_enough:
  "2 * length s + 2 \<le> n \<Longrightarrow> parse_value n s = parse_value (2 * length s + 2) s"
proof (induction n rule: dec_induct)
  case (step n)
  then have "parse_value (Suc n) s = parse_value n s" by (intro parse_fuel_step) simp
  with step show ?case by simp
qed simp

end
