(* ===== verification/Http.thy ===== *)
theory Http
  imports Json
begin

text \<open>
  What the HTTP clients rely on: percent-encoding (\<open>encodeURIComponent\<close>, \<open>URLSearchParams\<close>)
  with the decoder a server applies, requests and responses, and computations that read and
  write the browser's state, send requests and may throw.

  The server and the network are a parameter \<open>srv\<close>: the answer to a request, which may depend on
  every request sent before it.
\<close>

section \<open>Percent-encoding\<close>

definition hex_upper :: "nat \<Rightarrow> char" where
  "hex_upper d = (if d < 10 then char_of (48 + d) else char_of (55 + d))"

definition percent :: "char \<Rightarrow> string" where
  "percent c = [CHR ''%'', hex_upper (code c div 16), hex_upper (code c mod 16)]"

definition uri_unreserved :: "char \<Rightarrow> bool" where
  "uri_unreserved c \<longleftrightarrow> is_alnum c \<or> c \<in> set ''-_.!~*()'' \<or> code c = 39"

definition encodeURIComponent :: "string \<Rightarrow> string" where
  "encodeURIComponent s = concat (map (\<lambda>c. if uri_unreserved c then [c] else percent c) s)"

definition form_unreserved :: "char \<Rightarrow> bool" where
  "form_unreserved c \<longleftrightarrow> is_alnum c \<or> c \<in> set ''*-._''"

definition form_encode :: "string \<Rightarrow> string" where
  "form_encode s =
     concat (map (\<lambda>c. if form_unreserved c then [c] else if c = CHR '' '' then ''+'' else percent c) s)"

text \<open>The decoder of a query component: \<open>%XX\<close> is a byte and \<open>+\<close> a space.\<close>

fun form_decode :: "string \<Rightarrow> string option" where
  "form_decode [] = Some []"
| "form_decode (c # cs) =
     (if c = CHR ''%'' then
        (case cs of
           a # b # r \<Rightarrow>
             (case (hex_val a, hex_val b) of
                (Some p, Some q) \<Rightarrow> map_option (Cons (char_of (p * 16 + q))) (form_decode r)
              | _ \<Rightarrow> None)
         | _ \<Rightarrow> None)
      else if c = CHR ''+'' then map_option (Cons (CHR '' '')) (form_decode cs)
      else map_option (Cons c) (form_decode cs))"

definition query_reserved :: "char set" where
  "query_reserved = set ''&=?#/ ''"

section \<open>Query parameters\<close>

type_synonym params = "(string \<times> string) list"

text \<open>\<open>URLSearchParams.set\<close>: the first pair with the name takes the value, the others go.\<close>

definition params_set :: "string \<Rightarrow> string \<Rightarrow> params \<Rightarrow> params" where
  "params_set k v ps =
     (if k \<in> fst ` set ps
      then (let i = takeWhile (\<lambda>p. fst p \<noteq> k) ps; r = dropWhile (\<lambda>p. fst p \<noteq> k) ps
            in i @ (k, v) # filter (\<lambda>p. fst p \<noteq> k) r)
      else ps @ [(k, v)])"

text \<open>\<open>if (v) params.set(k, v)\<close>.\<close>

definition set_if :: "string \<Rightarrow> string option \<Rightarrow> params \<Rightarrow> params" where
  "set_if k v ps = (case v of None \<Rightarrow> ps | Some s \<Rightarrow> if s = [] then ps else params_set k s ps)"

definition params_str :: "params \<Rightarrow> string" where
  "params_str ps = join_with ''&'' (map (\<lambda>(k, v). form_encode k @ ''='' @ form_encode v) ps)"

text \<open>\<open>search.size > 0 ? `?${search.toString()}` : ''\<close>.\<close>

definition query_suffix :: "params \<Rightarrow> string" where
  "query_suffix ps = (if ps = [] then [] else ''?'' @ params_str ps)"

text \<open>What a server reads from such a query.\<close>

definition read_pair :: "string \<Rightarrow> (string \<times> string) option" where
  "read_pair s =
     (let k = takeWhile (\<lambda>c. c \<noteq> CHR ''='') s; v = drop (Suc (length k)) s
      in case (form_decode k, form_decode v) of (Some a, Some b) \<Rightarrow> Some (a, b) | _ \<Rightarrow> None)"

fun all_some :: "'a option list \<Rightarrow> 'a list option" where
  "all_some [] = Some []"
| "all_some (None # xs) = None"
| "all_some (Some x # xs) = map_option (Cons x) (all_some xs)"

definition read_query :: "string \<Rightarrow> params option" where
  "read_query s = (if s = [] then Some [] else all_some (map read_pair (split_on (CHR ''&'') s)))"

section \<open>Requests, responses and the browser\<close>

record request =
  req_url :: string
  req_method :: string
  req_headers :: "(string \<times> string) list"
  req_body :: "string option"

record response =
  res_status :: nat
  res_json :: "js_error + json"   \<comment> \<open>what \<open>res.json()\<close> gives\<close>

definition res_ok :: "response \<Rightarrow> bool" where
  "res_ok r \<longleftrightarrow> 200 \<le> res_status r \<and> res_status r \<le> 299"

record browser =
  b_store :: storage
  b_href :: "string option"       \<comment> \<open>the last assignment to \<open>window.location.href\<close>\<close>
  b_sent :: "request list"        \<comment> \<open>every request, oldest first\<close>

type_synonym server = "request list \<Rightarrow> request \<Rightarrow> js_error + response"

text \<open>Computations: an \<open>async\<close> function reads and writes the browser and returns or throws.\<close>

type_synonym 'a io = "browser \<Rightarrow> (js_error + 'a) \<times> browser"

definition io_return :: "'a \<Rightarrow> 'a io" where
  "io_return x = (\<lambda>w. (Inr x, w))"

definition io_throw :: "js_error \<Rightarrow> 'a io" where
  "io_throw e = (\<lambda>w. (Inl e, w))"

definition io_lift :: "js_error + 'a \<Rightarrow> 'a io" where
  "io_lift r = (\<lambda>w. (r, w))"

definition io_bind :: "'a io \<Rightarrow> ('a \<Rightarrow> 'b io) \<Rightarrow> 'b io" where
  "io_bind m f = (\<lambda>w. case m w of (Inl e, w') \<Rightarrow> (Inl e, w') | (Inr x, w') \<Rightarrow> f x w')"

definition io_catch :: "'a io \<Rightarrow> (js_error \<Rightarrow> 'a io) \<Rightarrow> 'a io" where
  "io_catch m h = (\<lambda>w. case m w of (Inl e, w') \<Rightarrow> h e w' | (Inr x, w') \<Rightarrow> (Inr x, w'))"

definition js_fetch :: "server \<Rightarrow> request \<Rightarrow> response io" where
  "js_fetch srv req = (\<lambda>w. (srv (b_sent w) req, w\<lparr>b_sent := b_sent w @ [req]\<rparr>))"

text \<open>\<open>throw new Error(m)\<close> unless \<open>res.ok\<close>.\<close>

definition require_ok :: "string \<Rightarrow> response \<Rightarrow> unit io" where
  "require_ok m r = (if res_ok r then io_return () else io_throw (Error m))"

text \<open>An object literal for \<open>JSON.stringify\<close>: members that are \<open>undefined\<close> are left out.\<close>

definition obj_of :: "(string \<times> json option) list \<Rightarrow> json" where
  "obj_of kvs = JObj (concat (map (\<lambda>(k, v). case v of None \<Rightarrow> [] | Some x \<Rightarrow> [(k, x)]) kvs))"

definition jstr :: "string option \<Rightarrow> json option" where
  "jstr s = map_option JStr s"

definition json_header :: "(string \<times> string) list" where
  "json_header = [(''Content-Type'', ''application/json'')]"

section \<open>Percent-encoding is undone by the decoder\<close>

lemma hex_val_upper [simp]: "d < 16 \<Longrightarrow> hex_val (hex_upper d) = Some d"
  by (auto simp: hex_val_def hex_upper_def is_digit_def)

lemma code_less [simp]: "code c < 256"
  by (metis of_char_mod_256 mod_less_divisor zero_less_numeral)

lemma code_div_less [simp]: "code c div 16 < 16"
  using code_less [of c] by (simp del: code_less)

lemma form_decode_percent [simp]: "form_decode (percent c @ t) = map_option (Cons c) (form_decode t)"
  by (simp add: percent_def)

lemma unreserved_plain:
  "uri_unreserved c \<Longrightarrow> c \<noteq> CHR ''%'' \<and> c \<noteq> CHR ''+''"
  "form_unreserved c \<Longrightarrow> c \<noteq> CHR ''%'' \<and> c \<noteq> CHR ''+''"
  by (auto simp: uri_unreserved_def form_unreserved_def is_alnum_def is_digit_def is_lower_def
      is_upper_def)

lemma form_decode_component: "form_decode (encodeURIComponent s) = Some s"
  by (induction s) (auto simp: encodeURIComponent_def unreserved_plain)

lemma form_decode_encode: "form_decode (form_encode s) = Some s"
  by (induction s) (auto simp: form_encode_def unreserved_plain)

lemma reserved_codes: "x \<in> query_reserved \<Longrightarrow> code x \<in> {38, 61, 63, 35, 47, 32}"
  by (auto simp: query_reserved_def)

lemma hex_upper_safe: "d < 16 \<Longrightarrow> hex_upper d \<notin> query_reserved"
  by (auto simp: hex_upper_def dest!: reserved_codes)

lemma percent_safe: "x \<in> set (percent c) \<Longrightarrow> x \<notin> query_reserved"
  using hex_upper_safe [of "code c div 16"] hex_upper_safe [of "code c mod 16"]
  by (auto simp: percent_def dest: reserved_codes)

lemma unreserved_safe:
  "uri_unreserved c \<Longrightarrow> c \<notin> query_reserved" "form_unreserved c \<Longrightarrow> c \<notin> query_reserved"
  by (auto simp: uri_unreserved_def form_unreserved_def query_reserved_def is_alnum_def
      is_digit_def is_lower_def is_upper_def)

lemma component_safe: "x \<in> set (encodeURIComponent s) \<Longrightarrow> x \<notin> query_reserved"
  by (auto simp: encodeURIComponent_def unreserved_safe dest: percent_safe split: if_splits)

lemma plus_safe: "CHR ''+'' \<notin> query_reserved"
  by (simp add: query_reserved_def)

lemma form_encode_safe: "x \<in> set (form_encode s) \<Longrightarrow> x \<notin> query_reserved"
  by (auto simp: form_encode_def unreserved_safe plus_safe dest: percent_safe split: if_splits)

interpretation component: text_codec encodeURIComponent form_decode query_reserved
  by unfold_locales (auto simp: form_decode_component dest: component_safe)

interpretation form: text_codec form_encode form_decode query_reserved
  by unfold_locales (auto simp: form_decode_encode dest: form_encode_safe)

section \<open>A query string is read back\<close>

lemma read_pair_encoded: "read_pair (form_encode k @ ''='' @ form_encode v) = Some (k, v)"
proof -
  have free: "CHR ''='' \<notin> set (form_encode k)"
    using form.enc_free [of "CHR ''=''" k] by (auto simp: query_reserved_def)
  then have "\<forall>x \<in> set (form_encode k). x \<noteq> CHR ''=''" by auto
  then have "takeWhile (\<lambda>c. c \<noteq> CHR ''='') (form_encode k @ ''='' @ form_encode v) = form_encode k"
    by (simp add: takeWhile_append2)
  then show ?thesis by (simp add: read_pair_def Let_def form.dec_enc)
qed

lemma all_some_map: "(\<And>x. x \<in> set xs \<Longrightarrow> f x = Some (g x)) \<Longrightarrow> all_some (map f xs) = Some (map g xs)"
  by (induction xs) auto

theorem read_query_params_str: "read_query (params_str ps) = Some ps"
proof (cases "ps = []")
  case False
  let ?e = "\<lambda>(k, v). form_encode k @ ''='' @ form_encode v"
  have "CHR ''&'' \<notin> set (?e p)" for p
    using form.enc_free [of "CHR ''&''" "fst p"] form.enc_free [of "CHR ''&''" "snd p"]
    by (auto simp: query_reserved_def split: prod.splits)
  with False have s: "split_on (CHR ''&'') (params_str ps) = map ?e ps"
    unfolding params_str_def by (intro split_on_join) auto
  have "params_str ps \<noteq> []"
    using False by (cases ps rule: list.exhaust; cases "tl ps") (auto simp: params_str_def)
  moreover have "all_some (map read_pair (map ?e ps)) = Some (map id ps)"
    unfolding map_map by (intro all_some_map) (auto simp: read_pair_encoded [simplified])
  ultimately show ?thesis by (simp add: read_query_def s)
qed (simp add: params_str_def read_query_def)

lemma params_set_fresh: "k \<notin> fst ` set ps \<Longrightarrow> params_set k v ps = ps @ [(k, v)]"
  by (simp add: params_set_def)

lemma set_if_fresh:
  "k \<notin> fst ` set ps \<Longrightarrow> set_if k v ps = ps @ (case v of None \<Rightarrow> [] | Some s \<Rightarrow> if s = [] then [] else [(k, s)])"
  by (simp add: set_if_def params_set_fresh split: option.splits)

text \<open>A chain of \<open>if (v) params.set(k, v)\<close> with distinct names sends exactly the names whose
  value is a non-empty string.\<close>

definition set_all :: "(string \<times> string option) list \<Rightarrow> params \<Rightarrow> params" where
  "set_all kvs ps = fold (\<lambda>(k, v). set_if k v) kvs ps"

definition sent_params :: "(string \<times> string option) list \<Rightarrow> params" where
  "sent_params kvs = concat (map (\<lambda>(k, v). case v of None \<Rightarrow> [] | Some s \<Rightarrow> if s = [] then [] else [(k, s)]) kvs)"

lemma set_all_simps:
  "set_all [] ps = ps" "set_all ((k, v) # kvs) ps = set_all kvs (set_if k v ps)"
  by (simp_all add: set_all_def)

lemma set_all_sent:
  assumes "distinct (map fst kvs)" "fst ` set kvs \<inter> fst ` set ps = {}"
  shows "set_all kvs ps = ps @ sent_params kvs"
  using assms
proof (induction kvs arbitrary: ps)
  case Nil
  then show ?case by (simp add: set_all_def sent_params_def)
next
  case (Cons kv kvs)
  obtain k v where kv: "kv = (k, v)" by fastforce
  with Cons.prems have "k \<notin> fst ` set ps" by auto
  note f = set_if_fresh [OF this, of v]
  have "fst ` set kvs \<inter> fst ` set (set_if k v ps) = {}"
    using Cons.prems kv unfolding f by (auto split: option.splits intro: rev_image_eqI)
  with Cons kv show ?case by (simp add: set_all_simps f sent_params_def)
qed

lemma map_of_sent_params:
  "distinct (map fst kvs) \<Longrightarrow>
   map_of (sent_params kvs) k = (case map_of kvs k of Some (Some s) \<Rightarrow> if s = [] then None else Some s | _ \<Rightarrow> None)"
proof (induction kvs)
  case (Cons kv kvs)
  obtain k' v where kv: "kv = (k', v)" by fastforce
  have "k' \<notin> fst ` set kvs" using Cons.prems kv by auto
  then have "map_of kvs k' = None" by (simp add: map_of_eq_None_iff)
  with Cons kv show ?case by (auto simp: sent_params_def map_add_def split: option.splits)
qed (simp add: sent_params_def)

end
