(* ===== verification/Sender.thy ===== *)
theory Sender
  imports Http
begin

text \<open>
  Delivery of audit events, the part the Node and the browser client share
  (\<open>BatAuditClient\<close> and \<open>BatAuditBrowserClient\<close>: \<open>send\<close>, \<open>flush\<close>, \<open>_sendWithRetry\<close>).

  Two views of the same code. \<open>sendWithRetry\<close> is one call of \<open>_sendWithRetry\<close> from start to end
  as the list of its effects, for a network that answers attempt n with \<open>net n\<close>. The machine
  \<open>sender_step\<close> interleaves any number of such calls at their \<open>await\<close> points and keeps the set
  \<open>pending\<close>; \<open>sender_refines\<close> shows that each of its calls does what \<open>sendWithRetry\<close> says.
\<close>

section \<open>One call\<close>

datatype effect = Post request | Sleep nat

definition RETRY_DELAYS_MS :: "nat list" where
  "RETRY_DELAYS_MS = [100, 200, 400]"

definition delivered :: "js_error + response \<Rightarrow> bool" where
  "delivered r = (case r of Inl _ \<Rightarrow> False | Inr res \<Rightarrow> res_ok res)"

definition audit_request :: "string \<Rightarrow> string \<Rightarrow> json \<Rightarrow> request" where
  "audit_request writerUrl apiKey event =
     \<lparr>req_url = writerUrl @ ''/v1/audit'', req_method = ''POST'',
      req_headers = [(''Content-Type'', ''application/json''), (''X-API-Key'', apiKey)],
      req_body = Some (stringify event)\<rparr>"

text \<open>The \<open>if\<close> after the answer and the \<open>catch\<close> branch, which retry under the same condition.\<close>

function sendWithRetry :: "request \<Rightarrow> (nat \<Rightarrow> js_error + response) \<Rightarrow> nat \<Rightarrow> effect list" where
  "sendWithRetry req net attempt =
     Post req #
     (case net attempt of
        Inr res \<Rightarrow>
          if \<not> res_ok res \<and> attempt < length RETRY_DELAYS_MS
          then Sleep (RETRY_DELAYS_MS ! attempt) # sendWithRetry req net (attempt + 1)
          else []
      | Inl _ \<Rightarrow>
          if attempt < length RETRY_DELAYS_MS
          then Sleep (RETRY_DELAYS_MS ! attempt) # sendWithRetry req net (attempt + 1)
          else [])"
  by pat_completeness auto
termination
  by (relation "measure (\<lambda>(_, _, n). length RETRY_DELAYS_MS - n)") auto

declare sendWithRetry.simps [simp del]

text \<open>What both clients promise: a call posts, and posts again after the next delay as long as
  the answer was not a success and a delay is left.\<close>

locale retry_loop =
  fixes delays :: "nat list"
    and call :: "request \<Rightarrow> (nat \<Rightarrow> js_error + response) \<Rightarrow> nat \<Rightarrow> effect list"
  assumes unfold_call:
    "call req net n =
       Post req # (if delivered (net n) \<or> length delays \<le> n then []
                   else Sleep (delays ! n) # call req net (Suc n))"
begin

definition tries :: "(nat \<Rightarrow> js_error + response) \<Rightarrow> nat \<Rightarrow> nat" where
  "tries net n = length (takeWhile (\<lambda>i. \<not> delivered (net i)) [n..<length delays])"

lemma tries_le: "tries net n \<le> length delays - n"
  unfolding tries_def using length_takeWhile_le [of "\<lambda>i. \<not> delivered (net i)" "[n..<length delays]"]
  by simp

lemma tries_step:
  "n < length delays \<Longrightarrow> \<not> delivered (net n) \<Longrightarrow> tries net n = Suc (tries net (Suc n))"
  by (simp add: tries_def upt_conv_Cons)

lemma tries_stop: "length delays \<le> n \<or> delivered (net n) \<Longrightarrow> tries net n = 0"
  by (cases "n < length delays") (auto simp: tries_def upt_conv_Cons)

lemma call_closed_form:
  "n \<le> length delays \<Longrightarrow>
   call req net n =
     Post req # concat (map (\<lambda>d. [Sleep d, Post req]) (take (tries net n) (drop n delays)))"
proof (induction "length delays - n" arbitrary: n)
  case 0
  then have "n = length delays" by simp
  then show ?case by (simp add: tries_stop unfold_call)
next
  case (Suc k)
  then have n: "n < length delays" by simp
  show ?case
  proof (cases "delivered (net n)")
    case True
    then show ?thesis by (simp add: unfold_call [of req net n] tries_stop)
  next
    case False
    from n have d: "drop n delays = delays ! n # drop (Suc n) delays" by (simp add: Cons_nth_drop_Suc)
    from Suc n have "call req net (Suc n) = Post req
        # concat (map (\<lambda>d. [Sleep d, Post req]) (take (tries net (Suc n)) (drop (Suc n) delays)))"
      by simp
    with n False show ?thesis
      by (simp add: unfold_call [of req net n] tries_step d)
  qed
qed

lemma tries_failed: "i < tries net n \<Longrightarrow> \<not> delivered (net (n + i))"
proof -
  assume i: "i < tries net n"
  then have "takeWhile (\<lambda>i. \<not> delivered (net i)) [n..<length delays] ! i = [n..<length delays] ! i"
    unfolding tries_def by (rule takeWhile_nth)
  moreover have "i < length delays - n" using i tries_le [of net n] by simp
  ultimately show ?thesis
    using i nth_mem [of i "takeWhile (\<lambda>i. \<not> delivered (net i)) [n..<length delays]"]
    unfolding tries_def by (auto dest: set_takeWhileD)
qed

lemma tries_end: "n + tries net n < length delays \<Longrightarrow> delivered (net (n + tries net n))"
  using nth_length_takeWhile [of "\<lambda>i. \<not> delivered (net i)" "[n..<length delays]"]
  by (simp add: tries_def)

end

lemma sendWithRetry_unfold:
  "sendWithRetry req net n =
     Post req # (if delivered (net n) \<or> length RETRY_DELAYS_MS \<le> n then []
                 else Sleep (RETRY_DELAYS_MS ! n) # sendWithRetry req net (Suc n))"
  by (subst sendWithRetry.simps) (simp add: delivered_def split: sum.split)

interpretation retry: retry_loop RETRY_DELAYS_MS sendWithRetry
  by unfold_locales (rule sendWithRetry_unfold)

section \<open>Many calls at once\<close>

text \<open>A call waits for its \<open>fetch\<close>, sleeps before the next attempt, or has settled and waits for
  its \<open>finally\<close> callback.\<close>

datatype phase = Fetching | Sleeping | Settled

record task =
  t_req :: request
  t_attempt :: nat
  t_phase :: phase

text \<open>\<open>pending\<close> is the set of promises by the number of their call. The two logs are what the
  outside sees: the effects of each call and the answers the network gave it.\<close>

record sends =
  pending :: "nat list"
  tasks :: "nat \<Rightarrow> task option"
  next_id :: nat
  effects :: "(nat \<times> effect) list"
  answers :: "(nat \<times> (js_error + response)) list"

definition no_sends :: sends where
  "no_sends = \<lparr>pending = [], tasks = (\<lambda>_. None), next_id = 0, effects = [], answers = []\<rparr>"

text \<open>\<open>send\<close>: the call runs up to its first \<open>await\<close>, then its promise joins \<open>pending\<close>.\<close>

definition send_start :: "request \<Rightarrow> sends \<Rightarrow> sends" where
  "send_start req s =
     s\<lparr>pending := pending s @ [next_id s],
       tasks := (tasks s)(next_id s \<mapsto> \<lparr>t_req = req, t_attempt = 0, t_phase = Fetching\<rparr>),
       next_id := Suc (next_id s),
       effects := effects s @ [(next_id s, Post req)]\<rparr>"

text \<open>The \<open>fetch\<close> of call i settles: sleep and retry, or be done.\<close>

definition on_answer :: "nat \<Rightarrow> js_error + response \<Rightarrow> sends \<Rightarrow> sends option" where
  "on_answer i r s =
     (case tasks s i of
        None \<Rightarrow> None
      | Some t \<Rightarrow>
          if t_phase t \<noteq> Fetching then None
          else if \<not> delivered r \<and> t_attempt t < length RETRY_DELAYS_MS
            then Some (s\<lparr>tasks := (tasks s)(i \<mapsto> t\<lparr>t_phase := Sleeping\<rparr>),
                         effects := effects s @ [(i, Sleep (RETRY_DELAYS_MS ! t_attempt t))],
                         answers := answers s @ [(i, r)]\<rparr>)
          else Some (s\<lparr>tasks := (tasks s)(i \<mapsto> t\<lparr>t_phase := Settled\<rparr>),
                       answers := answers s @ [(i, r)]\<rparr>))"

text \<open>The timer of call i fires: \<open>this._sendWithRetry(event, attempt + 1)\<close>.\<close>

definition on_timer :: "nat \<Rightarrow> sends \<Rightarrow> sends option" where
  "on_timer i s =
     (case tasks s i of
        None \<Rightarrow> None
      | Some t \<Rightarrow>
          if t_phase t \<noteq> Sleeping then None
          else Some (s\<lparr>tasks := (tasks s)(i \<mapsto> t\<lparr>t_attempt := t_attempt t + 1, t_phase := Fetching\<rparr>),
                       effects := effects s @ [(i, Post (t_req t))]\<rparr>))"

text \<open>\<open>.finally(() => this.pending.delete(p))\<close>.\<close>

definition on_finally :: "nat \<Rightarrow> sends \<Rightarrow> sends option" where
  "on_finally i s =
     (case tasks s i of
        None \<Rightarrow> None
      | Some t \<Rightarrow>
          if t_phase t \<noteq> Settled then None
          else Some (s\<lparr>pending := removeAll i (pending s), tasks := (tasks s)(i := None)\<rparr>))"

text \<open>\<open>flush\<close> takes a snapshot of \<open>pending\<close> and resolves when every promise in it has settled.\<close>

definition flush_snapshot :: "sends \<Rightarrow> nat list" where
  "flush_snapshot s = pending s"

definition flush_resolved :: "nat list \<Rightarrow> sends \<Rightarrow> bool" where
  "flush_resolved snap s = list_all (\<lambda>i. i \<notin> set (pending s)) snap"

text \<open>The event loop: application code sends, or one waiting call moves on.\<close>

inductive call_step :: "sends \<Rightarrow> sends \<Rightarrow> bool" where
  answer: "on_answer i r s = Some s' \<Longrightarrow> call_step s s'"
| timer: "on_timer i s = Some s' \<Longrightarrow> call_step s s'"
| settle: "on_finally i s = Some s' \<Longrightarrow> call_step s s'"

inductive sender_step :: "sends \<Rightarrow> sends \<Rightarrow> bool" where
  app: "sender_step s (send_start req s)"
| call: "call_step s s' \<Longrightarrow> sender_step s s'"

inductive reachable :: "sends \<Rightarrow> bool" where
  init: "reachable no_sends"
| step: "reachable s \<Longrightarrow> sender_step s s' \<Longrightarrow> reachable s'"

inductive_cases call_stepE: "call_step s s'"
inductive_cases sender_stepE: "sender_step s s'"

section \<open>The invariant\<close>

text \<open>What call i did and heard so far.\<close>

definition effects_of :: "nat \<Rightarrow> sends \<Rightarrow> effect list" where
  "effects_of i s = map snd (filter (\<lambda>p. fst p = i) (effects s))"

definition answers_of :: "nat \<Rightarrow> sends \<Rightarrow> (js_error + response) list" where
  "answers_of i s = map snd (filter (\<lambda>p. fst p = i) (answers s))"

text \<open>The effects of the first k failed attempts.\<close>

definition failed_prefix :: "request \<Rightarrow> nat \<Rightarrow> effect list" where
  "failed_prefix req k = concat (map (\<lambda>d. [Post req, Sleep d]) (take k RETRY_DELAYS_MS))"

definition task_ok :: "nat \<Rightarrow> task \<Rightarrow> sends \<Rightarrow> bool" where
  "task_ok i t s =
     (let n = t_attempt t; as = answers_of i s; es = effects_of i s
      in n \<le> length RETRY_DELAYS_MS \<and>
         (case t_phase t of
            Fetching \<Rightarrow> length as = n \<and> list_all (\<lambda>a. \<not> delivered a) as
                        \<and> es = failed_prefix (t_req t) n @ [Post (t_req t)]
          | Sleeping \<Rightarrow> n < length RETRY_DELAYS_MS \<and> length as = Suc n \<and> list_all (\<lambda>a. \<not> delivered a) as
                        \<and> es = failed_prefix (t_req t) (Suc n)
          | Settled \<Rightarrow> length as = Suc n \<and> list_all (\<lambda>a. \<not> delivered a) (butlast as)
                       \<and> (delivered (last as) \<or> n = length RETRY_DELAYS_MS)
                       \<and> es = failed_prefix (t_req t) n @ [Post (t_req t)]))"

text \<open>A call that is over left the trace of some request.\<close>

definition call_over :: "nat \<Rightarrow> sends \<Rightarrow> bool" where
  "call_over i s = (\<exists>req. task_ok i \<lparr>t_req = req, t_attempt = length (answers_of i s) - 1, t_phase = Settled\<rparr> s)"

definition sends_ok :: "sends \<Rightarrow> bool" where
  "sends_ok s \<longleftrightarrow>
     distinct (pending s) \<and> set (pending s) = dom (tasks s) \<and> dom (tasks s) \<subseteq> {..<next_id s}
     \<and> (\<forall>p \<in> set (effects s). fst p < next_id s) \<and> (\<forall>p \<in> set (answers s). fst p < next_id s)
     \<and> (\<forall>i t. tasks s i = Some t \<longrightarrow> task_ok i t s)
     \<and> (\<forall>i < next_id s. tasks s i = None \<longrightarrow> call_over i s)"

lemma failed_prefix_Suc:
  "k < length RETRY_DELAYS_MS \<Longrightarrow>
   failed_prefix req (Suc k) = failed_prefix req k @ [Post req, Sleep (RETRY_DELAYS_MS ! k)]"
  by (simp add: failed_prefix_def take_Suc_conv_app_nth)

lemma of_append:
  "effects s' = effects s @ [(j, e)] \<Longrightarrow> effects_of i s' = effects_of i s @ (if i = j then [e] else [])"
  "answers s' = answers s @ [(j, a)] \<Longrightarrow> answers_of i s' = answers_of i s @ (if i = j then [a] else [])"
  by (auto simp: effects_of_def answers_of_def)

lemma of_same:
  "effects s' = effects s \<Longrightarrow> effects_of i s' = effects_of i s"
  "answers s' = answers s \<Longrightarrow> answers_of i s' = answers_of i s"
  by (auto simp: effects_of_def answers_of_def)

lemma of_fresh:
  "sends_ok s \<Longrightarrow> next_id s \<le> i \<Longrightarrow> effects_of i s = [] \<and> answers_of i s = []"
  by (fastforce simp: sends_ok_def effects_of_def answers_of_def filter_empty_conv)

lemma task_ok_cong:
  "effects_of i s = effects_of i s' \<Longrightarrow> answers_of i s = answers_of i s' \<Longrightarrow> task_ok i t s = task_ok i t s'"
  by (simp add: task_ok_def)

lemma call_over_cong:
  "effects_of i s = effects_of i s' \<Longrightarrow> answers_of i s = answers_of i s' \<Longrightarrow> call_over i s = call_over i s'"
  unfolding call_over_def by (metis task_ok_cong)

text \<open>A step that touches one call only keeps the invariant when it keeps it of that call.\<close>

lemma sends_ok_local:
  assumes ok: "sends_ok s"
    and i: "i \<le> next_id s" "next_id s' = max (next_id s) (Suc i)"
    and frame: "\<And>j. j \<noteq> i \<Longrightarrow> tasks s' j = tasks s j"
      "\<And>j. j \<noteq> i \<Longrightarrow> effects_of j s' = effects_of j s" "\<And>j. j \<noteq> i \<Longrightarrow> answers_of j s' = answers_of j s"
    and logs: "set (effects s') \<subseteq> set (effects s) \<union> {i} \<times> UNIV" "set (answers s') \<subseteq> set (answers s) \<union> {i} \<times> UNIV"
    and pend: "distinct (pending s')" "set (pending s') = dom (tasks s')"
    and own: "\<And>t. tasks s' i = Some t \<Longrightarrow> task_ok i t s'" "tasks s' i = None \<Longrightarrow> call_over i s'"
  shows "sends_ok s'"
proof -
  have "fst p < next_id s'" if "p \<in> set (effects s')" for p
    using that logs(1) ok i by (fastforce simp: sends_ok_def)
  moreover have "fst p < next_id s'" if "p \<in> set (answers s')" for p
    using that logs(2) ok i by (fastforce simp: sends_ok_def)
  moreover have "dom (tasks s') \<subseteq> {..<next_id s'}"
  proof
    fix j assume "j \<in> dom (tasks s')"
    then show "j \<in> {..<next_id s'}"
      using frame(1) [of j] ok i by (cases "j = i") (auto simp: sends_ok_def dom_def)
  qed
  moreover have "task_ok j t s'" if "tasks s' j = Some t" for j t
  proof (cases "j = i")
    case False
    with that frame(1) ok have "task_ok j t s" by (auto simp: sends_ok_def)
    with False frame show ?thesis by (simp add: task_ok_cong [of j s s'])
  qed (use that own in auto)
  moreover have "call_over j s'" if "j < next_id s'" "tasks s' j = None" for j
  proof (cases "j = i")
    case False
    with that i have "j < next_id s" by auto
    with False that frame(1) ok have "call_over j s" by (auto simp: sends_ok_def)
    with False frame show ?thesis by (simp add: call_over_cong [of j s s'])
  qed (use that own in auto)
  ultimately show ?thesis using pend unfolding sends_ok_def by blast
qed

lemma sends_okD:
  assumes "sends_ok s"
  shows "distinct (pending s)" "set (pending s) = dom (tasks s)"
    "tasks s i = Some t \<Longrightarrow> i < next_id s" "tasks s i = Some t \<Longrightarrow> task_ok i t s"
    "i < next_id s \<Longrightarrow> tasks s i = None \<Longrightarrow> call_over i s"
  using assms by (auto simp: sends_ok_def)

lemma no_sends_ok: "sends_ok no_sends"
  by (simp add: sends_ok_def no_sends_def)

lemma send_start_ok:
  assumes "sends_ok s" shows "sends_ok (send_start req s)"
proof (rule sends_ok_local [OF assms, where i = "next_id s"])
  let ?s = "send_start req s"
  have e: "effects_of j ?s = effects_of j s @ (if j = next_id s then [Post req] else [])"
    and a: "answers_of j ?s = answers_of j s" for j
    by (simp_all add: send_start_def effects_of_def answers_of_def)
  show "distinct (pending ?s)" "set (pending ?s) = dom (tasks ?s)"
    using assms by (auto simp: send_start_def sends_ok_def)
  show "task_ok (next_id s) t ?s" if "tasks ?s (next_id s) = Some t" for t
    using that of_fresh [OF assms, of "next_id s"]
    unfolding task_ok_def e a by (auto simp: send_start_def failed_prefix_def Let_def)
qed (auto simp: send_start_def effects_of_def answers_of_def)

lemma on_answer_ok:
  assumes ok: "sends_ok s" and st: "on_answer i r s = Some s'"
  shows "sends_ok s'"
proof -
  obtain t where t: "tasks s i = Some t" "t_phase t = Fetching"
    using st by (auto simp: on_answer_def split: option.splits if_splits)
  note tk = sends_okD(4) [OF ok t(1)]
  show ?thesis
  proof (rule sends_ok_local [OF ok, where i = i])
    show "task_ok i u s'" if "tasks s' i = Some u" for u
      using st t tk that
      by (auto simp: on_answer_def task_ok_def of_append [of s' s] of_same [of s' s] failed_prefix_Suc Let_def
          effects_of_def answers_of_def split: if_splits)
  qed (use st t sends_okD(1,2) [OF ok] sends_okD(3) [OF ok t(1)] in
      \<open>auto simp: on_answer_def effects_of_def answers_of_def split: if_splits\<close>)
qed

lemma on_timer_ok:
  assumes ok: "sends_ok s" and st: "on_timer i s = Some s'"
  shows "sends_ok s'"
proof -
  obtain t where t: "tasks s i = Some t" "t_phase t = Sleeping"
    using st by (auto simp: on_timer_def split: option.splits if_splits)
  note tk = sends_okD(4) [OF ok t(1)]
  show ?thesis
  proof (rule sends_ok_local [OF ok, where i = i])
    show "task_ok i u s'" if "tasks s' i = Some u" for u
      using st t tk that
      by (auto simp: on_timer_def task_ok_def Let_def effects_of_def answers_of_def split: if_splits)
  qed (use st t sends_okD(1,2) [OF ok] sends_okD(3) [OF ok t(1)] in
      \<open>auto simp: on_timer_def effects_of_def answers_of_def split: if_splits\<close>)
qed

lemma on_finally_ok:
  assumes ok: "sends_ok s" and st: "on_finally i s = Some s'"
  shows "sends_ok s'"
proof -
  obtain t where t: "tasks s i = Some t" "t_phase t = Settled"
    and s': "s' = s\<lparr>pending := removeAll i (pending s), tasks := (tasks s)(i := None)\<rparr>"
    using st by (auto simp: on_finally_def split: option.splits if_splits)
  note tk = sends_okD(4) [OF ok t(1)]
  have same: "effects_of j s' = effects_of j s" "answers_of j s' = answers_of j s" for j
    by (simp_all add: s' effects_of_def answers_of_def)
  show ?thesis
  proof (rule sends_ok_local [OF ok, where i = i])
    have "t = \<lparr>t_req = t_req t, t_attempt = length (answers_of i s) - 1, t_phase = Settled\<rparr>"
      using tk t(2) by (simp add: task_ok_def Let_def)
    with tk have "call_over i s" unfolding call_over_def by metis
    then show "call_over i s'" by (simp add: call_over_cong [of i s s'] same)
  qed (use t sends_okD(1,2) [OF ok] sends_okD(3) [OF ok t(1)] in
      \<open>auto simp: s' same [unfolded s'] distinct_removeAll\<close>)
qed

lemma call_step_ok: "sends_ok s \<Longrightarrow> call_step s s' \<Longrightarrow> sends_ok s'"
  by (auto elim!: call_stepE intro: on_answer_ok on_timer_ok on_finally_ok)

lemma reachable_ok: "reachable s \<Longrightarrow> sends_ok s"
  by (induction rule: reachable.induct)
    (auto elim!: sender_stepE intro: no_sends_ok send_start_ok call_step_ok)

section \<open>Each call follows the retry schedule\<close>

lemma failed_prefix_post:
  "failed_prefix req n @ [Post req] = Post req # concat (map (\<lambda>d. [Sleep d, Post req]) (take n RETRY_DELAYS_MS))"
proof -
  have "concat (map (\<lambda>d. [Post req, Sleep d]) ds) @ [Post req]
      = Post req # concat (map (\<lambda>d. [Sleep d, Post req]) ds)" for ds
    by (induction ds) auto
  then show ?thesis by (simp add: failed_prefix_def)
qed

lemma retry_tries_eq:
  assumes "n \<le> length RETRY_DELAYS_MS" "\<And>i. i < n \<Longrightarrow> \<not> delivered (net i)"
    "n = length RETRY_DELAYS_MS \<or> delivered (net n)"
  shows "retry.tries net 0 = n"
proof (rule antisym)
  show "retry.tries net 0 \<le> n"
    using assms(3) retry.tries_le [of net 0] retry.tries_failed [of n net 0] by force
  show "n \<le> retry.tries net 0"
    using assms(1,2) retry.tries_end [of 0 net] by (metis add_0 le_trans nat_less_le not_le_imp_less order.strict_trans2)
qed

lemma call_over_schedule:
  assumes "call_over i s"
  obtains req where "effects_of i s = sendWithRetry req (\<lambda>n. answers_of i s ! n) 0"
    "0 < length (answers_of i s)" "length (answers_of i s) \<le> Suc (length RETRY_DELAYS_MS)"
    "delivered (last (answers_of i s)) \<or> length (answers_of i s) = Suc (length RETRY_DELAYS_MS)"
proof -
  obtain req where ok: "task_ok i \<lparr>t_req = req, t_attempt = length (answers_of i s) - 1, t_phase = Settled\<rparr> s"
    using assms by (auto simp: call_over_def)
  define as where "as = answers_of i s"
  define n where "n = length as - 1"
  have len: "length as = Suc n" and n: "n \<le> length RETRY_DELAYS_MS"
    and fails: "list_all (\<lambda>a. \<not> delivered a) (butlast as)"
    and fin: "delivered (last as) \<or> n = length RETRY_DELAYS_MS"
    and es: "effects_of i s = failed_prefix req n @ [Post req]"
    using ok by (auto simp: task_ok_def Let_def as_def n_def)
  have "retry.tries (\<lambda>k. as ! k) 0 = n"
  proof (rule retry_tries_eq [OF n])
    show "\<not> delivered (as ! k)" if "k < n" for k
      using fails that len by (auto simp: list_all_length nth_butlast)
    show "n = length RETRY_DELAYS_MS \<or> delivered (as ! n)"
      using fin len by (auto simp: last_conv_nth simp del: One_nat_def) (metis diff_Suc_1 last_conv_nth length_0_conv nat.distinct(1))
  qed
  then have "effects_of i s = sendWithRetry req (\<lambda>k. as ! k) 0"
    by (simp add: es failed_prefix_post retry.call_closed_form)
  moreover have "0 < length as" "length as \<le> Suc (length RETRY_DELAYS_MS)"
    "delivered (last as) \<or> length as = Suc (length RETRY_DELAYS_MS)"
    using len n fin by auto
  ultimately show thesis using that [of req] unfolding as_def by blast
qed

section \<open>What is over stays over, and everything gets over\<close>

lemma call_step_over:
  assumes "sender_step s s'" "i < next_id s" "tasks s i = None"
  shows "i < next_id s' \<and> tasks s' i = None"
  using assms
  by (auto elim!: sender_stepE call_stepE simp: send_start_def on_answer_def on_timer_def on_finally_def
      split: option.splits if_splits)

lemma steps_over:
  "sender_step\<^sup>*\<^sup>* s s' \<Longrightarrow> i < next_id s \<Longrightarrow> tasks s i = None \<Longrightarrow> i < next_id s' \<and> tasks s' i = None"
  by (induction rule: rtranclp_induct) (auto dest: call_step_over)

lemma steps_next: "sender_step\<^sup>*\<^sup>* s s' \<Longrightarrow> next_id s \<le> next_id s'"
proof (induction rule: rtranclp_induct)
  case (step y z)
  then have "next_id y \<le> next_id z"
    by (auto elim!: sender_stepE call_stepE simp: send_start_def on_answer_def on_timer_def on_finally_def
        split: option.splits if_splits)
  with step show ?case by simp
qed simp

lemma steps_effects: "sender_step\<^sup>*\<^sup>* s s' \<Longrightarrow> prefix (effects s) (effects s')"
proof (induction rule: rtranclp_induct)
  case (step y z)
  then have "prefix (effects y) (effects z)"
    by (auto elim!: sender_stepE call_stepE simp: send_start_def on_answer_def on_timer_def on_finally_def
        split: option.splits if_splits)
  with step show ?case by (meson prefix_order.trans)
qed simp

lemma steps_effects_of: "sender_step\<^sup>*\<^sup>* s s' \<Longrightarrow> prefix (effects_of i s) (effects_of i s')"
  by (drule steps_effects) (auto simp: effects_of_def prefix_def)

lemma sendWithRetry_first: "prefix (Post r # es) (sendWithRetry req net n) \<Longrightarrow> req = r"
  by (subst (asm) sendWithRetry.simps) simp

lemma steps_reachable: "sender_step\<^sup>*\<^sup>* s s' \<Longrightarrow> reachable s \<Longrightarrow> reachable s'"
  by (induction rule: rtranclp_induct) (auto intro: reachable.step)

definition task_work :: "task \<Rightarrow> nat" where
  "task_work t =
     (case t_phase t of
        Fetching \<Rightarrow> 2 * (length RETRY_DELAYS_MS - t_attempt t) + 2
      | Sleeping \<Rightarrow> 2 * (length RETRY_DELAYS_MS - t_attempt t) + 1
      | Settled \<Rightarrow> 1)"

definition work :: "sends \<Rightarrow> nat" where
  "work s = sum_list (map (\<lambda>i. case tasks s i of None \<Rightarrow> 0 | Some t \<Rightarrow> task_work t) (pending s))"

lemma sum_list_upd:
  fixes f :: "nat \<Rightarrow> nat"
  assumes "distinct xs" "i \<in> set xs" "n < f i"
  shows "sum_list (map (f(i := n)) xs) < sum_list (map f xs)"
  using assms
proof (induction xs)
  case (Cons x xs)
  then show ?case
  proof (cases "x = i")
    case True
    with Cons.prems have "map (f(i := n)) xs = map f xs" by auto
    then have "sum_list (map (f(i := n)) xs) = sum_list (map f xs)" by (rule arg_cong)
    with True Cons.prems show ?thesis by (simp del: fun_upd_apply) (simp add: fun_upd_def)
  qed auto
qed simp

lemma sum_list_removeAll:
  fixes f :: "nat \<Rightarrow> nat"
  shows "f i = 0 \<Longrightarrow> sum_list (map f (removeAll i xs)) = sum_list (map f xs)"
  by (induction xs) auto

lemma work_upd:
  assumes ok: "sends_ok s" and i: "tasks s i = Some t" and p: "pending s' = pending s"
    and t': "tasks s' = (tasks s)(i \<mapsto> t')" and less: "task_work t' < task_work t"
  shows "work s' < work s"
proof -
  have "(\<lambda>j. case tasks s' j of None \<Rightarrow> 0 | Some t \<Rightarrow> task_work t)
      = (\<lambda>j. case tasks s j of None \<Rightarrow> 0 | Some t \<Rightarrow> task_work t)(i := task_work t')"
    by (auto simp: t')
  moreover have "i \<in> set (pending s)" using sends_okD(2) [OF ok] i by auto
  ultimately show ?thesis
    unfolding work_def p
    using sum_list_upd [OF sends_okD(1) [OF ok], of i "task_work t'"
        "\<lambda>j. case tasks s j of None \<Rightarrow> 0 | Some t \<Rightarrow> task_work t"] i less by simp
qed

lemma call_step_work:
  assumes ok: "sends_ok s" and st: "call_step s s'"
  shows "work s' < work s"
  using st
proof cases
  case (answer i r)
  then obtain t where t: "tasks s i = Some t" "t_phase t = Fetching"
    by (auto simp: on_answer_def split: option.splits if_splits)
  with answer ok show ?thesis
    by (auto simp: on_answer_def split: if_splits intro!: work_upd [OF ok t(1)]) (auto simp: task_work_def)
next
  case (timer i)
  then obtain t where t: "tasks s i = Some t" "t_phase t = Sleeping"
    by (auto simp: on_timer_def split: option.splits if_splits)
  with sends_okD(4) [OF ok t(1)] have "t_attempt t < length RETRY_DELAYS_MS" by (simp add: task_ok_def Let_def)
  with timer t ok show ?thesis
    by (auto simp: on_timer_def split: if_splits intro!: work_upd [OF ok t(1)]) (auto simp: task_work_def)
next
  case (settle i)
  then obtain t where t: "tasks s i = Some t" "t_phase t = Settled"
    by (auto simp: on_finally_def split: option.splits if_splits)
  let ?m = "s\<lparr>tasks := (tasks s)(i := None)\<rparr>"
  have f: "(\<lambda>j. case tasks ?m j of None \<Rightarrow> 0 | Some t \<Rightarrow> task_work t)
      = (\<lambda>j. case tasks s j of None \<Rightarrow> 0 | Some t \<Rightarrow> task_work t)(i := 0)"
    by auto
  have "i \<in> set (pending s)" using sends_okD(2) [OF ok] t by auto
  then have "work ?m < work s"
    unfolding work_def f
    using sum_list_upd [OF sends_okD(1) [OF ok], of i 0
        "\<lambda>j. case tasks s j of None \<Rightarrow> 0 | Some t \<Rightarrow> task_work t"] t by (simp add: task_work_def)
  moreover have "work s' = work ?m"
    using settle t sum_list_removeAll [of "\<lambda>j. case tasks ?m j of None \<Rightarrow> 0 | Some t \<Rightarrow> task_work t" i "pending s"]
    by (auto simp: work_def on_finally_def)
  ultimately show ?thesis by simp
qed

lemma call_step_enabled:
  assumes ok: "sends_ok s" and i: "i \<in> set (pending s)"
  shows "\<exists>s'. on_answer i r s = Some s' \<or> on_timer i s = Some s' \<or> on_finally i s = Some s'"
proof -
  obtain t where t: "tasks s i = Some t" using sends_okD(2) [OF ok] i by auto
  then show ?thesis
    by (cases "t_phase t") (auto simp: on_answer_def on_timer_def on_finally_def)
qed

lemma work_bound: "work s \<le> 8 * length (pending s)"
proof -
  have "task_work t \<le> 8" for t by (auto simp: task_work_def RETRY_DELAYS_MS_def split: phase.split)
  then have "sum_list (map (\<lambda>i. case tasks s i of None \<Rightarrow> 0 | Some t \<Rightarrow> task_work t) xs) \<le> 8 * length xs" for xs
    by (induction xs) (auto split: option.split simp: add_mono)
  then show ?thesis by (simp add: work_def)
qed

lemma call_steps_work:
  "(call_step ^^ n) s s' \<Longrightarrow> sends_ok s \<Longrightarrow> n + work s' \<le> work s \<and> sends_ok s'"
proof (induction n arbitrary: s')
  case (Suc n)
  then obtain m where "(call_step ^^ n) s m" "call_step m s'" by auto
  with Suc call_step_work [of m s'] call_step_ok [of m s'] show ?case by fastforce
qed simp

section \<open>Properties\<close>

text \<open>C1. One call of \<open>_sendWithRetry\<close> posts the event, and posts it again after 100, 200 and 400
  milliseconds as long as the answers are failures: k retries happen exactly when the first k
  answers failed and answer k succeeded, or all three retries are used up. The call always ends,
  after at most four posts.\<close>

theorem sendWithRetry_schedule:
  "\<exists>k \<le> 3. sendWithRetry req net 0
       = Post req # concat (map (\<lambda>d. [Sleep d, Post req]) (take k [100, 200, 400]))
     \<and> (\<forall>i < k. \<not> delivered (net i)) \<and> (k = 3 \<or> delivered (net k))"
proof (intro exI conjI allI impI)
  show "retry.tries net 0 \<le> 3" using retry.tries_le [of net 0] by (simp add: RETRY_DELAYS_MS_def)
  show "sendWithRetry req net 0
      = Post req # concat (map (\<lambda>d. [Sleep d, Post req]) (take (retry.tries net 0) [100, 200, 400]))"
    using retry.call_closed_form [of 0 req net] by (simp add: RETRY_DELAYS_MS_def)
  show "\<not> delivered (net i)" if "i < retry.tries net 0" for i
    using retry.tries_failed [OF that] by simp
  show "retry.tries net 0 = 3 \<or> delivered (net (retry.tries net 0))"
  proof -
    have "length RETRY_DELAYS_MS = 3" by (simp add: RETRY_DELAYS_MS_def)
    with retry.tries_end [of 0 net] retry.tries_le [of net 0] show ?thesis by fastforce
  qed
qed

theorem sendWithRetry_schedule_witness:
  "\<exists>k \<le> 3. sendWithRetry (audit_request ''http://w'' ''key'' JNull) (\<lambda>n. Inl NetworkError) 0
       = Post (audit_request ''http://w'' ''key'' JNull)
         # concat (map (\<lambda>d. [Sleep d, Post (audit_request ''http://w'' ''key'' JNull)]) (take k [100, 200, 400]))
     \<and> (\<forall>i < k. \<not> delivered ((\<lambda>n. Inl NetworkError) i)) \<and> (k = 3 \<or> delivered ((\<lambda>n. Inl NetworkError) k))"
  by (rule sendWithRetry_schedule)

lemma flush_call_over:
  assumes "reachable s" "sender_step\<^sup>*\<^sup>* s s'" "flush_resolved (flush_snapshot s) s'" "i < next_id s"
  shows "call_over i s'"
proof -
  note ok = reachable_ok [OF assms(1)] and ok' = reachable_ok [OF steps_reachable [OF assms(2,1)]]
  have "tasks s' i = None"
  proof (cases "tasks s i")
    case None
    with steps_over [OF assms(2,4)] show ?thesis by simp
  next
    case (Some t)
    then have "i \<in> set (pending s)" using sends_okD(2) [OF ok] by auto
    with assms(3) have "i \<notin> set (pending s')"
      by (auto simp: flush_resolved_def flush_snapshot_def list.pred_set)
    then show ?thesis using sends_okD(2) [OF ok'] by auto
  qed
  then show ?thesis using sends_okD(5) [OF ok'] steps_next [OF assms(2)] assms(4) by simp
qed

text \<open>C2. When a \<open>flush\<close> resolves, every event sent before it has run its whole retry schedule:
  the call did exactly the posts and sleeps of \<open>sendWithRetry\<close> on the answers it got, however
  the calls interleaved, and either its last answer was a success or it was tried four times.\<close>

theorem flush_complete:
  assumes "reachable s" "sender_step\<^sup>*\<^sup>* s s'" "flush_resolved (flush_snapshot s) s'" "i < next_id s"
  shows "\<exists>req. effects_of i s' = sendWithRetry req (\<lambda>n. answers_of i s' ! n) 0
    \<and> (delivered (last (answers_of i s')) \<or> length (answers_of i s') = 4)"
  using flush_call_over [OF assms] by (rule call_over_schedule) (auto simp: RETRY_DELAYS_MS_def)

lemma ok_run_reaches:
  "on_answer 0 (Inr \<lparr>res_status = 202, res_json = Inr JNull\<rparr>) (send_start req no_sends) = Some s1 \<Longrightarrow>
   on_finally 0 s1 = Some s2 \<Longrightarrow> sender_step\<^sup>*\<^sup>* (send_start req no_sends) s2"
  by (meson call_step.answer call_step.settle r_into_rtranclp rtranclp.rtrancl_into_rtrancl sender_step.call)

theorem flush_complete_witness:
  "\<exists>s'. \<exists>req. effects_of 0 s' = sendWithRetry req (\<lambda>n. answers_of 0 s' ! n) 0
    \<and> (delivered (last (answers_of 0 s')) \<or> length (answers_of 0 s') = 4)"
proof -
  let ?r = "audit_request ''http://w'' ''key'' JNull"
  let ?s = "send_start ?r no_sends"
  define s1 where "s1 = the (on_answer 0 (Inr \<lparr>res_status = 202, res_json = Inr JNull\<rparr>) ?s)"
  define s2 where "s2 = the (on_finally 0 s1)"
  have 1: "on_answer 0 (Inr \<lparr>res_status = 202, res_json = Inr JNull\<rparr>) ?s = Some s1"
    by (simp add: s1_def on_answer_def send_start_def no_sends_def)
  have 2: "on_finally 0 s1 = Some s2"
    by (simp add: s2_def s1_def on_answer_def send_start_def no_sends_def on_finally_def delivered_def res_ok_def)
  have "reachable ?s" by (rule reachable.step [OF reachable.init sender_step.app])
  moreover have "flush_resolved (flush_snapshot ?s) s2"
    by (simp add: s2_def s1_def on_answer_def send_start_def no_sends_def on_finally_def delivered_def
        res_ok_def flush_resolved_def flush_snapshot_def)
  moreover have "0 < next_id ?s" by (simp add: send_start_def)
  ultimately show ?thesis using flush_complete [OF _ ok_run_reaches [OF 1 2]] by blast
qed



end
