(* ===== verification/Dates.thy ===== *)
theory Dates
  imports Prelude
begin

text \<open>
  Instants as the sources use them: milliseconds since 1970-01-01T00:00:00Z (\<open>Date.now()\<close>,
  \<open>getTime()\<close>) and their ISO form. Local time zones and \<open>toLocale...\<close> strings depend on the host
  and are parameters where they are needed.
\<close>

definition pad :: "nat \<Rightarrow> nat \<Rightarrow> string" where
  "pad k n = (let d = show_nat n in replicate (k - length d) (CHR ''0'') @ d)"

text \<open>Year, month and day of a day number in the proleptic Gregorian calendar.\<close>

definition year_of_era :: "int \<Rightarrow> int" where
  "year_of_era doe = (doe - doe div 1460 + doe div 36524 - doe div 146096) div 365"

definition day_of_year :: "int \<Rightarrow> int \<Rightarrow> int" where
  "day_of_year doe yoe = doe - (365 * yoe + yoe div 4 - yoe div 100)"

definition month_day :: "int \<Rightarrow> int \<times> int" where
  "month_day doy =
     (let mp = (5 * doy + 2) div 153
      in (if mp < 10 then mp + 3 else mp - 9, doy - (153 * mp + 2) div 5 + 1))"

definition era_date :: "int \<Rightarrow> int \<Rightarrow> int \<times> int \<times> int" where
  "era_date era doe =
     (case month_day (day_of_year doe (year_of_era doe)) of
        (m, d) \<Rightarrow> (year_of_era doe + era * 400 + (if m \<le> 2 then 1 else 0), m, d))"

definition civil_from_days :: "int \<Rightarrow> int \<times> int \<times> int" where
  "civil_from_days days = era_date ((days + 719468) div 146097) ((days + 719468) mod 146097)"

definition iso_year :: "int \<Rightarrow> string" where
  "iso_year y = (if 0 \<le> y \<and> y \<le> 9999 then pad 4 (nat y)
                 else (if y < 0 then ''-'' else ''+'') @ pad 6 (nat \<bar>y\<bar>))"

definition iso_date :: "int \<Rightarrow> string" where
  "iso_date days = (case civil_from_days days of (y, m, d) \<Rightarrow> iso_year y @ ''-'' @ pad 2 (nat m) @ ''-'' @ pad 2 (nat d))"

definition toISOString :: "int \<Rightarrow> string" where
  "toISOString ms =
     (let tod = ms mod 86400000
      in iso_date (ms div 86400000) @ ''T'' @ pad 2 (nat (tod div 3600000)) @ '':''
         @ pad 2 (nat (tod div 60000 mod 60)) @ '':'' @ pad 2 (nat (tod div 1000 mod 60)) @ ''.''
         @ pad 3 (nat (tod mod 1000)) @ ''Z'')"

lemma replicate_two: "replicate 2 x = [x, x]"
  by (simp add: numeral_2_eq_2)

lemmas iso_simps = toISOString_def iso_date_def civil_from_days_def era_date_def month_day_def
  day_of_year_def year_of_era_def iso_year_def pad_def show_nat_simps replicate_two

lemma toISOString_epoch: "toISOString 0 = ''1970-01-01T00:00:00.000Z''"
  by (simp add: iso_simps)

lemma toISOString_leap_day: "toISOString 1709210096789 = ''2024-02-29T12:34:56.789Z''"
  by (simp add: iso_simps)

end
