(* ===== verification/Node_Sdk.thy ===== *)
theory Node_Sdk
  imports Sender Dates
begin

text \<open>
  The Node SDK (\<open>sdks/node/src\<close>): the configuration and the event type, the client on top of
  the delivery machine of \<^emph>\<open>Sender\<close>, the Express middleware, the Fastify hooks and the Lambda
  wrapper. The frameworks are not part of the repository: their requests and replies are the
  fields the SDK reads, and each callback the SDK registers is a function of them. Clock readings
  and the text of \<open>randomUUID()\<close> are arguments.
\<close>

section \<open>Types and client\<close>

record BatAuditConfig =
  apiKey :: string
  serviceName :: string
  writerUrl :: string
  environment :: "string option"
  captureBody :: "bool option"
  captureResponseBody :: "bool option"

record BatAuditRequestData =
  u_identifier :: "string option"
  userEmail :: "string option"
  userName :: "string option"
  userRoles :: "string list option"
  userType :: "string option"
  tenantId :: "string option"

record AuditEvent =
  ae_method :: string
  ae_path :: string
  ae_status_code :: "nat option"
  ae_response_time :: "rat option"
  ae_identifier :: string
  ae_user_email :: "string option"
  ae_user_name :: "string option"
  ae_user_roles :: "json option"
  ae_user_type :: "string option"
  ae_tenant_id :: "string option"
  ae_ip :: "string option"
  ae_user_agent :: "string option"
  ae_request_id :: "string option"
  ae_query_params :: "json option"
  ae_path_params :: "json option"
  ae_request_body :: "json option"
  ae_response_body :: "json option"
  ae_service_name :: string
  ae_environment :: string
  ae_timestamp :: string

text \<open>The object the event is, its members in the order the middlewares write them.\<close>

definition event_json :: "AuditEvent \<Rightarrow> json" where
  "event_json e = obj_of
     [(''method'', Some (JStr (ae_method e))), (''path'', Some (JStr (ae_path e))),
      (''status_code'', map_option (\<lambda>n. JNum (of_nat n)) (ae_status_code e)),
      (''response_time'', map_option JNum (ae_response_time e)),
      (''identifier'', Some (JStr (ae_identifier e))),
      (''user_email'', jstr (ae_user_email e)), (''user_name'', jstr (ae_user_name e)),
      (''user_roles'', ae_user_roles e), (''user_type'', jstr (ae_user_type e)),
      (''tenant_id'', jstr (ae_tenant_id e)), (''ip'', jstr (ae_ip e)),
      (''user_agent'', jstr (ae_user_agent e)), (''request_id'', jstr (ae_request_id e)),
      (''query_params'', ae_query_params e), (''path_params'', ae_path_params e),
      (''request_body'', ae_request_body e), (''response_body'', ae_response_body e),
      (''service_name'', Some (JStr (ae_service_name e))),
      (''environment'', Some (JStr (ae_environment e))),
      (''timestamp'', Some (JStr (ae_timestamp e)))]"

record BatAuditClient =
  client_config :: BatAuditConfig
  client_sends :: sends

text \<open>The constructor fills the defaults in. A property that is absent and one that is set to
  \<open>undefined\<close> (which the spread would keep) are both \<open>None\<close> here: the client reads only
  \<open>writerUrl\<close> and \<open>apiKey\<close> later, and the middlewares read their own \<open>config\<close> with \<open>??\<close>.\<close>

definition new_BatAuditClient :: "BatAuditConfig \<Rightarrow> BatAuditClient" where
  "new_BatAuditClient config =
     \<lparr>client_config = config\<lparr>environment := Some (nullish (environment config) ''prod''),
                             captureBody := Some (nullish (captureBody config) False),
                             captureResponseBody := Some (nullish (captureResponseBody config) False)\<rparr>,
      client_sends = no_sends\<rparr>"

definition generateRequestId :: "string \<Rightarrow> string" where
  "generateRequestId uuid = ''bat-'' @ uuid"

definition client_send :: "json \<Rightarrow> BatAuditClient \<Rightarrow> BatAuditClient" where
  "client_send event c =
     c\<lparr>client_sends := send_start (audit_request (writerUrl (client_config c)) (apiKey (client_config c)) event)
                                  (client_sends c)\<rparr>"

definition client_flush :: "BatAuditClient \<Rightarrow> nat list" where
  "client_flush c = flush_snapshot (client_sends c)"

section \<open>Express\<close>

text \<open>A header of Node's \<open>IncomingHttpHeaders\<close>.\<close>

datatype header = HText string | HList "string list"

record ExpressRequest =
  x_method :: string
  x_path :: string
  x_headers :: "string \<Rightarrow> header option"
  x_user_agent :: "string option"      \<comment> \<open>\<open>headers['user-agent']\<close>, never a list\<close>
  x_query :: "(string \<times> json) list"
  x_params :: "(string \<times> json) list"
  x_body :: "json option"
  x_ip :: "string option"
  x_socket :: "string option option"   \<comment> \<open>\<open>req.socket\<close> and its \<open>remoteAddress\<close>\<close>
  x_bataudit :: "BatAuditRequestData option"

record ExpressResponse =
  x_status :: nat
  x_out_headers :: "(string \<times> string) list"
  x_json_patched :: bool               \<comment> \<open>\<open>res.json\<close> is the wrapper\<close>
  x_sent_json :: "json option list"    \<comment> \<open>bodies given to the original \<open>res.json\<close>\<close>

text \<open>What the closure of one request keeps.\<close>

record Exchange =
  e_startTime :: int
  e_requestId :: string
  e_responseBody :: "json option"

definition no_user :: BatAuditRequestData where
  "no_user = \<lparr>u_identifier = None, userEmail = None, userName = None, userRoles = None,
              userType = None, tenantId = None\<rparr>"

definition request_id_of :: "header option \<Rightarrow> string \<Rightarrow> string" where
  "request_id_of incoming uuid =
     (case incoming of Some (HText s) \<Rightarrow> s | _ \<Rightarrow> generateRequestId uuid)"

definition nonempty_obj :: "(string \<times> json) list \<Rightarrow> json option" where
  "nonempty_obj kvs = (if 0 < length kvs then Some (JObj kvs) else None)"

definition roles_json :: "string list option \<Rightarrow> json option" where
  "roles_json rs = map_option (\<lambda>l. JArr (map JStr l)) rs"

text \<open>The middleware itself, up to \<open>next()\<close>.\<close>

definition express_enter ::
  "BatAuditConfig \<Rightarrow> int \<Rightarrow> string \<Rightarrow> ExpressRequest \<Rightarrow> ExpressResponse \<Rightarrow> Exchange \<times> ExpressResponse" where
  "express_enter config now uuid req res =
     (let requestId = request_id_of (x_headers req ''x-request-id'') uuid;
          res1 = res\<lparr>x_out_headers := x_out_headers res @ [(''X-Request-ID'', requestId)]\<rparr>
      in (\<lparr>e_startTime = now, e_requestId = requestId, e_responseBody = None\<rparr>,
          if nullish (captureResponseBody config) False then res1\<lparr>x_json_patched := True\<rparr> else res1))"

text \<open>The application calls \<open>res.json(body)\<close>.\<close>

definition express_json :: "json option \<Rightarrow> Exchange \<times> ExpressResponse \<Rightarrow> Exchange \<times> ExpressResponse" where
  "express_json body er =
     (case er of (e, res) \<Rightarrow>
        (if x_json_patched res then e\<lparr>e_responseBody := body\<rparr> else e,
         res\<lparr>x_sent_json := x_sent_json res @ [body]\<rparr>))"

definition express_event ::
  "BatAuditConfig \<Rightarrow> int \<Rightarrow> int \<Rightarrow> ExpressRequest \<Rightarrow> ExpressResponse \<Rightarrow> Exchange \<Rightarrow> AuditEvent" where
  "express_event config now now2 req res e =
     (let user = nullish (x_bataudit req) no_user
      in \<lparr>ae_method = x_method req,
          ae_path = x_path req,
          ae_status_code = Some (x_status res),
          ae_response_time = Some (of_int (now - e_startTime e)),
          ae_identifier = nullish (u_identifier user) ''anonymous'',
          ae_user_email = userEmail user,
          ae_user_name = userName user,
          ae_user_roles = roles_json (userRoles user),
          ae_user_type = userType user,
          ae_tenant_id = tenantId user,
          ae_ip = (case x_ip req of Some a \<Rightarrow> Some a | None \<Rightarrow> Option.bind (x_socket req) id),
          ae_user_agent = x_user_agent req,
          ae_request_id = Some (e_requestId e),
          ae_query_params = nonempty_obj (x_query req),
          ae_path_params = nonempty_obj (x_params req),
          ae_request_body = (if nullish (captureBody config) False then x_body req else None),
          ae_response_body = (if nullish (captureResponseBody config) False then e_responseBody e else None),
          ae_service_name = serviceName config,
          ae_environment = nullish (environment config) ''prod'',
          ae_timestamp = toISOString now2\<rparr>)"

text \<open>The listener of \<open>finish\<close>.\<close>

definition express_finish ::
  "BatAuditConfig \<Rightarrow> int \<Rightarrow> int \<Rightarrow> ExpressRequest \<Rightarrow> ExpressResponse \<Rightarrow> Exchange \<Rightarrow> BatAuditClient \<Rightarrow> BatAuditClient" where
  "express_finish config now now2 req res e c =
     client_send (event_json (express_event config now now2 req res e)) c"

section \<open>Fastify\<close>

record FastifyRequest =
  f_method :: string
  f_url :: string
  f_headers :: "string \<Rightarrow> header option"
  f_user_agent :: "string option"
  f_query :: "(string \<times> json) list option"
  f_params :: "(string \<times> json) list option"
  f_body :: "json option"
  f_ip :: "string option"
  f_bataudit :: "BatAuditRequestData option"   \<comment> \<open>decorated with \<open>null\<close>\<close>
  f_batRequestId :: "string option"
  f_batResponseBody :: "json option"

record FastifyReply =
  f_status :: nat
  f_elapsed :: rat
  f_out_headers :: "(string \<times> string) list"

definition fastify_onRequest ::
  "string \<Rightarrow> FastifyRequest \<Rightarrow> FastifyReply \<Rightarrow> FastifyRequest \<times> FastifyReply" where
  "fastify_onRequest uuid request reply =
     (let requestId = request_id_of (f_headers request ''x-request-id'') uuid
      in (request\<lparr>f_batRequestId := Some requestId\<rparr>,
          reply\<lparr>f_out_headers := f_out_headers reply @ [(''X-Request-ID'', requestId)]\<rparr>))"

text \<open>A string payload is read as JSON when it is JSON; the payload itself goes out unchanged.\<close>

definition fastify_onSend ::
  "BatAuditConfig \<Rightarrow> FastifyRequest \<Rightarrow> json option \<Rightarrow> FastifyRequest \<times> json option" where
  "fastify_onSend config request payload =
     (if nullish (captureResponseBody config) False
      then (request\<lparr>f_batResponseBody :=
              (case payload of
                 Some (JStr s) \<Rightarrow> (case json_parse s of Inr v \<Rightarrow> Some v | Inl _ \<Rightarrow> payload)
               | _ \<Rightarrow> payload)\<rparr>, payload)
      else (request, payload))"

definition fastify_event ::
  "BatAuditConfig \<Rightarrow> string \<Rightarrow> int \<Rightarrow> FastifyRequest \<Rightarrow> FastifyReply \<Rightarrow> AuditEvent" where
  "fastify_event config uuid now request reply =
     (let user = nullish (f_bataudit request) no_user;
          requestId = nullish (f_batRequestId request) (generateRequestId uuid);
          responseBody = f_batResponseBody request;
          query = nullish (f_query request) [];
          params = nullish (f_params request) []
      in \<lparr>ae_method = f_method request,
          ae_path = hd (split_on (CHR ''?'') (f_url request)),
          ae_status_code = Some (f_status reply),
          ae_response_time = Some (of_int (js_round (f_elapsed reply))),
          ae_identifier = nullish (u_identifier user) ''anonymous'',
          ae_user_email = userEmail user,
          ae_user_name = userName user,
          ae_user_roles = roles_json (userRoles user),
          ae_user_type = userType user,
          ae_tenant_id = tenantId user,
          ae_ip = f_ip request,
          ae_user_agent = f_user_agent request,
          ae_request_id = Some requestId,
          ae_query_params = nonempty_obj query,
          ae_path_params = nonempty_obj params,
          ae_request_body = (if nullish (captureBody config) False then f_body request else None),
          ae_response_body = (if nullish (captureResponseBody config) False then responseBody else None),
          ae_service_name = serviceName config,
          ae_environment = nullish (environment config) ''prod'',
          ae_timestamp = toISOString now\<rparr>)"

definition fastify_onResponse ::
  "BatAuditConfig \<Rightarrow> string \<Rightarrow> int \<Rightarrow> FastifyRequest \<Rightarrow> FastifyReply \<Rightarrow> BatAuditClient \<Rightarrow> BatAuditClient" where
  "fastify_onResponse config uuid now request reply c =
     client_send (event_json (fastify_event config uuid now request reply)) c"

section \<open>Lambda\<close>

text \<open>What a handler may reject with: an \<open>Error\<close>, or any other value.\<close>

datatype thrown = ThrownError string | ThrownValue "json option"

definition thrown_truthy :: "thrown \<Rightarrow> bool" where
  "thrown_truthy t =
     (case t of ThrownError _ \<Rightarrow> True | ThrownValue None \<Rightarrow> False | ThrownValue (Some v) \<Rightarrow> jtruthy v)"

text \<open>An object whose members may be \<open>undefined\<close>, and \<open>{...a, ...b}\<close>.\<close>

type_synonym obj = "(string \<times> json option) list"

definition obj_spread :: "obj \<Rightarrow> obj \<Rightarrow> obj" where
  "obj_spread a b = assoc_spread a b"

definition lambda_base :: "BatAuditConfig \<Rightarrow> thrown \<Rightarrow> int \<Rightarrow> int \<Rightarrow> int \<Rightarrow> obj" where
  "lambda_base config handlerError startTime now now2 =
     [(''method'', Some (JStr ''POST'')),
      (''path'', Some (JStr ''/lambda'')),
      (''status_code'', Some (JNum (if thrown_truthy handlerError then 500 else 200))),
      (''response_time'', Some (JNum (of_int (now - startTime)))),
      (''identifier'', Some (JStr ''anonymous'')),
      (''service_name'', Some (JStr (serviceName config))),
      (''environment'', Some (JStr (nullish (environment config) ''prod''))),
      (''timestamp'', Some (JStr (toISOString now2))),
      (''error_message'', (case handlerError of ThrownError m \<Rightarrow> Some (JStr m) | _ \<Rightarrow> None))]"

text \<open>One invocation after the handler has settled with \<open>outcome\<close>: what the wrapper settles with
  once the promises of the last component have, and the client after the \<open>finally\<close> block. An
  exception of \<open>getAuditData\<close> leaves that block at once.\<close>

definition lambda_invoke ::
  "BatAuditConfig \<Rightarrow> ('e \<Rightarrow> json option \<Rightarrow> thrown \<Rightarrow> thrown + obj option) option \<Rightarrow> 'e
   \<Rightarrow> int \<Rightarrow> int \<Rightarrow> int \<Rightarrow> thrown + json option \<Rightarrow> BatAuditClient
   \<Rightarrow> (thrown + json option) \<times> BatAuditClient \<times> nat list" where
  "lambda_invoke config getAuditData lambdaEvent startTime now now2 outcome client =
     (let result = (case outcome of Inr r \<Rightarrow> r | Inl _ \<Rightarrow> Some JNull);
          handlerError = (case outcome of Inl e \<Rightarrow> e | Inr _ \<Rightarrow> ThrownValue (Some JNull))
      in case (case getAuditData of None \<Rightarrow> Inr None | Some f \<Rightarrow> f lambdaEvent result handlerError) of
           Inl e \<Rightarrow> (Inl e, client, [])
         | Inr d \<Rightarrow>
             (let auditData = nullish d [];
                  client' = client_send (obj_of (obj_spread (lambda_base config handlerError startTime now now2)
                                                            auditData)) client
              in (outcome, client', client_flush client')))"

section \<open>Facts about events\<close>

lemma obj_of_Cons:
  "obj_of ((k, v) # kvs) = (case obj_of kvs of JObj r \<Rightarrow> JObj ((case v of None \<Rightarrow> [] | Some x \<Rightarrow> [(k, x)]) @ r))"
  by (simp add: obj_of_def)

lemma obj_of_keys: "obj_of kvs = JObj r \<Longrightarrow> fst ` set r \<subseteq> fst ` set kvs"
  by (auto simp: obj_of_def split: option.splits intro: rev_image_eqI)

definition opt_wf :: "json option \<Rightarrow> bool" where
  "opt_wf v = (case v of None \<Rightarrow> True | Some x \<Rightarrow> wf_json x)"

lemma opt_wf_simps [simp]:
  "opt_wf None" "opt_wf (Some x) \<longleftrightarrow> wf_json x" "opt_wf (jstr s)" "opt_wf (roles_json rs)"
  "opt_wf (map_option (\<lambda>n. JNum (of_nat n)) m)"
  by (auto simp: opt_wf_def jstr_def roles_json_def split: option.split)

lemma wf_obj_of:
  "distinct (map fst kvs) \<Longrightarrow> (\<And>k w. (k, w) \<in> set kvs \<Longrightarrow> opt_wf w) \<Longrightarrow> wf_json (obj_of kvs)"
proof (induction kvs)
  case (Cons kv kvs)
  obtain k v where kv: "kv = (k, v)" by fastforce
  obtain r where r: "obj_of kvs = JObj r" by (simp add: obj_of_def)
  from Cons.prems(1) kv have "k \<notin> fst ` set r" using obj_of_keys [OF r] by auto
  moreover have "wf_json (JObj r)" using Cons r by auto
  ultimately show ?case using Cons.prems(2) [of k v] kv r
    by (auto simp: obj_of_Cons split: option.splits)
qed (simp add: obj_of_def)

lemma wf_event_json:
  assumes "opt_wf (ae_user_roles e)" "opt_wf (ae_query_params e)" "opt_wf (ae_path_params e)"
    "opt_wf (ae_request_body e)" "opt_wf (ae_response_body e)" "opt_wf (map_option JNum (ae_response_time e))"
  shows "wf_json (event_json e)"
  unfolding event_json_def
proof (rule wf_obj_of, goal_cases)
  case (2 k v)
  then show ?case by (auto simp: assms)
qed simp

lemma client_send_posts:
  "effects (client_sends (client_send ev c)) = effects (client_sends c)
     @ [(next_id (client_sends c), Post (audit_request (writerUrl (client_config c)) (apiKey (client_config c)) ev))]"
  by (simp add: client_send_def send_start_def)

lemma express_json_fold:
  "fold express_json bodies (e, res) =
     (if x_json_patched res \<and> bodies \<noteq> [] then e\<lparr>e_responseBody := last bodies\<rparr> else e,
      res\<lparr>x_sent_json := x_sent_json res @ bodies\<rparr>)"
  by (induction bodies arbitrary: e res) (auto simp: express_json_def)

section \<open>Properties\<close>

text \<open>C5. Express: over a whole exchange (the middleware, any calls of \<open>res.json\<close>, then
  \<open>finish\<close>) the client answers with the incoming request id or a fresh one and audits under the
  same id; every body still reaches the original \<open>res.json\<close>; the event carries the last body only
  when response capture is on and the request body only when body capture is on.\<close>

theorem express_exchange:
  assumes "express_enter config t0 uuid req res0 = (e0, res1)" "\<not> x_json_patched res0"
    "fold express_json bodies (e0, res1) = (e, res)"
  shows "(''X-Request-ID'', request_id_of (x_headers req ''x-request-id'') uuid) \<in> set (x_out_headers res)
    \<and> x_sent_json res = x_sent_json res0 @ bodies
    \<and> (let ev = express_event config t1 t2 req' (res\<lparr>x_status := st\<rparr>) e
       in ae_request_id ev = Some (request_id_of (x_headers req ''x-request-id'') uuid)
        \<and> ae_status_code ev = Some st
        \<and> ae_response_time ev = Some (of_int (t1 - t0))
        \<and> ae_response_body ev = (if captureResponseBody config = Some True \<and> bodies \<noteq> [] then last bodies else None)
        \<and> ae_request_body ev = (if captureBody config = Some True then x_body req' else None))"
  using assms
  by (cases "captureResponseBody config"; cases "captureBody config")
    (auto simp: express_enter_def express_json_fold express_event_def Let_def split: if_splits)

definition sample_config :: BatAuditConfig where
  "sample_config = \<lparr>apiKey = ''key'', serviceName = ''shop'', writerUrl = ''http://w'', environment = None,
                    captureBody = None, captureResponseBody = Some True\<rparr>"

definition sample_req :: ExpressRequest where
  "sample_req = \<lparr>x_method = ''GET'', x_path = ''/a'', x_headers = (\<lambda>_. None), x_user_agent = None,
                 x_query = [], x_params = [], x_body = None, x_ip = Some ''1.2.3.4'', x_socket = None,
                 x_bataudit = None\<rparr>"

definition sample_res :: ExpressResponse where
  "sample_res = \<lparr>x_status = 200, x_out_headers = [], x_json_patched = False, x_sent_json = []\<rparr>"

theorem express_exchange_witness:
  "\<exists>e res. (''X-Request-ID'', request_id_of (x_headers sample_req ''x-request-id'') ''u'') \<in> set (x_out_headers res)
    \<and> x_sent_json res = x_sent_json sample_res @ [Some JNull]
    \<and> (let ev = express_event sample_config 9 9 sample_req (res\<lparr>x_status := 201\<rparr>) e
       in ae_request_id ev = Some (request_id_of (x_headers sample_req ''x-request-id'') ''u'')
        \<and> ae_status_code ev = Some 201
        \<and> ae_response_time ev = Some (of_int (9 - 5))
        \<and> ae_response_body ev = (if captureResponseBody sample_config = Some True \<and> [Some JNull] \<noteq> []
                                   then last [Some JNull] else None)
        \<and> ae_request_body ev = (if captureBody sample_config = Some True then x_body sample_req else None))"
proof -
  obtain e0 res1 where enter: "express_enter sample_config 5 ''u'' sample_req sample_res = (e0, res1)"
    by fastforce
  obtain e res where fold: "fold express_json [Some JNull] (e0, res1) = (e, res)" by fastforce
  have fresh: "\<not> x_json_patched sample_res" by (simp add: sample_res_def)
  show ?thesis
    by (intro exI) (rule express_exchange [OF enter fresh fold])
qed

text \<open>C6. The two middlewares agree: when Express and Fastify serve the same exchange (same
  request data, same elapsed time, the handler's value v sent as JSON) they post the same event,
  captured response body included.\<close>

theorem middlewares_agree:
  assumes enter: "express_enter config t0 uuid xreq xres0 = (e0, xres1)" "\<not> x_json_patched xres0"
      "express_json (Some v) (e0, xres1) = (e, xres)"
    and hooks: "fastify_onRequest uuid freq frep = (freq1, frep1)"
      "fastify_onSend config freq1 (Some (JStr (stringify v))) = (freq2, out)"
    and v: "wf_json v"
    and same: "f_method freq = x_method xreq" "hd (split_on (CHR ''?'') (f_url freq)) = x_path xreq"
      "f_headers freq = x_headers xreq" "f_user_agent freq = x_user_agent xreq"
      "nullish (f_query freq) [] = x_query xreq" "nullish (f_params freq) [] = x_params xreq"
      "f_body freq = x_body xreq" "x_ip xreq = Some a" "f_ip freq = Some a" "f_bataudit freq = x_bataudit xreq"
      "f_status frep = x_status xres0" "js_round (f_elapsed frep) = t1 - t0"
  shows "fastify_event config uuid' t2 freq2 frep1 = express_event config t1 t2 xreq xres e"
proof -
  let ?id = "request_id_of (x_headers xreq ''x-request-id'') uuid"
  let ?cap = "nullish (captureResponseBody config) False"
  have "freq1 = freq\<lparr>f_batRequestId := Some ?id\<rparr>" and rep: "f_status frep1 = f_status frep" "f_elapsed frep1 = f_elapsed frep"
    using hooks(1) same(3) by (auto simp: fastify_onRequest_def Let_def)
  then have f2: "freq2 = (if ?cap then freq\<lparr>f_batRequestId := Some ?id, f_batResponseBody := Some v\<rparr>
                      else freq\<lparr>f_batRequestId := Some ?id\<rparr>)"
    using hooks(2) parse_stringify [OF v] by (simp add: fastify_onSend_def split: if_splits)
  have e: "e_startTime e = t0" "e_requestId e = ?id" "e_responseBody e = (if ?cap then Some v else None)"
    and st: "x_status xres = x_status xres0"
    using enter by (auto simp: express_enter_def express_json_def Let_def split: if_splits)
  show ?thesis
    unfolding fastify_event_def express_event_def Let_def
    by (cases ?cap) (simp_all add: f2 e st rep same)
qed

definition sample_freq :: FastifyRequest where
  "sample_freq = \<lparr>f_method = ''GET'', f_url = ''/a?x=1'', f_headers = (\<lambda>_. None), f_user_agent = None,
                  f_query = None, f_params = None, f_body = None, f_ip = Some ''1.2.3.4'', f_bataudit = None,
                  f_batRequestId = None, f_batResponseBody = None\<rparr>"

definition sample_frep :: FastifyReply where
  "sample_frep = \<lparr>f_status = 200, f_elapsed = 4, f_out_headers = []\<rparr>"

theorem middlewares_agree_witness:
  "\<exists>freq2 frep1 xres e. fastify_event sample_config ''u2'' 9 freq2 frep1
     = express_event sample_config 9 9 sample_req xres e"
proof -
  obtain e0 res1 where 1: "express_enter sample_config 5 ''u'' sample_req sample_res = (e0, res1)" by fastforce
  obtain e res where 2: "express_json (Some (JBool True)) (e0, res1) = (e, res)" by fastforce
  obtain q1 p1 where 3: "fastify_onRequest ''u'' sample_freq sample_frep = (q1, p1)" by fastforce
  obtain q2 out where 4: "fastify_onSend sample_config q1 (Some (JStr (stringify (JBool True)))) = (q2, out)" by fastforce
  have "fastify_event sample_config ''u2'' 9 q2 p1 = express_event sample_config 9 9 sample_req res e"
    by (rule middlewares_agree [OF 1 _ 2 3 4])
      (simp_all add: sample_res_def sample_req_def sample_freq_def sample_frep_def js_round_def floor_eq_iff)
  then show ?thesis by blast
qed



lemma reachable_send: "reachable (client_sends c) \<Longrightarrow> reachable (client_sends (client_send ev c))"
  by (auto simp: client_send_def intro: reachable.step sender_step.app)

lemma client_send_first:
  assumes "reachable (client_sends c)"
  shows "effects_of (next_id (client_sends c)) (client_sends (client_send ev c))
    = [Post (audit_request (writerUrl (client_config c)) (apiKey (client_config c)) ev)]"
  using of_fresh [OF reachable_ok [OF assms], of "next_id (client_sends c)"]
  by (simp add: effects_of_def client_send_posts)

lemma obj_spread_map: "distinct (map fst b) \<Longrightarrow> map_of (obj_spread a b) = map_of a ++ map_of b"
  by (simp add: obj_spread_def assoc_spread_map)

text \<open>C4. The Lambda wrapper: unless \<open>getAuditData\<close> throws, it settles with the handler's own
  result or exception, and only after the \<open>flush\<close> of a set of promises in which the event of
  this invocation is; so by then the event, overridden by the audit data, has been posted with
  the full retry schedule and was accepted or tried four times.\<close>

theorem lambda_delivers:
  assumes "reachable (client_sends c)"
    and data: "(case getAuditData of None \<Rightarrow> Inr None
                | Some f \<Rightarrow> f ev (case outcome of Inr r \<Rightarrow> r | Inl _ \<Rightarrow> Some JNull)
                                (case outcome of Inl e \<Rightarrow> e | Inr _ \<Rightarrow> ThrownValue (Some JNull))) = Inr d"
    and inv: "lambda_invoke config getAuditData ev t0 t1 t2 outcome c = (out, c', snap)"
    and later: "sender_step\<^sup>*\<^sup>* (client_sends c') s'" "flush_resolved snap s'"
  shows "out = outcome
    \<and> (let i = next_id (client_sends c);
           event = obj_of (obj_spread (lambda_base config (case outcome of Inl e \<Rightarrow> e | Inr _ \<Rightarrow> ThrownValue (Some JNull)) t0 t1 t2)
                                      (nullish d []))
       in effects_of i s' = sendWithRetry (audit_request (writerUrl (client_config c)) (apiKey (client_config c)) event)
                              (\<lambda>n. answers_of i s' ! n) 0
        \<and> (delivered (last (answers_of i s')) \<or> length (answers_of i s') = 4))"
proof -
  define event where "event = obj_of (obj_spread
    (lambda_base config (case outcome of Inl e \<Rightarrow> e | Inr _ \<Rightarrow> ThrownValue (Some JNull)) t0 t1 t2) (nullish d []))"
  let ?i = "next_id (client_sends c)"
  from inv data have out: "out = outcome" and c': "c' = client_send event c" and snap: "snap = client_flush c'"
    by (auto simp: lambda_invoke_def event_def Let_def)
  have r: "reachable (client_sends c')" using reachable_send [OF assms(1)] c' by simp
  have "?i < next_id (client_sends c')" by (simp add: c' client_send_def send_start_def)
  then have over: "call_over ?i s'" using flush_call_over [OF r later(1)] later(2) snap
    by (simp add: client_flush_def)
  obtain req where req: "effects_of ?i s' = sendWithRetry req (\<lambda>n. answers_of ?i s' ! n) 0"
    and fin: "delivered (last (answers_of ?i s')) \<or> length (answers_of ?i s') = 4"
    using over by (rule call_over_schedule) (auto simp: RETRY_DELAYS_MS_def)
  have "req = audit_request (writerUrl (client_config c)) (apiKey (client_config c)) event"
    using steps_effects_of [OF later(1), of ?i] client_send_first [OF assms(1), of event] c' req
      sendWithRetry_first by metis
  with out req fin show ?thesis by (simp add: event_def Let_def)
qed

lemma lambda_sample_run:
  fixes c :: BatAuditClient
  assumes "c = new_BatAuditClient sample_config" "c' = client_send ev c"
  obtains s' where "sender_step\<^sup>*\<^sup>* (client_sends c') s'" "flush_resolved (client_flush c') s'"
proof -
  let ?r = "audit_request (writerUrl (client_config c)) (apiKey (client_config c)) ev"
  have s: "client_sends c' = send_start ?r no_sends"
    using assms by (simp add: client_send_def new_BatAuditClient_def)
  define s1 where "s1 = the (on_answer 0 (Inr \<lparr>res_status = 202, res_json = Inr JNull\<rparr>) (send_start ?r no_sends))"
  define s2 where "s2 = the (on_finally 0 s1)"
  have "on_answer 0 (Inr \<lparr>res_status = 202, res_json = Inr JNull\<rparr>) (send_start ?r no_sends) = Some s1"
    by (simp add: s1_def on_answer_def send_start_def no_sends_def)
  moreover have "on_finally 0 s1 = Some s2"
    by (simp add: s2_def s1_def on_answer_def send_start_def no_sends_def on_finally_def delivered_def res_ok_def)
  ultimately have "sender_step\<^sup>*\<^sup>* (client_sends c') s2" unfolding s by (rule ok_run_reaches)
  moreover have "flush_resolved (client_flush c') s2"
    by (simp add: client_flush_def s s2_def s1_def on_answer_def send_start_def no_sends_def on_finally_def
        delivered_def res_ok_def flush_resolved_def flush_snapshot_def)
  ultimately show thesis by (rule that)
qed

theorem lambda_delivers_witness:
  "\<exists>out s'. out = Inr (Some (JNum 1))
    \<and> (let i = next_id (client_sends (new_BatAuditClient sample_config));
           event = obj_of (obj_spread (lambda_base sample_config (case (Inr (Some (JNum 1)) :: thrown + json option) of
                                          Inl e \<Rightarrow> e | Inr _ \<Rightarrow> ThrownValue (Some JNull)) 1 2 2) (nullish None []))
       in effects_of i s' = sendWithRetry (audit_request (writerUrl (client_config (new_BatAuditClient sample_config)))
                                (apiKey (client_config (new_BatAuditClient sample_config))) event)
                              (\<lambda>n. answers_of i s' ! n) 0
        \<and> (delivered (last (answers_of i s')) \<or> length (answers_of i s') = 4))"
proof -
  let ?c = "new_BatAuditClient sample_config"
  let ?out = "Inr (Some (JNum 1)) :: thrown + json option"
  obtain out c' snap where inv: "lambda_invoke sample_config None () 1 2 2 ?out ?c = (out, c', snap)"
    by (metis prod_cases3)
  then obtain ev where "c' = client_send ev ?c" "snap = client_flush c'"
    by (auto simp: lambda_invoke_def Let_def)
  moreover obtain s' where "sender_step\<^sup>*\<^sup>* (client_sends c') s'" "flush_resolved (client_flush c') s'"
    using lambda_sample_run [OF refl \<open>c' = client_send ev ?c\<close>] by blast
  moreover have "reachable (client_sends ?c)" by (simp add: new_BatAuditClient_def reachable.init)
  ultimately show ?thesis
    using lambda_delivers [OF _ _ inv, of None s'] by auto
qed

end
