(* ===== verification/Browser_Sdk.thy ===== *)
theory Browser_Sdk
  imports Sender Dates
begin

text \<open>
  The browser SDK (\<open>sdks/browser/src\<close>): client with user context, the \<open>fetch\<close> and
  \<open>XMLHttpRequest\<close> interceptors and \<open>init\<close>. The platform's URL parser is the parameter
  \<open>parseURL\<close>, the platform's \<open>fetch\<close> the parameter \<open>orig\<close>; clock readings, \<open>randomUUID()\<close> and
  \<open>navigator.userAgent\<close> are arguments. Header names and values are taken to be valid, so that
  \<open>new Headers\<close> does not throw.
\<close>

section \<open>Client\<close>

text \<open>An optional property is absent (\<open>None\<close>), set to \<open>undefined\<close> (\<open>Some None\<close>) or has a value.\<close>

record BatAuditBrowserConfig =
  b_apiKey :: string
  b_serviceName :: string
  b_writerUrl :: string
  b_environment :: "string option option"

record BatAuditUserData =
  ud_identifier :: string
  ud_userEmail :: "string option"
  ud_userName :: "string option"
  ud_userRoles :: "string list option"
  ud_userType :: "string option"
  ud_tenantId :: "string option"

record PartialEvent =
  pe_method :: string
  pe_path :: string
  pe_status_code :: "nat option"
  pe_response_time :: "int option"
  pe_user_agent :: "string option"
  pe_request_id :: "string option"
  pe_timestamp :: string

record BrowserEvent = PartialEvent +
  be_identifier :: string
  be_user_email :: "string option"
  be_user_name :: "string option"
  be_user_roles :: "string list option"
  be_user_type :: "string option"
  be_tenant_id :: "string option"
  be_service_name :: string
  be_environment :: "string option"
  be_source :: string

record BatAuditBrowserClient =
  bc_config :: BatAuditBrowserConfig
  bc_environment :: "string option"     \<comment> \<open>\<open>config.environment\<close> after the defaults\<close>
  bc_user :: BatAuditUserData
  bc_sends :: sends

definition anonymous :: BatAuditUserData where
  "anonymous = \<lparr>ud_identifier = ''anonymous'', ud_userEmail = None, ud_userName = None,
                ud_userRoles = None, ud_userType = None, ud_tenantId = None\<rparr>"

definition new_BatAuditBrowserClient :: "BatAuditBrowserConfig \<Rightarrow> BatAuditBrowserClient" where
  "new_BatAuditBrowserClient config =
     \<lparr>bc_config = config, bc_environment = nullish (b_environment config) (Some ''prod''),
      bc_user = anonymous, bc_sends = no_sends\<rparr>"

definition setUser :: "BatAuditUserData \<Rightarrow> BatAuditBrowserClient \<Rightarrow> BatAuditBrowserClient" where
  "setUser data c = c\<lparr>bc_user := data\<rparr>"

definition clearUser :: "BatAuditBrowserClient \<Rightarrow> BatAuditBrowserClient" where
  "clearUser c = c\<lparr>bc_user := anonymous\<rparr>"

definition browserRequestId :: "string \<Rightarrow> string" where
  "browserRequestId uuid = ''bat-'' @ uuid"

definition buildEvent :: "BatAuditBrowserClient \<Rightarrow> PartialEvent \<Rightarrow> BrowserEvent" where
  "buildEvent c p =
     \<lparr>pe_method = pe_method p, pe_path = pe_path p, pe_status_code = pe_status_code p,
      pe_response_time = pe_response_time p, pe_user_agent = pe_user_agent p,
      pe_request_id = pe_request_id p, pe_timestamp = pe_timestamp p,
      be_identifier = ud_identifier (bc_user c),
      be_user_email = ud_userEmail (bc_user c),
      be_user_name = ud_userName (bc_user c),
      be_user_roles = ud_userRoles (bc_user c),
      be_user_type = ud_userType (bc_user c),
      be_tenant_id = ud_tenantId (bc_user c),
      be_service_name = b_serviceName (bc_config c),
      be_environment = bc_environment c,
      be_source = ''browser''\<rparr>"

definition browser_event_json :: "BrowserEvent \<Rightarrow> json" where
  "browser_event_json e = obj_of
     [(''method'', Some (JStr (pe_method e))), (''path'', Some (JStr (pe_path e))),
      (''status_code'', map_option (\<lambda>n. JNum (of_nat n)) (pe_status_code e)),
      (''response_time'', map_option (\<lambda>t. JNum (of_int t)) (pe_response_time e)),
      (''user_agent'', jstr (pe_user_agent e)), (''request_id'', jstr (pe_request_id e)),
      (''timestamp'', Some (JStr (pe_timestamp e))),
      (''identifier'', Some (JStr (be_identifier e))),
      (''user_email'', jstr (be_user_email e)), (''user_name'', jstr (be_user_name e)),
      (''user_roles'', map_option (\<lambda>l. JArr (map JStr l)) (be_user_roles e)),
      (''user_type'', jstr (be_user_type e)), (''tenant_id'', jstr (be_tenant_id e)),
      (''service_name'', Some (JStr (be_service_name e))),
      (''environment'', jstr (be_environment e)), (''source'', Some (JStr (be_source e)))]"

definition BROWSER_RETRY_DELAYS_MS :: "nat list" where
  "BROWSER_RETRY_DELAYS_MS = [100, 200, 400]"

function browser_sendWithRetry :: "request \<Rightarrow> (nat \<Rightarrow> js_error + response) \<Rightarrow> nat \<Rightarrow> effect list" where
  "browser_sendWithRetry req net attempt =
     Post req #
     (case net attempt of
        Inr res \<Rightarrow>
          if \<not> res_ok res \<and> attempt < length BROWSER_RETRY_DELAYS_MS
          then Sleep (BROWSER_RETRY_DELAYS_MS ! attempt) # browser_sendWithRetry req net (attempt + 1)
          else []
      | Inl _ \<Rightarrow>
          if attempt < length BROWSER_RETRY_DELAYS_MS
          then Sleep (BROWSER_RETRY_DELAYS_MS ! attempt) # browser_sendWithRetry req net (attempt + 1)
          else [])"
  by pat_completeness auto
termination
  by (relation "measure (\<lambda>(_, _, n). length BROWSER_RETRY_DELAYS_MS - n)") auto

declare browser_sendWithRetry.simps [simp del]

definition browser_send :: "BrowserEvent \<Rightarrow> BatAuditBrowserClient \<Rightarrow> BatAuditBrowserClient" where
  "browser_send event c =
     c\<lparr>bc_sends := send_start (audit_request (b_writerUrl (bc_config c)) (b_apiKey (bc_config c))
                                (browser_event_json event)) (bc_sends c)\<rparr>"

definition browser_flush :: "BatAuditBrowserClient \<Rightarrow> nat list" where
  "browser_flush c = flush_snapshot (bc_sends c)"

record URL =
  url_origin :: string
  url_pathname :: string

type_synonym url_parser = "string \<Rightarrow> URL option"

definition extractPath :: "url_parser \<Rightarrow> string \<Rightarrow> string" where
  "extractPath parseURL url =
     (case parseURL url of
        Some u \<Rightarrow> url_pathname u
      | None \<Rightarrow> hd (split_on (CHR ''#'') (hd (split_on (CHR ''?'') url))))"

section \<open>The fetch interceptor\<close>

text \<open>\<open>HeadersInit\<close>. A \<open>Headers\<close> object keeps its names in lower case.\<close>

type_synonym headers = "(string \<times> string) list"

datatype headers_init = HeadersObject headers | HeadersRecord headers | HeadersPairs headers

definition headers_get :: "string \<Rightarrow> headers \<Rightarrow> string option" where
  "headers_get k hs = map_of hs (toLowerCase k)"

fun headers_append :: "string \<times> string \<Rightarrow> headers \<Rightarrow> headers" where
  "headers_append (k, v) [] = [(toLowerCase k, v)]"
| "headers_append (k, v) ((k', v') # r) =
     (if toLowerCase k = k' then (k', v' @ '', '' @ v) # r else (k', v') # headers_append (k, v) r)"

fun headers_set :: "string \<Rightarrow> string \<Rightarrow> headers \<Rightarrow> headers" where
  "headers_set k v [] = [(toLowerCase k, v)]"
| "headers_set k v ((k', v') # r) =
     (if toLowerCase k = k' then (k', v) # r else (k', v') # headers_set k v r)"

definition new_Headers :: "headers_init option \<Rightarrow> headers" where
  "new_Headers h =
     (case h of
        None \<Rightarrow> []
      | Some (HeadersObject hs) \<Rightarrow> hs
      | Some (HeadersRecord hs) \<Rightarrow> fold headers_append hs []
      | Some (HeadersPairs hs) \<Rightarrow> fold headers_append hs [])"

datatype fetch_input =
    InputString string
  | InputURL string                         \<comment> \<open>its \<open>href\<close>\<close>
  | InputRequest string string headers      \<comment> \<open>its \<open>url\<close>, \<open>method\<close> and headers\<close>

record 'r fetch_init =
  fi_method :: "string option"
  fi_headers :: "headers_init option"
  fi_rest :: "'r option"                     \<comment> \<open>body, signal and the other members\<close>

definition input_url :: "fetch_input \<Rightarrow> string" where
  "input_url input = (case input of InputString s \<Rightarrow> s | InputURL h \<Rightarrow> h | InputRequest u _ _ \<Rightarrow> u)"

definition existing_id :: "headers_init option \<Rightarrow> string option" where
  "existing_id h =
     (case h of
        Some (HeadersObject hs) \<Rightarrow> headers_get ''X-Request-ID'' hs
      | Some (HeadersRecord hs) \<Rightarrow> map_of hs ''X-Request-ID''
      | Some (HeadersPairs hs) \<Rightarrow> None
      | None \<Rightarrow> None)"

text \<open>What one call of the patched \<open>fetch\<close> remembers until its \<open>finally\<close> block.\<close>

record fetch_call =
  fc_method :: string
  fc_url :: string
  fc_requestId :: string
  fc_startTime :: int

text \<open>The call up to \<open>originalFetch\<close>: the arguments it passes on, and what to record afterwards
  (nothing for a request to the Writer).\<close>

definition fetch_begin ::
  "string \<Rightarrow> string \<Rightarrow> int \<Rightarrow> fetch_input \<Rightarrow> 'r fetch_init option
   \<Rightarrow> fetch_input \<times> 'r fetch_init option \<times> fetch_call option" where
  "fetch_begin writerOrigin uuid now input init =
     (let url = input_url input
      in if startsWith url writerOrigin then (input, init, None)
         else (let h = Option.bind init fi_headers;
                   requestId = nullish (existing_id h) (browserRequestId uuid);
                   method = toUpperCase (nullish (Option.bind init fi_method)
                              (case input of InputRequest _ m _ \<Rightarrow> m | _ \<Rightarrow> ''GET''));
                   headers = headers_set ''X-Request-ID'' requestId (new_Headers h);
                   init' = \<lparr>fi_method = Option.bind init fi_method, fi_headers = Some (HeadersObject headers),
                            fi_rest = Option.bind init fi_rest\<rparr>
               in (input, Some init',
                   Some \<lparr>fc_method = method, fc_url = url, fc_requestId = requestId, fc_startTime = now\<rparr>)))"

definition fetch_event ::
  "url_parser \<Rightarrow> string option \<Rightarrow> int \<Rightarrow> int \<Rightarrow> fetch_call \<Rightarrow> js_error + response \<Rightarrow> PartialEvent" where
  "fetch_event parseURL agent now now2 fc outcome =
     (let statusCode = (case outcome of Inr r \<Rightarrow> res_status r | Inl _ \<Rightarrow> 0)
      in \<lparr>pe_method = fc_method fc, pe_path = extractPath parseURL (fc_url fc),
          pe_status_code = (if statusCode = 0 then None else Some statusCode),
          pe_response_time = Some (now - fc_startTime fc), pe_user_agent = agent,
          pe_request_id = Some (fc_requestId fc), pe_timestamp = toISOString now2\<rparr>)"

text \<open>The rest, with the client as it is when \<open>originalFetch\<close> settles with \<open>outcome\<close>.\<close>

definition fetch_end ::
  "url_parser \<Rightarrow> string option \<Rightarrow> int \<Rightarrow> int \<Rightarrow> fetch_call option \<Rightarrow> js_error + response
   \<Rightarrow> BatAuditBrowserClient \<Rightarrow> (js_error + response) \<times> BatAuditBrowserClient" where
  "fetch_end parseURL agent now now2 call outcome c =
     (case call of
        None \<Rightarrow> (outcome, c)
      | Some fc \<Rightarrow> (outcome, browser_send (buildEvent c (fetch_event parseURL agent now now2 fc outcome)) c))"

section \<open>The XMLHttpRequest interceptor\<close>

record xhr =
  bat_method :: "string option"
  bat_url :: "string option"
  bat_skip :: "bool option"
  bat_request_id :: "string option"
  bat_start_time :: "int option"
  xhr_opened :: "(string \<times> string) option"   \<comment> \<open>arguments of the original \<open>open\<close>\<close>
  xhr_headers :: headers                       \<comment> \<open>names as given to \<open>setRequestHeader\<close>\<close>
  xhr_listeners :: nat                         \<comment> \<open>\<open>loadend\<close> listeners the SDK has added\<close>
  xhr_sent :: nat                              \<comment> \<open>calls of the original \<open>send\<close>\<close>

definition new_xhr :: xhr where
  "new_xhr = \<lparr>bat_method = None, bat_url = None, bat_skip = None, bat_request_id = None,
              bat_start_time = None, xhr_opened = None, xhr_headers = [], xhr_listeners = 0, xhr_sent = 0\<rparr>"

text \<open>\<open>open\<close>; the original one forgets the headers of an earlier request.\<close>

definition xhr_open :: "string \<Rightarrow> string \<Rightarrow> string \<Rightarrow> xhr \<Rightarrow> xhr" where
  "xhr_open writerOrigin method url x =
     x\<lparr>bat_method := Some (toUpperCase method), bat_url := Some url,
       bat_skip := Some (startsWith url writerOrigin),
       xhr_opened := Some (method, url), xhr_headers := []\<rparr>"

text \<open>\<open>send\<close>; without an \<open>open\<close> both \<open>setRequestHeader\<close> and the original \<open>send\<close> throw.\<close>

definition xhr_send :: "string \<Rightarrow> int \<Rightarrow> xhr \<Rightarrow> (js_error + unit) \<times> xhr" where
  "xhr_send uuid now x =
     (if nullish (bat_skip x) False then (Inr (), x\<lparr>xhr_sent := xhr_sent x + 1\<rparr>)
      else (let requestId = browserRequestId uuid;
                x1 = x\<lparr>bat_request_id := Some requestId, bat_start_time := Some now\<rparr>
            in if xhr_opened x1 = None then (Inl (Error ''InvalidStateError''), x1)
               else (Inr (), x1\<lparr>xhr_headers := xhr_headers x1 @ [(''X-Request-ID'', requestId)],
                                xhr_listeners := xhr_listeners x1 + 1,
                                xhr_sent := xhr_sent x1 + 1\<rparr>)))"

definition xhr_event :: "url_parser \<Rightarrow> string option \<Rightarrow> nat \<Rightarrow> int \<Rightarrow> int \<Rightarrow> xhr \<Rightarrow> PartialEvent" where
  "xhr_event parseURL agent status now now2 x =
     \<lparr>pe_method = nullish (bat_method x) ''GET'',
      pe_path = extractPath parseURL (nullish (bat_url x) []),
      pe_status_code = (if status = 0 then None else Some status),
      pe_response_time = Some (now - nullish (bat_start_time x) now),
      pe_user_agent = agent,
      pe_request_id = bat_request_id x,
      pe_timestamp = toISOString now2\<rparr>"

text \<open>\<open>loadend\<close> runs every listener that was added.\<close>

definition xhr_loadend ::
  "url_parser \<Rightarrow> string option \<Rightarrow> nat \<Rightarrow> int \<Rightarrow> int \<Rightarrow> xhr \<Rightarrow> BatAuditBrowserClient \<Rightarrow> BatAuditBrowserClient" where
  "xhr_loadend parseURL agent status now now2 x c =
     ((\<lambda>c. browser_send (buildEvent c (xhr_event parseURL agent status now now2 x)) c) ^^ xhr_listeners x) c"

section \<open>Installing and removing\<close>

text \<open>The globals the SDK replaces; a patched function remembers its client and what it wraps.\<close>

datatype impl = Native | Patched nat impl

record globals =
  g_fetch :: impl
  g_open :: impl
  g_send :: impl

definition patchFetch :: "url_parser \<Rightarrow> BatAuditBrowserClient \<Rightarrow> nat \<Rightarrow> globals \<Rightarrow> js_error + globals \<times> (globals \<Rightarrow> globals)" where
  "patchFetch parseURL c i g =
     (case parseURL (b_writerUrl (bc_config c)) of
        None \<Rightarrow> Inl TypeError
      | Some _ \<Rightarrow> let originalFetch = g_fetch g
                  in Inr (g\<lparr>g_fetch := Patched i originalFetch\<rparr>, \<lambda>h. h\<lparr>g_fetch := originalFetch\<rparr>))"

definition patchXHR :: "url_parser \<Rightarrow> BatAuditBrowserClient \<Rightarrow> nat \<Rightarrow> globals \<Rightarrow> js_error + globals \<times> (globals \<Rightarrow> globals)" where
  "patchXHR parseURL c i g =
     (case parseURL (b_writerUrl (bc_config c)) of
        None \<Rightarrow> Inl TypeError
      | Some _ \<Rightarrow> let originalOpen = g_open g; originalSend = g_send g
                  in Inr (g\<lparr>g_open := Patched i originalOpen, g_send := Patched i originalSend\<rparr>,
                          \<lambda>h. h\<lparr>g_open := originalOpen, g_send := originalSend\<rparr>))"

definition browser_init ::
  "url_parser \<Rightarrow> nat \<Rightarrow> BatAuditBrowserConfig \<Rightarrow> globals
   \<Rightarrow> js_error + BatAuditBrowserClient \<times> globals \<times> (globals \<Rightarrow> globals)" where
  "browser_init parseURL i config g =
     (let client = new_BatAuditBrowserClient config
      in case patchFetch parseURL client i g of
           Inl e \<Rightarrow> Inl e
         | Inr (g1, unpatchFetch) \<Rightarrow>
             (case patchXHR parseURL client i g1 of
                Inl e \<Rightarrow> Inl e
              | Inr (g2, unpatchXHR) \<Rightarrow> Inr (client, g2, \<lambda>h. unpatchXHR (unpatchFetch h))))"

section \<open>Facts\<close>

lemma browser_sendWithRetry_unfold:
  "browser_sendWithRetry req net n =
     Post req # (if delivered (net n) \<or> length BROWSER_RETRY_DELAYS_MS \<le> n then []
                 else Sleep (BROWSER_RETRY_DELAYS_MS ! n) # browser_sendWithRetry req net (Suc n))"
  by (subst browser_sendWithRetry.simps) (simp add: delivered_def split: sum.split)

interpretation browser_retry: retry_loop BROWSER_RETRY_DELAYS_MS browser_sendWithRetry
  by unfold_locales (rule browser_sendWithRetry_unfold)

lemma browser_send_posts:
  "effects (bc_sends (browser_send ev c)) = effects (bc_sends c)
     @ [(next_id (bc_sends c), Post (audit_request (b_writerUrl (bc_config c)) (b_apiKey (bc_config c))
                                                   (browser_event_json ev)))]"
  by (simp add: browser_send_def send_start_def)

lemma headers_set_get: "headers_get k (headers_set k v hs) = Some v"
  by (induction k v hs rule: headers_set.induct) (auto simp: headers_get_def)

lemma headers_set_other: "toLowerCase k' \<noteq> toLowerCase k \<Longrightarrow> headers_get k' (headers_set k v hs) = headers_get k' hs"
  by (induction k v hs rule: headers_set.induct) (auto simp: headers_get_def)

lemma id_header_name: "toLowerCase ''X-Request-ID'' = ''x-request-id''"
  by code_simp

lemma sendWithRetry_same: "browser_sendWithRetry req net n = sendWithRetry req net n"
proof (induction req net n rule: sendWithRetry.induct)
  case (1 req net n)
  then have "n < length RETRY_DELAYS_MS \<Longrightarrow> \<not> delivered (net n)
      \<Longrightarrow> browser_sendWithRetry req net (Suc n) = sendWithRetry req net (Suc n)"
    by (cases "net n") (auto simp: delivered_def)
  then show ?case
    by (simp add: browser_sendWithRetry_unfold [of req net n] sendWithRetry_unfold [of req net n]
        BROWSER_RETRY_DELAYS_MS_def RETRY_DELAYS_MS_def)
qed

section \<open>Properties\<close>

text \<open>The browser client retries exactly as the Node client does, for every network.\<close>

lemma browser_retry_as_node: "browser_sendWithRetry req net n = sendWithRetry req net n"
  by (rule sendWithRetry_same)


definition sample_parser :: url_parser where
  "sample_parser s = (if startsWith s ''http://w'' then Some \<lparr>url_origin = ''http://w'', url_pathname = drop 8 s\<rparr> else None)"

definition sample_bconfig :: BatAuditBrowserConfig where
  "sample_bconfig = \<lparr>b_apiKey = ''key'', b_serviceName = ''spa'', b_writerUrl = ''http://w'', b_environment = None\<rparr>"


text \<open>The SDK does not audit its own posts exactly when the Writer URL as configured begins
  with the origin the platform reads from it: otherwise (a configured host in upper case, whose
  origin is in lower case) each audit post is audited again.\<close>

lemma own_posts_skipped_iff:
  "snd (snd (fetch_begin writerOrigin uuid t0
      (InputString (req_url (audit_request (b_writerUrl config) (b_apiKey config) ev))) init)) = None
   \<longleftrightarrow> prefix writerOrigin (b_writerUrl config @ ''/v1/audit'')"
  by (simp add: fetch_begin_def input_url_def audit_request_def startsWith_def Let_def)

lemma buildEvent_cong:
  "bc_user c = bc_user d \<Longrightarrow> bc_config c = bc_config d \<Longrightarrow> bc_environment c = bc_environment d
   \<Longrightarrow> buildEvent c = buildEvent d"
  by (simp add: buildEvent_def fun_eq_iff)

lemma xhr_loadend_effects:
  "\<exists>posts. effects (bc_sends (xhr_loadend parseURL agent st t1 t2 x c)) = effects (bc_sends c) @ posts
     \<and> map snd posts = replicate (xhr_listeners x) (Post (audit_request (b_writerUrl (bc_config c)) (b_apiKey (bc_config c))
          (browser_event_json (buildEvent c (xhr_event parseURL agent st t1 t2 x)))))"
proof -
  let ?f = "\<lambda>c. browser_send (buildEvent c (xhr_event parseURL agent st t1 t2 x)) c"
  let ?P = "Post (audit_request (b_writerUrl (bc_config c)) (b_apiKey (bc_config c))
          (browser_event_json (buildEvent c (xhr_event parseURL agent st t1 t2 x))))"
  have keep: "bc_config ((?f ^^ n) c) = bc_config c" "bc_user ((?f ^^ n) c) = bc_user c"
    "bc_environment ((?f ^^ n) c) = bc_environment c" for n
    by (induction n) (simp_all add: browser_send_def)
  have "\<exists>posts. effects (bc_sends ((?f ^^ n) c)) = effects (bc_sends c) @ posts
      \<and> map snd posts = replicate n ?P" for n
  proof (induction n)
    case (Suc n)
    then obtain posts where p: "effects (bc_sends ((?f ^^ n) c)) = effects (bc_sends c) @ posts"
      "map snd posts = replicate n ?P" by blast
    have same: "buildEvent ((?f ^^ n) c) = buildEvent c"
      by (intro buildEvent_cong keep)
    then have "effects (bc_sends ((?f ^^ Suc n) c)) = effects (bc_sends c) @ posts @ [(next_id (bc_sends ((?f ^^ n) c)), ?P)]"
      by (simp add: browser_send_posts p keep)
    with p(2) show ?case
      by (intro exI [of _ "posts @ [(next_id (bc_sends ((?f ^^ n) c)), ?P)]"]) (simp add: replicate_append_same)
  qed simp
  then show ?thesis by (simp add: xhr_loadend_def)
qed

text \<open>Uses of one object: \<open>open\<close> and \<open>send\<close> for each of the URLs.\<close>

definition xhr_use :: "string \<Rightarrow> string \<Rightarrow> string \<Rightarrow> int \<Rightarrow> string \<Rightarrow> xhr \<Rightarrow> xhr" where
  "xhr_use writerOrigin uuid method now url x = snd (xhr_send uuid now (xhr_open writerOrigin method url x))"

lemma xhr_use_listeners:
  "xhr_listeners (xhr_use o1 uuid m now url x) = xhr_listeners x + (if startsWith url o1 then 0 else 1)"
  by (simp add: xhr_use_def xhr_send_def xhr_open_def Let_def)

lemma xhr_uses_listeners:
  "xhr_listeners (fold (xhr_use o1 uuid m now) urls x) = xhr_listeners x + length (filter (\<lambda>u. \<not> startsWith u o1) urls)"
  by (induction urls arbitrary: x) (simp_all add: xhr_use_listeners)


text \<open>\<open>unpatch\<close> undoes \<open>init\<close>: whatever else the page did to the other globals, \<open>fetch\<close>, \<open>open\<close>
  and \<open>send\<close> are again what they were before; and \<open>init\<close> on a Writer URL that does not parse
  throws and patches nothing.\<close>

lemma init_unpatch:
  "case browser_init parseURL i config g of
     Inl e \<Rightarrow> parseURL (b_writerUrl config) = None \<and> e = TypeError
   | Inr (c, g', unpatch) \<Rightarrow>
       parseURL (b_writerUrl config) \<noteq> None \<and> unpatch g' = g \<and> c = new_BatAuditBrowserClient config
       \<and> g_fetch g' = Patched i (g_fetch g) \<and> g_open g' = Patched i (g_open g) \<and> g_send g' = Patched i (g_send g)
       \<and> unpatch (unpatch h) = unpatch h"
  by (simp add: browser_init_def patchFetch_def patchXHR_def Let_def new_BatAuditBrowserClient_def split: option.split)

text \<open>User context over any sequence of logins and logouts.\<close>

datatype user_op = SetUser BatAuditUserData | ClearUser

fun user_step :: "BatAuditBrowserClient \<Rightarrow> user_op \<Rightarrow> BatAuditBrowserClient" where
  "user_step c (SetUser d) = setUser d c"
| "user_step c ClearUser = clearUser c"

lemma user_step_frame: "bc_config (run user_step c ops) = bc_config c" "bc_environment (run user_step c ops) = bc_environment c"
proof -
  have "bc_config (user_step c op) = bc_config c \<and> bc_environment (user_step c op) = bc_environment c" for c op
    by (cases op) (simp_all add: setUser_def clearUser_def)
  then show "bc_config (run user_step c ops) = bc_config c" "bc_environment (run user_step c ops) = bc_environment c"
    by (induction ops arbitrary: c) simp_all
qed

text \<open>Events are attributed to the user of the last \<open>setUser\<close> that no \<open>clearUser\<close> followed, and
  to \<open>anonymous\<close> with no other user field after a \<open>clearUser\<close> or before any login; service and
  environment (by default \<open>prod\<close>) come from the configuration.\<close>

lemma event_attribution:
  "(let e = buildEvent (run user_step (new_BatAuditBrowserClient config) ops) p;
        u = (case rev ops of SetUser d # _ \<Rightarrow> d | _ \<Rightarrow> anonymous)
    in be_identifier e = ud_identifier u \<and> be_user_email e = ud_userEmail u \<and> be_user_name e = ud_userName u
     \<and> be_user_roles e = ud_userRoles u \<and> be_user_type e = ud_userType u \<and> be_tenant_id e = ud_tenantId u
     \<and> be_service_name e = b_serviceName config
     \<and> be_environment e = (case b_environment config of None \<Rightarrow> Some ''prod'' | Some v \<Rightarrow> v)
     \<and> be_source e = ''browser'' \<and> pe_method e = pe_method p \<and> pe_path e = pe_path p)"
proof -
  have "bc_user (run user_step (new_BatAuditBrowserClient config) ops)
      = (case rev ops of SetUser d # _ \<Rightarrow> d | _ \<Rightarrow> anonymous)"
    by (cases ops rule: rev_cases)
      (auto simp: new_BatAuditBrowserClient_def setUser_def clearUser_def split: user_op.split)
  then show ?thesis
    by (simp add: buildEvent_def user_step_frame Let_def)
      (simp add: new_BatAuditBrowserClient_def nullish_def)
qed

end
