(* ===== verification/Auth.thy ===== *)
theory Auth
  imports Http
begin

text \<open>
  The session of the dashboard (\<open>frontend/src/lib\<close>): the stored token and user, the expiry test,
  \<open>fetchWithAuth\<close>, the theme, and the route guard of \<open>routes/app/_layout.tsx\<close>. \<open>atob\<close> is the
  platform's forgiving base64 decoder.
\<close>

section \<open>Base64\<close>

definition b64_val :: "char \<Rightarrow> nat option" where
  "b64_val c =
     (if is_upper c then Some (code c - 65)
      else if is_lower c then Some (code c - 71)
      else if is_digit c then Some (code c + 4)
      else if c = CHR ''+'' then Some 62
      else if c = CHR ''/'' then Some 63
      else None)"

fun b64_bytes :: "nat list \<Rightarrow> nat list" where
  "b64_bytes (a # b # c # d # r) =
     (a * 4 + b div 16) # (b mod 16 * 16 + c div 4) # (c mod 4 * 64 + d) # b64_bytes r"
| "b64_bytes [a, b, c] = [a * 4 + b div 16, b mod 16 * 16 + c div 4]"
| "b64_bytes [a, b] = [a * 4 + b div 16]"
| "b64_bytes [a] = []"
| "b64_bytes [] = []"

definition strip_padding :: "string \<Rightarrow> string" where
  "strip_padding s =
     (if length s mod 4 = 0
      then (if 2 \<le> length s \<and> last s = CHR ''='' \<and> last (butlast s) = CHR ''='' then butlast (butlast s)
            else if s \<noteq> [] \<and> last s = CHR ''='' then butlast s else s)
      else s)"

definition atob :: "string \<Rightarrow> string option" where
  "atob s =
     (let t = strip_padding (filter (\<lambda>c. \<not> (code c = 32 \<or> code c = 9 \<or> code c = 10 \<or> code c = 12 \<or> code c = 13)) s)
      in if length t mod 4 = 1 then None
         else map_option (\<lambda>vs. concat (map utf8 (b64_bytes vs))) (all_some (map b64_val t)))"

section \<open>lib/auth\<close>

definition TOKEN_KEY :: string where
  "TOKEN_KEY = ''bataudit_token''"

definition USER_KEY :: string where
  "USER_KEY = ''bataudit_user''"

record StoredUser =
  su_id :: string
  su_name :: string
  su_email :: string
  su_role :: string

definition user_json :: "StoredUser \<Rightarrow> json" where
  "user_json u = JObj [(''id'', JStr (su_id u)), (''name'', JStr (su_name u)),
                       (''email'', JStr (su_email u)), (''role'', JStr (su_role u))]"

definition getToken :: "storage \<Rightarrow> string option" where
  "getToken m = getItem m TOKEN_KEY"

definition setAuth :: "string \<Rightarrow> json \<Rightarrow> storage \<Rightarrow> storage" where
  "setAuth token user m = setItem USER_KEY (stringify user) (setItem TOKEN_KEY token m)"

definition clearAuth :: "storage \<Rightarrow> storage" where
  "clearAuth m = removeItem USER_KEY (removeItem TOKEN_KEY m)"

text \<open>\<open>null\<close> is \<open>JNull\<close>.\<close>

definition getUser :: "storage \<Rightarrow> json" where
  "getUser m =
     (case getItem m USER_KEY of
        None \<Rightarrow> JNull
      | Some raw \<Rightarrow> if raw = [] then JNull else (case json_parse raw of Inr v \<Rightarrow> v | Inl _ \<Rightarrow> JNull))"

text \<open>\<open>token.split('.')[1]\<close>, which \<open>atob\<close> turns into text when it is \<open>undefined\<close>.\<close>

definition token_payload :: "string \<Rightarrow> string" where
  "token_payload token = (case split_on (CHR ''.'') token of _ # p # _ \<Rightarrow> p | _ \<Rightarrow> ''undefined'')"

text \<open>A comparison with NaN is false.\<close>

definition isTokenExpired :: "int \<Rightarrow> storage \<Rightarrow> bool" where
  "isTokenExpired now m =
     (case getToken m of
        None \<Rightarrow> True
      | Some token \<Rightarrow>
          if token = [] then True
          else (case atob (token_payload token) of
                  None \<Rightarrow> True
                | Some txt \<Rightarrow>
                    (case json_parse txt of
                       Inl _ \<Rightarrow> True
                     | Inr payload \<Rightarrow>
                         (case jprop payload ''exp'' of
                            Inl _ \<Rightarrow> True
                          | Inr e \<Rightarrow> (case jnumber e of None \<Rightarrow> False | Some n \<Rightarrow> n * 1000 < of_int now)))))"

definition isAuthenticated :: "int \<Rightarrow> storage \<Rightarrow> bool \<times> storage" where
  "isAuthenticated now m =
     (if \<not> truthy (getToken m) then (False, m)
      else if isTokenExpired now m then (False, clearAuth m)
      else (True, m))"

definition bearer :: "string option \<Rightarrow> (string \<times> string) list" where
  "bearer token = (case token of Some t \<Rightarrow> if t = [] then [] else [(''Authorization'', ''Bearer '' @ t)] | None \<Rightarrow> [])"

definition authHeader :: "storage \<Rightarrow> (string \<times> string) list" where
  "authHeader m = bearer (getToken m)"

section \<open>lib/api\<close>

record request_init =
  ri_method :: "string option"
  ri_headers :: "(string \<times> string) list"
  ri_body :: "string option"

definition no_init :: request_init where
  "no_init = \<lparr>ri_method = None, ri_headers = [], ri_body = None\<rparr>"

definition hdr_spread :: "(string \<times> string) list \<Rightarrow> (string \<times> string) list \<Rightarrow> (string \<times> string) list" where
  "hdr_spread a b = assoc_spread a b"

definition init_request :: "string \<Rightarrow> request_init \<Rightarrow> (string \<times> string) list \<Rightarrow> request" where
  "init_request url init hs =
     \<lparr>req_url = url, req_method = nullish (ri_method init) ''GET'', req_headers = hs, req_body = ri_body init\<rparr>"

definition plain_fetch :: "server \<Rightarrow> string \<Rightarrow> request_init \<Rightarrow> response io" where
  "plain_fetch srv url init = js_fetch srv (init_request url init (ri_headers init))"

definition fetchWithAuth :: "server \<Rightarrow> string \<Rightarrow> request_init \<Rightarrow> response io" where
  "fetchWithAuth srv url init = (\<lambda>w.
     let token = getToken (b_store w)
     in io_bind (js_fetch srv (init_request url init (hdr_spread (bearer token) (ri_headers init))))
          (\<lambda>res w1. if res_status res = 401
                     then (Inl (Error ''Unauthorized''),
                           w1\<lparr>b_store := clearAuth (b_store w1), b_href := Some ''/login''\<rparr>)
                     else (Inr res, w1)) w)"

section \<open>lib/theme\<close>

definition THEME_KEY :: string where
  "THEME_KEY = ''bataudit-theme''"

text \<open>The root element's classes and the storage.\<close>

record page =
  classes :: "string list"
  pg_store :: storage

definition getStoredTheme :: "page \<Rightarrow> string" where
  "getStoredTheme p = nullish (getItem (pg_store p) THEME_KEY) ''dark''"

definition class_add :: "string \<Rightarrow> string list \<Rightarrow> string list" where
  "class_add c cs = (if c \<in> set cs then cs else cs @ [c])"

definition applyTheme :: "string \<Rightarrow> page \<Rightarrow> page" where
  "applyTheme theme p =
     \<lparr>classes = class_add theme (filter (\<lambda>c. c \<noteq> ''dark'' \<and> c \<noteq> ''light'') (classes p)),
      pg_store = setItem THEME_KEY theme (pg_store p)\<rparr>"

definition toggleTheme :: "page \<Rightarrow> string \<times> page" where
  "toggleTheme p =
     (let next = (if getStoredTheme p = ''dark'' then ''light'' else ''dark'') in (next, applyTheme next p))"

text \<open>\<open>main.tsx\<close> before the first render, and the state of the \<open>ThemeToggle\<close> button.\<close>

definition sync_theme :: "page \<Rightarrow> page" where
  "sync_theme p = p\<lparr>classes := class_add (nullish (getItem (pg_store p) THEME_KEY) ''dark'') (classes p)\<rparr>"

definition toggle_mount :: "page \<Rightarrow> string" where
  "toggle_mount p = getStoredTheme p"

definition handleToggle :: "string \<times> page \<Rightarrow> string \<times> page" where
  "handleToggle tp = (case tp of (theme, p) \<Rightarrow> toggleTheme p)"

definition toggle_icon :: "string \<Rightarrow> string" where
  "toggle_icon theme = (if theme = ''dark'' then ''Sun'' else ''Moon'')"

section \<open>Guard of the application routes\<close>

text \<open>\<open>Inl path\<close> is a thrown redirect.\<close>

definition layout_beforeLoad :: "int \<Rightarrow> browser \<Rightarrow> (string + unit) \<times> browser" where
  "layout_beforeLoad now w =
     (let (ok, m) = isAuthenticated now (b_store w); w1 = w\<lparr>b_store := m\<rparr>
      in if \<not> ok then (Inl ''/login'', w1) else (Inr (), w1))"

section \<open>Base64 is decoded back\<close>

definition b64_char :: "nat \<Rightarrow> char" where
  "b64_char n =
     (if n < 26 then char_of (n + 65) else if n < 52 then char_of (n + 71)
      else if n < 62 then char_of (n - 4) else if n = 62 then CHR ''+'' else CHR ''/'')"

fun sixes :: "nat list \<Rightarrow> nat list" where
  "sixes (a # b # c # r) = a div 4 # (a mod 4 * 16 + b div 16) # (b mod 16 * 4 + c div 64) # c mod 64 # sixes r"
| "sixes [a, b] = [a div 4, a mod 4 * 16 + b div 16, b mod 16 * 4]"
| "sixes [a] = [a div 4, a mod 4 * 16]"
| "sixes [] = []"

text \<open>Base64 without padding, the form of a token segment.\<close>

definition b64_encode :: "string \<Rightarrow> string" where
  "b64_encode s = map b64_char (sixes (map code s))"

lemma b64_val_char: "n < 64 \<Longrightarrow> b64_val (b64_char n) = Some n"
  by (auto simp: b64_val_def b64_char_def is_upper_def is_lower_def is_digit_def)

lemma b64_char_code: "n < 64 \<Longrightarrow> code (b64_char n) \<notin> {9, 10, 12, 13, 32, 46, 61}"
  by (auto simp: b64_char_def)

lemma sixes_less: "list_all (\<lambda>n. n < 256) bs \<Longrightarrow> list_all (\<lambda>n. n < 64) (sixes bs)"
  by (induction bs rule: sixes.induct) auto

lemma sixes_length: "length (sixes bs) mod 4 \<noteq> 1"
  by (induction bs rule: sixes.induct) auto

lemma digits_join:
  "y < k \<Longrightarrow> (x * k + y) div k = (x :: nat)" "y < k \<Longrightarrow> (x * k + y) mod k = (y :: nat)"
  by simp_all

lemma byte_parts:
  fixes b c :: nat
  shows "b < 256 \<Longrightarrow> b div 16 < 16" "c < 256 \<Longrightarrow> c div 64 < 4"
  by simp_all

lemma b64_bytes_sixes: "list_all (\<lambda>n. n < 256) bs \<Longrightarrow> b64_bytes (sixes bs) = bs"
proof (induction bs rule: sixes.induct)
  case (1 a b c r)
  then have "b div 16 < 16" "c div 64 < 4" by (simp_all add: byte_parts)
  with 1 show ?case by (simp add: digits_join div_mult_mod_eq del: div_less_iff_less_mult)
next
  case (2 a b)
  then have "b div 16 < 16" by (simp add: byte_parts)
  then show ?case by (simp add: digits_join div_mult_mod_eq)
qed simp_all

lemma b64_encode_codes: "c \<in> set (b64_encode s) \<Longrightarrow> code c \<notin> {9, 10, 12, 13, 32, 46, 61}"
proof -
  have "list_all (\<lambda>n. n < 64) (sixes (map code s))"
    by (rule sixes_less) (simp add: list.pred_set)
  then show "c \<in> set (b64_encode s) \<Longrightarrow> code c \<notin> {9, 10, 12, 13, 32, 46, 61}"
    by (auto simp: b64_encode_def list.pred_set dest: b64_char_code)
qed

lemma strip_padding_id: "CHR ''='' \<notin> set s \<Longrightarrow> strip_padding s = s"
  by (auto simp: strip_padding_def dest: last_in_set)

lemma utf8_ascii: "list_all (\<lambda>c. code c < 128) s \<Longrightarrow> concat (map utf8 (map code s)) = s"
  by (induction s) (auto simp: utf8_def)

theorem atob_encode:
  assumes "list_all (\<lambda>c. code c < 128) s"
  shows "atob (b64_encode s) = Some s"
proof -
  let ?e = "b64_encode s"
  have "filter (\<lambda>c. \<not> (code c = 32 \<or> code c = 9 \<or> code c = 10 \<or> code c = 12 \<or> code c = 13)) ?e = ?e"
    by (rule filter_True) (use b64_encode_codes [of _ s] in fastforce)
  moreover have "CHR ''='' \<notin> set ?e" using b64_encode_codes [of "CHR ''=''" s] by auto
  moreover have l: "list_all (\<lambda>n. n < 256) (map code s)" by (simp add: list.pred_set)
  moreover have "all_some (map b64_val ?e) = Some (map id (sixes (map code s)))"
    unfolding b64_encode_def map_map
    by (rule all_some_map) (use sixes_less [OF l] in \<open>auto simp: list.pred_set b64_val_char\<close>)
  moreover have "length ?e mod 4 \<noteq> 1" using sixes_length [of "map code s"] by (simp add: b64_encode_def)
  ultimately show ?thesis
    using utf8_ascii [OF assms] by (simp add: atob_def strip_padding_id b64_bytes_sixes)
qed

lemma all_some_None: "None \<in> set xs \<Longrightarrow> all_some xs = None"
proof (induction xs)
  case (Cons x xs)
  then show ?case by (cases x) auto
qed simp

lemma atob_bad_char:
  assumes "c \<in> set s" "b64_val c = None" "c \<noteq> CHR ''=''" "\<not> is_space c"
  shows "atob s = None"
proof -
  let ?f = "filter (\<lambda>c. \<not> (code c = 32 \<or> code c = 9 \<or> code c = 10 \<or> code c = 12 \<or> code c = 13)) s"
  have f: "c \<in> set ?f" using assms(1,4) by (auto simp: is_space_def)
  have bl: "c \<in> set u \<Longrightarrow> last u = CHR ''='' \<Longrightarrow> c \<in> set (butlast u)" for u
    using assms(3) by (metis append_butlast_last_id butlast.simps(1) in_set_butlast_appendI set_ConsD append_Nil in_set_conv_decomp_first rotate1.simps(2) set_rotate1)
  then have "c \<in> set (strip_padding ?f)" using f by (auto simp: strip_padding_def)
  then have "None \<in> set (map b64_val (strip_padding ?f))" using assms(2) by force
  then show ?thesis unfolding atob_def Let_def by (simp add: all_some_None)
qed

section \<open>Facts\<close>

lemma keys_distinct [simp]: "TOKEN_KEY \<noteq> USER_KEY" "USER_KEY \<noteq> TOKEN_KEY" "THEME_KEY \<noteq> TOKEN_KEY" "THEME_KEY \<noteq> USER_KEY"
  by (simp_all add: TOKEN_KEY_def USER_KEY_def THEME_KEY_def)

lemma stringify_nonempty: "wf_json v \<Longrightarrow> stringify v \<noteq> []"
  using stringify_head [of v] by auto

lemma token_payload_segments:
  "CHR ''.'' \<notin> set h \<Longrightarrow> CHR ''.'' \<notin> set p \<Longrightarrow> token_payload (h @ ''.'' @ p @ ''.'' @ sg) = p"
  by (simp add: token_payload_def split_on_append)

lemma b64_encode_no_dot: "CHR ''.'' \<notin> set (b64_encode s)"
  using b64_encode_codes [of "CHR ''.''" s] by auto

lemma io_bind_fetch:
  "io_bind (js_fetch srv req) k w =
     (case srv (b_sent w) req of
        Inl e \<Rightarrow> (Inl e, w\<lparr>b_sent := b_sent w @ [req]\<rparr>)
      | Inr res \<Rightarrow> k res (w\<lparr>b_sent := b_sent w @ [req]\<rparr>))"
  by (simp add: io_bind_def js_fetch_def split: sum.split)

lemma hdr_spread_map: "distinct (map fst b) \<Longrightarrow> map_of (hdr_spread a b) = map_of a ++ map_of b"
  by (simp add: hdr_spread_def assoc_spread_map)

section \<open>Properties\<close>

text \<open>Logging in and out: after \<open>setAuth\<close> the token and the user read back are the ones
  stored, after \<open>clearAuth\<close> there is neither, and no other key of the storage is touched.\<close>

lemma session_storage:
  assumes "wf_json user"
  shows "getToken (setAuth token user m) = Some token \<and> getUser (setAuth token user m) = user
    \<and> getToken (clearAuth m) = None \<and> getUser (clearAuth m) = JNull
    \<and> clearAuth (setAuth token user m) = clearAuth m
    \<and> getItem (setAuth token user m) THEME_KEY = getItem m THEME_KEY
    \<and> getItem (clearAuth m) THEME_KEY = getItem m THEME_KEY"
  using parse_stringify [OF assms] stringify_nonempty [OF assms]
  by (auto simp: getToken_def getUser_def setAuth_def clearAuth_def store_simps)
    (auto simp: removeItem_def setItem_def fun_eq_iff)

lemma expiry_of_payload:
  assumes "getToken m = Some (h @ ''.'' @ b64_encode (stringify (JObj kvs)) @ ''.'' @ sg)" "CHR ''.'' \<notin> set h"
    and "wf_json (JObj kvs)" "list_all (\<lambda>c. code c < 128) (stringify (JObj kvs))" "map_of kvs ''exp'' = Some (JNum n)"
  shows "isTokenExpired now m \<longleftrightarrow> n * 1000 < of_int now"
  using assms parse_stringify [OF assms(3)] atob_encode [OF assms(4)]
    token_payload_segments [OF assms(2) b64_encode_no_dot [of "stringify (JObj kvs)"], of sg]
  by (simp add: isTokenExpired_def jnumber_def del: stringify.simps)

lemma isTokenExpired_cong: "getToken m = getToken m' \<Longrightarrow> isTokenExpired now m = isTokenExpired now m'"
  by (simp add: isTokenExpired_def)

definition sample_token :: string where
  "sample_token = ''h.'' @ b64_encode (stringify (JObj [(''exp'', JNum 5)])) @ ''.s''"

lemma sample_token_get:
  "getToken [TOKEN_KEY \<mapsto> sample_token] = Some (''h'' @ ''.'' @ b64_encode (stringify (JObj [(''exp'', JNum 5)])) @ ''.'' @ ''s'')"
  by (simp add: getToken_def getItem_def sample_token_def)

lemma sample_token_ascii: "list_all (\<lambda>c. code c < 128) (stringify (JObj [(''exp'', JNum 5)]))"
  by (simp add: quote_json_def quote_char_def number_to_string_def show_int_def show_nat_simps)

lemma sample_token_valid: "\<not> isTokenExpired 5000 [TOKEN_KEY \<mapsto> sample_token]"
  using expiry_of_payload [OF sample_token_get _ _ sample_token_ascii, where n = 5] by simp

text \<open>C16. Expiry: for a stored token whose payload segment is the base64 form of a JSON object with
  a numeric \<open>exp\<close> (in seconds), the token counts as expired exactly when that instant is past.\<close>

theorem token_expiry:
  assumes "getToken m = Some (h @ ''.'' @ b64_encode (stringify (JObj kvs)) @ ''.'' @ sg)" "CHR ''.'' \<notin> set h"
    and "wf_json (JObj kvs)" "list_all (\<lambda>c. code c < 128) (stringify (JObj kvs))" "map_of kvs ''exp'' = Some (JNum n)"
  shows "isTokenExpired now m \<longleftrightarrow> n * 1000 < of_int now"
  using assms by (rule expiry_of_payload)

theorem token_expiry_witness:
  "isTokenExpired 5001 [TOKEN_KEY \<mapsto> sample_token] \<and> \<not> isTokenExpired 5000 [TOKEN_KEY \<mapsto> sample_token]"
  using token_expiry [OF sample_token_get _ _ sample_token_ascii, where n = 5] by simp

text \<open>C18. A token in the standard JWT alphabet fails that test: when its payload segment holds a
  \<open>-\<close> or \<open>_\<close>, \<open>atob\<close> throws, and \<open>isAuthenticated\<close> logs the user out whatever the expiry says.\<close>

theorem base64url_logs_out:
  assumes "getToken m = Some token" "token \<noteq> []" "c \<in> set (token_payload token)" "c = CHR ''-'' \<or> c = CHR ''_''"
  shows "isAuthenticated now m = (False, clearAuth m)"
proof -
  have "atob (token_payload token) = None"
    using assms(3,4) by (intro atob_bad_char [of c])
      (auto simp: b64_val_def is_upper_def is_lower_def is_digit_def is_space_def)
  with assms(1,2) show ?thesis by (simp add: isAuthenticated_def isTokenExpired_def)
qed

theorem base64url_logs_out_witness:
  "isAuthenticated 0 [TOKEN_KEY \<mapsto> ''h.a-b_.s''] = (False, clearAuth [TOKEN_KEY \<mapsto> ''h.a-b_.s''])"
  by (rule base64url_logs_out [where c = "CHR ''-''" and token = "''h.a-b_.s''"])
    (simp_all add: getToken_def getItem_def token_payload_def)



text \<open>The guard of the application routes lets a visitor in exactly when a non-empty token is
  stored that has not expired, and then changes nothing; otherwise it redirects to the login page
  and no token is left, while the other keys of the storage stay.\<close>

lemma layout_guard:
  "layout_beforeLoad now w =
     (if truthy (getToken (b_store w)) \<and> \<not> isTokenExpired now (b_store w) then (Inr (), w)
      else (Inl ''/login'', w\<lparr>b_store := if truthy (getToken (b_store w)) then clearAuth (b_store w) else b_store w\<rparr>))
   \<and> (fst (layout_beforeLoad now w) = Inl ''/login'' \<longleftrightarrow> \<not> truthy (getToken (b_store (snd (layout_beforeLoad now w)))))"
  by (auto simp: layout_beforeLoad_def isAuthenticated_def Let_def getToken_def clearAuth_def store_simps)

text \<open>Theme: the page, as the toggle keeps it.\<close>

definition theme_ok :: "string \<times> page \<Rightarrow> bool" where
  "theme_ok tp = (case tp of (t, p) \<Rightarrow>
     t \<in> {''dark'', ''light''} \<and> t = getStoredTheme p
     \<and> filter (\<lambda>c. c \<in> {''dark'', ''light''}) (classes p) = [t])"

lemma theme_ok_toggle: "theme_ok tp \<Longrightarrow> theme_ok (handleToggle tp)"
  by (cases tp) (auto simp: theme_ok_def handleToggle_def toggleTheme_def applyTheme_def getStoredTheme_def
      class_add_def store_simps Let_def filter_empty_conv)

interpretation theme: inv_machine "\<lambda>tp (_ :: unit). handleToggle tp" theme_ok
  by unfold_locales (rule theme_ok_toggle)

text \<open>From a page that carries no theme class and whose stored theme is dark, light or absent,
  after the start-up code and any number of clicks on the toggle exactly one theme class is set, it
  is the stored theme and the one the button shows; two clicks restore the theme.\<close>

lemma theme_consistent:
  assumes "filter (\<lambda>c. c \<in> {''dark'', ''light''}) (classes p) = []"
    and "getItem (pg_store p) THEME_KEY \<in> {None, Some ''dark'', Some ''light''}"
  shows "case run (\<lambda>tp (_ :: unit). handleToggle tp) (toggle_mount (sync_theme p), sync_theme p) clicks of
    (t, q) \<Rightarrow> filter (\<lambda>c. c \<in> {''dark'', ''light''}) (classes q) = [t] \<and> getStoredTheme q = t
      \<and> fst (handleToggle (handleToggle (t, q))) = t"
proof -
  have "theme_ok (toggle_mount (sync_theme p), sync_theme p)"
  proof -
    have "''dark'' \<notin> set (classes p)" "''light'' \<notin> set (classes p)"
      using assms(1) by (auto simp: filter_empty_conv)
    moreover obtain t where "t = ''dark'' \<or> t = ''light''" "nullish (getItem (pg_store p) THEME_KEY) ''dark'' = t"
      using assms(2) by fastforce
    ultimately show ?thesis
      using assms(1) by (elim disjE)
        (simp_all add: theme_ok_def toggle_mount_def sync_theme_def getStoredTheme_def class_add_def)
  qed
  then have "theme_ok (run (\<lambda>tp (_ :: unit). handleToggle tp) (toggle_mount (sync_theme p), sync_theme p) clicks)"
    by (rule theme.inv_run)
  moreover have "theme_ok (t, q) \<Longrightarrow> fst (handleToggle (handleToggle (t, q))) = t" for t q
    by (auto simp: theme_ok_def handleToggle_def toggleTheme_def applyTheme_def getStoredTheme_def store_simps Let_def)
  ultimately show ?thesis by (auto simp: theme_ok_def simp del: run_simps split: prod.splits)
qed

end
