(* ===== verification/Api_Clients.thy ===== *)
theory Api_Clients
  imports Auth
begin

text \<open>
  The clients of the Reader API (\<open>frontend/src/http\<close>), one definition per function, in the order
  of the files. A call is a computation on the browser (\<^emph>\<open>Http\<close>) whose result is the JSON value
  the server sent, unchecked, as in the code; \<open>base\<close> stands for \<open>VITE_API_URL ?? ''\<close>. Optional
  string arguments that are \<open>undefined\<close> or \<open>null\<close> are \<open>None\<close>.
\<close>

section \<open>Shared shapes\<close>

definition json_or :: "string \<Rightarrow> response \<Rightarrow> json io" where
  "json_or m res = io_bind (require_ok m res) (\<lambda>_. io_lift (res_json res))"

text \<open>\<open>data.data ?? []\<close> and \<open>json.data\<close>, where \<open>undefined\<close> is \<open>JNull\<close>.\<close>

definition data_or_empty :: "json \<Rightarrow> json io" where
  "data_or_empty v = io_lift (case jprop v ''data'' of Inl e \<Rightarrow> Inl e | Inr d \<Rightarrow> Inr (jnullish d (JArr [])))"

definition data_of :: "json \<Rightarrow> json io" where
  "data_of v = io_lift (case jprop v ''data'' of Inl e \<Rightarrow> Inl e | Inr d \<Rightarrow> Inr (nullish d JNull))"

text \<open>\<open>throw new Error(err.error ?? m)\<close>.\<close>

definition throw_server_error :: "string \<Rightarrow> json \<Rightarrow> 'a io" where
  "throw_server_error m err =
     (case jprop err ''error'' of
        Inl e \<Rightarrow> io_throw e
      | Inr d \<Rightarrow> io_throw (Error (jstring (jnullish d (JStr m)))))"

definition json_init :: "string \<Rightarrow> json \<Rightarrow> request_init" where
  "json_init m body = \<lparr>ri_method = Some m, ri_headers = json_header, ri_body = Some (stringify body)\<rparr>"

definition method_init :: "string \<Rightarrow> request_init" where
  "method_init m = \<lparr>ri_method = Some m, ri_headers = [], ri_body = None\<rparr>"

definition auth_json :: "server \<Rightarrow> string \<Rightarrow> request_init \<Rightarrow> string \<Rightarrow> json io" where
  "auth_json srv url init m = io_bind (fetchWithAuth srv url init) (json_or m)"

definition auth_unit :: "server \<Rightarrow> string \<Rightarrow> request_init \<Rightarrow> string \<Rightarrow> unit io" where
  "auth_unit srv url init m = io_bind (fetchWithAuth srv url init) (require_ok m)"

definition auth_list :: "server \<Rightarrow> string \<Rightarrow> request_init \<Rightarrow> string \<Rightarrow> json io" where
  "auth_list srv url init m = io_bind (auth_json srv url init m) data_or_empty"

text \<open>\<open>projectId ? `?project_id=${encodeURIComponent(projectId)}` : ''\<close>.\<close>

definition project_query :: "string option \<Rightarrow> string" where
  "project_query p = (case p of Some s \<Rightarrow> if s = [] then [] else ''?project_id='' @ encodeURIComponent s | None \<Rightarrow> [])"

section \<open>http/auth, http/invites, http/users\<close>

definition login :: "server \<Rightarrow> string \<Rightarrow> string \<Rightarrow> string \<Rightarrow> json io" where
  "login srv base email password =
     io_bind (plain_fetch srv (base @ ''/v1/auth/login'')
                (json_init ''POST'' (JObj [(''email'', JStr email), (''password'', JStr password)])))
       (json_or ''Invalid credentials'')"

definition logout :: "server \<Rightarrow> string \<Rightarrow> unit io" where
  "logout srv base = auth_unit srv (base @ ''/v1/auth/logout'') (method_init ''POST'') ''Failed to logout''"

definition listInvites :: "server \<Rightarrow> string \<Rightarrow> json io" where
  "listInvites srv base =
     io_bind (auth_json srv (base @ ''/v1/auth/invites'') no_init ''Failed to list invites'') data_of"

definition createInvite :: "server \<Rightarrow> string \<Rightarrow> string \<Rightarrow> string \<Rightarrow> json io" where
  "createInvite srv base email role =
     auth_json srv (base @ ''/v1/auth/invites'')
       (json_init ''POST'' (JObj [(''email'', JStr email), (''role'', JStr role)])) ''Failed to create invite''"

definition revokeInvite :: "server \<Rightarrow> string \<Rightarrow> string \<Rightarrow> unit io" where
  "revokeInvite srv base i =
     auth_unit srv (base @ ''/v1/auth/invites/'' @ i) (method_init ''DELETE'') ''Failed to revoke invite''"

definition getInvitePreview :: "server \<Rightarrow> string \<Rightarrow> string \<Rightarrow> json io" where
  "getInvitePreview srv base token =
     io_bind (plain_fetch srv (base @ ''/v1/auth/invite/'' @ token) no_init) (json_or ''Invite not found or expired'')"

definition acceptInvite :: "server \<Rightarrow> string \<Rightarrow> string \<Rightarrow> string \<Rightarrow> string \<Rightarrow> unit io" where
  "acceptInvite srv base token name password =
     io_bind (plain_fetch srv (base @ ''/v1/auth/invite/'' @ token @ ''/accept'')
                (json_init ''POST'' (JObj [(''name'', JStr name), (''password'', JStr password)])))
       (\<lambda>res. if res_status res = 409 then io_throw (Error ''Email already in use'')
              else if res_status res = 410 then io_throw (Error ''Invite has expired'')
              else require_ok ''Failed to accept invite'' res)"

definition listUsers :: "server \<Rightarrow> string \<Rightarrow> json io" where
  "listUsers srv base =
     io_bind (auth_json srv (base @ ''/v1/auth/users'') no_init ''Failed to list users'') data_of"

record CreateUserPayload =
  cu_name :: string
  cu_email :: string
  cu_password :: string
  cu_role :: string

definition createUser :: "server \<Rightarrow> string \<Rightarrow> CreateUserPayload \<Rightarrow> json io" where
  "createUser srv base u =
     io_bind (fetchWithAuth srv (base @ ''/v1/auth/users'')
                (json_init ''POST'' (JObj [(''name'', JStr (cu_name u)), (''email'', JStr (cu_email u)),
                                           (''password'', JStr (cu_password u)), (''role'', JStr (cu_role u))])))
       (\<lambda>res. if res_status res = 409 then io_throw (Error ''Email already in use'')
              else json_or ''Failed to create user'' res)"

definition deleteUser :: "server \<Rightarrow> string \<Rightarrow> string \<Rightarrow> unit io" where
  "deleteUser srv base i =
     auth_unit srv (base @ ''/v1/auth/users/'' @ i) (method_init ''DELETE'') ''Failed to delete user''"

section \<open>http/projects, http/members, http/api-keys\<close>

definition listProjects :: "server \<Rightarrow> string \<Rightarrow> json io" where
  "listProjects srv base =
     auth_list srv (base @ ''/v1/auth/projects'') (no_init\<lparr>ri_headers := json_header\<rparr>) ''Failed to list projects''"

definition createProject :: "server \<Rightarrow> string \<Rightarrow> string \<Rightarrow> string \<Rightarrow> json io" where
  "createProject srv base name slug =
     io_bind (fetchWithAuth srv (base @ ''/v1/auth/projects'')
                (json_init ''POST'' (JObj [(''name'', JStr name), (''slug'', JStr slug)])))
       (\<lambda>res. if res_ok res then io_lift (res_json res)
              else io_bind (io_lift (res_json res)) (throw_server_error ''Failed to create project''))"

definition listMembers :: "server \<Rightarrow> string \<Rightarrow> string \<Rightarrow> json io" where
  "listMembers srv base projectId =
     auth_list srv (base @ ''/v1/auth/projects/'' @ projectId @ ''/members'') no_init ''Failed to list members''"

definition addMember :: "server \<Rightarrow> string \<Rightarrow> string \<Rightarrow> string \<Rightarrow> string \<Rightarrow> unit io" where
  "addMember srv base projectId email role =
     io_bind (fetchWithAuth srv (base @ ''/v1/auth/projects/'' @ projectId @ ''/members'')
                (json_init ''POST'' (JObj [(''email'', JStr email), (''role'', JStr role)])))
       (\<lambda>res. if res_ok res then io_return ()
              else io_bind (io_lift (res_json res)) (throw_server_error ''Failed to add member''))"

definition updateMemberRole :: "server \<Rightarrow> string \<Rightarrow> string \<Rightarrow> string \<Rightarrow> string \<Rightarrow> unit io" where
  "updateMemberRole srv base projectId userId role =
     auth_unit srv (base @ ''/v1/auth/projects/'' @ projectId @ ''/members/'' @ userId)
       (json_init ''PATCH'' (JObj [(''role'', JStr role)])) ''Failed to update member role''"

definition removeMember :: "server \<Rightarrow> string \<Rightarrow> string \<Rightarrow> string \<Rightarrow> unit io" where
  "removeMember srv base projectId userId =
     auth_unit srv (base @ ''/v1/auth/projects/'' @ projectId @ ''/members/'' @ userId)
       (method_init ''DELETE'') ''Failed to remove member''"

definition listAPIKeys :: "server \<Rightarrow> string \<Rightarrow> string \<Rightarrow> json io" where
  "listAPIKeys srv base projectId =
     auth_list srv (base @ ''/v1/auth/api-keys?project_id='' @ projectId) no_init ''Failed to list api keys''"

definition createAPIKey :: "server \<Rightarrow> string \<Rightarrow> string \<Rightarrow> string \<Rightarrow> json io" where
  "createAPIKey srv base projectId name =
     auth_json srv (base @ ''/v1/auth/api-keys'')
       (json_init ''POST'' (JObj [(''project_id'', JStr projectId), (''name'', JStr name)])) ''Failed to create api key''"

definition revokeAPIKey :: "server \<Rightarrow> string \<Rightarrow> string \<Rightarrow> unit io" where
  "revokeAPIKey srv base i =
     auth_unit srv (base @ ''/v1/auth/api-keys/'' @ i) (method_init ''DELETE'') ''Failed to revoke api key''"

section \<open>http/audit, http/tiering, http/health\<close>

text \<open>The argument object of \<open>ListAudit\<close>, by property name; \<open>page\<close> and \<open>limit\<close> are numbers, of which
  0 is falsy.\<close>

type_synonym props = "string \<Rightarrow> string option"

definition num_param :: "int \<Rightarrow> string option" where
  "num_param n = (if n = 0 then None else Some (show_int n))"

definition list_audit_params :: "props \<Rightarrow> (string \<times> string option) list" where
  "list_audit_params p =
     [(''page'', p ''page''), (''limit'', p ''limit''), (''project_id'', p ''projectId''),
      (''service_name'', p ''service_name''), (''method'', p ''method''), (''path'', p ''path''),
      (''status_code'', p ''status_code''), (''status_class'', p ''status_class''),
      (''environment'', p ''environment''), (''identifier'', p ''identifier''),
      (''start_date'', p ''start_date''), (''end_date'', p ''end_date''),
      (''sort_by'', p ''sort_by''), (''sort_order'', p ''sort_order''), (''event_type'', p ''event_type'')]"

definition ListAudit :: "server \<Rightarrow> string \<Rightarrow> props \<Rightarrow> json io" where
  "ListAudit srv base p =
     (let search = set_all (list_audit_params p) []
      in auth_json srv (base @ ''/v1/audit'' @ query_suffix search)
           \<lparr>ri_method = Some ''GET'', ri_headers = json_header, ri_body = None\<rparr> ''Failed to fetch audit events'')"

definition getAuditDetail :: "server \<Rightarrow> string \<Rightarrow> string \<Rightarrow> json io" where
  "getAuditDetail srv base i =
     auth_json srv (base @ ''/v1/audit/'' @ i) no_init ''Failed to fetch audit detail''"

definition getAuditStats :: "server \<Rightarrow> string \<Rightarrow> string option \<Rightarrow> string option \<Rightarrow> json io" where
  "getAuditStats srv base projectId environment =
     (let search = set_all [(''project_id'', projectId), (''environment'', environment)] []
      in auth_json srv (base @ ''/v1/audit/stats'' @ query_suffix search) no_init ''Failed to fetch stats'')"

record SessionFilters =
  sf_projectId :: "string option"
  sf_identifier :: "string option"
  sf_service_name :: "string option"
  sf_start_date :: "string option"
  sf_end_date :: "string option"
  sf_environment :: "string option"

definition getSessionByID :: "server \<Rightarrow> string \<Rightarrow> string \<Rightarrow> json io" where
  "getSessionByID srv base sessionID =
     auth_json srv (base @ ''/v1/audit/sessions/'' @ encodeURIComponent sessionID) no_init ''Session not found''"

definition getSessions :: "server \<Rightarrow> string \<Rightarrow> SessionFilters \<Rightarrow> json io" where
  "getSessions srv base f =
     (let search = set_all [(''project_id'', sf_projectId f), (''identifier'', sf_identifier f),
                            (''service_name'', sf_service_name f), (''start_date'', sf_start_date f),
                            (''end_date'', sf_end_date f), (''environment'', sf_environment f)] []
      in auth_list srv (base @ ''/v1/audit/sessions'' @ query_suffix search) no_init ''Failed to fetch sessions'')"

record OrphanFilters =
  of_projectId :: "string option"
  of_service_name :: "string option"
  of_start_date :: "string option"
  of_end_date :: "string option"
  of_environment :: "string option"

definition getOrphans :: "server \<Rightarrow> string \<Rightarrow> OrphanFilters \<Rightarrow> json io" where
  "getOrphans srv base f =
     (let search = set_all [(''project_id'', of_projectId f), (''service_name'', of_service_name f),
                            (''start_date'', of_start_date f), (''end_date'', of_end_date f),
                            (''environment'', of_environment f)] []
      in auth_json srv (base @ ''/v1/audit/orphans'' @ query_suffix search) no_init ''Failed to fetch orphan events'')"

definition getInsights :: "server \<Rightarrow> string \<Rightarrow> string option \<Rightarrow> string \<Rightarrow> string option \<Rightarrow> json io" where
  "getInsights srv base projectId period environment =
     (let search = set_if ''environment'' environment (params_set ''period'' period (set_if ''project_id'' projectId []))
      in auth_json srv (base @ ''/v1/audit/insights?'' @ params_str search) no_init ''Failed to fetch insights'')"

definition getAffectedUsers ::
  "server \<Rightarrow> string \<Rightarrow> string \<Rightarrow> string \<Rightarrow> string option \<Rightarrow> string option \<Rightarrow> string option \<Rightarrow> json io" where
  "getAffectedUsers srv base projectId path method start until =
     (let search = set_all [(''method'', method), (''start'', start), (''end'', until)]
                     [(''project_id'', projectId), (''path'', path)]
      in auth_json srv (base @ ''/v1/audit/affected-users?'' @ params_str search) no_init
           ''Failed to fetch affected users'')"

definition getAuditHistory ::
  "server \<Rightarrow> string \<Rightarrow> string \<Rightarrow> string option \<Rightarrow> string option \<Rightarrow> string option \<Rightarrow> json io" where
  "getAuditHistory srv base projectId startDate endDate environment =
     (let params = set_all [(''start_date'', startDate), (''end_date'', endDate), (''environment'', environment)]
                     [(''project_id'', projectId)]
      in auth_json srv (base @ ''/v1/audit/stats/history?'' @ params_str params) no_init ''Failed to fetch history'')"

definition getUsageStat :: "server \<Rightarrow> string \<Rightarrow> string \<Rightarrow> json io" where
  "getUsageStat srv base projectId =
     auth_json srv (base @ ''/v1/audit/stats/usage?project_id='' @ encodeURIComponent projectId) no_init
       ''Failed to fetch usage''"

definition getHealthDetails :: "server \<Rightarrow> string \<Rightarrow> json io" where
  "getHealthDetails srv base =
     io_bind (plain_fetch srv (base @ ''/health'') \<lparr>ri_method = Some ''GET'', ri_headers = json_header, ri_body = None\<rparr>)
       (json_or ''Failed to fetch health status'')"

section \<open>http/healthcheck\<close>

definition listMonitors :: "server \<Rightarrow> string \<Rightarrow> string option \<Rightarrow> json io" where
  "listMonitors srv base projectId =
     auth_list srv (base @ ''/v1/monitors'' @ project_query projectId) no_init ''Failed to fetch monitors''"

text \<open>Bodies are objects of the caller, printed as they are.\<close>

definition createMonitor :: "server \<Rightarrow> string \<Rightarrow> json \<Rightarrow> json io" where
  "createMonitor srv base body =
     io_bind (fetchWithAuth srv (base @ ''/v1/monitors'') (json_init ''POST'' body))
       (\<lambda>res. if res_ok res then io_lift (res_json res)
              else io_bind (io_catch (io_lift (res_json res)) (\<lambda>_. io_return (JObj [])))
                     (throw_server_error ''Failed to create monitor''))"

definition updateMonitor :: "server \<Rightarrow> string \<Rightarrow> string \<Rightarrow> json \<Rightarrow> json io" where
  "updateMonitor srv base i body =
     auth_json srv (base @ ''/v1/monitors/'' @ i) (json_init ''PUT'' body) ''Failed to update monitor''"

definition deleteMonitor :: "server \<Rightarrow> string \<Rightarrow> string \<Rightarrow> unit io" where
  "deleteMonitor srv base i =
     auth_unit srv (base @ ''/v1/monitors/'' @ i) (method_init ''DELETE'') ''Failed to delete monitor''"

definition testMonitor :: "server \<Rightarrow> string \<Rightarrow> string \<Rightarrow> json io" where
  "testMonitor srv base i =
     auth_json srv (base @ ''/v1/monitors/'' @ i @ ''/test'') (method_init ''POST'') ''Failed to test monitor''"

definition listMonitorHistory :: "server \<Rightarrow> string \<Rightarrow> string \<Rightarrow> int \<Rightarrow> json io" where
  "listMonitorHistory srv base i limit =
     auth_list srv (base @ ''/v1/monitors/'' @ i @ ''/history?limit='' @ show_int limit) no_init
       ''Failed to fetch monitor history''"

section \<open>http/notifications\<close>

definition getVapidPublicKey :: "server \<Rightarrow> string \<Rightarrow> json io" where
  "getVapidPublicKey srv base =
     io_bind (auth_json srv (base @ ''/v1/notifications/push/vapid-public-key'') no_init ''Failed to fetch VAPID key'')
       (\<lambda>d. io_lift (case jprop d ''public_key'' of Inl e \<Rightarrow> Inl e | Inr k \<Rightarrow> Inr (nullish k JNull)))"

definition subscribePush :: "server \<Rightarrow> string \<Rightarrow> string \<Rightarrow> json \<Rightarrow> json io" where
  "subscribePush srv base projectId subscription =
     auth_json srv (base @ ''/v1/notifications/push/subscribe'')
       (json_init ''POST'' (JObj [(''project_id'', JStr projectId), (''subscription'', subscription)])) ''Failed to subscribe''"

definition unsubscribePush :: "server \<Rightarrow> string \<Rightarrow> string \<Rightarrow> string \<Rightarrow> unit io" where
  "unsubscribePush srv base projectId channelId =
     auth_unit srv (base @ ''/v1/notifications/push/subscribe'')
       (json_init ''DELETE'' (JObj [(''project_id'', JStr projectId), (''channel_id'', JStr channelId)]))
       ''Failed to unsubscribe''"

definition listWebhooks :: "server \<Rightarrow> string \<Rightarrow> string \<Rightarrow> json io" where
  "listWebhooks srv base projectId =
     auth_json srv (base @ ''/v1/notifications/webhooks?project_id='' @ encodeURIComponent projectId) no_init
       ''Failed to list webhooks''"

definition createWebhook :: "server \<Rightarrow> string \<Rightarrow> string \<Rightarrow> string \<Rightarrow> string option \<Rightarrow> json io" where
  "createWebhook srv base projectId url secret =
     auth_json srv (base @ ''/v1/notifications/webhooks'')
       (json_init ''POST'' (obj_of [(''project_id'', Some (JStr projectId)), (''url'', Some (JStr url)), (''secret'', jstr secret)]))
       ''Failed to create webhook''"

definition deleteWebhook :: "server \<Rightarrow> string \<Rightarrow> string \<Rightarrow> string \<Rightarrow> unit io" where
  "deleteWebhook srv base projectId webhookId =
     auth_unit srv (base @ ''/v1/notifications/webhooks/'' @ webhookId @ ''?project_id='' @ encodeURIComponent projectId)
       (method_init ''DELETE'') ''Failed to delete webhook''"

definition testWebhook :: "server \<Rightarrow> string \<Rightarrow> string \<Rightarrow> string \<Rightarrow> json io" where
  "testWebhook srv base projectId webhookId =
     auth_json srv (base @ ''/v1/notifications/webhooks/'' @ webhookId @ ''/test?project_id='' @ encodeURIComponent projectId)
       (method_init ''POST'') ''Webhook test failed''"

definition listDeliveries :: "server \<Rightarrow> string \<Rightarrow> string \<Rightarrow> json io" where
  "listDeliveries srv base webhookId =
     auth_json srv (base @ ''/v1/notifications/webhooks/'' @ webhookId @ ''/deliveries'') no_init ''Failed to list deliveries''"

section \<open>Facts\<close>

lemma query_suffix_read:
  "query_suffix ps = [] \<and> ps = [] \<or> (\<exists>q. query_suffix ps = ''?'' @ q \<and> read_query q = Some ps)"
  using read_query_params_str [of ps] by (auto simp: query_suffix_def)

text \<open>Any computation that starts with an authenticated request is cut short by a 401.\<close>

lemma auth_401:
  assumes "srv (b_sent w) = (\<lambda>req. Inr \<lparr>res_status = 401, res_json = j\<rparr>)"
  shows "\<exists>req. io_bind (fetchWithAuth srv url init) k w =
    (Inl (Error ''Unauthorized''), w\<lparr>b_sent := b_sent w @ [req], b_store := clearAuth (b_store w), b_href := Some ''/login''\<rparr>)"
  by (auto simp: fetchWithAuth_def io_bind_def js_fetch_def assms Let_def intro!: exI)

definition logs_out :: "server \<Rightarrow> browser \<Rightarrow> 'a io \<Rightarrow> bool" where
  "logs_out srv w m \<longleftrightarrow> (\<exists>req. m w =
     (Inl (Error ''Unauthorized''), w\<lparr>b_sent := b_sent w @ [req], b_store := clearAuth (b_store w), b_href := Some ''/login''\<rparr>))"

lemma logs_out_bind: "logs_out srv w m \<Longrightarrow> logs_out srv w (io_bind m k)"
  by (auto simp: logs_out_def io_bind_def)

lemma logs_out_auth:
  assumes "srv (b_sent w) = (\<lambda>req. Inr \<lparr>res_status = 401, res_json = j\<rparr>)"
  shows "logs_out srv w (io_bind (fetchWithAuth srv url init) k)"
  unfolding logs_out_def using auth_401 [where srv = srv and w = w, OF assms] .

lemma logs_out_shapes:
  assumes "srv (b_sent w) = (\<lambda>req. Inr \<lparr>res_status = 401, res_json = j\<rparr>)"
  shows "logs_out srv w (auth_json srv url init m)" "logs_out srv w (auth_unit srv url init m)"
    "logs_out srv w (auth_list srv url init m)"
  by (simp_all add: auth_json_def auth_unit_def auth_list_def logs_out_auth [where srv = srv and w = w, OF assms] logs_out_bind)

lemma auth_json_sends:
  assumes "distinct (map fst (ri_headers init))"
  shows "\<exists>req. req_url req = url \<and> req_method req = nullish (ri_method init) ''GET''
    \<and> b_sent (snd (auth_json srv url init m w)) = b_sent w @ [req]"
  by (rule exI [of _ "init_request url init (hdr_spread (bearer (getToken (b_store w))) (ri_headers init))"])
    (auto simp: auth_json_def io_bind_def fetchWithAuth_def js_fetch_def init_request_def json_or_def require_ok_def
      io_return_def io_throw_def io_lift_def Let_def split: sum.split)

lemma list_audit_request:
  "\<exists>req q. b_sent (snd (ListAudit srv base p w)) = b_sent w @ [req] \<and> req_method req = ''GET''
    \<and> req_url req = base @ ''/v1/audit'' @ q
    \<and> (let sent = sent_params (list_audit_params p)
       in if sent = [] then q = [] else \<exists>r. q = ''?'' @ r \<and> read_query r = Some sent)"
proof -
  have d: "distinct (map fst (list_audit_params p))" by (simp add: list_audit_params_def)
  have s: "set_all (list_audit_params p) [] = sent_params (list_audit_params p)"
    using set_all_sent [OF d, of "[]"] by simp
  let ?i = "\<lparr>ri_method = Some ''GET'', ri_headers = json_header, ri_body = None\<rparr> :: request_init"
  obtain req where "req_url req = base @ ''/v1/audit'' @ query_suffix (sent_params (list_audit_params p))"
    "req_method req = ''GET''"
    "b_sent (snd (ListAudit srv base p w)) = b_sent w @ [req]"
    using auth_json_sends [of ?i "base @ ''/v1/audit'' @ query_suffix (sent_params (list_audit_params p))" srv
        "''Failed to fetch audit events''" w]
    by (auto simp: ListAudit_def s json_header_def)
  then show ?thesis
    using query_suffix_read [of "sent_params (list_audit_params p)"] by (auto simp: Let_def query_suffix_def)
qed

section \<open>Properties\<close>


text \<open>A session id cannot escape its path segment: the segment \<open>getSessionByID\<close> asks for holds
  none of \<open>/ ? # & =\<close> or a space, and decodes to the id.\<close>

lemma session_id_segment:
  "\<exists>req seg. b_sent (snd (getSessionByID srv base sid w)) = b_sent w @ [req]
    \<and> req_url req = base @ ''/v1/audit/sessions/'' @ seg
    \<and> set seg \<inter> set ''/?#&= '' = {} \<and> form_decode seg = Some sid"
proof -
  obtain req where "req_url req = base @ ''/v1/audit/sessions/'' @ encodeURIComponent sid"
    "b_sent (snd (getSessionByID srv base sid w)) = b_sent w @ [req]"
    using auth_json_sends [of no_init "base @ ''/v1/audit/sessions/'' @ encodeURIComponent sid" srv "''Session not found''" w]
    by (auto simp: getSessionByID_def no_init_def)
  moreover have "set (encodeURIComponent sid) \<inter> set ''/?#&= '' = {}"
    using component.enc_free [of _ sid] by (auto simp: query_reserved_def)
  ultimately show ?thesis using component.dec_enc [of sid] by blast
qed



text \<open>Accepting an invite distinguishes its failures: 409 is \<open>Email already in use\<close>, 410
  \<open>Invite has expired\<close>, any other answer outside 200 to 299 the general message, a network error
  is passed on, and in all cases storage and location are untouched: one POST with name and password
  is sent and nothing else happens.\<close>

lemma accept_invite_cases:
  "\<exists>req. req_method req = ''POST'' \<and> req_url req = base @ ''/v1/auth/invite/'' @ token @ ''/accept''
    \<and> Option.bind (req_body req) (\<lambda>b. Some (json_parse b)) = Some (Inr (JObj [(''name'', JStr name), (''password'', JStr password)]))
    \<and> acceptInvite srv base token name password w =
      ((case srv (b_sent w) req of
          Inl e \<Rightarrow> Inl e
        | Inr res \<Rightarrow>
            if res_status res = 409 then Inl (Error ''Email already in use'')
            else if res_status res = 410 then Inl (Error ''Invite has expired'')
            else if 200 \<le> res_status res \<and> res_status res < 300 then Inr ()
            else Inl (Error ''Failed to accept invite'')),
       w\<lparr>b_sent := b_sent w @ [req]\<rparr>)"
proof -
  let ?b = "JObj [(''name'', JStr name), (''password'', JStr password)]"
  let ?req = "init_request (base @ ''/v1/auth/invite/'' @ token @ ''/accept'') (json_init ''POST'' ?b) json_header"
  have p: "json_parse (stringify ?b) = Inr ?b" by (rule parse_stringify) simp
  show ?thesis
    by (rule exI [of _ ?req])
      (auto simp: acceptInvite_def plain_fetch_def init_request_def json_init_def p io_bind_def js_fetch_def
        io_throw_def require_ok_def io_return_def res_ok_def simp del: stringify.simps split: sum.split)
qed

end
