(* ===== verification/Queries.thy ===== *)
theory Queries
  imports Api_Clients Dates "HOL-Library.Extended_Nat"
begin

text \<open>
  The query hooks (\<open>frontend/src/queries\<close>) as the option objects they hand to TanStack Query: the
  cache key, the function that fetches, whether the query may run, its polling interval and stale
  time; and the mutations with the keys they invalidate. The library is not part of the repository;
  of its behaviour only the documented matching of keys by prefix is used (\<open>key_matches\<close>). A key
  entry that is \<open>undefined\<close> is \<open>None\<close>.
\<close>

type_synonym qkey = "json option list"

record query =
  q_key :: qkey
  q_fn :: "json io"
  q_enabled :: bool
  q_refetch :: "nat option"
  q_stale :: enat
  q_keep :: bool

record 'a mutation =
  m_fn :: "'a \<Rightarrow> json io"
  m_invalidates :: "qkey list"

definition mk_query :: "qkey \<Rightarrow> json io \<Rightarrow> query" where
  "mk_query k f = \<lparr>q_key = k, q_fn = f, q_enabled = True, q_refetch = None, q_stale = 0, q_keep = False\<rparr>"

definition io_unit :: "unit io \<Rightarrow> json io" where
  "io_unit m = io_bind m (\<lambda>_. io_return JNull)"

definition kstr :: "string \<Rightarrow> json option" where
  "kstr s = Some (JStr s)"

text \<open>A project or another selection that may be \<open>null\<close>: in a key, and in a template string.\<close>

definition knull :: "string option \<Rightarrow> json option" where
  "knull s = Some (case s of None \<Rightarrow> JNull | Some x \<Rightarrow> JStr x)"

definition text_of :: "string option \<Rightarrow> string" where
  "text_of s = nullish s ''null''"

definition key_matches :: "qkey \<Rightarrow> qkey \<Rightarrow> bool" where
  "key_matches pat k = prefix pat k"

section \<open>queries/api-keys, queries/auth, queries/health\<close>

definition useAPIKeys :: "server \<Rightarrow> string \<Rightarrow> string option \<Rightarrow> query" where
  "useAPIKeys srv base projectId =
     (mk_query [kstr ''api-keys'', knull projectId] (listAPIKeys srv base (text_of projectId)))\<lparr>q_enabled := truthy projectId\<rparr>"

definition useCreateAPIKey :: "server \<Rightarrow> string \<Rightarrow> string option \<Rightarrow> (string \<times> string) mutation" where
  "useCreateAPIKey srv base projectId =
     \<lparr>m_fn = (\<lambda>(pid, name). createAPIKey srv base pid name), m_invalidates = [[kstr ''api-keys'', knull projectId]]\<rparr>"

definition useRevokeAPIKey :: "server \<Rightarrow> string \<Rightarrow> string option \<Rightarrow> string mutation" where
  "useRevokeAPIKey srv base projectId =
     \<lparr>m_fn = (\<lambda>i. io_unit (revokeAPIKey srv base i)), m_invalidates = [[kstr ''api-keys'', knull projectId]]\<rparr>"

definition useLogout :: "server \<Rightarrow> string \<Rightarrow> unit mutation" where
  "useLogout srv base = \<lparr>m_fn = (\<lambda>_. io_unit (logout srv base)), m_invalidates = []\<rparr>"

definition useHealthDetails :: "server \<Rightarrow> string \<Rightarrow> query" where
  "useHealthDetails srv base = mk_query [kstr ''health''] (getHealthDetails srv base)"

section \<open>queries/audit\<close>

definition TIME_RANGE_MS :: "(string \<times> int) list" where
  "TIME_RANGE_MS =
     [(''5m'', 5 * 60 * 1000), (''15m'', 15 * 60 * 1000), (''30m'', 30 * 60 * 1000),
      (''1h'', 60 * 60 * 1000), (''3h'', 3 * 60 * 60 * 1000), (''6h'', 6 * 60 * 60 * 1000),
      (''12h'', 12 * 60 * 60 * 1000), (''24h'', 24 * 60 * 60 * 1000), (''3d'', 3 * 24 * 60 * 60 * 1000),
      (''7d'', 7 * 24 * 60 * 60 * 1000), (''30d'', 30 * 24 * 60 * 60 * 1000)]"

text \<open>A \<open>Record<string, string | undefined>\<close>.\<close>

type_synonym filters = "(string \<times> string option) list"

definition filter_val :: "filters \<Rightarrow> props" where
  "filter_val f k = (case map_of f k of Some v \<Rightarrow> v | None \<Rightarrow> None)"

definition filters_json :: "filters \<Rightarrow> json" where
  "filters_json f = obj_of (map (\<lambda>(k, v). (k, jstr v)) f)"

text \<open>\<open>resolved\<close>, as it is when \<open>ListAudit\<close> is called.\<close>

definition resolve_filters :: "int \<Rightarrow> filters \<Rightarrow> props" where
  "resolve_filters now f =
     (let resolved = filter_val f
      in case filter_val f ''time_range'' of
           None \<Rightarrow> resolved(''time_range'' := None)
         | Some r \<Rightarrow>
             if r \<noteq> [] \<and> r \<noteq> ''custom''
             then (case map_of TIME_RANGE_MS r of
                     Some ms \<Rightarrow> resolved(''start_date'' := Some (toISOString (now - ms)), ''end_date'' := None, ''time_range'' := None)
                   | None \<Rightarrow> resolved(''time_range'' := None))
             else resolved(''time_range'' := None))"

text \<open>\<open>{ page, limit, projectId, ...resolved }\<close>; the dashboard's filters name none of the first three.\<close>

definition audit_list_props :: "int \<Rightarrow> int \<Rightarrow> int \<Rightarrow> string option \<Rightarrow> filters \<Rightarrow> props" where
  "audit_list_props now page limit projectId f =
     (\<lambda>_. None)(''page'' := num_param page, ''limit'' := num_param limit, ''projectId'' := projectId)
       ++ resolve_filters now f"

definition useAuditList :: "server \<Rightarrow> string \<Rightarrow> int \<Rightarrow> int \<Rightarrow> int \<Rightarrow> string option \<Rightarrow> filters \<Rightarrow> query" where
  "useAuditList srv base now page limit projectId f =
     (mk_query [kstr ''audit'', Some (JNum (of_int page)), knull projectId, Some (filters_json f)]
        (ListAudit srv base (audit_list_props now page limit projectId f)))
     \<lparr>q_refetch := Some 60000, q_keep := True\<rparr>"

definition useAuditStats :: "server \<Rightarrow> string \<Rightarrow> string option \<Rightarrow> string option \<Rightarrow> query" where
  "useAuditStats srv base projectId environment =
     (mk_query [kstr ''audit-stats'', knull projectId, knull environment] (getAuditStats srv base projectId environment))
     \<lparr>q_refetch := Some 60000\<rparr>"

definition session_filters_json :: "SessionFilters \<Rightarrow> json" where
  "session_filters_json f = obj_of
     [(''projectId'', jstr (sf_projectId f)), (''identifier'', jstr (sf_identifier f)),
      (''service_name'', jstr (sf_service_name f)), (''start_date'', jstr (sf_start_date f)),
      (''end_date'', jstr (sf_end_date f)), (''environment'', jstr (sf_environment f))]"

definition useAuditSessions :: "server \<Rightarrow> string \<Rightarrow> SessionFilters \<Rightarrow> query" where
  "useAuditSessions srv base f = mk_query [kstr ''audit-sessions'', Some (session_filters_json f)] (getSessions srv base f)"

definition useAuditDetail :: "server \<Rightarrow> string \<Rightarrow> string option \<Rightarrow> query" where
  "useAuditDetail srv base i =
     (mk_query [kstr ''audit-detail'', knull i] (getAuditDetail srv base (text_of i)))\<lparr>q_enabled := truthy i\<rparr>"

text \<open>\<open>setMinutes(0, 0, 0)\<close> in a time zone \<open>off\<close> milliseconds ahead of UTC.\<close>

definition truncate_hour :: "int \<Rightarrow> int \<Rightarrow> int" where
  "truncate_hour off t = (t + off) div 3600000 * 3600000 - off"

definition alerts_since :: "int \<Rightarrow> int \<Rightarrow> int" where
  "alerts_since off now = truncate_hour off (now - 24 * 60 * 60 * 1000)"

definition useAnomalyAlerts :: "server \<Rightarrow> string \<Rightarrow> int \<Rightarrow> int \<Rightarrow> string option \<Rightarrow> string option \<Rightarrow> query" where
  "useAnomalyAlerts srv base off now projectId environment =
     (let since = toISOString (alerts_since off now)
      in (mk_query [kstr ''anomaly-alerts'', knull projectId, knull environment, kstr since]
            (ListAudit srv base ((\<lambda>_. None)(''event_type'' := Some ''system.alert'', ''projectId'' := projectId,
               ''environment'' := environment, ''start_date'' := Some since, ''limit'' := num_param 100))))
         \<lparr>q_refetch := Some 60000\<rparr>)"

definition orphan_filters_json :: "OrphanFilters \<Rightarrow> json" where
  "orphan_filters_json f = obj_of
     [(''projectId'', jstr (of_projectId f)), (''service_name'', jstr (of_service_name f)),
      (''start_date'', jstr (of_start_date f)), (''end_date'', jstr (of_end_date f)),
      (''environment'', jstr (of_environment f))]"

definition useOrphans :: "server \<Rightarrow> string \<Rightarrow> OrphanFilters \<Rightarrow> query" where
  "useOrphans srv base f =
     (mk_query [kstr ''audit-orphans'', Some (orphan_filters_json f)] (getOrphans srv base f))
     \<lparr>q_enabled := truthy (of_projectId f), q_refetch := Some 60000\<rparr>"

definition useInsights :: "server \<Rightarrow> string \<Rightarrow> string option \<Rightarrow> string \<Rightarrow> string option \<Rightarrow> query" where
  "useInsights srv base projectId period environment =
     (mk_query [kstr ''insights'', knull projectId, kstr period, knull environment]
        (getInsights srv base projectId period environment))\<lparr>q_stale := 300000\<rparr>"

definition useSessionByID :: "server \<Rightarrow> string \<Rightarrow> string option \<Rightarrow> query" where
  "useSessionByID srv base sid =
     (mk_query [kstr ''session-by-id'', knull sid] (getSessionByID srv base (text_of sid)))\<lparr>q_enabled := truthy sid\<rparr>"

definition useAnomalyRelatedEvents :: "server \<Rightarrow> string \<Rightarrow> filters \<Rightarrow> bool \<Rightarrow> query" where
  "useAnomalyRelatedEvents srv base params enabled =
     (mk_query [kstr ''anomaly-related'', Some (filters_json params)] (ListAudit srv base (filter_val params)))
     \<lparr>q_enabled := enabled \<and> truthy (filter_val params ''service_name'')\<rparr>"

definition useAffectedUsers ::
  "server \<Rightarrow> string \<Rightarrow> string option \<Rightarrow> string option \<Rightarrow> string option \<Rightarrow> string option \<Rightarrow> string option \<Rightarrow> query" where
  "useAffectedUsers srv base projectId path method start until =
     (mk_query [kstr ''affected-users'', knull projectId, knull path, knull method, jstr start, jstr until]
        (getAffectedUsers srv base (text_of projectId) (text_of path) method start until))
     \<lparr>q_enabled := truthy projectId \<and> truthy path\<rparr>"

record Session =
  s_identifier :: string
  s_service_name :: string
  s_session_start :: string
  s_session_end :: string
  s_duration_seconds :: rat
  s_event_count :: nat

text \<open>Without a session the query is disabled and its function throws.\<close>

definition useSessionTimeline :: "server \<Rightarrow> string \<Rightarrow> Session option \<Rightarrow> string option \<Rightarrow> query" where
  "useSessionTimeline srv base session projectId =
     (mk_query [kstr ''session-timeline'', jstr (map_option s_identifier session), jstr (map_option s_service_name session),
                jstr (map_option s_session_start session), knull projectId]
        (case session of
           None \<Rightarrow> io_throw TypeError
         | Some s \<Rightarrow> ListAudit srv base ((\<lambda>_. None)(''identifier'' := Some (s_identifier s),
             ''service_name'' := Some (s_service_name s), ''start_date'' := Some (s_session_start s),
             ''end_date'' := Some (s_session_end s), ''limit'' := num_param 500, ''projectId'' := projectId))))
     \<lparr>q_enabled := session \<noteq> None\<rparr>"

section \<open>queries/healthcheck\<close>

definition useMonitors :: "server \<Rightarrow> string \<Rightarrow> string option \<Rightarrow> query" where
  "useMonitors srv base projectId =
     (mk_query [kstr ''monitors'', kstr (nullish projectId ''all'')] (listMonitors srv base projectId))\<lparr>q_stale := 30000\<rparr>"

definition useCreateMonitor :: "server \<Rightarrow> string \<Rightarrow> string \<Rightarrow> json mutation" where
  "useCreateMonitor srv base projectId =
     \<lparr>m_fn = createMonitor srv base, m_invalidates = [[kstr ''monitors'', kstr projectId]]\<rparr>"

definition useUpdateMonitor :: "server \<Rightarrow> string \<Rightarrow> string \<Rightarrow> (string \<times> json) mutation" where
  "useUpdateMonitor srv base projectId =
     \<lparr>m_fn = (\<lambda>(i, body). updateMonitor srv base i body), m_invalidates = [[kstr ''monitors'', kstr projectId]]\<rparr>"

definition useDeleteMonitor :: "server \<Rightarrow> string \<Rightarrow> string \<Rightarrow> string mutation" where
  "useDeleteMonitor srv base projectId =
     \<lparr>m_fn = (\<lambda>i. io_unit (deleteMonitor srv base i)), m_invalidates = [[kstr ''monitors'', kstr projectId]]\<rparr>"

definition useTestMonitor :: "server \<Rightarrow> string \<Rightarrow> string mutation" where
  "useTestMonitor srv base = \<lparr>m_fn = testMonitor srv base, m_invalidates = []\<rparr>"

definition useMonitorHistory :: "server \<Rightarrow> string \<Rightarrow> string option \<Rightarrow> query" where
  "useMonitorHistory srv base i =
     (mk_query [kstr ''monitor-history'', knull i] (listMonitorHistory srv base (text_of i) 50))
     \<lparr>q_enabled := truthy i, q_stale := 10000\<rparr>"

section \<open>queries/invites, queries/members, queries/notifications\<close>

definition useInvites :: "server \<Rightarrow> string \<Rightarrow> query" where
  "useInvites srv base = mk_query [kstr ''invites''] (listInvites srv base)"

definition useCreateInvite :: "server \<Rightarrow> string \<Rightarrow> (string \<times> string) mutation" where
  "useCreateInvite srv base =
     \<lparr>m_fn = (\<lambda>(email, role). createInvite srv base email role), m_invalidates = [[kstr ''invites'']]\<rparr>"

definition useRevokeInvite :: "server \<Rightarrow> string \<Rightarrow> string mutation" where
  "useRevokeInvite srv base =
     \<lparr>m_fn = (\<lambda>i. io_unit (revokeInvite srv base i)), m_invalidates = [[kstr ''invites'']]\<rparr>"

definition useMembers :: "server \<Rightarrow> string \<Rightarrow> string option \<Rightarrow> query" where
  "useMembers srv base projectId =
     (mk_query [kstr ''members'', knull projectId] (listMembers srv base (text_of projectId)))\<lparr>q_enabled := truthy projectId\<rparr>"

definition useAddMember :: "server \<Rightarrow> string \<Rightarrow> string option \<Rightarrow> (string \<times> string) mutation" where
  "useAddMember srv base projectId =
     \<lparr>m_fn = (\<lambda>(email, role). io_unit (addMember srv base (text_of projectId) email role)),
      m_invalidates = [[kstr ''members'', knull projectId]]\<rparr>"

definition useUpdateMemberRole :: "server \<Rightarrow> string \<Rightarrow> string option \<Rightarrow> (string \<times> string) mutation" where
  "useUpdateMemberRole srv base projectId =
     \<lparr>m_fn = (\<lambda>(userId, role). io_unit (updateMemberRole srv base (text_of projectId) userId role)),
      m_invalidates = [[kstr ''members'', knull projectId]]\<rparr>"

definition useRemoveMember :: "server \<Rightarrow> string \<Rightarrow> string option \<Rightarrow> string mutation" where
  "useRemoveMember srv base projectId =
     \<lparr>m_fn = (\<lambda>userId. io_unit (removeMember srv base (text_of projectId) userId)),
      m_invalidates = [[kstr ''members'', knull projectId]]\<rparr>"

definition useVapidPublicKey :: "server \<Rightarrow> string \<Rightarrow> query" where
  "useVapidPublicKey srv base =
     (mk_query [kstr ''vapid-public-key''] (getVapidPublicKey srv base))\<lparr>q_stale := \<infinity>\<rparr>"

definition useSubscribePush :: "server \<Rightarrow> string \<Rightarrow> string \<Rightarrow> json mutation" where
  "useSubscribePush srv base projectId = \<lparr>m_fn = subscribePush srv base projectId, m_invalidates = []\<rparr>"

definition useUnsubscribePush :: "server \<Rightarrow> string \<Rightarrow> string \<Rightarrow> string mutation" where
  "useUnsubscribePush srv base projectId =
     \<lparr>m_fn = (\<lambda>channelId. io_unit (unsubscribePush srv base projectId channelId)), m_invalidates = []\<rparr>"

definition useWebhooks :: "server \<Rightarrow> string \<Rightarrow> string \<Rightarrow> query" where
  "useWebhooks srv base projectId =
     (mk_query [kstr ''webhooks'', kstr projectId] (listWebhooks srv base projectId))\<lparr>q_enabled := (projectId \<noteq> [])\<rparr>"

definition useCreateWebhook :: "server \<Rightarrow> string \<Rightarrow> string \<Rightarrow> (string \<times> string option) mutation" where
  "useCreateWebhook srv base projectId =
     \<lparr>m_fn = (\<lambda>(url, secret). createWebhook srv base projectId url secret),
      m_invalidates = [[kstr ''webhooks'', kstr projectId]]\<rparr>"

definition useDeleteWebhook :: "server \<Rightarrow> string \<Rightarrow> string \<Rightarrow> string mutation" where
  "useDeleteWebhook srv base projectId =
     \<lparr>m_fn = (\<lambda>i. io_unit (deleteWebhook srv base projectId i)), m_invalidates = [[kstr ''webhooks'', kstr projectId]]\<rparr>"

definition useTestWebhook :: "server \<Rightarrow> string \<Rightarrow> string \<Rightarrow> string mutation" where
  "useTestWebhook srv base projectId = \<lparr>m_fn = testWebhook srv base projectId, m_invalidates = []\<rparr>"

definition useDeliveries :: "server \<Rightarrow> string \<Rightarrow> string \<Rightarrow> query" where
  "useDeliveries srv base i =
     (mk_query [kstr ''deliveries'', kstr i] (listDeliveries srv base i))\<lparr>q_enabled := (i \<noteq> [])\<rparr>"

section \<open>queries/projects, queries/tiering, queries/users\<close>

definition useProjects :: "server \<Rightarrow> string \<Rightarrow> query" where
  "useProjects srv base = mk_query [kstr ''projects''] (listProjects srv base)"

definition useCreateProject :: "server \<Rightarrow> string \<Rightarrow> (string \<times> string) mutation" where
  "useCreateProject srv base =
     \<lparr>m_fn = (\<lambda>(name, slug). createProject srv base name slug), m_invalidates = [[kstr ''projects'']]\<rparr>"

definition useAuditHistory ::
  "server \<Rightarrow> string \<Rightarrow> string option \<Rightarrow> string option \<Rightarrow> string option \<Rightarrow> string option \<Rightarrow> query" where
  "useAuditHistory srv base projectId startDate endDate environment =
     (mk_query [kstr ''audit-history'', knull projectId, jstr startDate, jstr endDate, knull environment]
        (getAuditHistory srv base (text_of projectId) startDate endDate environment))
     \<lparr>q_enabled := truthy projectId, q_stale := 300000\<rparr>"

definition useUsageStat :: "server \<Rightarrow> string \<Rightarrow> string option \<Rightarrow> query" where
  "useUsageStat srv base projectId =
     (mk_query [kstr ''usage-stat'', knull projectId] (getUsageStat srv base (text_of projectId)))
     \<lparr>q_enabled := truthy projectId, q_stale := 300000\<rparr>"

definition useUsers :: "server \<Rightarrow> string \<Rightarrow> query" where
  "useUsers srv base = mk_query [kstr ''users''] (listUsers srv base)"

definition useCreateUser :: "server \<Rightarrow> string \<Rightarrow> CreateUserPayload mutation" where
  "useCreateUser srv base = \<lparr>m_fn = createUser srv base, m_invalidates = [[kstr ''users'']]\<rparr>"

definition useDeleteUser :: "server \<Rightarrow> string \<Rightarrow> string mutation" where
  "useDeleteUser srv base = \<lparr>m_fn = (\<lambda>i. io_unit (deleteUser srv base i)), m_invalidates = [[kstr ''users'']]\<rparr>"

section \<open>Properties\<close>

lemma toISOString_nonempty [simp]: "toISOString t \<noteq> []"
  by (simp add: toISOString_def Let_def)

lemma list_audit_keys: "distinct (map fst (list_audit_params p))"
  by (simp add: list_audit_params_def)

lemma list_audit_lookup:
  "map_of (list_audit_params p) ''start_date'' = Some (p ''start_date'')"
  "map_of (list_audit_params p) ''end_date'' = Some (p ''end_date'')"
  "map_of (list_audit_params p) ''time_range'' = None"
  "k \<in> {''service_name'', ''method'', ''path'', ''status_code'', ''status_class'', ''environment'', ''identifier'',
         ''sort_by'', ''sort_order'', ''event_type''} \<Longrightarrow> map_of (list_audit_params p) k = Some (p k)"
  by (auto simp: list_audit_params_def)

lemma resolve_relative:
  assumes "filter_val f ''time_range'' = Some r" "map_of TIME_RANGE_MS r = Some ms"
  shows "resolve_filters now f =
    (filter_val f)(''start_date'' := Some (toISOString (now - ms)), ''end_date'' := None, ''time_range'' := None)"
proof -
  have "r \<noteq> []" "r \<noteq> ''custom''" using assms(2) by (auto simp: TIME_RANGE_MS_def split: if_splits)
  with assms show ?thesis by (simp add: resolve_filters_def Let_def)
qed

definition dashboard_filter :: "string \<Rightarrow> bool" where
  "dashboard_filter k \<longleftrightarrow> k \<in> {''service_name'', ''method'', ''path'', ''status_code'', ''status_class'', ''environment'',
     ''identifier'', ''sort_by'', ''sort_order'', ''event_type''}"

lemma filter_names:
  "dashboard_filter k \<Longrightarrow> k \<noteq> ''page'' \<and> k \<noteq> ''limit'' \<and> k \<noteq> ''projectId'' \<and> k \<noteq> ''start_date'' \<and> k \<noteq> ''end_date'' \<and> k \<noteq> ''time_range''"
  by (auto simp: dashboard_filter_def)

lemma audit_list_props_simps:
  "dashboard_filter k \<Longrightarrow> audit_list_props now page limit pid f k = resolve_filters now f k"
  "audit_list_props now page limit pid f ''start_date'' = resolve_filters now f ''start_date''"
  "audit_list_props now page limit pid f ''end_date'' = resolve_filters now f ''end_date''"
  by (auto simp: audit_list_props_def map_add_def filter_names split: option.split)

lemma relative_request:
  assumes "filter_val f ''time_range'' = Some r" "map_of TIME_RANGE_MS r = Some ms"
  shows "\<exists>req q ps. b_sent (snd (q_fn (useAuditList srv base now page limit pid f) w)) = b_sent w @ [req]
    \<and> req_url req = base @ ''/v1/audit?'' @ q \<and> read_query q = Some ps
    \<and> map_of ps ''start_date'' = Some (toISOString (now - ms)) \<and> map_of ps ''end_date'' = None
    \<and> map_of ps ''time_range'' = None
    \<and> (\<forall>k. dashboard_filter k \<longrightarrow> map_of ps k = (if truthy (filter_val f k) then filter_val f k else None))"
proof -
  let ?p = "audit_list_props now page limit pid f"
  let ?ps = "sent_params (list_audit_params ?p)"
  note look = map_of_sent_params [OF list_audit_keys] list_audit_lookup audit_list_props_simps
    resolve_relative [OF assms]
  have start: "map_of ?ps ''start_date'' = Some (toISOString (now - ms))" by (simp add: look)
  then have ne: "?ps \<noteq> []" by auto
  have others: "map_of ?ps k = (if truthy (filter_val f k) then filter_val f k else None)" if k: "dashboard_filter k" for k
  proof -
    have "map_of (list_audit_params ?p) k = Some (filter_val f k)"
      using list_audit_lookup(4) [of k ?p] k filter_names [OF k] audit_list_props_simps(1) [OF k]
      by (simp add: resolve_relative [OF assms] dashboard_filter_def)
    then show ?thesis by (simp add: map_of_sent_params [OF list_audit_keys] truthy_def split: option.split)
  qed
  have "map_of ?ps ''end_date'' = None" "map_of ?ps ''time_range'' = None" by (simp_all add: look)
  moreover obtain req q where "b_sent (snd (ListAudit srv base ?p w)) = b_sent w @ [req]"
    "req_url req = base @ ''/v1/audit'' @ ''?'' @ q" "read_query q = Some ?ps"
    using list_audit_request [of srv base ?p w] ne by (auto simp: Let_def)
  ultimately show ?thesis
    using start others by (auto simp: useAuditList_def mk_query_def intro!: exI [of _ req] exI [of _ q])
qed

text \<open>The window of the anomaly alerts starts between 24 and 25 hours ago, and its cache key does
  not change while the local clock stays within one hour, so that re-rendering does not refetch.\<close>

lemma alerts_window:
  "now - 25 * 3600000 < alerts_since off now \<and> alerts_since off now \<le> now - 24 * 3600000
   \<and> ((now + off) div 3600000 = (now' + off) div 3600000
      \<longrightarrow> q_key (useAnomalyAlerts srv base off now pid env) = q_key (useAnomalyAlerts srv base off now' pid env))"
proof -
  have sh: "(t - 86400000 + off) div 3600000 = (t + off) div 3600000 - 24" for t :: int
  proof -
    have "(t - 86400000 + off) = (t + off) + (- 24) * 3600000" by simp
    then show ?thesis by simp
  qed
  have m: "0 \<le> (now + off) mod 3600000" "(now + off) mod 3600000 < 3600000" by simp_all
  have d: "(now + off) div 3600000 * 3600000 = now + off - (now + off) mod 3600000"
    by (simp add: minus_mod_eq_div_mult)
  have since: "alerts_since off now = now - (now + off) mod 3600000 - 86400000"
    using d by (simp add: alerts_since_def truncate_hour_def sh left_diff_distrib)
  have "alerts_since off now = alerts_since off now'" if "(now + off) div 3600000 = (now' + off) div 3600000"
    using that by (simp add: alerts_since_def truncate_hour_def sh)
  then show ?thesis using m since by (auto simp: useAnomalyAlerts_def mk_query_def Let_def)
qed

text \<open>A mutation refreshes the list it changes: the keys invalidated by creating or revoking API
  keys, adding, changing or removing members, creating or deleting webhooks, creating projects,
  invites and users, and creating, changing or deleting a monitor match the key of the list of the
  same project. The monitor mutations do not reach the list over all projects.\<close>

lemma mutations_refresh_lists:
  "(\<forall>pat \<in> set (m_invalidates (useCreateAPIKey srv base p)) \<union> set (m_invalidates (useRevokeAPIKey srv base p)).
      key_matches pat (q_key (useAPIKeys srv base p)))
   \<and> (\<forall>pat \<in> set (m_invalidates (useAddMember srv base p)) \<union> set (m_invalidates (useUpdateMemberRole srv base p))
            \<union> set (m_invalidates (useRemoveMember srv base p)). key_matches pat (q_key (useMembers srv base p)))
   \<and> (\<forall>pat \<in> set (m_invalidates (useCreateWebhook srv base q)) \<union> set (m_invalidates (useDeleteWebhook srv base q)).
      key_matches pat (q_key (useWebhooks srv base q)))
   \<and> (\<forall>pat \<in> set (m_invalidates (useCreateMonitor srv base q)) \<union> set (m_invalidates (useUpdateMonitor srv base q))
            \<union> set (m_invalidates (useDeleteMonitor srv base q)).
      key_matches pat (q_key (useMonitors srv base (Some q)))
      \<and> (key_matches pat (q_key (useMonitors srv base None)) \<longleftrightarrow> q = ''all''))
   \<and> (\<forall>pat \<in> set (m_invalidates (useCreateProject srv base)). key_matches pat (q_key (useProjects srv base)))
   \<and> (\<forall>pat \<in> set (m_invalidates (useCreateInvite srv base)) \<union> set (m_invalidates (useRevokeInvite srv base)).
      key_matches pat (q_key (useInvites srv base)))
   \<and> (\<forall>pat \<in> set (m_invalidates (useCreateUser srv base)) \<union> set (m_invalidates (useDeleteUser srv base)).
      key_matches pat (q_key (useUsers srv base)))"
  by (simp add: key_matches_def mk_query_def kstr_def useCreateAPIKey_def useRevokeAPIKey_def useAPIKeys_def
      useAddMember_def useUpdateMemberRole_def useRemoveMember_def useMembers_def useCreateWebhook_def
      useDeleteWebhook_def useWebhooks_def useCreateMonitor_def useUpdateMonitor_def useDeleteMonitor_def
      useMonitors_def useCreateProject_def useProjects_def useCreateInvite_def useRevokeInvite_def useInvites_def
      useCreateUser_def useDeleteUser_def useUsers_def)

end
