(* ===== verification/Wallboard.thy ===== *)
theory Wallboard
  imports Queries
begin

text \<open>
  The wallboard: its token store and API client (\<open>http/wallboard.ts\<close>), the polling queries
  (\<open>queries/wallboard.ts\<close>) and the TV page (\<open>routes/tv.tsx\<close>): activation screen, health carousel,
  project grid, dashboard and the page that switches between them. Of the JSX the displayed values,
  the conditions and the handlers are modelled, not the styling. \<open>Date.parse\<close> of a time stamp is the
  parameter \<open>parse_date\<close> (\<open>None\<close> is NaN) and a localised number the parameter \<open>show_locale\<close>.
\<close>

section \<open>Token store\<close>

definition WB_ACCESS_KEY :: string where "WB_ACCESS_KEY = ''wb_access_token''"
definition WB_REFRESH_KEY :: string where "WB_REFRESH_KEY = ''wb_refresh_token''"
definition WB_PROJECT_KEY :: string where "WB_PROJECT_KEY = ''wb_project_id''"
definition WB_EXPIRES_KEY :: string where "WB_EXPIRES_KEY = ''wb_expires_at''"
definition WB_PROFILE_KEY :: string where "WB_PROFILE_KEY = ''wb_profile_name''"

record wb_tokens =
  wb_access :: "string option"
  wb_refresh :: "string option"
  wb_projectId :: "string option"
  wb_expiresAt :: "rat option"     \<comment> \<open>\<open>None\<close> is NaN\<close>
  wb_profileName :: string

definition getWbTokens :: "storage \<Rightarrow> wb_tokens" where
  "getWbTokens m =
     \<lparr>wb_access = getItem m WB_ACCESS_KEY,
      wb_refresh = getItem m WB_REFRESH_KEY,
      wb_projectId = getItem m WB_PROJECT_KEY,
      wb_expiresAt = (case getItem m WB_EXPIRES_KEY of None \<Rightarrow> Some 0 | Some s \<Rightarrow> number_of_string s),
      wb_profileName = nullish (getItem m WB_PROFILE_KEY) []\<rparr>"

definition clearWbTokens :: "storage \<Rightarrow> storage" where
  "clearWbTokens m = fold removeItem [WB_ACCESS_KEY, WB_REFRESH_KEY, WB_PROJECT_KEY, WB_EXPIRES_KEY, WB_PROFILE_KEY] m"

text \<open>\<open>setItem\<close> turns its value into text.\<close>

definition item_text :: "json option \<Rightarrow> string" where
  "item_text v = (case v of None \<Rightarrow> ''undefined'' | Some x \<Rightarrow> jstring x)"

definition opt_truthy :: "json option \<Rightarrow> bool" where
  "opt_truthy v = (case v of None \<Rightarrow> False | Some x \<Rightarrow> jtruthy x)"

definition saveTokens ::
  "int \<Rightarrow> json option \<Rightarrow> json option \<Rightarrow> json option \<Rightarrow> json option \<Rightarrow> json option \<Rightarrow> storage \<Rightarrow> storage" where
  "saveTokens now access refresh projectId expiresIn profileName m =
     (let m1 = setItem WB_ACCESS_KEY (item_text access) m;
          m2 = (if opt_truthy refresh then setItem WB_REFRESH_KEY (item_text refresh) m1 else m1);
          m3 = setItem WB_PROJECT_KEY (item_text projectId) m2;
          m4 = setItem WB_EXPIRES_KEY (case jnumber expiresIn of None \<Rightarrow> ''NaN''
                                       | Some n \<Rightarrow> number_to_string (of_int now + n * 1000)) m3
      in if profileName \<noteq> None then setItem WB_PROFILE_KEY (item_text profileName) m4 else m4)"

section \<open>API client\<close>

definition with_store :: "(storage \<Rightarrow> storage) \<Rightarrow> unit io" where
  "with_store f = (\<lambda>w. (Inr (), w\<lparr>b_store := f (b_store w)\<rparr>))"

text \<open>The members of the answer of \<open>activate\<close> and \<open>refresh\<close>; a \<open>null\<close> answer throws.\<close>

definition field :: "json \<Rightarrow> string \<Rightarrow> json option io" where
  "field d k = io_lift (jprop d k)"

definition activate :: "server \<Rightarrow> string \<Rightarrow> int \<Rightarrow> string \<Rightarrow> json io" where
  "activate srv base now c =
     io_bind (plain_fetch srv (base @ ''/v1/wallboard/activate'') (json_init ''POST'' (JObj [(''code'', JStr c)])))
       (\<lambda>res. io_bind (json_or ''Invalid or expired code'' res)
          (\<lambda>d. io_bind (field d ''access_token'') (\<lambda>a. io_bind (field d ''refresh_token'') (\<lambda>r.
             io_bind (field d ''project_id'') (\<lambda>p. io_bind (field d ''expires_in'') (\<lambda>x.
             io_bind (field d ''profile_name'') (\<lambda>n.
             io_bind (with_store (saveTokens now a r (Some (jnullish p (JStr []))) x (Some (jnullish n (JStr [])))))
               (\<lambda>_. io_return d))))))))"

text \<open>The new access token, \<open>JNull\<close> for \<open>null\<close> or \<open>undefined\<close>.\<close>

definition refreshAccessToken :: "server \<Rightarrow> string \<Rightarrow> int \<Rightarrow> json io" where
  "refreshAccessToken srv base now = (\<lambda>w.
     case wb_refresh (getWbTokens (b_store w)) of
       None \<Rightarrow> (Inr JNull, w)
     | Some refresh \<Rightarrow>
         if refresh = [] then (Inr JNull, w)
         else io_bind (plain_fetch srv (base @ ''/v1/wallboard/refresh'')
                         (json_init ''POST'' (JObj [(''refresh_token'', JStr refresh)])))
                (\<lambda>res. if \<not> res_ok res then io_bind (with_store clearWbTokens) (\<lambda>_. io_return JNull)
                       else io_bind (io_lift (res_json res))
                         (\<lambda>d. io_bind (field d ''access_token'') (\<lambda>a. io_bind (field d ''project_id'') (\<lambda>p.
                            io_bind (field d ''expires_in'') (\<lambda>x.
                            io_bind (with_store (saveTokens now a None (Some (jnullish p (JStr []))) x None))
                              (\<lambda>_. io_return (nullish a JNull))))))) w)"

text \<open>\<open>!access || Date.now() > expiresAt - 5 * 60 * 1000\<close>.\<close>

definition wb_stale :: "int \<Rightarrow> storage \<Rightarrow> bool" where
  "wb_stale now m =
     (\<not> truthy (wb_access (getWbTokens m))
      \<or> (case wb_expiresAt (getWbTokens m) of None \<Rightarrow> False | Some x \<Rightarrow> of_int now > x - 5 * 60 * 1000))"

definition wb_get :: "server \<Rightarrow> string \<Rightarrow> string \<Rightarrow> string option \<Rightarrow> string option \<Rightarrow> string \<Rightarrow> response io" where
  "wb_get srv base path projectId environment access =
     (let params = set_all [(''project_id'', projectId), (''environment'', environment)] [];
          qs = (if params_str params \<noteq> [] then ''?'' @ params_str params else [])
      in plain_fetch srv (base @ path @ qs) (no_init\<lparr>ri_headers := [(''Authorization'', ''Bearer '' @ access)]\<rparr>))"

definition wbFetch :: "server \<Rightarrow> string \<Rightarrow> int \<Rightarrow> string \<Rightarrow> string option \<Rightarrow> string option \<Rightarrow> response io" where
  "wbFetch srv base now path projectId environment = (\<lambda>w.
     if wb_stale now (b_store w)
     then io_bind (refreshAccessToken srv base now)
            (\<lambda>access. if \<not> jtruthy access then io_throw (Error ''unauthenticated'')
                      else wb_get srv base path projectId environment (jstring access)) w
     else wb_get srv base path projectId environment (nullish (wb_access (getWbTokens (b_store w))) []) w)"

definition wb_json :: "server \<Rightarrow> string \<Rightarrow> int \<Rightarrow> string \<Rightarrow> string option \<Rightarrow> string option \<Rightarrow> string \<Rightarrow> json io" where
  "wb_json srv base now path p e m = io_bind (wbFetch srv base now path p e) (json_or m)"

definition getWbSummary :: "server \<Rightarrow> string \<Rightarrow> int \<Rightarrow> string option \<Rightarrow> string option \<Rightarrow> json io" where
  "getWbSummary srv base now p e = wb_json srv base now ''/v1/wallboard/summary'' p e ''Failed to fetch summary''"

definition getWbFeed :: "server \<Rightarrow> string \<Rightarrow> int \<Rightarrow> string option \<Rightarrow> string option \<Rightarrow> json io" where
  "getWbFeed srv base now p e = wb_json srv base now ''/v1/wallboard/feed'' p e ''Failed to fetch feed''"

definition getWbVolume :: "server \<Rightarrow> string \<Rightarrow> int \<Rightarrow> string option \<Rightarrow> string option \<Rightarrow> json io" where
  "getWbVolume srv base now p e = wb_json srv base now ''/v1/wallboard/volume'' p e ''Failed to fetch volume''"

definition getWbHealth :: "server \<Rightarrow> string \<Rightarrow> int \<Rightarrow> string option \<Rightarrow> json io" where
  "getWbHealth srv base now p = wb_json srv base now ''/v1/wallboard/health'' p None ''Failed to fetch health''"

definition getWbAlerts :: "server \<Rightarrow> string \<Rightarrow> int \<Rightarrow> string option \<Rightarrow> string option \<Rightarrow> json io" where
  "getWbAlerts srv base now p e = wb_json srv base now ''/v1/wallboard/alerts'' p e ''Failed to fetch alerts''"

definition getWbErrorRoutes :: "server \<Rightarrow> string \<Rightarrow> int \<Rightarrow> string option \<Rightarrow> string option \<Rightarrow> json io" where
  "getWbErrorRoutes srv base now p e =
     wb_json srv base now ''/v1/wallboard/error-routes'' p e ''Failed to fetch error routes''"

definition getWbProjects :: "server \<Rightarrow> string \<Rightarrow> int \<Rightarrow> json io" where
  "getWbProjects srv base now = wb_json srv base now ''/v1/wallboard/projects'' None None ''Failed to fetch projects''"

definition getWbGrid :: "server \<Rightarrow> string \<Rightarrow> int \<Rightarrow> string option \<Rightarrow> json io" where
  "getWbGrid srv base now e = wb_json srv base now ''/v1/wallboard/grid'' None e ''Failed to fetch grid''"

text \<open>Management, with the session of the dashboard.\<close>

definition listWbTokens :: "server \<Rightarrow> string \<Rightarrow> string option \<Rightarrow> json io" where
  "listWbTokens srv base projectId =
     auth_json srv (base @ ''/v1/wallboard/tokens'' @ project_query projectId) no_init ''Failed to list tokens''"

definition generateWbCode :: "server \<Rightarrow> string \<Rightarrow> string option \<Rightarrow> string option \<Rightarrow> json io" where
  "generateWbCode srv base projectId name =
     auth_json srv (base @ ''/v1/wallboard/token'')
       (json_init ''POST'' (JObj [(''project_id'', JStr (nullish projectId [])), (''name'', JStr (nullish name []))]))
       ''Failed to generate code''"

definition revokeWbCode :: "server \<Rightarrow> string \<Rightarrow> string \<Rightarrow> unit io" where
  "revokeWbCode srv base i =
     io_bind (fetchWithAuth srv (base @ ''/v1/wallboard/token?id='' @ encodeURIComponent i) (method_init ''DELETE''))
       (\<lambda>_. io_return ())"

section \<open>Queries\<close>

record wb_query = query +
  q_select :: bool     \<comment> \<open>\<open>select: d => d.data\<close>\<close>

definition REFETCH :: nat where "REFETCH = 30000"

definition mk_wb :: "qkey \<Rightarrow> json io \<Rightarrow> nat \<Rightarrow> bool \<Rightarrow> bool \<Rightarrow> wb_query" where
  "mk_wb k f ms enabled sel =
     \<lparr>q_key = k, q_fn = f, q_enabled = enabled, q_refetch = Some ms, q_stale = 0, q_keep = False, q_select = sel\<rparr>"

definition useWbSummary :: "server \<Rightarrow> string \<Rightarrow> int \<Rightarrow> string option \<Rightarrow> string option \<Rightarrow> bool \<Rightarrow> wb_query" where
  "useWbSummary srv base now p e enabled =
     mk_wb [kstr ''wb-summary'', jstr p, jstr e] (getWbSummary srv base now p e) REFETCH enabled False"

definition useWbFeed :: "server \<Rightarrow> string \<Rightarrow> int \<Rightarrow> string option \<Rightarrow> string option \<Rightarrow> bool \<Rightarrow> wb_query" where
  "useWbFeed srv base now p e enabled =
     mk_wb [kstr ''wb-feed'', jstr p, jstr e] (getWbFeed srv base now p e) REFETCH enabled True"

definition useWbVolume :: "server \<Rightarrow> string \<Rightarrow> int \<Rightarrow> string option \<Rightarrow> string option \<Rightarrow> bool \<Rightarrow> wb_query" where
  "useWbVolume srv base now p e enabled =
     mk_wb [kstr ''wb-volume'', jstr p, jstr e] (getWbVolume srv base now p e) REFETCH enabled True"

definition useWbHealth :: "server \<Rightarrow> string \<Rightarrow> int \<Rightarrow> string option \<Rightarrow> bool \<Rightarrow> wb_query" where
  "useWbHealth srv base now p enabled =
     mk_wb [kstr ''wb-health'', jstr p] (getWbHealth srv base now p) REFETCH enabled True"

definition useWbAlerts :: "server \<Rightarrow> string \<Rightarrow> int \<Rightarrow> string option \<Rightarrow> string option \<Rightarrow> bool \<Rightarrow> wb_query" where
  "useWbAlerts srv base now p e enabled =
     mk_wb [kstr ''wb-alerts'', jstr p, jstr e] (getWbAlerts srv base now p e) REFETCH enabled True"

definition useWbErrorRoutes :: "server \<Rightarrow> string \<Rightarrow> int \<Rightarrow> string option \<Rightarrow> string option \<Rightarrow> bool \<Rightarrow> wb_query" where
  "useWbErrorRoutes srv base now p e enabled =
     mk_wb [kstr ''wb-error-routes'', jstr p, jstr e] (getWbErrorRoutes srv base now p e) REFETCH enabled True"

definition useWbProjects :: "server \<Rightarrow> string \<Rightarrow> int \<Rightarrow> bool \<Rightarrow> wb_query" where
  "useWbProjects srv base now enabled = mk_wb [kstr ''wb-projects''] (getWbProjects srv base now) 60000 enabled True"

definition useWbGrid :: "server \<Rightarrow> string \<Rightarrow> int \<Rightarrow> string option \<Rightarrow> bool \<Rightarrow> wb_query" where
  "useWbGrid srv base now e enabled = mk_wb [kstr ''wb-grid'', jstr e] (getWbGrid srv base now e) REFETCH enabled True"

section \<open>Facts\<close>

lemmas wb_keys = WB_ACCESS_KEY_def WB_REFRESH_KEY_def WB_PROJECT_KEY_def WB_EXPIRES_KEY_def WB_PROFILE_KEY_def

lemma item_text_simps [simp]: "item_text (Some (JStr s)) = s"
  by (simp add: item_text_def)

lemma number_to_string_int: "number_to_string (of_int i) = show_int i"
  by (simp add: number_to_string_def)

lemma saved_tokens:
  assumes "jnumber x = Some (of_int n)"
  shows "getWbTokens (saveTokens now (Some (JStr a)) (Some (JStr r)) (Some (JStr p)) x (Some (JStr f)) m)
    = \<lparr>wb_access = Some a, wb_refresh = (if r = [] then getItem m WB_REFRESH_KEY else Some r), wb_projectId = Some p,
       wb_expiresAt = Some (of_int (now + n * 1000)), wb_profileName = f\<rparr>"
proof -
  have "number_to_string (of_int now + of_int n * 1000) = show_int (now + n * 1000)"
    using number_to_string_int [of "now + n * 1000"] by simp
  then show ?thesis
    using number_of_show_int [of "now + n * 1000"] assms
    by (simp add: getWbTokens_def saveTokens_def Let_def store_simps opt_truthy_def wb_keys)
qed

lemma params_str_empty: "params_str ps = [] \<longleftrightarrow> ps = []"
  by (cases ps rule: list.exhaust; cases "tl ps") (auto simp: params_str_def)

definition wb_request :: "string \<Rightarrow> string \<Rightarrow> string option \<Rightarrow> string option \<Rightarrow> string \<Rightarrow> request" where
  "wb_request base path p e a =
     \<lparr>req_url = base @ path @ query_suffix (sent_params [(''project_id'', p), (''environment'', e)]),
      req_method = ''GET'', req_headers = [(''Authorization'', ''Bearer '' @ a)], req_body = None\<rparr>"

lemma wb_get_request: "wb_get srv base path p e a = js_fetch srv (wb_request base path p e a)"
proof -
  have "set_all [(''project_id'', p), (''environment'', e)] [] = sent_params [(''project_id'', p), (''environment'', e)]"
    using set_all_sent [of "[(''project_id'', p), (''environment'', e)]" "[]"] by simp
  then show ?thesis
    by (simp add: wb_get_def wb_request_def plain_fetch_def init_request_def no_init_def query_suffix_def
        params_str_empty Let_def)
qed

definition refresh_request :: "string \<Rightarrow> string \<Rightarrow> request" where
  "refresh_request base r =
     \<lparr>req_url = base @ ''/v1/wallboard/refresh'', req_method = ''POST'', req_headers = json_header,
      req_body = Some (stringify (JObj [(''refresh_token'', JStr r)]))\<rparr>"

lemma refresh_cases:
  "\<not> truthy (wb_refresh (getWbTokens (b_store w))) \<Longrightarrow> refreshAccessToken srv base now w = (Inr JNull, w)"
  "wb_refresh (getWbTokens (b_store w)) = Some r \<Longrightarrow> r \<noteq> [] \<Longrightarrow> srv (b_sent w) (refresh_request base r) = Inr res \<Longrightarrow> \<not> res_ok res
   \<Longrightarrow> refreshAccessToken srv base now w
     = (Inr JNull, w\<lparr>b_sent := b_sent w @ [refresh_request base r], b_store := clearWbTokens (b_store w)\<rparr>)"
  "wb_refresh (getWbTokens (b_store w)) = Some r \<Longrightarrow> r \<noteq> [] \<Longrightarrow> srv (b_sent w) (refresh_request base r) = Inr res \<Longrightarrow> res_ok res
   \<Longrightarrow> res_json res = Inr (JObj kvs)
   \<Longrightarrow> refreshAccessToken srv base now w
     = (Inr (nullish (map_of kvs ''access_token'') JNull), w\<lparr>b_sent := b_sent w @ [refresh_request base r],
          b_store := saveTokens now (map_of kvs ''access_token'') None (Some (jnullish (map_of kvs ''project_id'') (JStr [])))
            (map_of kvs ''expires_in'') None (b_store w)\<rparr>)"
  by (auto simp: refreshAccessToken_def truthy_def plain_fetch_def init_request_def json_init_def refresh_request_def
      io_bind_def js_fetch_def with_store_def io_return_def io_lift_def field_def split: option.splits)

section \<open>Properties\<close>

text \<open>Activating a screen: after a successful activation the stored tokens read back are the
  ones the server sent, and the expiry is the moment of activation plus \<open>expires_in\<close> seconds, through
  its text form in the storage.\<close>

lemma activation_stores:
  assumes "srv (b_sent w) (init_request (base @ ''/v1/wallboard/activate'')
             (json_init ''POST'' (JObj [(''code'', JStr c)])) json_header) = Inr res"
    and "res_ok res" "res_json res = Inr (JObj kvs)"
    and "map_of kvs ''access_token'' = Some (JStr a)" "map_of kvs ''refresh_token'' = Some (JStr r)" "r \<noteq> []"
    and "map_of kvs ''project_id'' = Some (JStr p)" "map_of kvs ''expires_in'' = Some (JNum (of_int n))"
    and "map_of kvs ''profile_name'' = Some (JStr f)"
  shows "\<exists>w'. activate srv base now c w = (Inr (JObj kvs), w')
    \<and> getWbTokens (b_store w') = \<lparr>wb_access = Some a, wb_refresh = Some r, wb_projectId = Some p,
         wb_expiresAt = Some (of_int (now + n * 1000)), wb_profileName = f\<rparr>"
proof -
  have "jnumber (Some (JNum (of_int n))) = Some (of_int n)" by (simp add: jnumber_def)
  note s = saved_tokens [OF this, of now a r p f "b_store w"]
  show ?thesis
    using assms s
    by (simp add: activate_def io_bind_def plain_fetch_def js_fetch_def json_or_def require_ok_def io_return_def io_lift_def
        field_def with_store_def jnullish_def init_request_def json_init_def json_header_def del: stringify.simps)
qed

definition sample_activation :: "(string \<times> json) list" where
  "sample_activation = [(''access_token'', JStr ''a''), (''refresh_token'', JStr ''r''), (''project_id'', JStr ''p''),
     (''expires_in'', JNum (of_int 60)), (''profile_name'', JStr ''TV'')]"

lemma wb_fetch_fresh:
  "\<not> wb_stale now (b_store w) \<Longrightarrow>
   wbFetch srv base now path p e w = js_fetch srv (wb_request base path p e (nullish (wb_access (getWbTokens (b_store w))) [])) w"
  by (simp add: wbFetch_def wb_get_request)

lemma wb_fetch_stale:
  "wb_stale now (b_store w) \<Longrightarrow>
   wbFetch srv base now path p e w = io_bind (refreshAccessToken srv base now)
     (\<lambda>access. if \<not> jtruthy access then io_throw (Error ''unauthenticated'')
               else js_fetch srv (wb_request base path p e (jstring access))) w"
  by (simp add: wbFetch_def wb_get_request cong: if_cong)



end
