(* ===== verification/Tv.thy ===== *)
theory Tv
  imports Wallboard
begin

text \<open>
  The TV page (\<open>routes/tv.tsx\<close>). Components are their state, their handlers and the values they
  show; a row of a list is the list of its texts, with the computed colour where the code computes
  one. \<open>show_locale\<close> is \<open>toLocaleString\<close> of a number, \<open>parse_date\<close> the time value of a time stamp
  (\<open>None\<close> is NaN).
\<close>

definition em_dash :: string where
  "em_dash = [CHR 0xE2, CHR 0x80, CHR 0x94]"

definition ellipsis :: string where
  "ellipsis = [CHR 0xE2, CHR 0x80, CHR 0xA6]"

definition arrow_up :: string where
  "arrow_up = [CHR 0xE2, CHR 0x86, CHR 0x91]"

definition arrow_down :: string where
  "arrow_down = [CHR 0xE2, CHR 0x86, CHR 0x93]"

definition arrow_right :: string where
  "arrow_right = [CHR 0xE2, CHR 0x86, CHR 0x92]"

definition peak_mark :: string where
  "peak_mark = [CHR 0xE2, CHR 0x96, CHR 0xB2]"

section \<open>Helpers\<close>

definition statusColor :: "nat \<Rightarrow> string" where
  "statusColor c = (if c \<ge> 500 then ''text-[#f87171]'' else if c \<ge> 400 then ''text-[#fb923c]'' else ''text-[#4ade80]'')"

definition methodColor :: "string \<Rightarrow> string" where
  "methodColor m =
     nullish (map_of [(''GET'', ''text-[#4ade80]''), (''POST'', ''text-[#818cf8]''), (''PUT'', ''text-[#fbbf24]''),
                      (''DELETE'', ''text-[#f87171]'')] m) ''text-slate-400''"

type_synonym date_parser = "string \<Rightarrow> int option"

text \<open>Every comparison with NaN fails, which leaves the last branch.\<close>

definition tv_timeAgo :: "date_parser \<Rightarrow> int \<Rightarrow> string \<Rightarrow> string" where
  "tv_timeAgo parse_date now ts =
     (if ts = [] then em_dash
      else (case parse_date ts of
              None \<Rightarrow> ''NaNh''
            | Some t \<Rightarrow>
                let s = (now - t) div 1000
                in if s \<le> 0 then ''now''
                   else if s < 60 then show_int s @ ''s''
                   else if s < 3600 then show_int (s div 60) @ ''m''
                   else show_int (s div 3600) @ ''h''))"

section \<open>Activation screen\<close>

record activation =
  ac_code :: string
  ac_error :: string
  ac_loading :: bool

definition activation_init :: activation where
  "activation_init = \<lparr>ac_code = [], ac_error = [], ac_loading = False\<rparr>"

definition activation_change :: "string \<Rightarrow> activation \<Rightarrow> activation" where
  "activation_change v st = st\<lparr>ac_code := toUpperCase v\<rparr>"

definition activation_disabled :: "activation \<Rightarrow> bool" where
  "activation_disabled st \<longleftrightarrow> ac_loading st \<or> js_length (ac_code st) < 6"

definition activation_label :: "activation \<Rightarrow> string" where
  "activation_label st = (if ac_loading st then ''Activating'' @ ellipsis else ''Activate'')"

text \<open>The state while the request is out, then the one after it with the argument of
  \<open>onActivated\<close>, if that is called.\<close>

definition activation_submitting :: "activation \<Rightarrow> activation" where
  "activation_submitting st = st\<lparr>ac_error := [], ac_loading := True\<rparr>"

definition activation_submit ::
  "server \<Rightarrow> string \<Rightarrow> int \<Rightarrow> activation \<Rightarrow> browser \<Rightarrow> activation \<times> string option \<times> browser" where
  "activation_submit srv base now st w =
     (let st1 = activation_submitting st
      in case activate srv base now (js_trim (ac_code st1)) w of
           (Inl _, w1) \<Rightarrow>
             (st1\<lparr>ac_error := ''Invalid or expired code. Generate one in Settings '' @ arrow_right @ '' Wallboard.'',
                  ac_loading := False\<rparr>, None, w1)
         | (Inr d, w1) \<Rightarrow>
             (case jprop d ''profile_name'' of
                Inl _ \<Rightarrow>
                  (st1\<lparr>ac_error := ''Invalid or expired code. Generate one in Settings '' @ arrow_right @ '' Wallboard.'',
                       ac_loading := False\<rparr>, None, w1)
              | Inr n \<Rightarrow> (st1\<lparr>ac_loading := False\<rparr>, Some (item_text (Some (jnullish n (JStr [])))), w1)))"

section \<open>Health carousel\<close>

record WbHealthEntry =
  he_name :: string
  he_last_status :: string
  he_response_ms :: rat
  he_last_checked :: string

definition PAGE_SIZE :: nat where "PAGE_SIZE = 5"

definition CAROUSEL_INTERVAL :: nat where "CAROUSEL_INTERVAL = 15000"

text \<open>\<open>Math.max(1, Math.ceil(total / PAGE_SIZE))\<close>.\<close>

definition carousel_pages :: "nat \<Rightarrow> nat" where
  "carousel_pages n = max 1 (nat \<lceil>of_nat n / of_nat PAGE_SIZE :: rat\<rceil>)"

definition carousel_slice :: "'a list \<Rightarrow> nat \<Rightarrow> 'a list" where
  "carousel_slice entries page = take PAGE_SIZE (drop (page * PAGE_SIZE) entries)"

text \<open>The timer, which runs only when there is more than one page, and the effect that resets a page
  out of range.\<close>

definition carousel_tick :: "'a list \<Rightarrow> nat \<Rightarrow> nat" where
  "carousel_tick entries page =
     (let pages = carousel_pages (length entries) in if pages \<le> 1 then page else (page + 1) mod pages)"

definition carousel_reset :: "'a list \<Rightarrow> nat \<Rightarrow> nat" where
  "carousel_reset entries page = (if page \<ge> carousel_pages (length entries) then 0 else page)"

datatype 'a carousel_event = Tick | Entries "'a list"

fun carousel_step :: "'a list \<times> nat \<Rightarrow> 'a carousel_event \<Rightarrow> 'a list \<times> nat" where
  "carousel_step (entries, page) Tick = (entries, carousel_reset entries (carousel_tick entries page))"
| "carousel_step (entries, page) (Entries es) = (es, carousel_reset es page)"

definition health_row :: "date_parser \<Rightarrow> int \<Rightarrow> WbHealthEntry \<Rightarrow> string \<times> string list" where
  "health_row parse_date now h =
     (if he_last_status h = ''up'' then ''text-[#4ade80]'' else ''text-[#f87171]'',
      [if he_last_status h = ''up'' then arrow_up else arrow_down, he_name h,
       number_to_string (he_response_ms h) @ ''ms'', tv_timeAgo parse_date now (he_last_checked h)])"

text \<open>The rows, the note for an empty list and the dots, of which the current one is lit.\<close>

definition carousel_view ::
  "date_parser \<Rightarrow> int \<Rightarrow> WbHealthEntry list \<Rightarrow> nat \<Rightarrow> (string \<times> string list) list \<times> string option \<times> bool list" where
  "carousel_view parse_date now entries page =
     (map (health_row parse_date now) (carousel_slice entries page),
      if length entries = 0 then Some ''No monitors configured'' else None,
      if carousel_pages (length entries) > 1 then map (\<lambda>i. i = page) [0..<carousel_pages (length entries)] else [])"

section \<open>Project grid\<close>

record WbProjectStat =
  ps_project_id :: string
  ps_project_name :: string
  ps_events_today :: nat
  ps_errors_4xx :: nat
  ps_errors_5xx :: nat
  ps_avg_response_ms :: rat
  ps_down_monitors :: nat

record grid_card =
  gc_accent :: string
  gc_name :: string
  gc_down :: "nat option"     \<comment> \<open>the number of monitors that are down, or the green dot\<close>
  gc_events :: string
  gc_avg :: string
  gc_4xx :: "string \<times> nat"
  gc_5xx :: "string \<times> nat"
  gc_select :: string         \<comment> \<open>what a click selects\<close>

definition ProjectGridCard :: "(nat \<Rightarrow> string) \<Rightarrow> WbProjectStat \<Rightarrow> grid_card" where
  "ProjectGridCard show_locale stat =
     (let hasErrors = ps_errors_5xx stat > 0; hasWarn = ps_errors_4xx stat > 0; hasDown = ps_down_monitors stat > 0
      in \<lparr>gc_accent = (if hasDown \<or> hasErrors then ''border-[#f87171]/50''
                       else if hasWarn then ''border-[#fb923c]/40'' else ''border-slate-700/50''),
          gc_name = ps_project_name stat,
          gc_down = (if hasDown then Some (ps_down_monitors stat) else None),
          gc_events = show_locale (ps_events_today stat),
          gc_avg = show_int (js_round (ps_avg_response_ms stat)) @ ''ms'',
          gc_4xx = (if hasWarn then ''text-[#fb923c]'' else ''text-slate-400'', ps_errors_4xx stat),
          gc_5xx = (if hasErrors then ''text-[#f87171]'' else ''text-slate-400'', ps_errors_5xx stat),
          gc_select = ps_project_id stat\<rparr>)"

text \<open>The number of columns and the cards; \<open>None\<close> shows \<open>No projects yet\<close>.\<close>

definition ProjectGrid :: "(nat \<Rightarrow> string) \<Rightarrow> WbProjectStat list \<Rightarrow> (nat \<times> grid_card list) option" where
  "ProjectGrid show_locale stats =
     (if length stats = 0 then None
      else Some (if length stats \<le> 2 then length stats else if length stats \<le> 9 then 3 else 4,
                 map (ProjectGridCard show_locale) stats))"

section \<open>Dashboard\<close>

definition ENVIRONMENTS :: "string list" where
  "ENVIRONMENTS = [[], ''production'', ''staging'', ''development'', ''testing'', ''local'']"

datatype view_mode = ViewDashboard | ViewGrid

record tv_dash =
  td_environment :: string
  td_viewMode :: view_mode

definition tv_dash_init :: tv_dash where
  "tv_dash_init = \<lparr>td_environment = [], td_viewMode = ViewDashboard\<rparr>"

text \<open>The queries of the dashboard; those of the panels run only while it is shown.\<close>

definition tv_queries :: "server \<Rightarrow> string \<Rightarrow> int \<Rightarrow> string \<Rightarrow> tv_dash \<Rightarrow> wb_query list" where
  "tv_queries srv base now projectId st =
     (let env = or_undefined (td_environment st); p = or_undefined projectId;
          dashEnabled = (td_viewMode st \<noteq> ViewGrid)
      in [useWbSummary srv base now p env dashEnabled, useWbFeed srv base now p env dashEnabled,
          useWbVolume srv base now p env dashEnabled, useWbHealth srv base now p dashEnabled,
          useWbAlerts srv base now p env dashEnabled, useWbErrorRoutes srv base now p env dashEnabled,
          useWbProjects srv base now True]
         @ (if td_viewMode st = ViewGrid then [useWbGrid srv base now env True] else []))"

text \<open>\<open>handleGridSelect\<close>: the project chosen and the dashboard state after it.\<close>

definition handleGridSelect :: "string \<Rightarrow> tv_dash \<Rightarrow> string \<times> tv_dash" where
  "handleGridSelect i st = (i, st\<lparr>td_viewMode := ViewDashboard\<rparr>)"

definition alert_badge :: "nat \<Rightarrow> string option" where
  "alert_badge n = (if n > 0 then Some (show_nat n @ '' ALERT'' @ (if n > 1 then ''S'' else [])) else None)"

definition service_down :: "WbHealthEntry list \<Rightarrow> bool" where
  "service_down hs = list_ex (\<lambda>h. he_last_status h = ''down'') hs"

record WbSummary =
  ws_events_today :: nat
  ws_errors_4xx :: nat
  ws_errors_5xx :: nat
  ws_avg_response_ms :: rat
  ws_active_services :: nat

definition stat_cards :: "WbSummary option \<Rightarrow> (string \<times> string) list" where
  "stat_cards summary =
     (let v = (\<lambda>f. case summary of None \<Rightarrow> em_dash | Some s \<Rightarrow> f s)
      in [(''Events today'', v (\<lambda>s. show_nat (ws_events_today s))),
          (''4xx errors'', v (\<lambda>s. show_nat (ws_errors_4xx s))),
          (''5xx errors'', v (\<lambda>s. show_nat (ws_errors_5xx s))),
          (''Avg response'', v (\<lambda>s. show_int (js_round (ws_avg_response_ms s)) @ ''ms'')),
          (''Services'', v (\<lambda>s. show_nat (ws_active_services s)))])"

text \<open>The volume chart: peak, average and last value, the upper end of the axis, and the label of a
  point, shown at the peak and at the last point only.\<close>

record volume_stats =
  vs_max :: nat
  vs_avg :: int
  vs_last :: nat

definition volume_stats_of :: "nat list \<Rightarrow> volume_stats" where
  "volume_stats_of pts =
     \<lparr>vs_max = (if pts = [] then 0 else Max (set pts)),
      vs_avg = (if pts = [] then 0 else js_round (of_nat (sum_list pts) / of_nat (length pts))),
      vs_last = (if pts = [] then 0 else last pts)\<rparr>"

definition volume_domain :: "nat list \<Rightarrow> rat" where
  "volume_domain pts = (if vs_max (volume_stats_of pts) > 0 then of_nat (vs_max (volume_stats_of pts)) * 13 / 10 else 10)"

definition CustomDot :: "nat list \<Rightarrow> nat \<Rightarrow> nat \<Rightarrow> string option" where
  "CustomDot pts index v =
     (let isPeak = (v = vs_max (volume_stats_of pts)); isLast = (Suc index = length pts)
      in if \<not> isPeak \<and> \<not> isLast then None
         else Some (if isPeak then peak_mark @ '' '' @ show_nat v else show_nat v))"

record WbErrorRoute =
  er_path :: string
  er_method :: string
  er_error_count :: nat
  er_error_rate :: rat

definition error_route_rows :: "WbErrorRoute list \<Rightarrow> (string \<times> string list) list" where
  "error_route_rows rs =
     map (\<lambda>r. (methodColor (er_method r),
               [er_method r, er_path r, show_nat (er_error_count r), to_fixed 0 (er_error_rate r) @ ''%'']))
       (take 8 rs)"

record WbFeedEvent =
  fe_method :: string
  fe_path :: string
  fe_status_code :: nat
  fe_response_ms :: rat
  fe_timestamp :: string

definition feed_row :: "date_parser \<Rightarrow> int \<Rightarrow> WbFeedEvent \<Rightarrow> string list \<times> string list" where
  "feed_row parse_date now ev =
     ([methodColor (fe_method ev), statusColor (fe_status_code ev)],
      [fe_method ev, fe_path ev, show_nat (fe_status_code ev), number_to_string (fe_response_ms ev) @ ''ms'',
       tv_timeAgo parse_date now (fe_timestamp ev)])"

record WbAlert =
  wa_rule_type :: string
  wa_service_name :: string
  wa_timestamp :: string

definition tv_alert_row :: "date_parser \<Rightarrow> int \<Rightarrow> WbAlert \<Rightarrow> string list" where
  "tv_alert_row parse_date now a =
     [map (\<lambda>c. if c = CHR ''_'' then CHR '' '' else c) (wa_rule_type a), tv_timeAgo parse_date now (wa_timestamp a),
      wa_service_name a]"

section \<open>Page\<close>

record tv_page =
  tp_authenticated :: bool
  tp_activeProjectId :: string
  tp_profileName :: string

definition tv_init :: "string option \<Rightarrow> tv_page" where
  "tv_init search = \<lparr>tp_authenticated = False, tp_activeProjectId = nullish search [], tp_profileName = []\<rparr>"

text \<open>The effect on mount, its silent refresh included; a refresh that throws leaves the page as it is.\<close>

definition tv_mount :: "server \<Rightarrow> string \<Rightarrow> int \<Rightarrow> tv_page \<times> browser \<Rightarrow> tv_page \<times> browser" where
  "tv_mount srv base now pw =
     (case pw of (p, w) \<Rightarrow>
        let t = getWbTokens (b_store w);
            p1 = (if wb_profileName t \<noteq> [] then p\<lparr>tp_profileName := wb_profileName t\<rparr> else p)
        in if truthy (wb_access t) \<and> (case wb_expiresAt t of None \<Rightarrow> False | Some x \<Rightarrow> of_int now < x)
           then (p1\<lparr>tp_authenticated := True\<rparr>, w)
           else (case refreshAccessToken srv base now w of
                   (Inr tok, w1) \<Rightarrow> (if jtruthy tok then p1\<lparr>tp_authenticated := True\<rparr> else p1, w1)
                 | (Inl _, w1) \<Rightarrow> (p1, w1)))"

definition tv_search :: "string option \<Rightarrow> tv_page \<Rightarrow> tv_page" where
  "tv_search search p = (if truthy search then p\<lparr>tp_activeProjectId := nullish search []\<rparr> else p)"

definition tv_activated :: "string \<Rightarrow> tv_page \<Rightarrow> tv_page" where
  "tv_activated pn p = p\<lparr>tp_authenticated := True, tp_profileName := pn\<rparr>"

definition tv_project :: "string \<Rightarrow> tv_page \<Rightarrow> tv_page" where
  "tv_project i p = p\<lparr>tp_activeProjectId := i\<rparr>"

definition tv_disconnect :: "tv_page \<times> browser \<Rightarrow> tv_page \<times> browser" where
  "tv_disconnect pw =
     (case pw of (p, w) \<Rightarrow> (p\<lparr>tp_authenticated := False\<rparr>, w\<lparr>b_store := clearWbTokens (b_store w)\<rparr>))"

section \<open>Facts\<close>

lemma carousel_pages_div: "carousel_pages n = max 1 ((n + 4) div 5)"
proof -
  have "\<lceil>of_nat n / 5 :: rat\<rceil> = int ((n + 4) div 5)"
  proof (rule ceiling_unique)
    have m: "5 * ((n + 4) div 5) + (n + 4) mod 5 = n + 4" by (rule mult_div_mod_eq)
    have "(n + 4) mod 5 < 5" by simp
    with m have lo: "5 * ((n + 4) div 5) < n + 5" by linarith
    from m have "n \<le> 5 * ((n + 4) div 5)" using \<open>(n + 4) mod 5 < 5\<close> by linarith
    then have "(of_nat n :: rat) \<le> of_nat (5 * ((n + 4) div 5))" by (simp only: of_nat_le_iff)
    then show "(of_nat n / 5 :: rat) \<le> of_int (int ((n + 4) div 5))" by simp
    from lo have "(of_nat (5 * ((n + 4) div 5)) :: rat) < of_nat (n + 5)" by (simp only: of_nat_less_iff)
    then show "(of_int (int ((n + 4) div 5)) - 1 :: rat) < of_nat n / 5" by simp
  qed
  then show ?thesis by (simp add: carousel_pages_def PAGE_SIZE_def)
qed

lemma carousel_pages_pos: "0 < carousel_pages n"
  by (simp add: carousel_pages_div)

lemma slices_take: "concat (map (carousel_slice es) [0..<k]) = take (k * 5) es"
proof (induction k)
  case (Suc k)
  have "take (Suc k * 5) es = take (k * 5) es @ take 5 (drop (k * 5) es)"
    using take_add [of "k * 5" 5 es] by (simp add: add.commute)
  with Suc show ?case by (simp add: carousel_slice_def PAGE_SIZE_def)
qed simp

lemma carousel_step_inv: "snd s < carousel_pages (length (fst s)) \<Longrightarrow>
   snd (carousel_step s e) < carousel_pages (length (fst (carousel_step s e)))"
  by (cases s; cases e) (auto simp: carousel_reset_def carousel_pages_pos)

interpretation carousel: inv_machine carousel_step "\<lambda>s. snd s < carousel_pages (length (fst s))"
  by unfold_locales (rule carousel_step_inv)

lemma ticks: "p < carousel_pages (length es) \<Longrightarrow>
   run carousel_step (es, p) (replicate k Tick) = (es, (p + k) mod carousel_pages (length es))"
proof (induction k arbitrary: p)
  case (Suc k)
  let ?n = "carousel_pages (length es)"
  have t: "carousel_step (es, p) Tick = (es, (p + 1) mod ?n)"
  proof (cases "?n \<le> 1")
    case True
    with Suc.prems carousel_pages_pos [of "length es"] have "?n = 1" "p = 0" by linarith+
    then show ?thesis by (simp add: carousel_tick_def carousel_reset_def)
  next
    case False
    then show ?thesis using carousel_pages_pos [of "length es"]
      by (simp add: carousel_tick_def carousel_reset_def not_le Let_def)
  qed
  have "(p + 1) mod ?n < ?n" using carousel_pages_pos by simp
  from Suc.IH [OF this] show ?case by (simp add: t mod_add_left_eq del: carousel_step.simps)
qed simp

section \<open>Properties\<close>


text \<open>The TV page on start: with an access token that has not expired it is shown at once and no
  request is sent; with nothing stored it stays on the activation screen and sends nothing. After
  \<open>Disconnect\<close> it is back on that screen, starting again stays there without a request, and no key but
  the wallboard's own is touched.\<close>

lemma tv_start_and_disconnect:
  "(truthy (wb_access (getWbTokens (b_store w))) \<and> wb_expiresAt (getWbTokens (b_store w)) = Some x \<and> of_int now < x
     \<longrightarrow> tp_authenticated (fst (tv_mount srv base now (p, w))) \<and> snd (tv_mount srv base now (p, w)) = w)
   \<and> (let (q, v) = tv_disconnect (p, w)
      in \<not> tp_authenticated q \<and> tv_mount srv base now' (q, v) = (q, v)
       \<and> (\<forall>k. k \<notin> {WB_ACCESS_KEY, WB_REFRESH_KEY, WB_PROJECT_KEY, WB_EXPIRES_KEY, WB_PROFILE_KEY}
            \<longrightarrow> getItem (b_store v) k = getItem (b_store w) k))"
proof -
  have c: "getItem (clearWbTokens m) k = (if k \<in> {WB_ACCESS_KEY, WB_REFRESH_KEY, WB_PROJECT_KEY, WB_EXPIRES_KEY, WB_PROFILE_KEY}
      then None else getItem m k)" for m k
    unfolding clearWbTokens_def by (subst ls.get_del_list) simp
  have t: "getWbTokens (clearWbTokens m) = \<lparr>wb_access = None, wb_refresh = None, wb_projectId = None,
      wb_expiresAt = Some 0, wb_profileName = []\<rparr>" for m
    by (simp add: getWbTokens_def c)
  have "refreshAccessToken srv base now' (w\<lparr>b_store := clearWbTokens (b_store w)\<rparr>)
      = (Inr JNull, w\<lparr>b_store := clearWbTokens (b_store w)\<rparr>)"
    by (rule refresh_cases) (simp add: t)
  then show ?thesis
    by (auto simp: tv_mount_def tv_disconnect_def t c Let_def)
qed

end
