(* ===== verification/Studio.thy ===== *)
theory Studio
  imports Tv
begin

text \<open>
  SQL queries and reports: the client (\<open>http/studio.ts\<close>), the query page (\<open>routes/app/_layout/query.tsx\<close>)
  with its CSV export, and the report designer (\<open>routes/app/_layout/studio.tsx\<close>). Charts and the grid
  component are libraries: the data handed to them and the callbacks they fire are modelled. Reports
  the server sends are taken to have their declared shape (\<open>report_of_json\<close>); any other value is
  \<open>TypeError\<close> here.
\<close>

section \<open>Template variables\<close>

record QueryVars =
  v_project_id :: "string option"
  v_from :: "string option"
  v_to :: "string option"

text \<open>A match of \<open>/\{\{\s*name\s*\}\}/\<close> at the start of the text: what follows it.\<close>

definition match_var :: "string \<Rightarrow> string \<Rightarrow> string option" where
  "match_var name s =
     (if prefix ''{{'' s
      then (let r = dropWhile is_space (drop 2 s)
            in if prefix name r
               then (let r2 = dropWhile is_space (drop (length name) r)
                     in if prefix ''}}'' r2 then Some (drop 2 r2) else None)
               else None)
      else None)"

text \<open>The replacement text of \<open>String.replace\<close>, whose \<open>$\<close> patterns stand for the match and the text
  around it; the expressions here have no groups.\<close>

fun expand_repl :: "string \<Rightarrow> string \<Rightarrow> string \<Rightarrow> string \<Rightarrow> string" where
  "expand_repl before m after [] = []"
| "expand_repl before m after [c] = [c]"
| "expand_repl before m after (c # d # r) =
     (if c = CHR ''$'' \<and> d = CHR ''$'' then CHR ''$'' # expand_repl before m after r
      else if c = CHR ''$'' \<and> d = CHR ''&'' then m @ expand_repl before m after r
      else if c = CHR ''$'' \<and> d = CHR 0x60 then before @ expand_repl before m after r
      else if c = CHR ''$'' \<and> d = CHR 0x27 then after @ expand_repl before m after r
      else c # expand_repl before m after (d # r))"

lemma match_var_shorter: "match_var name s = Some r \<Longrightarrow> length r < length s"
proof -
  assume m: "match_var name s = Some r"
  then have "prefix ''{{'' s" by (auto simp: match_var_def split: if_splits)
  then have "2 \<le> length s" by (auto dest: prefix_length_le)
  moreover have "length (dropWhile is_space u) \<le> length u" for u by (rule length_dropWhile_le)
  note l = this [of "drop 2 s"] this [of "drop (length name) (dropWhile is_space (drop 2 s))"]
  ultimately show ?thesis using m by (auto simp: match_var_def Let_def split: if_splits)
qed

function replace_var :: "string \<Rightarrow> string \<Rightarrow> string \<Rightarrow> string \<Rightarrow> string" where
  "replace_var name repl before [] = []"
| "replace_var name repl before (c # cs) =
     (case match_var name (c # cs) of
        Some rest \<Rightarrow>
          (let m = take (length (c # cs) - length rest) (c # cs)
           in expand_repl before m rest repl @ replace_var name repl (before @ m) rest)
      | None \<Rightarrow> c # replace_var name repl (before @ [c]) cs)"
  by pat_completeness auto
termination
  by (relation "measure (\<lambda>(_, _, _, s). length s)") (auto dest: match_var_shorter)

definition applyVars :: "string \<Rightarrow> QueryVars \<Rightarrow> string" where
  "applyVars sql vars =
     replace_var ''to'' (nullish (v_to vars) [])
       [] (replace_var ''from'' (nullish (v_from vars) [])
         [] (replace_var ''project_id'' (nullish (v_project_id vars) []) [] sql))"

section \<open>Client\<close>

record QueryResult =
  qr_columns :: "string list"
  qr_rows :: "json list list"
  qr_row_count :: nat
  qr_elapsed_ms :: rat
  qr_truncated :: bool

datatype VizType = VizLine | VizPie | VizTable

record Widget =
  w_id :: string
  w_title :: string
  w_sql :: string
  w_viz :: VizType

record GridItem =
  g_i :: string
  g_x :: int
  g_y :: int
  g_w :: int
  g_h :: int

record Report =
  r_id :: string
  r_name :: string
  r_widgets :: "Widget list"
  r_layout :: "GridItem list"

definition viz_name :: "VizType \<Rightarrow> string" where
  "viz_name v = (case v of VizLine \<Rightarrow> ''line'' | VizPie \<Rightarrow> ''pie'' | VizTable \<Rightarrow> ''table'')"

definition widget_json :: "Widget \<Rightarrow> json" where
  "widget_json w = JObj [(''id'', JStr (w_id w)), (''title'', JStr (w_title w)), (''sql'', JStr (w_sql w)),
                         (''viz'', JStr (viz_name (w_viz w)))]"

definition grid_json :: "GridItem \<Rightarrow> json" where
  "grid_json g = JObj [(''i'', JStr (g_i g)), (''x'', JNum (of_int (g_x g))), (''y'', JNum (of_int (g_y g))),
                       (''w'', JNum (of_int (g_w g))), (''h'', JNum (of_int (g_h g)))]"

definition runQuery :: "server \<Rightarrow> string \<Rightarrow> string \<Rightarrow> json io" where
  "runQuery srv base sql =
     io_bind (fetchWithAuth srv (base @ ''/v1/audit/query'') (json_init ''POST'' (JObj [(''sql'', JStr sql)])))
       (\<lambda>res. io_bind (io_lift (res_json res))
          (\<lambda>j. if \<not> res_ok res
               then io_throw (Error (jstring (jnullish (case j of JObj kvs \<Rightarrow> map_of kvs ''error'' | _ \<Rightarrow> None) (JStr ''Query failed''))))
               else io_return j))"

text \<open>\<open>json?.data ?? []\<close>, whatever the status of the answer.\<close>

definition listReports :: "server \<Rightarrow> string \<Rightarrow> string option \<Rightarrow> json io" where
  "listReports srv base projectId =
     io_bind (fetchWithAuth srv (base @ ''/v1/reports'' @ project_query projectId) no_init)
       (\<lambda>res. io_bind (io_lift (res_json res))
          (\<lambda>j. io_return (jnullish (case j of JObj kvs \<Rightarrow> map_of kvs ''data'' | _ \<Rightarrow> None) (JArr []))))"

definition getReport :: "server \<Rightarrow> string \<Rightarrow> string \<Rightarrow> json io" where
  "getReport srv base i = auth_json srv (base @ ''/v1/reports/'' @ i) no_init ''Report not found''"

definition report_body :: "string option option \<Rightarrow> string \<Rightarrow> Widget list \<Rightarrow> GridItem list \<Rightarrow> json" where
  "report_body project name widgets layout = obj_of
     ((case project of None \<Rightarrow> [] | Some p \<Rightarrow> [(''project_id'', jstr p)])
      @ [(''name'', Some (JStr name)), (''widgets'', Some (JArr (map widget_json widgets))),
         (''layout'', Some (JArr (map grid_json layout)))])"

definition createReport :: "server \<Rightarrow> string \<Rightarrow> string option \<Rightarrow> string \<Rightarrow> Widget list \<Rightarrow> GridItem list \<Rightarrow> json io" where
  "createReport srv base projectId name widgets layout =
     auth_json srv (base @ ''/v1/reports'') (json_init ''POST'' (report_body (Some projectId) name widgets layout))
       ''Failed to create report''"

definition updateReport :: "server \<Rightarrow> string \<Rightarrow> string \<Rightarrow> string \<Rightarrow> Widget list \<Rightarrow> GridItem list \<Rightarrow> unit io" where
  "updateReport srv base i name widgets layout =
     auth_unit srv (base @ ''/v1/reports/'' @ i) (json_init ''PUT'' (report_body None name widgets layout))
       ''Failed to save report''"

definition deleteReport :: "server \<Rightarrow> string \<Rightarrow> string \<Rightarrow> unit io" where
  "deleteReport srv base i =
     auth_unit srv (base @ ''/v1/reports/'' @ i) (method_init ''DELETE'') ''Failed to delete report''"

section \<open>Reading a report\<close>

fun jget_str :: "(string \<times> json) list \<Rightarrow> string \<Rightarrow> string option" where
  "jget_str kvs k = (case map_of kvs k of Some (JStr s) \<Rightarrow> Some s | _ \<Rightarrow> None)"

fun jget_int :: "(string \<times> json) list \<Rightarrow> string \<Rightarrow> int option" where
  "jget_int kvs k = (case map_of kvs k of Some (JNum n) \<Rightarrow> Some \<lfloor>n\<rfloor> | _ \<Rightarrow> None)"

definition viz_of :: "string \<Rightarrow> VizType option" where
  "viz_of s = (if s = ''line'' then Some VizLine else if s = ''pie'' then Some VizPie
               else if s = ''table'' then Some VizTable else None)"

definition widget_of_json :: "json \<Rightarrow> Widget option" where
  "widget_of_json j =
     (case j of
        JObj kvs \<Rightarrow>
          (case (jget_str kvs ''id'', jget_str kvs ''title'', jget_str kvs ''sql'', Option.bind (jget_str kvs ''viz'') viz_of) of
             (Some i, Some t, Some s, Some v) \<Rightarrow> Some \<lparr>w_id = i, w_title = t, w_sql = s, w_viz = v\<rparr>
           | _ \<Rightarrow> None)
      | _ \<Rightarrow> None)"

definition grid_of_json :: "json \<Rightarrow> GridItem option" where
  "grid_of_json j =
     (case j of
        JObj kvs \<Rightarrow>
          (case (jget_str kvs ''i'', jget_int kvs ''x'', jget_int kvs ''y'', jget_int kvs ''w'', jget_int kvs ''h'') of
             (Some i, Some x, Some y, Some w, Some h) \<Rightarrow> Some \<lparr>g_i = i, g_x = x, g_y = y, g_w = w, g_h = h\<rparr>
           | _ \<Rightarrow> None)
      | _ \<Rightarrow> None)"

text \<open>\<open>r.widgets ?? []\<close> and \<open>r.layout ?? []\<close>.\<close>

definition list_member :: "(json \<Rightarrow> 'a option) \<Rightarrow> (string \<times> json) list \<Rightarrow> string \<Rightarrow> 'a list option" where
  "list_member f kvs k =
     (case map_of kvs k of
        None \<Rightarrow> Some []
      | Some JNull \<Rightarrow> Some []
      | Some (JArr vs) \<Rightarrow> all_some (map f vs)
      | _ \<Rightarrow> None)"

definition report_of_json :: "json \<Rightarrow> js_error + Report" where
  "report_of_json j =
     (case j of
        JObj kvs \<Rightarrow>
          (case (jget_str kvs ''id'', jget_str kvs ''name'', list_member widget_of_json kvs ''widgets'', list_member grid_of_json kvs ''layout'') of
             (Some i, Some n, Some ws, Some ls) \<Rightarrow> Inr \<lparr>r_id = i, r_name = n, r_widgets = ws, r_layout = ls\<rparr>
           | _ \<Rightarrow> Inl TypeError)
      | _ \<Rightarrow> Inl TypeError)"

section \<open>Query page\<close>

definition nl :: string where "nl = [CHR 0x0A]"
definition sq :: string where "sq = [CHR 0x27]"

definition csv_text :: "json \<Rightarrow> string" where
  "csv_text v = (case v of JNull \<Rightarrow> [] | x \<Rightarrow> jstring x)"

definition csv_esc :: "string \<Rightarrow> string" where
  "csv_esc s =
     (if list_ex (\<lambda>c. c = dquote \<or> c = CHR '','' \<or> c = CHR 0x0A) s
      then [dquote] @ concat (map (\<lambda>c. if c = dquote then [dquote, dquote] else [c]) s) @ [dquote]
      else s)"

definition toCSV :: "QueryResult \<Rightarrow> string" where
  "toCSV r =
     join_with nl (join_with '','' (map csv_esc (qr_columns r))
                   # map (\<lambda>row. join_with '','' (map (csv_esc \<circ> csv_text) row)) (qr_rows r))"

definition csv_filename :: "int \<Rightarrow> string" where
  "csv_filename now =
     ''query-'' @ map (\<lambda>c. if c = CHR '':'' \<or> c = CHR ''T'' then CHR ''-'' else c) (take 19 (toISOString now)) @ ''.csv''"

definition EXAMPLES :: "(string \<times> string) list" where
  "EXAMPLES =
     [(''Recent 5xx errors'',
       join_with nl [''SELECT timestamp, identifier, method, path, status_code'', ''FROM audits'',
         ''WHERE project_id = '' @ sq @ ''{{project_id}}'' @ sq @ '' AND status_code >= 500'',
         ''ORDER BY timestamp DESC'', ''LIMIT 50'']),
      (''Who changed a resource'',
       join_with nl [''SELECT timestamp, identifier, user_email, method, path'', ''FROM audits'',
         ''WHERE project_id = '' @ sq @ ''{{project_id}}'' @ sq,
         ''  AND path LIKE '' @ sq @ ''%/assets/%'' @ sq @ '' AND method IN ('' @ sq @ ''PUT'' @ sq @ '','' @ sq @ ''PATCH'' @ sq
           @ '','' @ sq @ ''DELETE'' @ sq @ '')'',
         ''  AND timestamp >= '' @ sq @ ''{{from}}'' @ sq, ''ORDER BY timestamp DESC'']),
      (''Top routes by volume'',
       join_with nl [''SELECT path, method, count(*) AS hits'', ''FROM audits'',
         ''WHERE project_id = '' @ sq @ ''{{project_id}}'' @ sq, ''GROUP BY path, method'', ''ORDER BY hits DESC'', ''LIMIT 20'']),
      (''Slowest routes'',
       join_with nl [''SELECT path, round(avg(response_time)) AS avg_ms, count(*) AS hits'', ''FROM audits'',
         ''WHERE project_id = '' @ sq @ ''{{project_id}}'' @ sq, ''GROUP BY path'', ''ORDER BY avg_ms DESC'', ''LIMIT 20''])]"

record query_page =
  qp_sql :: string
  qp_result :: "json option"
  qp_error :: "string option"
  qp_loading :: bool

definition query_page_init :: query_page where
  "query_page_init = \<lparr>qp_sql = snd (hd EXAMPLES), qp_result = None, qp_error = None, qp_loading = False\<rparr>"

definition iso_day :: "int \<Rightarrow> string" where
  "iso_day t = take 10 (toISOString t)"

definition query_vars :: "int \<Rightarrow> string option \<Rightarrow> QueryVars" where
  "query_vars now selectedProjectId =
     \<lparr>v_project_id = selectedProjectId, v_from = Some (iso_day (now - 30 * 86400000)), v_to = Some (iso_day now)\<rparr>"

text \<open>\<open>e.message\<close>; the kind of a platform error stands for the text of the engine.\<close>

definition error_message :: "js_error \<Rightarrow> string" where
  "error_message e =
     (case e of Error m \<Rightarrow> m | SyntaxError \<Rightarrow> ''SyntaxError'' | TypeError \<Rightarrow> ''TypeError'' | NetworkError \<Rightarrow> ''NetworkError'')"

definition query_run :: "server \<Rightarrow> string \<Rightarrow> int \<Rightarrow> string option \<Rightarrow> query_page \<Rightarrow> browser \<Rightarrow> query_page \<times> browser" where
  "query_run srv base now selectedProjectId st w =
     (let st1 = st\<lparr>qp_loading := True, qp_error := None\<rparr>
      in case runQuery srv base (applyVars (qp_sql st) (query_vars now selectedProjectId)) w of
           (Inr r, w1) \<Rightarrow> (st1\<lparr>qp_result := Some r, qp_loading := False\<rparr>, w1)
         | (Inl e, w1) \<Rightarrow> (st1\<lparr>qp_error := Some (error_message e), qp_result := None, qp_loading := False\<rparr>, w1))"

definition query_key_runs :: "bool \<Rightarrow> bool \<Rightarrow> string \<Rightarrow> bool" where
  "query_key_runs metaKey ctrlKey key \<longleftrightarrow> (metaKey \<or> ctrlKey) \<and> key = ''Enter''"

definition query_add_column :: "string \<Rightarrow> query_page \<Rightarrow> query_page" where
  "query_add_column col st =
     (let s = qp_sql st
      in st\<lparr>qp_sql := s @ (if suffix '' '' s \<or> s = [] then [] else '' '') @ col\<rparr>)"

text \<open>The result table: the header and the cells, \<open>None\<close> for the note that there are no columns.\<close>

definition ResultTable :: "QueryResult \<Rightarrow> (string list \<times> string list list \<times> string option) option" where
  "ResultTable r =
     (if qr_columns r = [] then None
      else Some (qr_columns r, map (map (\<lambda>v. case v of JNull \<Rightarrow> ''null'' | x \<Rightarrow> jstring x)) (qr_rows r),
                 if qr_rows r = [] then Some ''No rows.'' else None))"

definition result_caption :: "QueryResult \<Rightarrow> string list" where
  "result_caption r =
     [show_nat (qr_row_count r) @ '' row'' @ (if qr_row_count r \<noteq> 1 then ''s'' else []),
      number_to_string (qr_elapsed_ms r) @ '' ms'']
     @ (if qr_truncated r then [''truncated to 1000''] else [])"

section \<open>Report designer\<close>

datatype widget_state = WLoading | WResult json | WError string

record studio =
  st_reports :: json
  st_reportId :: "string option"
  st_name :: string
  st_widgets :: "Widget list"
  st_layout :: "GridItem list"
  st_editing :: "Widget option"
  st_saving :: bool
  st_data :: "string \<Rightarrow> widget_state option"
  st_run :: nat                 \<comment> \<open>how often the queries have been started; an answer to an older run is ignored\<close>
  st_from :: string
  st_to :: string

definition studio_init :: "int \<Rightarrow> studio" where
  "studio_init now =
     \<lparr>st_reports = JArr [], st_reportId = None, st_name = ''Untitled report'', st_widgets = [], st_layout = [],
      st_editing = None, st_saving = False, st_data = (\<lambda>_. None), st_run = 0,
      st_from = iso_day (now - 30 * 86400000), st_to = iso_day now\<rparr>"

definition studio_vars :: "string option \<Rightarrow> studio \<Rightarrow> QueryVars" where
  "studio_vars selectedProjectId st =
     \<lparr>v_project_id = selectedProjectId, v_from = Some (st_from st), v_to = Some (st_to st)\<rparr>"

definition loadList :: "server \<Rightarrow> string \<Rightarrow> string option \<Rightarrow> studio \<times> browser \<Rightarrow> studio \<times> browser" where
  "loadList srv base selectedProjectId sw =
     (case sw of (st, w) \<Rightarrow>
        case listReports srv base selectedProjectId w of
          (Inr rs, w1) \<Rightarrow> (st\<lparr>st_reports := rs\<rparr>, w1)
        | (Inl _, w1) \<Rightarrow> (st, w1))"

text \<open>The effect that runs every widget's query: it marks them as loading and makes the answers of
  the runs before it inactive.\<close>

definition widgetsKey :: "string option \<Rightarrow> studio \<Rightarrow> string" where
  "widgetsKey selectedProjectId st =
     join_with ''|'' (map (\<lambda>w. w_id w @ ''::'' @ w_sql w) (st_widgets st))
     @ ''::'' @ nullish selectedProjectId ''undefined'' @ ''::'' @ st_from st @ ''::'' @ st_to st"

definition run_widgets :: "studio \<Rightarrow> studio" where
  "run_widgets st =
     st\<lparr>st_data := fold (\<lambda>w d. d(w_id w \<mapsto> WLoading)) (st_widgets st) (st_data st), st_run := Suc (st_run st)\<rparr>"

definition widget_query :: "string option \<Rightarrow> studio \<Rightarrow> Widget \<Rightarrow> string" where
  "widget_query selectedProjectId st w = applyVars (w_sql w) (studio_vars selectedProjectId st)"

definition widget_answer :: "nat \<Rightarrow> string \<Rightarrow> js_error + json \<Rightarrow> studio \<Rightarrow> studio" where
  "widget_answer k i r st =
     (if k = st_run st
      then st\<lparr>st_data := (st_data st)(i \<mapsto> (case r of Inr v \<Rightarrow> WResult v | Inl e \<Rightarrow> WError (error_message e)))\<rparr>
      else st)"

definition openReport :: "Report \<Rightarrow> studio \<Rightarrow> studio" where
  "openReport r st =
     st\<lparr>st_reportId := Some (r_id r), st_name := r_name r, st_widgets := r_widgets r, st_layout := r_layout r\<rparr>"

definition openReport_io :: "server \<Rightarrow> string \<Rightarrow> string \<Rightarrow> studio \<Rightarrow> studio io" where
  "openReport_io srv base i st =
     io_bind (getReport srv base i) (\<lambda>j. io_bind (io_lift (report_of_json j)) (\<lambda>r. io_return (openReport r st)))"

definition newReport :: "studio \<Rightarrow> studio" where
  "newReport st = st\<lparr>st_reportId := None, st_name := ''Untitled report'', st_widgets := [], st_layout := []\<rparr>"

definition put_widget :: "Widget \<Rightarrow> Widget list \<Rightarrow> Widget list" where
  "put_widget w prev =
     (if list_ex (\<lambda>x. w_id x = w_id w) prev then map (\<lambda>x. if w_id x = w_id w then w else x) prev else prev @ [w])"

definition put_item :: "string \<Rightarrow> GridItem list \<Rightarrow> GridItem list" where
  "put_item i prev =
     (if list_ex (\<lambda>l. g_i l = i) prev then prev
      else (let y = foldl (\<lambda>m l. max m (g_y l + g_h l)) 0 prev
            in prev @ [\<lparr>g_i = i, g_x = 0, g_y = y, g_w = 6, g_h = 8\<rparr>]))"

definition addOrUpdateWidget :: "Widget \<Rightarrow> studio \<Rightarrow> studio" where
  "addOrUpdateWidget w st =
     st\<lparr>st_widgets := put_widget w (st_widgets st), st_layout := put_item (w_id w) (st_layout st), st_editing := None\<rparr>"

definition removeWidget :: "string \<Rightarrow> studio \<Rightarrow> studio" where
  "removeWidget i st =
     st\<lparr>st_widgets := filter (\<lambda>w. w_id w \<noteq> i) (st_widgets st), st_layout := filter (\<lambda>l. g_i l \<noteq> i) (st_layout st)\<rparr>"

text \<open>The grid reports a new arrangement.\<close>

definition onLayoutChange :: "GridItem list \<Rightarrow> studio \<Rightarrow> studio" where
  "onLayoutChange ls st =
     st\<lparr>st_layout := map (\<lambda>it. \<lparr>g_i = g_i it, g_x = g_x it, g_y = g_y it, g_w = g_w it, g_h = g_h it\<rparr>) ls\<rparr>"

definition newWidget :: "string \<Rightarrow> Widget" where
  "newWidget uid =
     \<lparr>w_id = uid, w_title = ''New widget'',
      w_sql = join_with nl [''SELECT method, count(*) AS hits'', ''FROM audits'',
        ''WHERE project_id = '' @ sq @ ''{{project_id}}'' @ sq @ '' AND timestamp >= '' @ sq @ ''{{from}}'' @ sq,
        ''GROUP BY method'', ''ORDER BY hits DESC''],
      w_viz = VizTable\<rparr>"

text \<open>\<open>save\<close>: the state after it and what it throws, if anything. An empty report id counts as none.\<close>

definition studio_save ::
  "server \<Rightarrow> string \<Rightarrow> string option \<Rightarrow> studio \<times> browser \<Rightarrow> (js_error + unit) \<times> studio \<times> browser" where
  "studio_save srv base selectedProjectId sw =
     (case sw of (st, w) \<Rightarrow>
        if truthy (st_reportId st)
        then (case updateReport srv base (nullish (st_reportId st) []) (st_name st) (st_widgets st) (st_layout st) w of
                (Inl e, w1) \<Rightarrow> (Inl e, st\<lparr>st_saving := False\<rparr>, w1)
              | (Inr _, w1) \<Rightarrow>
                  (case loadList srv base selectedProjectId (st, w1) of (st2, w2) \<Rightarrow> (Inr (), st2\<lparr>st_saving := False\<rparr>, w2)))
        else (case createReport srv base selectedProjectId (st_name st) (st_widgets st) (st_layout st) w of
                (Inl e, w1) \<Rightarrow> (Inl e, st\<lparr>st_saving := False\<rparr>, w1)
              | (Inr r, w1) \<Rightarrow>
                  (case jprop r ''id'' of
                     Inl e \<Rightarrow> (Inl e, st\<lparr>st_saving := False\<rparr>, w1)
                   | Inr i \<Rightarrow>
                       (case loadList srv base selectedProjectId (st\<lparr>st_reportId := map_option jstring i\<rparr>, w1) of
                          (st2, w2) \<Rightarrow> (Inr (), st2\<lparr>st_saving := False\<rparr>, w2)))))"

definition handleDeleteReport ::
  "server \<Rightarrow> string \<Rightarrow> string option \<Rightarrow> bool \<Rightarrow> studio \<times> browser \<Rightarrow> (js_error + unit) \<times> studio \<times> browser" where
  "handleDeleteReport srv base selectedProjectId confirmed sw =
     (case sw of (st, w) \<Rightarrow>
        if \<not> truthy (st_reportId st) then (Inr (), st, w)
        else if \<not> confirmed then (Inr (), st, w)
        else (case deleteReport srv base (nullish (st_reportId st) []) w of
                (Inl e, w1) \<Rightarrow> (Inl e, st, w1)
              | (Inr _, w1) \<Rightarrow>
                  (case loadList srv base selectedProjectId (newReport st, w1) of (st2, w2) \<Rightarrow> (Inr (), st2, w2))))"

text \<open>What \<open>VizRender\<close> shows: a note, a table, or the points of a chart. A missing cell is
  \<open>undefined\<close>; \<open>Number(x) || 0\<close> turns NaN into 0.\<close>

datatype viz_view = VizNote string | VizTableView "string list" "string list list" | VizChart VizType "(string \<times> rat) list"

definition viz_cell :: "json \<Rightarrow> string" where
  "viz_cell v = (case v of JNull \<Rightarrow> em_dash | x \<Rightarrow> jstring x)"

definition nth_cell :: "json list \<Rightarrow> nat \<Rightarrow> json option" where
  "nth_cell row k = (if k < length row then Some (row ! k) else None)"

definition VizRender :: "QueryResult \<Rightarrow> VizType \<Rightarrow> viz_view" where
  "VizRender r viz =
     (if qr_rows r = [] then VizNote ''No rows.''
      else if viz = VizTable then VizTableView (qr_columns r) (map (map viz_cell) (qr_rows r))
      else VizChart viz (map (\<lambda>row. (item_text (nth_cell row 0), nullish (jnumber (nth_cell row 1)) 0)) (qr_rows r)))"

text \<open>A widget on screen, and its section in the printed report.\<close>

datatype widget_view = ShowError string | ShowSpinner | ShowNoData | ShowViz json

definition WidgetView :: "widget_state option \<Rightarrow> widget_view" where
  "WidgetView state =
     (case state of
        Some (WError e) \<Rightarrow> if e = [] then ShowSpinner else ShowError e
      | Some (WResult r) \<Rightarrow> if jtruthy r then ShowViz r else ShowSpinner
      | _ \<Rightarrow> ShowSpinner)"

definition print_section :: "(string \<Rightarrow> widget_state option) \<Rightarrow> nat \<Rightarrow> Widget \<Rightarrow> string \<times> string \<times> string \<times> widget_view" where
  "print_section data i w =
     (show_nat (Suc i) @ ''.'', w_title w, viz_name (w_viz w),
      case data (w_id w) of
        Some (WError e) \<Rightarrow> if e = [] then ShowNoData else ShowError e
      | Some (WResult r) \<Rightarrow> if jtruthy r then ShowViz r else ShowNoData
      | _ \<Rightarrow> ShowNoData)"

definition ReportPrintDocument ::
  "string \<Rightarrow> string \<Rightarrow> string option \<Rightarrow> string \<Rightarrow> Widget list \<Rightarrow> (string \<Rightarrow> widget_state option)
   \<Rightarrow> string \<times> string \<times> (string \<times> string \<times> string \<times> widget_view) list" where
  "ReportPrintDocument generated name projectId period widgets data =
     (name,
      (if truthy projectId then ''Project '' @ nullish projectId [] @ '' '' @ [CHR 0xC2, CHR 0xB7] @ '' '' else [])
      @ (if period \<noteq> [] then ''Period '' @ period @ '' '' @ [CHR 0xC2, CHR 0xB7] @ '' '' else [])
      @ ''Generated '' @ generated,
      map (\<lambda>(i, w). print_section data i w) (List.enumerate 0 widgets))"

record widget_editor =
  we_title :: string
  we_sql :: string
  we_viz :: VizType
  we_preview :: "json option"
  we_error :: "string option"
  we_loading :: bool

definition editor_open :: "Widget \<Rightarrow> widget_editor" where
  "editor_open w = \<lparr>we_title = w_title w, we_sql = w_sql w, we_viz = w_viz w, we_preview = None, we_error = None, we_loading = False\<rparr>"

text \<open>The preview runs the text as it is, without substituting the variables.\<close>

definition editor_run :: "server \<Rightarrow> string \<Rightarrow> widget_editor \<Rightarrow> browser \<Rightarrow> widget_editor \<times> browser" where
  "editor_run srv base ed w =
     (case runQuery srv base (we_sql ed) w of
        (Inr r, w1) \<Rightarrow> (ed\<lparr>we_error := None, we_preview := Some r, we_loading := False\<rparr>, w1)
      | (Inl e, w1) \<Rightarrow> (ed\<lparr>we_error := Some (error_message e), we_preview := None, we_loading := False\<rparr>, w1))"

definition editor_save :: "Widget \<Rightarrow> widget_editor \<Rightarrow> Widget" where
  "editor_save w ed = \<lparr>w_id = w_id w, w_title = we_title ed, w_sql = we_sql ed, w_viz = we_viz ed\<rparr>"

section \<open>Substitution is exact\<close>

text \<open>A template: plain text without an opening brace, and variables with blanks around the name.\<close>

datatype part = Txt string | Var string string string

fun render_part :: "part \<Rightarrow> string" where
  "render_part (Txt s) = s"
| "render_part (Var pre n post) = ''{{'' @ pre @ n @ post @ ''}}''"

definition render :: "part list \<Rightarrow> string" where
  "render ps = concat (map render_part ps)"

definition var_name :: "string \<Rightarrow> bool" where
  "var_name n \<longleftrightarrow> n \<in> {''project_id'', ''from'', ''to''}"

fun part_ok :: "part \<Rightarrow> bool" where
  "part_ok (Txt s) \<longleftrightarrow> CHR ''{'' \<notin> set s"
| "part_ok (Var pre n post) \<longleftrightarrow> list_all is_space pre \<and> list_all is_space post \<and> var_name n"

fun subst_part :: "string \<Rightarrow> string \<Rightarrow> part \<Rightarrow> part" where
  "subst_part n v (Txt s) = Txt s"
| "subst_part n v (Var pre m post) = (if m = n then Txt v else Var pre m post)"

lemma expand_plain: "CHR ''$'' \<notin> set v \<Longrightarrow> expand_repl b m a v = v"
  by (induction b m a v rule: expand_repl.induct) auto

lemma dropWhile_spaces: "list_all is_space pre \<Longrightarrow> s = [] \<or> \<not> is_space (hd s) \<Longrightarrow> dropWhile is_space (pre @ s) = s"
  by (induction pre) (auto, cases s, auto)

lemma var_name_facts:
  assumes "var_name n"
  shows "n \<noteq> []" "\<not> is_space (hd n)" "CHR ''{'' \<notin> set n"
  using assms by (auto simp: var_name_def is_space_def)

lemma names_prefix_free:
  "var_name n \<Longrightarrow> var_name m \<Longrightarrow> prefix m (n @ post @ ''}}'' @ t) \<Longrightarrow> m = n"
  by (auto simp: var_name_def)

lemma match_var_here:
  assumes "list_all is_space pre" "list_all is_space post" "var_name n"
  shows "match_var n (''{{'' @ pre @ n @ post @ ''}}'' @ t) = Some t"
proof -
  have "dropWhile is_space (pre @ n @ post @ ''}}'' @ t) = n @ post @ ''}}'' @ t"
    using dropWhile_spaces [OF assms(1), of "n @ post @ ''}}'' @ t"] var_name_facts [OF assms(3)] by simp
  moreover have "dropWhile is_space (post @ ''}}'' @ t) = ''}}'' @ t"
    using dropWhile_spaces [OF assms(2), of "''}}'' @ t"] by (simp add: is_space_def)
  ultimately show ?thesis by (simp add: match_var_def)
qed

lemma match_var_other:
  assumes "list_all is_space pre" "var_name n" "var_name m" "m \<noteq> n"
  shows "match_var m (''{{'' @ pre @ n @ post @ ''}}'' @ t) = None"
proof -
  have "dropWhile is_space (pre @ n @ post @ ''}}'' @ t) = n @ post @ ''}}'' @ t"
    using dropWhile_spaces [OF assms(1), of "n @ post @ ''}}'' @ t"] var_name_facts [OF assms(2)] by simp
  moreover have "\<not> prefix m (n @ post @ ''}}'' @ t)" using names_prefix_free assms by blast
  ultimately show ?thesis by (simp add: match_var_def Let_def)
qed

lemma replace_none: "match_var m (c # cs) = None \<Longrightarrow> replace_var m v b (c # cs) = c # replace_var m v (b @ [c]) cs"
  by simp

lemma replace_some:
  assumes "match_var n (mt @ t) = Some t" "mt \<noteq> []"
  shows "replace_var n v b (mt @ t) = expand_repl b mt t v @ replace_var n v (b @ mt) t"
proof -
  obtain c cs where c: "mt @ t = c # cs" using assms(2) by (cases mt) auto
  have "take (length (mt @ t) - length t) (mt @ t) = mt" by simp
  with assms(1) show ?thesis unfolding c by (simp add: Let_def)
qed

lemma replace_plain: "CHR ''{'' \<notin> set s \<Longrightarrow> replace_var m v b (s @ t) = s @ replace_var m v (b @ s) t"
  by (induction s arbitrary: b) (auto simp: match_var_def)

text \<open>The second brace of an opening pair does not start a match of its own.\<close>

lemma match_var_brace: "x \<noteq> CHR ''{'' \<Longrightarrow> match_var m (CHR ''{'' # x # s) = None"
  by (simp add: match_var_def)

lemma replace_skip:
  assumes "part_ok (Var pre n post)" "var_name m" "m \<noteq> n"
  shows "replace_var m v b (''{{'' @ pre @ n @ post @ ''}}'' @ t)
    = ''{{'' @ pre @ n @ post @ ''}}'' @ replace_var m v (b @ ''{{'' @ pre @ n @ post @ ''}}'') t"
proof -
  let ?in = "pre @ n @ post @ ''}}''"
  have free: "CHR ''{'' \<notin> set ?in"
    using assms(1) var_name_facts(3) [of n] by (auto simp: list.pred_set is_space_def)
  have ne: "?in \<noteq> []" by simp
  then obtain x xs where x: "?in = x # xs" by (cases ?in) auto
  with free have "x \<noteq> CHR ''{''" by auto
  then have 2: "replace_var m v b' (CHR ''{'' # ?in @ t) = CHR ''{'' # ?in @ replace_var m v (b' @ ''{'' @ ?in) t" for b'
    using replace_plain [OF free, of m v "b' @ ''{''" t] match_var_brace [of x m "xs @ t"] x by simp
  have 1: "match_var m (CHR ''{'' # CHR ''{'' # ?in @ t) = None"
    using match_var_other [of pre n m post t] assms by simp
  show ?thesis
    using replace_none [OF 1, of v b] 2 [of "b @ ''{''"] by simp
qed

lemma replace_hit:
  assumes "part_ok (Var pre n post)" "CHR ''$'' \<notin> set v"
  shows "replace_var n v b (''{{'' @ pre @ n @ post @ ''}}'' @ t)
    = v @ replace_var n v (b @ ''{{'' @ pre @ n @ post @ ''}}'') t"
proof -
  let ?m = "''{{'' @ pre @ n @ post @ ''}}''"
  have m: "match_var n (?m @ t) = Some t" using match_var_here [of pre post n t] assms(1) by simp
  show ?thesis
    using replace_some [OF m, of v b] expand_plain [OF assms(2), of b ?m t] by simp
qed

lemma replace_template:
  assumes "list_all part_ok ps" "var_name n" "CHR ''$'' \<notin> set v"
  shows "replace_var n v b (render ps) = render (map (subst_part n v) ps)"
  using assms(1)
proof (induction ps arbitrary: b)
  case (Cons p ps)
  then have ok: "part_ok p" and IH: "\<And>b. replace_var n v b (render ps) = render (map (subst_part n v) ps)" by auto
  show ?case
  proof (cases p)
    case (Txt s)
    with ok IH replace_plain [of s n v b "render ps"] show ?thesis by (simp add: render_def)
  next
    case (Var pre m post)
    show ?thesis
    proof (cases "m = n")
      case True
      with ok Var IH replace_hit [of pre n post v b "render ps"] assms(3) show ?thesis by (simp add: render_def)
    next
      case False
      with ok Var IH replace_skip [of pre m post n v b "render ps"] assms(2) show ?thesis by (simp add: render_def)
    qed
  qed
qed (simp add: render_def)

fun part_value :: "QueryVars \<Rightarrow> part \<Rightarrow> string" where
  "part_value vars (Txt s) = s"
| "part_value vars (Var pre n post) =
     (if n = ''project_id'' then nullish (v_project_id vars) []
      else if n = ''from'' then nullish (v_from vars) [] else nullish (v_to vars) [])"

definition plain_value :: "string option \<Rightarrow> bool" where
  "plain_value v \<longleftrightarrow> set (nullish v []) \<inter> {CHR ''$'', CHR ''{''} = {}"

lemma subst_ok:
  "CHR ''{'' \<notin> set v \<Longrightarrow> list_all part_ok ps \<Longrightarrow> list_all part_ok (map (subst_part n v) ps)"
proof -
  have "CHR ''{'' \<notin> set v \<Longrightarrow> part_ok p \<Longrightarrow> part_ok (subst_part n v p)" for p by (cases p) auto
  then show "CHR ''{'' \<notin> set v \<Longrightarrow> list_all part_ok ps \<Longrightarrow> list_all part_ok (map (subst_part n v) ps)"
    by (auto simp: list.pred_set)
qed

section \<open>CSV\<close>

text \<open>A reader of comma-separated values: fields may be quoted, a doubled quote is a quote, and a
  line feed ends a record.\<close>

fun csv_quoted :: "string \<Rightarrow> string \<times> string" where
  "csv_quoted [] = ([], [])"
| "csv_quoted [c] = (if c = dquote then ([], []) else ([c], []))"
| "csv_quoted (c # d # r) =
     (if c = dquote then (if d = dquote then (case csv_quoted r of (f, t) \<Rightarrow> (dquote # f, t)) else ([], d # r))
      else (case csv_quoted (d # r) of (f, t) \<Rightarrow> (c # f, t)))"

definition csv_field :: "string \<Rightarrow> string \<times> string" where
  "csv_field s =
     (case s of
        c # r \<Rightarrow> if c = dquote then csv_quoted r
                 else (takeWhile (\<lambda>x. x \<noteq> CHR '','' \<and> x \<noteq> CHR 0x0A) s, dropWhile (\<lambda>x. x \<noteq> CHR '','' \<and> x \<noteq> CHR 0x0A) s)
      | [] \<Rightarrow> ([], []))"

lemma csv_quoted_shorter: "length (snd (csv_quoted s)) \<le> length s"
  by (induction s rule: csv_quoted.induct) (auto split: prod.splits)

lemma csv_field_shorter: "csv_field s = (f, c # r) \<Longrightarrow> length r < length s"
  using csv_quoted_shorter [of "tl s"] length_dropWhile_le [of "\<lambda>x. x \<noteq> CHR '','' \<and> x \<noteq> CHR 0x0A" s]
  by (auto simp: csv_field_def split: list.splits if_splits)

function csv_read :: "string \<Rightarrow> string list list" where
  "csv_read s =
     (case csv_field s of (f, t) \<Rightarrow>
        (case t of
           [] \<Rightarrow> [[f]]
         | c # r \<Rightarrow> if c = CHR '','' then (case csv_read r of row # rows \<Rightarrow> (f # row) # rows | [] \<Rightarrow> [[f]])
                    else [f] # csv_read r))"
  by pat_completeness auto
termination
  by (relation "measure length") (auto dest: csv_field_shorter [OF sym])

declare csv_read.simps [simp del]

definition field_end :: "string \<Rightarrow> bool" where
  "field_end t \<longleftrightarrow> t = [] \<or> hd t = CHR '','' \<or> hd t = CHR 0x0A"

lemma csv_quoted_esc:
  "field_end t \<Longrightarrow> csv_quoted (concat (map (\<lambda>c. if c = dquote then [dquote, dquote] else [c]) s) @ dquote # t) = (s, t)"
proof (induction s)
  case Nil
  then show ?case by (cases t) (auto simp: field_end_def)
next
  case (Cons c s)
  have step: "c \<noteq> dquote \<Longrightarrow> u \<noteq> [] \<Longrightarrow> csv_quoted (c # u) = (case csv_quoted u of (f, t) \<Rightarrow> (c # f, t))" for u
    by (cases u) auto
  with Cons show ?case by (cases "c = dquote") auto
qed

lemma csv_field_esc: "field_end t \<Longrightarrow> csv_field (csv_esc s @ t) = (s, t)"
proof (cases "list_ex (\<lambda>c. c = dquote \<or> c = CHR '','' \<or> c = CHR 0x0A) s")
  case True
  moreover assume "field_end t"
  ultimately show ?thesis using csv_quoted_esc [of t s] by (simp add: csv_esc_def csv_field_def)
next
  case False
  assume t: "field_end t"
  have p: "\<forall>x \<in> set s. x \<noteq> CHR '','' \<and> x \<noteq> CHR 0x0A" "dquote \<notin> set s" using False by (auto simp: list_ex_iff)
  have "takeWhile (\<lambda>x. x \<noteq> CHR '','' \<and> x \<noteq> CHR 0x0A) (s @ t) = s"
    "dropWhile (\<lambda>x. x \<noteq> CHR '','' \<and> x \<noteq> CHR 0x0A) (s @ t) = t"
    using p(1) t by (cases t; auto simp: field_end_def takeWhile_append2 dropWhile_append2)+
  then show ?thesis
    using False p(2) t by (cases "s @ t") (auto simp: csv_esc_def csv_field_def field_end_def Cons_eq_append_conv)
qed

lemma csv_read_row:
  assumes "fs \<noteq> []"
  shows "csv_read (join_with '','' (map csv_esc fs)) = [fs]"
    "csv_read (join_with '','' (map csv_esc fs) @ CHR 0x0A # t) = fs # csv_read t"
  using assms
proof (induction fs rule: list_nonempty_induct)
  case (single f)
  {
    case 1
    then show ?case using csv_field_esc [of "[]" f] by (simp add: csv_read.simps [of "csv_esc f"] field_end_def)
  next
    case 2
    then show ?case using csv_field_esc [of "CHR 0x0A # t" f]
      by (simp add: csv_read.simps [of "csv_esc f @ CHR 0x0A # t"] field_end_def)
  }
next
  case (cons f fs)
  have j: "join_with '','' (map csv_esc (f # fs)) = csv_esc f @ CHR '','' # join_with '','' (map csv_esc fs)"
    using cons(1) by (cases fs) auto
  {
    case 1
    show ?case unfolding j using cons csv_field_esc [of "CHR '','' # join_with '','' (map csv_esc fs)" f]
      by (subst csv_read.simps) (simp add: field_end_def)
  next
    case 2
    have c: "(csv_esc f @ CHR '','' # join_with '','' (map csv_esc fs)) @ CHR 0x0A # t
      = csv_esc f @ CHR '','' # (join_with '','' (map csv_esc fs) @ CHR 0x0A # t)" by simp
    show ?case unfolding j c
      using cons csv_field_esc [of "CHR '','' # join_with '','' (map csv_esc fs) @ CHR 0x0A # t" f]
      by (subst csv_read.simps) (simp add: field_end_def)
  }
qed

lemma csv_read_rows:
  "rows \<noteq> [] \<Longrightarrow> (\<And>r. r \<in> set rows \<Longrightarrow> r \<noteq> []) \<Longrightarrow>
   csv_read (join_with nl (map (\<lambda>r. join_with '','' (map csv_esc r)) rows)) = rows"
proof (induction rows rule: list_nonempty_induct)
  case (single r)
  then show ?case by (simp add: csv_read_row)
next
  case (cons r rows)
  have "join_with nl (map (\<lambda>r. join_with '','' (map csv_esc r)) (r # rows))
      = join_with '','' (map csv_esc r) @ CHR 0x0A # join_with nl (map (\<lambda>r. join_with '','' (map csv_esc r)) rows)"
    using cons(1) by (cases rows) (auto simp: nl_def)
  then show ?case using cons csv_read_row(2) [of r] by (simp add: nl_def)
qed

section \<open>Invariant of the designer\<close>

definition overlaps :: "GridItem \<Rightarrow> GridItem \<Rightarrow> bool" where
  "overlaps a b \<longleftrightarrow> g_x a < g_x b + g_w b \<and> g_x b < g_x a + g_w a \<and> g_y a < g_y b + g_h b \<and> g_y b < g_y a + g_h a"

definition studio_ok :: "studio \<Rightarrow> bool" where
  "studio_ok st \<longleftrightarrow>
     distinct (map w_id (st_widgets st)) \<and> distinct (map g_i (st_layout st))
     \<and> w_id ` set (st_widgets st) = g_i ` set (st_layout st)
     \<and> (\<forall>a \<in> set (st_layout st). \<forall>b \<in> set (st_layout st). a \<noteq> b \<longrightarrow> \<not> overlaps a b)"

datatype studio_op = PutWidget Widget | RemoveWidget string | NewReport | OpenReport Report

fun studio_step :: "studio \<Rightarrow> studio_op \<Rightarrow> studio" where
  "studio_step st (PutWidget w) = addOrUpdateWidget w st"
| "studio_step st (RemoveWidget i) = removeWidget i st"
| "studio_step st NewReport = newReport st"
| "studio_step st (OpenReport r) = openReport r st"

lemma foldl_max_ge:
  fixes f :: "'b \<Rightarrow> int"
  shows "m \<le> foldl (\<lambda>m l. max m (f l)) m ls" "l \<in> set ls \<Longrightarrow> f l \<le> foldl (\<lambda>m l. max m (f l)) m ls"
proof -
  show 1: "m \<le> foldl (\<lambda>m l. max m (f l)) m ls" for m ls
    by (induction ls arbitrary: m) (auto intro: order.trans [OF max.cobounded1])
  show "l \<in> set ls \<Longrightarrow> f l \<le> foldl (\<lambda>m l. max m (f l)) m ls"
  proof (induction ls arbitrary: m)
    case (Cons a ls)
    then show ?case using 1 [of "max m (f a)" ls] by (cases "l = a") auto
  qed simp
qed

lemma put_item_below:
  assumes "b \<in> set ls"
  shows "\<not> overlaps \<lparr>g_i = i, g_x = 0, g_y = foldl (\<lambda>m l. max m (g_y l + g_h l)) 0 ls, g_w = 6, g_h = 8\<rparr> b
    \<and> \<not> overlaps b \<lparr>g_i = i, g_x = 0, g_y = foldl (\<lambda>m l. max m (g_y l + g_h l)) 0 ls, g_w = 6, g_h = 8\<rparr>"
  using foldl_max_ge(2) [OF assms, of "\<lambda>l. g_y l + g_h l" 0] by (auto simp: overlaps_def)

lemma put_widget_ids:
  "w_id ` set (put_widget w ws) = insert (w_id w) (w_id ` set ws)"
  "distinct (map w_id ws) \<Longrightarrow> distinct (map w_id (put_widget w ws))"
proof -
  have m: "map w_id (map (\<lambda>x. if w_id x = w_id w then w else x) ws) = map w_id ws"
    by (induction ws) auto
  show "distinct (map w_id ws) \<Longrightarrow> distinct (map w_id (put_widget w ws))"
    unfolding put_widget_def using m by (auto simp: list_ex_iff simp del: map_map)
  show "w_id ` set (put_widget w ws) = insert (w_id w) (w_id ` set ws)"
    using arg_cong [OF m, of set] by (auto simp: put_widget_def list_ex_iff simp del: map_map)
qed

lemma put_item_ids:
  "g_i ` set (put_item i ls) = insert i (g_i ` set ls)"
  "distinct (map g_i ls) \<Longrightarrow> distinct (map g_i (put_item i ls))"
  by (auto simp: put_item_def list_ex_iff Let_def)

lemma put_item_free:
  "(\<forall>a \<in> set ls. \<forall>b \<in> set ls. a \<noteq> b \<longrightarrow> \<not> overlaps a b) \<Longrightarrow>
   \<forall>a \<in> set (put_item i ls). \<forall>b \<in> set (put_item i ls). a \<noteq> b \<longrightarrow> \<not> overlaps a b"
  using put_item_below [of _ ls i] by (auto simp: put_item_def Let_def)

lemma studio_step_ok:
  assumes "studio_ok st" "\<And>r. op = OpenReport r \<Longrightarrow> studio_ok (openReport r st)"
  shows "studio_ok (studio_step st op)"
proof (cases op)
  case (PutWidget w)
  then show ?thesis using assms(1) put_item_free [of "st_layout st" "w_id w"]
    by (auto simp: studio_ok_def addOrUpdateWidget_def put_widget_ids put_item_ids)
next
  case (RemoveWidget i)
  have "w_id ` set (filter (\<lambda>w. w_id w \<noteq> i) ws) = w_id ` set ws - {i}" for ws by auto
  moreover have "g_i ` set (filter (\<lambda>l. g_i l \<noteq> i) ls) = g_i ` set ls - {i}" for ls by auto
  ultimately show ?thesis using RemoveWidget assms(1)
    by (auto simp: studio_ok_def removeWidget_def distinct_map_filter)
next
  case NewReport
  then show ?thesis by (simp add: studio_ok_def newReport_def)
qed (use assms(2) in simp)

section \<open>A saved report reads back\<close>

lemma viz_of_name: "viz_of (viz_name v) = Some v"
  by (cases v) (simp_all add: viz_of_def viz_name_def)

lemma widget_of_widget_json: "widget_of_json (widget_json w) = Some w"
  by (simp add: widget_of_json_def widget_json_def viz_of_name)

lemma grid_of_grid_json: "grid_of_json (grid_json g) = Some g"
  by (simp add: grid_of_json_def grid_json_def)

lemma wf_report_body: "wf_json (report_body p name ws ls)"
  by (auto simp: report_body_def obj_of_def jstr_def widget_json_def grid_json_def split: option.splits)

lemma report_body_read:
  "report_of_json (case report_body p name ws ls of JObj kvs \<Rightarrow> JObj ((''id'', JStr i) # kvs) | x \<Rightarrow> x)
   = Inr \<lparr>r_id = i, r_name = name, r_widgets = ws, r_layout = ls\<rparr>"
proof -
  have w: "all_some (map (widget_of_json \<circ> widget_json) ws) = Some ws"
    using all_some_map [of ws "widget_of_json \<circ> widget_json" id] by (simp add: widget_of_widget_json)
  have g: "all_some (map (grid_of_json \<circ> grid_json) ls) = Some ls"
    using all_some_map [of ls "grid_of_json \<circ> grid_json" id] by (simp add: grid_of_grid_json)
  show ?thesis
    by (auto simp: report_body_def obj_of_def jstr_def report_of_json_def list_member_def w g split: option.splits)
qed

section \<open>Requests of a save\<close>

abbreviation auth_req :: "string \<Rightarrow> request_init \<Rightarrow> browser \<Rightarrow> request" where
  "auth_req u init v \<equiv> init_request u init (hdr_spread (bearer (getToken (b_store v))) (ri_headers init))"

lemma fetch_sent: "b_sent (snd (fetchWithAuth srv u init v)) = b_sent v @ [auth_req u init v]"
  by (simp add: fetchWithAuth_def io_bind_def js_fetch_def Let_def split: sum.split)

lemma check_sent: "b_sent (snd (json_or m r v)) = b_sent v" "b_sent (snd (require_ok m r v)) = b_sent v"
  by (simp_all add: json_or_def io_bind_def require_ok_def io_return_def io_throw_def io_lift_def split: sum.split)

lemma auth_sent:
  "b_sent (snd (auth_json srv u init m v)) = b_sent v @ [auth_req u init v]"
  "b_sent (snd (auth_unit srv u init m v)) = b_sent v @ [auth_req u init v]"
  using fetch_sent [of srv u init v] check_sent
  by (auto simp: auth_json_def auth_unit_def io_bind_def split: prod.split sum.split)

lemma load_sent: "prefix (b_sent v) (b_sent (snd (loadList srv base pid (s, v))))"
  using fetch_sent [of srv "base @ ''/v1/reports'' @ project_query pid" no_init v]
  by (auto simp: loadList_def listReports_def io_bind_def io_lift_def io_return_def split: prod.splits sum.splits)

section \<open>Properties\<close>

text \<open>C23. Template variables: in a text whose only braces are the variables', with any blanks around
  the names, \<open>applyVars\<close> replaces every occurrence of each variable by its value (nothing for a missing
  one) and leaves the rest as it is, for values without \<open>$\<close> or an opening brace.\<close>

theorem applyVars_exact:
  assumes "list_all part_ok ps" "plain_value (v_project_id vars)" "plain_value (v_from vars)" "plain_value (v_to vars)"
  shows "applyVars (render ps) vars = concat (map (part_value vars) ps)"
proof -
  let ?p = "nullish (v_project_id vars) []" and ?f = "nullish (v_from vars) []" and ?t = "nullish (v_to vars) []"
  let ?ps1 = "map (subst_part ''project_id'' ?p) ps"
  let ?ps2 = "map (subst_part ''from'' ?f) ?ps1"
  have v: "CHR ''$'' \<notin> set ?p" "CHR ''$'' \<notin> set ?f" "CHR ''$'' \<notin> set ?t" "CHR ''{'' \<notin> set ?p" "CHR ''{'' \<notin> set ?f"
    using assms(2-4) by (auto simp: plain_value_def)
  have n: "var_name ''project_id''" "var_name ''from''" "var_name ''to''" by (simp_all add: var_name_def)
  have ok1: "list_all part_ok ?ps1" by (rule subst_ok [OF v(4) assms(1)])
  have ok2: "list_all part_ok ?ps2" by (rule subst_ok [OF v(5) ok1])
  have "applyVars (render ps) vars = render (map (subst_part ''to'' ?t) ?ps2)"
    by (simp only: applyVars_def replace_template [OF assms(1) n(1) v(1)] replace_template [OF ok1 n(2) v(2)]
        replace_template [OF ok2 n(3) v(3)])
  also have "\<dots> = concat (map (part_value vars) ps)"
  proof -
    have "part_ok p \<Longrightarrow> render_part (subst_part ''to'' ?t (subst_part ''from'' ?f (subst_part ''project_id'' ?p p)))
        = part_value vars p" for p
      by (cases p) (auto simp: var_name_def)
    with assms(1) show ?thesis by (simp add: render_def list.pred_set comp_def cong: map_cong)
  qed
  finally show ?thesis .
qed

theorem applyVars_exact_witness:
  "applyVars (render [Txt ''id = '', Var [] ''project_id'' [], Txt '' since '', Var '' '' ''from'' '' ''])
     \<lparr>v_project_id = Some ''p1'', v_from = Some ''2024'', v_to = None\<rparr>
   = concat (map (part_value \<lparr>v_project_id = Some ''p1'', v_from = Some ''2024'', v_to = None\<rparr>)
       [Txt ''id = '', Var [] ''project_id'' [], Txt '' since '', Var '' '' ''from'' '' ''])"
  by (rule applyVars_exact) (simp_all add: plain_value_def var_name_def is_space_def)





text \<open>C26. What \<open>save\<close> sends can be opened again: the body of its request parses to an object which,
  with the id the server assigns, reads back as the report being designed, name, widgets and layout.\<close>

theorem save_roundtrip:
  "\<exists>req body. hd (drop (length (b_sent w)) (b_sent (snd (snd (studio_save srv base pid (st, w)))))) = req
    \<and> req_method req = (if truthy (st_reportId st) then ''PUT'' else ''POST'')
    \<and> Option.bind (req_body req) (\<lambda>b. Some (json_parse b)) = Some (Inr body)
    \<and> report_of_json (case body of JObj kvs \<Rightarrow> JObj ((''id'', JStr i) # kvs) | x \<Rightarrow> x)
      = Inr \<lparr>r_id = i, r_name = st_name st, r_widgets = st_widgets st, r_layout = st_layout st\<rparr>"
proof -
  let ?b = "report_body (if truthy (st_reportId st) then None else Some pid) (st_name st) (st_widgets st) (st_layout st)"
  let ?m = "if truthy (st_reportId st) then ''PUT'' else ''POST''"
  let ?url = "if truthy (st_reportId st) then base @ ''/v1/reports/'' @ nullish (st_reportId st) [] else base @ ''/v1/reports''"
  let ?req = "init_request ?url (json_init ?m ?b) (hdr_spread (bearer (getToken (b_store w))) json_header)"
  have "prefix (b_sent w @ [?req]) (b_sent (snd (snd (studio_save srv base pid (st, w)))))"
  proof (cases "truthy (st_reportId st)")
    case True
    obtain r w1 where u: "updateReport srv base (nullish (st_reportId st) []) (st_name st) (st_widgets st) (st_layout st) w = (r, w1)"
      by fastforce
    then have "b_sent w1 = b_sent w @ [?req]"
      using auth_sent(2) [of srv "base @ ''/v1/reports/'' @ nullish (st_reportId st) []" "json_init ''PUT'' ?b" "''Failed to save report''" w] True
      by (simp add: updateReport_def json_init_def)
    with True u load_sent [of w1 srv base pid] show ?thesis
      by (auto simp: studio_save_def split: prod.split sum.split) (metis snd_conv)
  next
    case False
    obtain r w1 where u: "createReport srv base pid (st_name st) (st_widgets st) (st_layout st) w = (r, w1)" by fastforce
    then have "b_sent w1 = b_sent w @ [?req]"
      using auth_sent(1) [of srv "base @ ''/v1/reports''" "json_init ''POST'' ?b" "''Failed to create report''" w] False
      by (simp add: createReport_def json_init_def)
    with False u load_sent [of w1 srv base pid] show ?thesis
      by (auto simp: studio_save_def split: prod.split sum.split) (metis snd_conv)
  qed
  then have "hd (drop (length (b_sent w)) (b_sent (snd (snd (studio_save srv base pid (st, w)))))) = ?req"
    by (auto simp: prefix_def)
  moreover have "json_parse (stringify ?b) = Inr ?b" by (rule parse_stringify [OF wf_report_body])
  ultimately show ?thesis
    using report_body_read [where name = "st_name st" and ws = "st_widgets st" and ls = "st_layout st" and i = i]
    by (intro exI [of _ ?req] exI [of _ ?b]) (simp add: init_request_def json_init_def)
qed

end
