(* ===== verification/View.thy ===== *)
theory View
  imports Prelude
begin

text \<open>
  What a component shows, as a tree: the text and the controls of the markup a component returns, in
  its order. A control carries the action its handler performs, and a button whether it is enabled.
  Styling, icons and the nesting of boxes that has no effect on the content are left out.
\<close>

datatype 'a view =
    Text string
  | Box "'a view list"
  | Button string bool 'a                      \<comment> \<open>label, enabled, action\<close>
  | Item string bool 'a                        \<comment> \<open>label, highlighted as active, action\<close>
  | Link string string                         \<comment> \<open>label, target\<close>
  | Field string string                        \<comment> \<open>label or placeholder, value\<close>
  | Select string "(string \<times> string) list"   \<comment> \<open>value, the options with their labels\<close>

text \<open>\<open>c && v\<close> between tags.\<close>

definition shown_if :: "bool \<Rightarrow> 'a view list \<Rightarrow> 'a view list" where
  "shown_if c vs = (if c then vs else [])"

lemma shown_if_simps [simp]: "shown_if True vs = vs" "shown_if False vs = []"
  by (simp_all add: shown_if_def)

lemma set_shown_if [simp]: "v \<in> set (shown_if c vs) \<longleftrightarrow> c \<and> v \<in> set vs"
  by (simp add: shown_if_def)

text \<open>The actions a user can trigger, the link targets, the highlighted actions, the visible text.\<close>

primrec clicks :: "'a view \<Rightarrow> 'a list" where
  "clicks (Text s) = []"
| "clicks (Box vs) = concat (map clicks vs)"
| "clicks (Button l e a) = (if e then [a] else [])"
| "clicks (Item l h a) = [a]"
| "clicks (Link l t) = []"
| "clicks (Field l v) = []"
| "clicks (Select v opts) = []"

primrec links :: "'a view \<Rightarrow> string list" where
  "links (Text s) = []"
| "links (Box vs) = concat (map links vs)"
| "links (Button l e a) = []"
| "links (Item l h a) = []"
| "links (Link l t) = [t]"
| "links (Field l v) = []"
| "links (Select v opts) = []"

primrec items :: "'a view \<Rightarrow> (string \<times> bool \<times> 'a) list" where
  "items (Text s) = []"
| "items (Box vs) = concat (map items vs)"
| "items (Button l e a) = []"
| "items (Item l h a) = [(l, h, a)]"
| "items (Link l t) = []"
| "items (Field l v) = []"
| "items (Select v opts) = []"

primrec texts :: "'a view \<Rightarrow> string list" where
  "texts (Text s) = [s]"
| "texts (Box vs) = concat (map texts vs)"
| "texts (Button l e a) = [l]"
| "texts (Item l h a) = [l]"
| "texts (Link l t) = [l]"
| "texts (Field l v) = [l, v]"
| "texts (Select v opts) = map snd opts"

text \<open>What a component that carries a handler shows with the handler composed.\<close>

lemma clicks_map_view: "clicks (map_view f v) = map f (clicks v)"
  by (induction v) (auto simp: map_concat comp_def cong: map_cong)

lemma links_map_view: "links (map_view f v) = links v"
  by (induction v) (auto simp: comp_def cong: map_cong)

lemma items_map_view: "items (map_view f v) = map (\<lambda>(l, h, a). (l, h, f a)) (items v)"
  by (induction v) (auto simp: map_concat comp_def cong: map_cong)

lemma texts_map_view: "texts (map_view f v) = texts v"
  by (induction v) (auto simp: comp_def cong: map_cong)


text \<open>A \<open>select\<close> with its handler: the value shown and, for every other option that is not disabled, the action of choosing
  it. The options are given as value, label and whether they can be chosen.\<close>

definition chooser :: "string \<Rightarrow> bool \<Rightarrow> (string \<times> string \<times> bool) list \<Rightarrow> (string \<Rightarrow> 'a) \<Rightarrow> 'a view" where
  "chooser val enabled opts act =
     Box (Select val (map (\<lambda>(v, l, e). (v, l)) opts) # map (\<lambda>(v, l, e). Button l (enabled \<and> e \<and> v \<noteq> val) (act v)) opts)"

lemma clicks_chooser:
  "a \<in> set (clicks (chooser val enabled opts act)) \<longleftrightarrow>
    enabled \<and> (\<exists>v l. (v, l, True) \<in> set opts \<and> v \<noteq> val \<and> a = act v)"
  by (force simp: chooser_def split: if_splits)

end
