(* ===== verification/Studio_View.thy ===== *)
theory Studio_View
  imports Studio View
begin

text \<open>
  What the query page and the report designer show (\<open>routes/app/_layout/query.tsx\<close>, \<open>studio.tsx\<close>) and the
  steps of the designer's controls that stay in the page. A result is a record once its columns
  and rows are read; the grid of \<open>react-grid-layout\<close> is a list of widgets.
\<close>

section \<open>Query page\<close>

definition SCHEMA :: "string list" where
  "SCHEMA =
     [''timestamp'', ''identifier'', ''user_email'', ''user_name'', ''user_type'', ''tenant_id'',
      ''method'', ''path'', ''status_code'', ''response_time'', ''service_name'', ''environment'',
      ''event_type'', ''source'', ''ip'', ''user_agent'', ''request_id'', ''session_id'', ''error_message'']"

datatype query_event = RunQuery | DownloadCSV | PickExample string | PickColumn string

definition result_table_view :: "QueryResult \<Rightarrow> query_event view list" where
  "result_table_view r =
     (case ResultTable r of
        None \<Rightarrow> [Text ''No columns.'']
      | Some (cols, rows, note) \<Rightarrow>
          Box (map Text cols) # map (\<lambda>row. Box (map Text row)) rows @ (case note of None \<Rightarrow> [] | Some s \<Rightarrow> [Text s]))"

text \<open>\<open>result\<close> is the answer on display, if any.\<close>

definition QueryPage :: "QueryResult option \<Rightarrow> query_page \<Rightarrow> query_event view" where
  "QueryPage result st =
     Box ([Text ''Query'', Text ''read-only SQL over your audit logs'', Field ''SELECT * FROM audits LIMIT 100'' (qp_sql st),
           Button ''Run'' (\<not> qp_loading st) RunQuery]
          @ shown_if (truthy (qp_error st)) [Text (nullish (qp_error st) [])]
          @ (case result of
               None \<Rightarrow> []
             | Some r \<Rightarrow> map Text (result_caption r) @ shown_if (qr_rows r \<noteq> []) [Button ''CSV'' True DownloadCSV] @ result_table_view r)
          @ [Text ''Examples''] @ map (\<lambda>(label, sql). Item label False (PickExample sql)) EXAMPLES
          @ [Text ''Table: audits''] @ map (\<lambda>col. Item col False (PickColumn col)) SCHEMA
          @ [Text ''Read-only. Only SELECT runs.'', Text ''Vars: {{project_id}} {{from}} {{to}}''])"

fun query_step :: "query_page \<Rightarrow> query_event \<Rightarrow> query_page" where
  "query_step st (PickExample sql) = st\<lparr>qp_sql := sql\<rparr>"
| "query_step st (PickColumn col) = query_add_column col st"
| "query_step st RunQuery = st\<lparr>qp_loading := True, qp_error := None\<rparr>"
| "query_step st DownloadCSV = st"

section \<open>Report designer\<close>

datatype studio_event =
    AddWidget | SaveReport | ExportPDF | DeleteReport | NewReport | OpenReport string
  | EditWidget Widget | RemoveWidget string | CloseEditor | PreviewWidget | PickViz string | SaveWidget Widget

definition PIE_COLORS :: "string list" where
  "PIE_COLORS = [''#818cf8'', ''#34d399'', ''#fbbf24'', ''#f87171'', ''#60a5fa'', ''#c084fc'', ''#f472b6'', ''#2dd4bf'']"

definition viz_view_of :: "viz_view \<Rightarrow> studio_event view list" where
  "viz_view_of v =
     (case v of
        VizNote s \<Rightarrow> [Text s]
      | VizTableView cols rows \<Rightarrow> Box (map Text cols) # map (\<lambda>row. Box (map Text row)) rows
      | VizChart k pts \<Rightarrow> map (\<lambda>(l, n). Box [Text l, Text (number_to_string n)]) pts)"

text \<open>\<open>read\<close> takes the record of a result from its JSON.\<close>

definition widget_card :: "(json \<Rightarrow> QueryResult) \<Rightarrow> studio \<Rightarrow> Widget \<Rightarrow> studio_event view" where
  "widget_card read st w =
     Box ([Text (w_title w), Text (viz_name (w_viz w)), Button ''edit'' True (EditWidget w), Button ''remove'' True (RemoveWidget (w_id w))]
          @ (case WidgetView (st_data st (w_id w)) of
               ShowError e \<Rightarrow> [Text e]
             | ShowSpinner \<Rightarrow> []
             | ShowNoData \<Rightarrow> []
             | ShowViz r \<Rightarrow> viz_view_of (VizRender (read r) (w_viz w))))"

definition studio_toolbar :: "studio \<Rightarrow> studio_event view list" where
  "studio_toolbar st =
     [Field [] (st_name st), Field ''{{from}}'' (st_from st), Text arrow_right, Field ''{{to}}'' (st_to st),
      Button ''Add widget'' True AddWidget, Button ''Save'' (\<not> st_saving st) SaveReport,
      Button ''Export PDF'' (st_widgets st \<noteq> []) ExportPDF]
     @ shown_if (truthy (st_reportId st)) [Button ''Delete'' True DeleteReport]"

text \<open>The saved reports by id and name.\<close>

definition report_tabs :: "(string \<times> string) list \<Rightarrow> studio \<Rightarrow> studio_event view list" where
  "report_tabs reports st =
     shown_if (reports \<noteq> [])
       (Button ''+ New'' True NewReport # map (\<lambda>(i, n). Item n (st_reportId st = Some i) (OpenReport i)) reports)"

definition WidgetEditor :: "(json \<Rightarrow> QueryResult) \<Rightarrow> Widget \<Rightarrow> widget_editor \<Rightarrow> studio_event view" where
  "WidgetEditor read w ed =
     Box ([Text ''Widget'', Button ''close'' True CloseEditor, Field ''Title'' (we_title ed),
           chooser (viz_name (we_viz ed)) True [(''table'', ''Table'', True), (''line'', ''Line'', True), (''pie'', ''Pie'', True)] PickViz,
           Field [] (we_sql ed), Button ''Preview'' (\<not> we_loading ed) PreviewWidget,
           Text (''first column = label '' @ [CHR 0xC2, CHR 0xB7] @ '' second = value (line/pie)'')]
          @ shown_if (truthy (we_error ed)) [Text (nullish (we_error ed) [])]
          @ (case we_preview ed of None \<Rightarrow> [] | Some r \<Rightarrow> viz_view_of (VizRender (read r) (we_viz ed)))
          @ [Button ''Cancel'' True CloseEditor, Button ''Add to report'' True (SaveWidget (editor_save w ed))])"

definition StudioPage ::
  "(json \<Rightarrow> QueryResult) \<Rightarrow> (string \<times> string) list \<Rightarrow> (Widget \<Rightarrow> widget_editor) \<Rightarrow> studio \<Rightarrow> studio_event view" where
  "StudioPage read reports editor st =
     Box (studio_toolbar st @ report_tabs reports st
          @ (if st_widgets st = [] then [Text ''No widgets yet. Click Add widget to start.''] else map (widget_card read st) (st_widgets st))
          @ (case st_editing st of None \<Rightarrow> [] | Some w \<Rightarrow> [WidgetEditor read w (editor w)]))"

text \<open>The controls that act on the page alone; \<open>uid\<close> is the random id of a new widget.\<close>

fun studio_step :: "string \<Rightarrow> studio \<Rightarrow> studio_event \<Rightarrow> studio" where
  "studio_step uid st AddWidget = st\<lparr>st_editing := Some (newWidget uid)\<rparr>"
| "studio_step uid st NewReport = newReport st"
| "studio_step uid st (EditWidget w) = st\<lparr>st_editing := Some w\<rparr>"
| "studio_step uid st (RemoveWidget i) = removeWidget i st"
| "studio_step uid st CloseEditor = st\<lparr>st_editing := None\<rparr>"
| "studio_step uid st (SaveWidget w) = addOrUpdateWidget w st"
| "studio_step uid st SaveReport = st\<lparr>st_saving := True\<rparr>"
| "studio_step uid st _ = st"

section \<open>Facts\<close>

text \<open>Only a stored report can be deleted from the page, and only a report with widgets is printed.\<close>

lemma studio_guards:
  "DeleteReport \<in> set (clicks (StudioPage read reports editor st)) \<Longrightarrow> truthy (st_reportId st)"
  "ExportPDF \<in> set (clicks (StudioPage read reports editor st)) \<Longrightarrow> st_widgets st \<noteq> []"
proof -
  have viz: "concat (map clicks (viz_view_of v)) = []" for v
    by (cases v) (auto simp: viz_view_of_def)
  have card: "set (clicks (widget_card read st w)) \<subseteq> {EditWidget w, RemoveWidget (w_id w)}" for w
    using viz by (auto simp: widget_card_def split: widget_view.splits)
  have ed: "a \<notin> set (clicks (WidgetEditor read w e))" if "a \<in> {DeleteReport, ExportPDF}" for a w e
    using viz that by (auto simp: WidgetEditor_def chooser_def shown_if_def split: option.splits if_splits)
  show "DeleteReport \<in> set (clicks (StudioPage read reports editor st)) \<Longrightarrow> truthy (st_reportId st)"
    using card ed by (fastforce simp: StudioPage_def studio_toolbar_def report_tabs_def shown_if_def split: option.splits if_splits)
  show "ExportPDF \<in> set (clicks (StudioPage read reports editor st)) \<Longrightarrow> st_widgets st \<noteq> []"
    using ed by (fastforce simp: StudioPage_def studio_toolbar_def report_tabs_def shown_if_def split: option.splits if_splits)
qed

end
