(* ===== verification/Tv_View.thy ===== *)
theory Tv_View
  imports Tv View
begin

text \<open>
  What the TV page shows (\<open>routes/tv.tsx\<close>): the activation screen, the header with the view toggle and
  the selectors, the panels of the dashboard and the project grid, as trees of texts and controls
  built from the rows of \<open>Tv\<close>, and the steps of its controls.
\<close>

datatype tv_event = Activate | SetMode view_mode | SetEnvironment string | SetProject string | GridSelect string | Disconnect

definition StatCard :: "string \<Rightarrow> string \<Rightarrow> tv_event view" where
  "StatCard label val = Box [Text label, Text val]"

definition ActivationScreen :: "activation \<Rightarrow> tv_event view" where
  "ActivationScreen st =
     Box ([Text ''BatAudit TV'', Text (''Enter the activation code from Settings '' @ arrow_right @ '' Wallboard''),
           Field ''BAT-XXXXXX'' (ac_code st)]
          @ shown_if (ac_error st \<noteq> []) [Text (ac_error st)]
          @ [Button (activation_label st) (\<not> activation_disabled st) Activate])"

definition HealthCarousel :: "date_parser \<Rightarrow> int \<Rightarrow> WbHealthEntry list \<Rightarrow> nat \<Rightarrow> tv_event view list" where
  "HealthCarousel parse_date now entries page =
     (case carousel_view parse_date now entries page of
        (rows, note, dots) \<Rightarrow> map (\<lambda>(_, r). Box (map Text r)) rows @ (case note of None \<Rightarrow> [] | Some s \<Rightarrow> [Text s]))"

definition grid_card_view :: "grid_card \<Rightarrow> tv_event view" where
  "grid_card_view c =
     Box ([Item (gc_name c) False (GridSelect (gc_select c))]
          @ (case gc_down c of None \<Rightarrow> [] | Some n \<Rightarrow> [Text (show_nat n)])
          @ [Text ''Events'', Text (gc_events c), Text ''Avg'', Text (gc_avg c), Text ''4xx'', Text (show_nat (snd (gc_4xx c))),
             Text ''5xx'', Text (show_nat (snd (gc_5xx c)))])"

definition grid_view :: "(nat \<Rightarrow> string) \<Rightarrow> WbProjectStat list \<Rightarrow> tv_event view" where
  "grid_view show_locale stats =
     (case ProjectGrid show_locale stats of None \<Rightarrow> Text ''No projects yet'' | Some (_, cards) \<Rightarrow> Box (map grid_card_view cards))"

text \<open>What the queries of the page hold.\<close>

record tv_data =
  tdt_summary :: "WbSummary option"
  tdt_feed :: "WbFeedEvent list"
  tdt_volume :: "nat list"
  tdt_health :: "WbHealthEntry list"
  tdt_alerts :: "WbAlert list"
  tdt_errorRoutes :: "WbErrorRoute list"
  tdt_projects :: "(string \<times> string) list"
  tdt_grid :: "WbProjectStat list"

definition tv_header :: "tv_data \<Rightarrow> string \<Rightarrow> string \<Rightarrow> string \<Rightarrow> tv_dash \<Rightarrow> tv_event view list" where
  "tv_header d clock profileName projectId st =
     (let isGrid = (td_viewMode st = ViewGrid); selected = map_of (tdt_projects d) projectId
      in [Text ''BatAudit'']
         @ shown_if (profileName \<noteq> []) [Text profileName]
         @ (case selected of Some n \<Rightarrow> shown_if (\<not> isGrid) [Text n] | None \<Rightarrow> [])
         @ shown_if (service_down (tdt_health d)) [Text ''SERVICE DOWN'']
         @ (case alert_badge (length (tdt_alerts d)) of None \<Rightarrow> [] | Some s \<Rightarrow> [Text s])
         @ [Item ''Dashboard'' (\<not> isGrid) (SetMode ViewDashboard), Item ''Grid'' isGrid (SetMode ViewGrid),
            chooser (td_environment st) True
              (([], ''All environments'', True) # map (\<lambda>e. (e, e, True)) (filter (\<lambda>e. e \<noteq> []) ENVIRONMENTS)) SetEnvironment]
         @ shown_if (\<not> isGrid)
             [chooser projectId True (([], ''All projects'', True) # map (\<lambda>(i, n). (i, n, True)) (tdt_projects d)) SetProject]
         @ [Text clock])"

definition volume_panel :: "tv_data \<Rightarrow> tv_event view" where
  "volume_panel d =
     (let v = volume_stats_of (tdt_volume d)
      in Box ([Text ''Volume (last 2h)'', Text (''avg '' @ show_int (vs_avg v)), Text (''now '' @ show_nat (vs_last v))]
              @ shown_if (vs_avg v > 0) [Text (''avg '' @ show_int (vs_avg v))]
              @ concat (map (\<lambda>(i, c). case CustomDot (tdt_volume d) i c of None \<Rightarrow> [] | Some s \<Rightarrow> [Text s])
                          (List.enumerate 0 (tdt_volume d)))))"

definition tv_panels :: "date_parser \<Rightarrow> int \<Rightarrow> tv_data \<Rightarrow> nat \<Rightarrow> tv_event view list" where
  "tv_panels parse_date now d page =
     map (\<lambda>(l, v). StatCard l v) (stat_cards (tdt_summary d))
     @ [volume_panel d,
        Box ([Text ''Top Error Routes''] @ map (\<lambda>(_, r). Box (map Text r)) (error_route_rows (tdt_errorRoutes d))
             @ shown_if (tdt_errorRoutes d = []) [Text ''No errors in the last hour'']),
        Box ([Text ''Live Feed''] @ map (\<lambda>ev. Box (map Text (snd (feed_row parse_date now ev)))) (tdt_feed d)
             @ shown_if (tdt_feed d = []) [Text ''No events yet'']),
        Box ([Text ''Health Monitors'']
             @ shown_if (length (tdt_health d) > PAGE_SIZE) [Text (show_nat (length (tdt_health d)) @ '' total'')]
             @ HealthCarousel parse_date now (tdt_health d) page),
        Box ([Text ''Recent Alerts''] @ map (\<lambda>a. Box (map Text (tv_alert_row parse_date now a))) (tdt_alerts d)
             @ shown_if (tdt_alerts d = []) [Text ''No alerts in the last 30 minutes''])]"

definition TVDashboard ::
  "(nat \<Rightarrow> string) \<Rightarrow> date_parser \<Rightarrow> int \<Rightarrow> tv_data \<Rightarrow> string \<Rightarrow> nat \<Rightarrow> string \<Rightarrow> string \<Rightarrow> tv_dash \<Rightarrow> tv_event view" where
  "TVDashboard show_locale parse_date now d clock page profileName projectId st =
     Box (tv_header d clock profileName projectId st
          @ (if td_viewMode st = ViewGrid then [grid_view show_locale (tdt_grid d)] else tv_panels parse_date now d page))"

definition TVPage ::
  "(nat \<Rightarrow> string) \<Rightarrow> date_parser \<Rightarrow> int \<Rightarrow> tv_data \<Rightarrow> string \<Rightarrow> nat \<Rightarrow> activation \<Rightarrow> tv_page \<times> tv_dash \<Rightarrow> tv_event view" where
  "TVPage show_locale parse_date now d clock page act = (\<lambda>(p, st).
     if \<not> tp_authenticated p then ActivationScreen act
     else Box [TVDashboard show_locale parse_date now d clock page (tp_profileName p) (tp_activeProjectId p) st,
               Button ''Disconnect'' True Disconnect])"

text \<open>The controls. A page that is activated again mounts a new dashboard; \<open>clearWbTokens\<close> of \<open>Disconnect\<close> is in
  \<open>tv_disconnect\<close>.\<close>

fun tv_step :: "tv_page \<times> tv_dash \<Rightarrow> tv_event \<Rightarrow> tv_page \<times> tv_dash" where
  "tv_step (p, st) Activate = (p, st)"
| "tv_step (p, st) (SetMode m) = (p, st\<lparr>td_viewMode := m\<rparr>)"
| "tv_step (p, st) (SetEnvironment e) = (p, st\<lparr>td_environment := e\<rparr>)"
| "tv_step (p, st) (SetProject i) = (tv_project i p, st)"
| "tv_step (p, st) (GridSelect i) = (tv_project (fst (handleGridSelect i st)) p, snd (handleGridSelect i st))"
| "tv_step (p, st) Disconnect = (p\<lparr>tp_authenticated := False\<rparr>, tv_dash_init)"

section \<open>Facts\<close>

lemma clicks_texts [simp]: "concat (map (clicks \<circ> Text) ts) = []" "concat (map (\<lambda>t. clicks (Text t)) ts) = []"
  by (induction ts) simp_all

lemma carousel_silent: "concat (map clicks (HealthCarousel parse_date now entries page)) = []"
  by (auto simp: HealthCarousel_def carousel_view_def health_row_def split: option.splits if_splits)

lemma volume_silent: "clicks (volume_panel d) = []"
proof -
  have "concat (map clicks (case CustomDot pts i c of None \<Rightarrow> [] | Some s \<Rightarrow> [Text s])) = []" for pts i c
    by (cases "CustomDot pts i c") auto
  then show ?thesis by (auto simp: volume_panel_def Let_def shown_if_def)
qed

lemma panels_silent: "v \<in> set (tv_panels parse_date now d page) \<Longrightarrow> clicks v = []"
  using carousel_silent volume_silent
  by (auto simp: tv_panels_def StatCard_def shown_if_def)

text \<open>Every control keeps the environment one of the known ones.\<close>

lemma tv_environment_known:
  assumes "e \<in> set (clicks (TVPage show_locale parse_date now d clock page act (p, st)))" "td_environment st \<in> set ENVIRONMENTS"
  shows "td_environment (snd (tv_step (p, st) e)) \<in> set ENVIRONMENTS"
proof (cases e)
  case (SetEnvironment x)
  have grid: "SetEnvironment x \<notin> set (clicks (grid_view show_locale (tdt_grid d)))"
    by (auto simp: grid_view_def grid_card_view_def split: option.splits)
  show ?thesis
    using assms SetEnvironment panels_silent grid
    by (auto simp: TVPage_def ActivationScreen_def TVDashboard_def tv_header_def Let_def shown_if_def chooser_def ENVIRONMENTS_def
        split: if_splits option.splits)
qed (use assms in \<open>simp_all add: handleGridSelect_def tv_dash_init_def ENVIRONMENTS_def\<close>)

text \<open>A card of the grid opens its project, and only then its queries run.\<close>

lemma grid_opens_project:
  assumes "tv_step (p, st) (GridSelect i) = (p', st')" "i \<noteq> []"
  shows "tp_activeProjectId p' = i
    \<and> list_all q_enabled (take 7 (tv_queries srv base now (tp_activeProjectId p') st'))
    \<and> (td_viewMode st = ViewGrid \<longrightarrow> list_all (\<lambda>q. \<not> q_enabled q) (take 6 (tv_queries srv base now (tp_activeProjectId p) st)))"
  using assms
  by (auto simp: tv_queries_def handleGridSelect_def tv_project_def Let_def mk_wb_def useWbSummary_def useWbFeed_def useWbVolume_def
      useWbHealth_def useWbAlerts_def useWbErrorRoutes_def useWbProjects_def)

end
