(* ===== verification/Nav.thy ===== *)
theory Nav
  imports View Queries
begin

text \<open>
  Getting around the dashboard: the pagination bar (\<open>components/app-pagination.tsx\<close>), the sidebar
  (\<open>components/sidebar.tsx\<close>), the header with the project and environment selectors and the logout
  (\<open>components/header.tsx\<close>, \<open>lib/project-context.tsx\<close>, \<open>lib/environment-context.tsx\<close>).
\<close>

section \<open>Pagination\<close>

text \<open>The action of every control is the page it calls \<open>setPage\<close> with.\<close>

definition AppPagination :: "int \<Rightarrow> int \<Rightarrow> int view" where
  "AppPagination page totalPages =
     Box ([Button ''Previous'' True (if page > 1 then page - 1 else 1),
           Item ''1'' (page = 1) 1]
          @ shown_if (page > 2) [Text ''...'']
          @ shown_if (page > 1 \<and> page < totalPages) [Item (show_int page) True page]
          @ shown_if (page < totalPages - 1) [Text ''...'']
          @ shown_if (totalPages > 1) [Item (show_int totalPages) (page = totalPages) totalPages]
          @ [Button ''Next'' True (if page < totalPages then page + 1 else totalPages)])"

definition next_page :: "int \<Rightarrow> int \<Rightarrow> int" where
  "next_page totalPages page = last (clicks (AppPagination page totalPages))"

definition prev_page :: "int \<Rightarrow> int \<Rightarrow> int" where
  "prev_page totalPages page = hd (clicks (AppPagination page totalPages))"

section \<open>Sidebar\<close>

definition NavItem :: "string \<Rightarrow> string \<Rightarrow> 'a view" where
  "NavItem to label = Link label to"

definition SectionLabel :: "string \<Rightarrow> 'a view" where
  "SectionLabel label = Text label"

definition MainNav :: "'a view" where
  "MainNav =
     Box [NavItem ''/app'' ''Dashboard'', NavItem ''/app/sessions'' ''Sessions'',
          NavItem ''/app/anomalies'' ''Anomalies'', NavItem ''/app/insights'' ''Insights'',
          NavItem ''/app/query'' ''Query'', NavItem ''/app/studio'' ''Studio'',
          NavItem ''/app/settings'' ''Settings'']"

text \<open>\<open>getUser()?.role\<close>.\<close>

definition user_role :: "json \<Rightarrow> json option" where
  "user_role user = (case jprop user ''role'' of Inr r \<Rightarrow> r | Inl _ \<Rightarrow> None)"

definition SettingsNav :: "json option \<Rightarrow> 'a view" where
  "SettingsNav role =
     (let isOwner = (role = Some (JStr ''owner''));
          isAdminOrOwner = (role = Some (JStr ''owner'') \<or> role = Some (JStr ''admin''))
      in Box ([Link ''Back'' ''/app'', SectionLabel ''General'',
               NavItem ''/app/settings/healthcheck'' ''Healthcheck'']
              @ shown_if isAdminOrOwner
                  [SectionLabel ''Team'', NavItem ''/app/settings/members'' ''Members'',
                   NavItem ''/app/settings/users'' ''Users'']
              @ shown_if isAdminOrOwner
                  [SectionLabel ''Project'', NavItem ''/app/settings/api-keys'' ''API Keys'',
                   NavItem ''/app/settings/wallboard'' ''Wallboard'',
                   NavItem ''/app/settings/notifications'' ''Notifications'']
              @ shown_if isOwner
                  [SectionLabel ''Danger'', NavItem ''/app/settings/retention'' ''Retention'']))"

definition Sidebar :: "string \<Rightarrow> storage \<Rightarrow> 'a view" where
  "Sidebar pathname m =
     (let inSettings = startsWith pathname ''/app/settings''
      in Box (shown_if (\<not> inSettings) [Text ''BatAudit'', Text ''Monitoring'']
              @ [if inSettings then SettingsNav (user_role (getUser m)) else MainNav]))"

section \<open>Selections and header\<close>

text \<open>The two contexts hold the selections, from these initial values; \<open>None\<close> is \<open>null\<close>, all projects or all environments. The
  header adds which of its menus is open.\<close>

definition ProjectProvider :: "string option" where
  "ProjectProvider = None"

definition EnvironmentProvider :: "string option" where
  "EnvironmentProvider = None"

record header =
  h_project :: "string option"
  h_environment :: "string option"
  h_projectOpen :: bool
  h_envOpen :: bool

definition header_init :: header where
  "header_init = \<lparr>h_project = ProjectProvider, h_environment = EnvironmentProvider, h_projectOpen = False, h_envOpen = False\<rparr>"

definition HEADER_ENVIRONMENTS :: "(string \<times> string \<times> string) list" where
  "HEADER_ENVIRONMENTS =
     [(''production'', ''production'', ''text-[#34d399]''), (''staging'', ''staging'', ''text-[#60a5fa]''),
      (''development'', ''development'', ''text-[#818cf8]''), (''testing'', ''testing'', ''text-[#fb923c]''),
      (''local'', ''local'', ''text-muted-foreground'')]"

record Project =
  p_id :: string
  p_name :: string
  p_slug :: string
  p_created_by :: string
  p_created_at :: string

definition showEnvFilter :: "string \<Rightarrow> bool" where
  "showEnvFilter pathname \<longleftrightarrow> \<not> startsWith pathname ''/app/settings''"

definition showProjectFilter :: "string \<Rightarrow> bool" where
  "showProjectFilter pathname \<longleftrightarrow>
     \<not> list_ex (startsWith pathname) [''/app/settings/users'', ''/app/settings/retention'', ''/app/settings/api-keys'']"

definition header_isOwner :: "json \<Rightarrow> bool" where
  "header_isOwner user \<longleftrightarrow> user_role user = Some (JStr ''owner'')"

definition selectorLabel :: "json \<Rightarrow> Project list \<Rightarrow> string option \<Rightarrow> string" where
  "selectorLabel user projects selectedProjectId =
     (let selectedProject = List.find (\<lambda>p. Some (p_id p) = selectedProjectId) projects;
          named = nullish (map_option p_name selectedProject) ''Select project''
      in if selectedProjectId = None then (if header_isOwner user then ''All Projects'' else named) else named)"

definition envLabel :: "string option \<Rightarrow> string" where
  "envLabel selectedEnvironment = nullish selectedEnvironment ''All Envs''"

definition envColor :: "string option \<Rightarrow> string" where
  "envColor selectedEnvironment =
     nullish (map_option (snd \<circ> snd) (List.find (\<lambda>e. Some (fst e) = selectedEnvironment) HEADER_ENVIRONMENTS)) []"

datatype header_action =
    ToggleProjects | PickProject "string option" | ToggleEnvs | PickEnv "string option" | ToggleTheme | Logout

text \<open>The handlers on the state; the theme and the logout are the operations on the page and the session.\<close>

fun header_step :: "header \<Rightarrow> header_action \<Rightarrow> header" where
  "header_step h ToggleProjects = h\<lparr>h_projectOpen := \<not> h_projectOpen h, h_envOpen := False\<rparr>"
| "header_step h (PickProject i) = h\<lparr>h_project := i, h_projectOpen := False\<rparr>"
| "header_step h ToggleEnvs = h\<lparr>h_envOpen := \<not> h_envOpen h, h_projectOpen := False\<rparr>"
| "header_step h (PickEnv e) = h\<lparr>h_environment := e, h_envOpen := False\<rparr>"
| "header_step h ToggleTheme = h"
| "header_step h Logout = h"

text \<open>\<open>mutate\<close> with \<open>onSettled\<close>: the session is dropped whether or not the server could be told. The
  path navigated to is the first result.\<close>

definition handleLogout :: "server \<Rightarrow> string \<Rightarrow> browser \<Rightarrow> string \<times> browser" where
  "handleLogout srv base w =
     (case m_fn (useLogout srv base) () w of (_, w1) \<Rightarrow> (''/login'', w1\<lparr>b_store := clearAuth (b_store w1)\<rparr>))"

definition member_text :: "json \<Rightarrow> string \<Rightarrow> string" where
  "member_text v k = (case jprop v k of Inr (Some JNull) \<Rightarrow> [] | Inr (Some x) \<Rightarrow> jstring x | _ \<Rightarrow> [])"

definition project_selector :: "json \<Rightarrow> Project list \<Rightarrow> header \<Rightarrow> header_action view list" where
  "project_selector user projects h =
     Button (selectorLabel user projects (h_project h)) True ToggleProjects
     # shown_if (h_projectOpen h)
         (shown_if (header_isOwner user) [Button ''All Projects'' True (PickProject None)]
          @ map (\<lambda>p. Button (p_name p) True (PickProject (Some (p_id p)))) projects)"

definition env_selector :: "header \<Rightarrow> header_action view list" where
  "env_selector h =
     Button (envLabel (h_environment h)) True ToggleEnvs
     # shown_if (h_envOpen h)
         (Button ''All Envs'' True (PickEnv None)
          # map (\<lambda>(value, label, color). Button label True (PickEnv (Some value))) HEADER_ENVIRONMENTS)"

definition Header :: "string \<Rightarrow> json \<Rightarrow> bool \<Rightarrow> Project list \<Rightarrow> header \<Rightarrow> header_action view" where
  "Header pathname user isPending projects h =
     Box (shown_if (showProjectFilter pathname) (project_selector user projects h)
          @ shown_if (showEnvFilter pathname) (env_selector h)
          @ [Button ''theme'' True ToggleTheme]
          @ shown_if (jtruthy user)
              [Text (or_else (member_text user ''name'') (member_text user ''email'')), Text (member_text user ''role'')]
          @ [Button ''Logout'' (\<not> isPending) Logout])"


section \<open>Pages stay in range\<close>

lemma AppPagination_clicks:
  "clicks (AppPagination page n) =
     (if page > 1 then page - 1 else 1) # 1 # (if page > 1 \<and> page < n then [page] else [])
     @ (if n > 1 then [n] else []) @ [if page < n then page + 1 else n]"
  by (simp add: AppPagination_def shown_if_def)

lemma AppPagination_items:
  "items (AppPagination page n) =
     (''1'', page = 1, 1) # (if page > 1 \<and> page < n then [(show_int page, True, page)] else [])
     @ (if n > 1 then [(show_int n, page = n, n)] else [])"
  by (simp add: AppPagination_def shown_if_def)

lemma next_page_eq: "next_page n page = (if page < n then page + 1 else n)"
  by (simp add: next_page_def AppPagination_clicks)

lemma prev_page_eq: "prev_page n page = (if page > 1 then page - 1 else 1)"
  by (simp add: prev_page_def AppPagination_clicks)

lemma next_page_iter: "page \<le> n \<Longrightarrow> (next_page n ^^ k) page = min n (page + int k)"
  by (induction k) (auto simp: next_page_eq)

lemma prev_page_iter: "1 \<le> page \<Longrightarrow> (prev_page n ^^ k) page = max 1 (page - int k)"
  by (induction k) (auto simp: prev_page_eq)

lemma show_int_one: "show_int 1 = ''1''"
  by code_simp

section \<open>Roles\<close>

text \<open>The roles of the system, ordered by what they may do.\<close>

datatype role = Viewer | Admin | Owner

primrec role_rank :: "role \<Rightarrow> nat" where
  "role_rank Viewer = 0"
| "role_rank Admin = 1"
| "role_rank Owner = 2"

primrec role_name :: "role \<Rightarrow> string" where
  "role_name Viewer = ''viewer''"
| "role_name Admin = ''admin''"
| "role_name Owner = ''owner''"

instantiation role :: linorder
begin

definition less_eq_role :: "role \<Rightarrow> role \<Rightarrow> bool" where
  "r \<le> s \<longleftrightarrow> role_rank r \<le> role_rank s"

definition less_role :: "role \<Rightarrow> role \<Rightarrow> bool" where
  "r < s \<longleftrightarrow> role_rank r < role_rank s"

instance
proof
  fix r s t :: role
  show "(r < s) = (r \<le> s \<and> \<not> s \<le> r)" by (auto simp: less_eq_role_def less_role_def)
  show "r \<le> r" by (simp add: less_eq_role_def)
  show "r \<le> s \<Longrightarrow> s \<le> t \<Longrightarrow> r \<le> t" by (simp add: less_eq_role_def)
  show "r \<le> s \<Longrightarrow> s \<le> r \<Longrightarrow> r = s" by (cases r; cases s) (simp_all add: less_eq_role_def)
  show "r \<le> s \<or> s \<le> r" by (auto simp: less_eq_role_def)
qed

end

definition settings_links :: "role \<Rightarrow> string list" where
  "settings_links r = links (SettingsNav (Some (JStr (role_name r))) :: unit view)"

lemma settings_links_eq:
  "settings_links r =
     [''/app'', ''/app/settings/healthcheck'']
     @ (if Admin \<le> r then [''/app/settings/members'', ''/app/settings/users'', ''/app/settings/api-keys'',
                           ''/app/settings/wallboard'', ''/app/settings/notifications''] else [])
     @ (if r = Owner then [''/app/settings/retention''] else [])"
  by (cases r) (simp_all add: settings_links_def SettingsNav_def NavItem_def SectionLabel_def less_eq_role_def)

section \<open>Menus\<close>

inductive header_reach :: "json \<Rightarrow> Project list \<Rightarrow> header \<Rightarrow> bool" for user projects where
  start: "header_reach user projects header_init"
| click: "header_reach user projects h \<Longrightarrow> a \<in> set (clicks (Header pathname user isPending projects h))
    \<Longrightarrow> header_reach user projects (header_step h a)"

definition header_ok :: "json \<Rightarrow> Project list \<Rightarrow> header \<Rightarrow> bool" where
  "header_ok user projects h \<longleftrightarrow>
     \<not> (h_projectOpen h \<and> h_envOpen h)
     \<and> h_project h \<in> insert None (Some ` p_id ` set projects)
     \<and> h_environment h \<in> insert None (Some ` fst ` set HEADER_ENVIRONMENTS)"

lemma Header_clicks:
  "set (clicks (Header pathname user isPending projects h)) \<subseteq>
     {ToggleProjects, ToggleEnvs, ToggleTheme, Logout} \<union> {PickProject None}
     \<union> (\<lambda>p. PickProject (Some (p_id p))) ` set projects \<union> insert (PickEnv None) ((\<lambda>e. PickEnv (Some (fst e))) ` set HEADER_ENVIRONMENTS)"
  by (auto simp: Header_def project_selector_def env_selector_def shown_if_def intro: rev_image_eqI split: if_splits)

lemma header_step_ok:
  assumes "header_ok user projects h" "a \<in> set (clicks (Header pathname user isPending projects h))"
  shows "header_ok user projects (header_step h a)"
proof -
  consider "a \<in> {ToggleProjects, ToggleEnvs, ToggleTheme, Logout, PickProject None, PickEnv None}"
    | p where "p \<in> set projects" "a = PickProject (Some (p_id p))"
    | e where "e \<in> set HEADER_ENVIRONMENTS" "a = PickEnv (Some (fst e))"
    using subsetD [OF Header_clicks assms(2)] by blast
  then show ?thesis
  proof cases
    case 1
    then show ?thesis using assms(1) unfolding header_ok_def by (elim insertE) simp_all
  next
    case 2
    then show ?thesis using assms(1) unfolding header_ok_def by simp
  next
    case 3
    then show ?thesis using assms(1) unfolding header_ok_def by simp
  qed
qed

lemma header_reach_ok: "header_reach user projects h \<Longrightarrow> header_ok user projects h"
proof (induction rule: header_reach.induct)
  case start
  show ?case by (simp add: header_ok_def header_init_def ProjectProvider_def EnvironmentProvider_def)
qed (rule header_step_ok)

text \<open>The request of a logout, and what it leaves of the session.\<close>

definition logout_request :: "string \<Rightarrow> browser \<Rightarrow> request" where
  "logout_request base w =
     \<lparr>req_url = base @ ''/v1/auth/logout'', req_method = ''POST'', req_headers = bearer (getToken (b_store w)), req_body = None\<rparr>"

lemma clearAuth_twice: "clearAuth (clearAuth m) = clearAuth m"
  by (simp add: clearAuth_def removeItem_def fun_eq_iff)

lemma logout_unfold:
  "io_unit (logout srv base) w =
     io_bind (io_bind (js_fetch srv (logout_request base w))
       (\<lambda>res w1. if res_status res = 401
          then (Inl (Error ''Unauthorized''), w1\<lparr>b_store := clearAuth (b_store w1), b_href := Some ''/login''\<rparr>)
          else require_ok ''Failed to logout'' res w1)) (\<lambda>_. io_return JNull) w"
  by (simp add: io_unit_def logout_def auth_unit_def fetchWithAuth_def method_init_def init_request_def hdr_spread_def
      logout_request_def io_bind_def js_fetch_def Let_def split: sum.split)

lemma logout_sent: "b_sent (snd (io_unit (logout srv base) w)) = b_sent w @ [logout_request base w]"
  by (simp add: logout_unfold js_fetch_def io_bind_def io_return_def require_ok_def io_throw_def Let_def split: sum.split)

lemma logout_store: "clearAuth (b_store (snd (io_unit (logout srv base) w))) = clearAuth (b_store w)"
  by (simp add: logout_unfold js_fetch_def io_bind_def io_return_def require_ok_def io_throw_def Let_def clearAuth_twice split: sum.split)

lemma find_selected:
  "distinct (map p_id ps) \<Longrightarrow> p \<in> set ps \<Longrightarrow> List.find (\<lambda>q. Some (p_id q) = Some (p_id p)) ps = Some p"
  by (induction ps) auto

section \<open>Properties\<close>

text \<open>C27. From a page of the list every control of the pagination bar leads to a page of the list; the
  page links are in increasing order without repetition and exactly the current page is highlighted;
  and "Next" and "Previous" walk through every page up to the last and down to the first.\<close>

theorem pagination_sound:
  assumes "1 \<le> page" "page \<le> n"
  shows "set (clicks (AppPagination page n)) \<subseteq> {1..n}
    \<and> sorted_wrt (<) (map (snd \<circ> snd) (items (AppPagination page n)))
    \<and> map (snd \<circ> snd) (filter (fst \<circ> snd) (items (AppPagination page n))) = [page]
    \<and> map fst (items (AppPagination page n)) = map (show_int \<circ> snd \<circ> snd) (items (AppPagination page n))
    \<and> (next_page n ^^ k) page = min n (page + int k)
    \<and> (prev_page n ^^ k) page = max 1 (page - int k)"
proof (intro conjI)
  show "set (clicks (AppPagination page n)) \<subseteq> {1..n}"
    using assms by (auto simp: AppPagination_clicks)
qed (use assms in \<open>auto simp: AppPagination_items show_int_one next_page_iter prev_page_iter\<close>)

theorem pagination_sound_witness:
  "set (clicks (AppPagination 3 7)) \<subseteq> {1..7} \<and> (next_page 7 ^^ 9) 3 = 7"
  using pagination_sound [of 3 7 9] by simp



text \<open>Logging out always works: whatever the server answers, or if it cannot be reached, the page goes
  to the login, token and user are gone from the store while the rest of the store is as before, one
  request with the session's token has been sent, and the guard of the application refuses entry.\<close>

lemma logout_always:
  "\<exists>w' req. handleLogout srv base w = (''/login'', w')
    \<and> b_store w' = clearAuth (b_store w)
    \<and> getToken (b_store w') = None \<and> getUser (b_store w') = JNull
    \<and> getItem (b_store w') THEME_KEY = getItem (b_store w) THEME_KEY
    \<and> b_sent w' = b_sent w @ [req] \<and> req_url req = base @ ''/v1/auth/logout'' \<and> req_method req = ''POST''
    \<and> req_headers req = bearer (getToken (b_store w))
    \<and> fst (layout_beforeLoad now w') = Inl ''/login''"
proof -
  let ?w = "snd (handleLogout srv base w)"
  have store: "b_store ?w = clearAuth (b_store w)"
    using logout_store [of srv base w] by (auto simp: handleLogout_def useLogout_def clearAuth_twice split: prod.split)
  have sent: "b_sent ?w = b_sent w @ [logout_request base w]"
    using logout_sent [of srv base w] by (auto simp: handleLogout_def useLogout_def split: prod.split)
  have none: "getToken (clearAuth m) = None" "getUser (clearAuth m) = JNull"
    "getItem (clearAuth m) THEME_KEY = getItem m THEME_KEY" for m
    by (auto simp: getToken_def getUser_def clearAuth_def store_simps TOKEN_KEY_def USER_KEY_def THEME_KEY_def)
  have "handleLogout srv base w = (''/login'', ?w)" by (simp add: handleLogout_def split: prod.split)
  with store sent none show ?thesis
    by (intro exI [of _ ?w] exI [of _ "logout_request base w"])
      (simp add: layout_beforeLoad_def isAuthenticated_def logout_request_def)
qed

text \<open>By clicking through the header the two menus are never open together, the selections are
  always ones that were offered, and the label of the project selector is the name of the selected
  project.\<close>

lemma header_selections:
  assumes "header_reach user projects h" "distinct (map p_id projects)"
  shows "\<not> (h_projectOpen h \<and> h_envOpen h)
    \<and> (h_environment h = None \<or> h_environment h \<in> Some ` fst ` set HEADER_ENVIRONMENTS)
    \<and> (h_project h = None \<and> (selectorLabel user projects (h_project h) = (if header_isOwner user then ''All Projects'' else ''Select project''))
       \<or> (\<exists>p \<in> set projects. h_project h = Some (p_id p) \<and> selectorLabel user projects (h_project h) = p_name p))"
proof -
  have find: "List.find (\<lambda>p. False) ps = None" for ps :: "Project list" by (induction ps) auto
  show ?thesis
    using header_reach_ok [OF assms(1)] find_selected [OF assms(2)]
    by (auto simp: header_ok_def selectorLabel_def Let_def find)
qed

end
