(* ===== verification/Time_Range.thy ===== *)
theory Time_Range
  imports View Queries Tv
begin

text \<open>
  The time range picker (\<open>components/time-range-picker.tsx\<close>). The clock's reading of a date text and
  the functions \<open>format\<close> and \<open>parse\<close> of date-fns are parameters (\<open>date_fns\<close>); an instant is its
  number of milliseconds, an invalid date is \<open>None\<close>.
\<close>

section \<open>Presets\<close>

definition RELATIVE_LABELS :: "(string \<times> string) list" where
  "RELATIVE_LABELS =
     [(''5m'', ''Last 5 minutes''), (''15m'', ''Last 15 minutes''), (''30m'', ''Last 30 minutes''),
      (''1h'', ''Last 1 hour''), (''3h'', ''Last 3 hours''), (''6h'', ''Last 6 hours''),
      (''12h'', ''Last 12 hours''), (''24h'', ''Last 24 hours''),
      (''3d'', ''Last 3 days''), (''7d'', ''Last 7 days''), (''30d'', ''Last 30 days'')]"

definition QUICK_PRESETS :: "string list" where
  "QUICK_PRESETS = [''5m'', ''30m'', ''1h'', ''3h'', ''12h'']"

definition QUICK_LABELS :: "(string \<times> string) list" where
  "QUICK_LABELS = [(''5m'', ''5m''), (''30m'', ''30m''), (''1h'', ''1h''), (''3h'', ''3h''), (''12h'', ''12h'')]"

record preset_row =
  row_label :: string
  row_presets :: "string list"
  row_chips :: "string list"

definition RELATIVE_ROWS :: "preset_row list" where
  "RELATIVE_ROWS =
     [\<lparr>row_label = ''Minutes'', row_presets = [''5m'', ''15m'', ''30m''],
       row_chips = [''5 minutes'', ''15 minutes'', ''30 minutes'']\<rparr>,
      \<lparr>row_label = ''Hours'', row_presets = [''1h'', ''3h'', ''6h'', ''12h'', ''24h''],
       row_chips = [''1 hour'', ''3 hours'', ''6 hours'', ''12 hours'', ''24 hours'']\<rparr>,
      \<lparr>row_label = ''Days'', row_presets = [''3d'', ''7d'', ''30d''],
       row_chips = [''3 days'', ''7 days'', ''30 days'']\<rparr>]"

section \<open>Dates\<close>

text \<open>\<open>df_date\<close> is \<open>new Date(text)\<close>, \<open>df_format\<close> is \<open>format(date, pattern)\<close> and \<open>df_parse\<close> is
  \<open>parse(text, 'yyyy-MM-dd HH:mm', now)\<close>.\<close>

record date_fns =
  df_date :: "string \<Rightarrow> int option"
  df_format :: "int \<Rightarrow> string \<Rightarrow> string"
  df_parse :: "string \<Rightarrow> int option"

definition toDateStr :: "date_fns \<Rightarrow> string option \<Rightarrow> string" where
  "toDateStr df isoText =
     (if \<not> truthy isoText then []
      else case df_date df (nullish isoText []) of None \<Rightarrow> [] | Some d \<Rightarrow> df_format df d ''yyyy-MM-dd'')"

definition toTimeStr :: "date_fns \<Rightarrow> string option \<Rightarrow> string" where
  "toTimeStr df isoText =
     (if \<not> truthy isoText then ''00:00''
      else case df_date df (nullish isoText []) of None \<Rightarrow> ''00:00'' | Some d \<Rightarrow> df_format df d ''HH:mm'')"

definition buildDate :: "date_fns \<Rightarrow> string \<Rightarrow> string \<Rightarrow> int option" where
  "buildDate df dateStr timeStr =
     (if dateStr = [] then None else df_parse df (dateStr @ '' '' @ or_else timeStr ''00:00''))"

section \<open>State and handlers\<close>

record date_range =
  dr_from :: "int option"
  dr_to :: "int option"

record picker =
  pk_open :: bool
  pk_startDate :: string
  pk_startTime :: string
  pk_endDate :: string
  pk_endTime :: string
  pk_range :: "date_range option"

definition picker_init :: picker where
  "picker_init = \<lparr>pk_open = False, pk_startDate = [], pk_startTime = ''00:00'', pk_endDate = [], pk_endTime = ''23:59'', pk_range = None\<rparr>"

record picker_props =
  pp_timeRange :: "string option"
  pp_startDate :: "string option"
  pp_endDate :: "string option"

text \<open>The callback a handler calls.\<close>

datatype picker_out = OnRelative string | OnAbsolute string string | OnClear

text \<open>The effect on \<open>open\<close>. \<open>new Date(startDate!)\<close> is valid there, since \<open>toDateStr\<close> was not empty.\<close>

definition picker_seed :: "date_fns \<Rightarrow> picker_props \<Rightarrow> picker \<Rightarrow> picker" where
  "picker_seed df props p =
     (if pk_open p
      then let sd = toDateStr df (pp_startDate props); ed = toDateStr df (pp_endDate props)
           in p\<lparr>pk_startDate := sd, pk_startTime := toTimeStr df (pp_startDate props),
                 pk_endDate := ed, pk_endTime := toTimeStr df (pp_endDate props),
                 pk_range := Some \<lparr>dr_from = if sd \<noteq> [] then df_date df (nullish (pp_startDate props) []) else None,
                                   dr_to = if ed \<noteq> [] then df_date df (nullish (pp_endDate props) []) else None\<rparr>\<rparr>
      else p)"

definition picker_setOpen :: "date_fns \<Rightarrow> picker_props \<Rightarrow> bool \<Rightarrow> picker \<Rightarrow> picker" where
  "picker_setOpen df props o' p = (if o' \<noteq> pk_open p then picker_seed df props (p\<lparr>pk_open := o'\<rparr>) else p)"

definition handleCalendarSelect :: "date_fns \<Rightarrow> date_range option \<Rightarrow> picker \<Rightarrow> picker" where
  "handleCalendarSelect df r p =
     (let p1 = p\<lparr>pk_range := r\<rparr>;
          p2 = (case Option.bind r dr_from of Some d \<Rightarrow> p1\<lparr>pk_startDate := df_format df d ''yyyy-MM-dd''\<rparr> | None \<Rightarrow> p1)
      in case Option.bind r dr_to of Some d \<Rightarrow> p2\<lparr>pk_endDate := df_format df d ''yyyy-MM-dd''\<rparr> | None \<Rightarrow> p2)"

definition handleStartDateChange :: "date_fns \<Rightarrow> string \<Rightarrow> picker \<Rightarrow> picker" where
  "handleStartDateChange df v p =
     (let p1 = p\<lparr>pk_startDate := v\<rparr>
      in case buildDate df v (pk_startTime p) of
           Some d \<Rightarrow> p1\<lparr>pk_range := Some \<lparr>dr_from = Some d, dr_to = Option.bind (pk_range p) dr_to\<rparr>\<rparr>
         | None \<Rightarrow> p1)"

definition handleEndDateChange :: "date_fns \<Rightarrow> string \<Rightarrow> picker \<Rightarrow> picker" where
  "handleEndDateChange df v p =
     (let p1 = p\<lparr>pk_endDate := v\<rparr>
      in case buildDate df v (pk_endTime p) of
           Some d \<Rightarrow> p1\<lparr>pk_range := Some \<lparr>dr_from = Option.bind (pk_range p) dr_from, dr_to = Some d\<rparr>\<rparr>
         | None \<Rightarrow> p1)"

definition handleRelative :: "string \<Rightarrow> picker \<Rightarrow> picker_out option \<times> picker" where
  "handleRelative r p = (Some (OnRelative r), p\<lparr>pk_open := False\<rparr>)"

definition handleApply :: "date_fns \<Rightarrow> picker \<Rightarrow> picker_out option \<times> picker" where
  "handleApply df p =
     (case buildDate df (pk_startDate p) (pk_startTime p) of
        None \<Rightarrow> (None, p)
      | Some from \<Rightarrow>
          let to = nullish (buildDate df (pk_endDate p) (pk_endTime p)) from
          in (Some (OnAbsolute (toISOString from) (toISOString to)), p\<lparr>pk_open := False\<rparr>))"

definition handleClear :: "picker \<Rightarrow> picker_out option \<times> picker" where
  "handleClear p = (Some OnClear, p\<lparr>pk_open := False\<rparr>)"

section \<open>Markup\<close>

definition isNonQuick :: "string option \<Rightarrow> bool" where
  "isNonQuick timeRange \<longleftrightarrow> truthy timeRange \<and> nullish timeRange [] \<notin> set QUICK_PRESETS"

definition isCustomActive :: "string option \<Rightarrow> bool" where
  "isCustomActive timeRange \<longleftrightarrow> isNonQuick timeRange \<or> timeRange = Some ''custom''"

text \<open>\<open>format\<close> throws on an invalid date.\<close>

definition format_or_throw :: "date_fns \<Rightarrow> string \<Rightarrow> js_error + string" where
  "format_or_throw df s = (case df_date df s of None \<Rightarrow> Inl (Error ''Invalid time value'') | Some d \<Rightarrow> Inr (df_format df d ''MMM d HH:mm''))"

definition customLabel :: "date_fns \<Rightarrow> picker_props \<Rightarrow> js_error + string" where
  "customLabel df props =
     (if isNonQuick (pp_timeRange props)
      then Inr (nullish (map_of RELATIVE_LABELS (nullish (pp_timeRange props) [])) (nullish (pp_timeRange props) []))
      else if pp_timeRange props = Some ''custom'' \<and> truthy (pp_startDate props)
      then (case format_or_throw df (nullish (pp_startDate props) []) of
              Inl e \<Rightarrow> Inl e
            | Inr s \<Rightarrow>
                if truthy (pp_endDate props)
                then (case format_or_throw df (nullish (pp_endDate props) []) of
                        Inl e \<Rightarrow> Inl e | Inr t \<Rightarrow> Inr (s @ '' '' @ em_dash @ '' '' @ t))
                else Inr s)
      else Inr ''Custom'')"

datatype picker_action = Relative string | TogglePanel | ClearRange | Apply

definition relative_column :: "string option \<Rightarrow> picker_action view list" where
  "relative_column timeRange =
     Text ''Relative''
     # map (\<lambda>row. Box (Text (row_label row)
           # map (\<lambda>(preset, chip). Item chip (timeRange = Some preset) (Relative preset)) (zip (row_presets row) (row_chips row))))
         RELATIVE_ROWS"

definition absolute_column :: "picker \<Rightarrow> picker_action view list" where
  "absolute_column p =
     [Text ''Absolute'', Text ''Start date'', Field ''date'' (pk_startDate p), Field ''time'' (pk_startTime p),
      Text em_dash, Text ''End date'', Field ''date'' (pk_endDate p), Field ''time'' (pk_endTime p),
      Button ''Apply'' (pk_startDate p \<noteq> []) Apply]"

definition TimeRangePicker :: "date_fns \<Rightarrow> picker_props \<Rightarrow> picker \<Rightarrow> js_error + picker_action view" where
  "TimeRangePicker df props p =
     (let timeRange = pp_timeRange props
      in case customLabel df props of
           Inl e \<Rightarrow> Inl e
         | Inr label \<Rightarrow>
             Inr (Box (map (\<lambda>preset. Item (nullish (map_of QUICK_LABELS preset) []) (timeRange = Some preset) (Relative preset)) QUICK_PRESETS
                  @ [Item (if isCustomActive timeRange then label else ''Custom'') (isCustomActive timeRange) TogglePanel]
                  @ shown_if (pk_open p)
                      (relative_column timeRange
                       @ shown_if (truthy timeRange \<or> truthy (pp_startDate props)) [Button ''Clear selection'' True ClearRange]
                       @ absolute_column p))))"

definition picker_act :: "date_fns \<Rightarrow> picker_props \<Rightarrow> picker \<Rightarrow> picker_action \<Rightarrow> picker_out option \<times> picker" where
  "picker_act df props p a =
     (case a of
        Relative r \<Rightarrow> handleRelative r p
      | TogglePanel \<Rightarrow> (None, picker_setOpen df props (\<not> pk_open p) p)
      | ClearRange \<Rightarrow> handleClear p
      | Apply \<Rightarrow> handleApply df p)"

section \<open>Facts\<close>

lemma relative_actions:
  "set (clicks (Box (relative_column tr))) = Relative ` set (concat (map row_presets RELATIVE_ROWS))"
  by (simp add: relative_column_def RELATIVE_ROWS_def)

lemma presets_known:
  "set (concat (map row_presets RELATIVE_ROWS)) = fst ` set RELATIVE_LABELS"
  "set (concat (map row_presets RELATIVE_ROWS)) = fst ` set TIME_RANGE_MS"
  "set QUICK_PRESETS \<subseteq> fst ` set TIME_RANGE_MS"
  by (simp_all add: RELATIVE_ROWS_def RELATIVE_LABELS_def TIME_RANGE_MS_def QUICK_PRESETS_def)

text \<open>Every preset the picker offers is one the query hook resolves, and the only way to choose a range
  that is not one of them is the absolute form.\<close>

lemma offered_presets:
  assumes "TimeRangePicker df props p = Inr v" "Relative r \<in> set (clicks v)"
  shows "\<exists>ms. map_of TIME_RANGE_MS r = Some ms"
proof -
  have "r \<in> fst ` set TIME_RANGE_MS"
    using assms presets_known relative_actions [of "pp_timeRange props"]
    by (auto simp: TimeRangePicker_def Let_def shown_if_def absolute_column_def split: sum.splits if_splits)
  then show ?thesis by (metis map_of_eq_None_iff option.exhaust)
qed

text \<open>Opening the panel on an absolute range and applying it unchanged gives the range back to the minute,
  where \<open>parse\<close> reads back what \<open>format\<close> wrote.\<close>

lemma reapply_range:
  assumes "\<not> pk_open p" "pp_startDate props = Some s" "s \<noteq> []" "df_date df s = Some t0"
    and "pp_endDate props = Some e" "e \<noteq> []" "df_date df e = Some t1"
    and "\<And>t. t \<in> {t0, t1} \<Longrightarrow> df_format df t ''yyyy-MM-dd'' \<noteq> [] \<and> df_format df t ''HH:mm'' \<noteq> []
      \<and> df_parse df (df_format df t ''yyyy-MM-dd'' @ '' '' @ df_format df t ''HH:mm'') = Some (t div 60000 * 60000)"
  shows "handleApply df (picker_setOpen df props True p) =
    (Some (OnAbsolute (toISOString (t0 div 60000 * 60000)) (toISOString (t1 div 60000 * 60000))),
     (picker_setOpen df props True p)\<lparr>pk_open := False\<rparr>)"
  using assms(1-7) assms(8) [of t0] assms(8) [of t1]
  by (simp add: handleApply_def picker_setOpen_def picker_seed_def Let_def toDateStr_def toTimeStr_def buildDate_def or_else_def)

end
