(* ===== verification/Dashboard.thy ===== *)
theory Dashboard
  imports Nav Time_Range "HOL-Library.List_Lexorder"
begin

text \<open>
  The dashboard page (\<open>routes/app/_layout/index.tsx\<close>): the filters kept in the URL, the queries made
  from them, the navigation of every control, the export, the breakdown by service with its sorting,
  and the displayed values. Locale-dependent texts (\<open>toLocaleString\<close> and its relatives) are
  parameters; recharts gets its data and fires its callbacks. Strings are ordered by bytes, which is
  JavaScript's order for texts without characters outside the basic plane.
\<close>

section \<open>Search parameters\<close>

text \<open>The validated search of the route: the page and the text parameters by name.\<close>

record search =
  se_page :: "int option"
  se_text :: "string \<Rightarrow> string option"

definition status_classes :: "string list" where
  "status_classes = [''2xx'', ''3xx'', ''4xx'', ''5xx'']"

definition time_ranges :: "string list" where
  "time_ranges = [''5m'', ''15m'', ''30m'', ''1h'', ''3h'', ''6h'', ''12h'', ''24h'', ''3d'', ''7d'', ''30d'', ''custom'']"

text \<open>\<open>searchSchema\<close>: a parameter of an enumeration is missing or one of its members; the other text
  parameters are unrestricted, and no others are known.\<close>

definition enum_opt :: "string list \<Rightarrow> string option \<Rightarrow> bool" where
  "enum_opt vs v = (case v of None \<Rightarrow> True | Some x \<Rightarrow> x \<in> set vs)"

definition text_params :: "string list" where
  "text_params = [''service_name'', ''method'', ''path'', ''status_code'', ''status_class'', ''identifier'',
                  ''time_range'', ''start_date'', ''end_date'', ''sort_by'', ''sort_order'']"

definition searchSchema :: "search \<Rightarrow> bool" where
  "searchSchema s \<longleftrightarrow>
     enum_opt status_classes (se_text s ''status_class'')
     \<and> enum_opt time_ranges (se_text s ''time_range'')
     \<and> enum_opt [''timestamp'', ''status_code'', ''response_time''] (se_text s ''sort_by'')
     \<and> enum_opt [''asc'', ''desc''] (se_text s ''sort_order'')"

definition search_page :: "search \<Rightarrow> int" where
  "search_page s = nullish (se_page s) 1"

section \<open>State\<close>

record dash =
  d_search :: search
  d_filterOpen :: bool
  d_selectedEvent :: "string option"
  d_sortCol :: string
  d_sortDir :: string
  d_showOrphans :: bool
  d_exporting :: bool
  d_exportOpen :: bool
  d_environment :: "string option"

definition dash_init :: "search \<Rightarrow> string option \<Rightarrow> dash" where
  "dash_init s env =
     \<lparr>d_search = s, d_filterOpen = False, d_selectedEvent = None, d_sortCol = ''requests'', d_sortDir = ''desc'',
      d_showOrphans = False, d_exporting = False, d_exportOpen = False, d_environment = env\<rparr>"

definition activeFilters :: "dash \<Rightarrow> filters" where
  "activeFilters d =
     (let s = se_text (d_search d);
          relative = truthy (s ''time_range'') \<and> s ''time_range'' \<noteq> Some ''custom''
      in [(''service_name'', s ''service_name''), (''method'', s ''method''), (''path'', s ''path''),
          (''status_code'', s ''status_code''), (''status_class'', s ''status_class''),
          (''environment'', d_environment d), (''identifier'', s ''identifier''), (''time_range'', s ''time_range''),
          (''start_date'', if relative then None else s ''start_date''),
          (''end_date'', if relative then None else s ''end_date''),
          (''sort_by'', s ''sort_by''), (''sort_order'', s ''sort_order'')])"

text \<open>The queries of the page: statistics, list, alerts, history, orphans, monitors.\<close>

definition dash_queries :: "server \<Rightarrow> string \<Rightarrow> int \<Rightarrow> int \<Rightarrow> int \<Rightarrow> string option \<Rightarrow> dash \<Rightarrow> query list" where
  "dash_queries srv base off mounted now projectId d =
     [useAuditStats srv base projectId (d_environment d),
      useAuditList srv base now (search_page (d_search d)) 50 projectId (activeFilters d),
      useAnomalyAlerts srv base off now projectId (d_environment d),
      useAuditHistory srv base projectId None None (d_environment d),
      useOrphans srv base \<lparr>of_projectId = projectId, of_service_name = None,
        of_start_date = Some (toISOString (mounted - 24 * 60 * 60 * 1000)), of_end_date = None, of_environment = d_environment d\<rparr>,
      useMonitors srv base projectId]"

section \<open>Navigation\<close>

text \<open>\<open>navigate({ search: prev => ({ ...prev, k: v, ..., page: 1 }) })\<close>.\<close>

definition go :: "(string \<times> string option) list \<Rightarrow> dash \<Rightarrow> dash" where
  "go kvs d = d\<lparr>d_search := \<lparr>se_page = Some 1, se_text = fold (\<lambda>(k, v) f. f(k := v)) kvs (se_text (d_search d))\<rparr>\<rparr>"

definition setFilter :: "string \<Rightarrow> string \<Rightarrow> dash \<Rightarrow> dash" where
  "setFilter key value d = go [(key, or_undefined value)] d"

definition clearFilters :: "dash \<Rightarrow> dash" where
  "clearFilters d = d\<lparr>d_search := \<lparr>se_page = Some 1, se_text = (\<lambda>_. None)\<rparr>\<rparr>"

definition toggleFeedSort :: "string \<Rightarrow> dash \<Rightarrow> dash" where
  "toggleFeedSort col d =
     (let s = se_text (d_search d);
          currentCol = nullish (s ''sort_by'') ''timestamp''; currentDir = nullish (s ''sort_order'') ''desc'';
          newDir = (if currentCol = col \<and> currentDir = ''desc'' then ''asc'' else ''desc'')
      in go [(''sort_by'', Some col), (''sort_order'', Some newDir)] d)"

definition click_hour :: "int option \<Rightarrow> dash \<Rightarrow> dash" where
  "click_hour rawHour d =
     (case rawHour of
        None \<Rightarrow> d
      | Some h \<Rightarrow> go [(''time_range'', Some ''custom''), (''start_date'', Some (toISOString h)),
                      (''end_date'', Some (toISOString (h + 60 * 60 * 1000)))] d)"

definition click_status :: "string \<Rightarrow> dash \<Rightarrow> dash" where
  "click_status cls d =
     go [(''status_class'', if se_text (d_search d) ''status_class'' = Some cls then None else Some cls), (''status_code'', None)] d"

definition click_method :: "string \<Rightarrow> dash \<Rightarrow> dash" where
  "click_method m d = go [(''method'', if se_text (d_search d) ''method'' = Some m then None else Some m)] d"

fun on_range :: "picker_out \<Rightarrow> dash \<Rightarrow> dash" where
  "on_range (OnRelative r) d = go [(''time_range'', Some r), (''start_date'', None), (''end_date'', None)] d"
| "on_range (OnAbsolute s e) d = go [(''time_range'', Some ''custom''), (''start_date'', Some s), (''end_date'', or_undefined e)] d"
| "on_range OnClear d = go [(''time_range'', None), (''start_date'', None), (''end_date'', None)] d"

definition go_page :: "int \<Rightarrow> dash \<Rightarrow> dash" where
  "go_page p d = d\<lparr>d_search := (d_search d)\<lparr>se_page := Some p\<rparr>\<rparr>"

definition hasFilters :: "search \<Rightarrow> bool" where
  "hasFilters s \<longleftrightarrow>
     list_ex (\<lambda>k. truthy (se_text s k))
       [''time_range'', ''service_name'', ''method'', ''path'', ''status_code'', ''status_class'', ''identifier'', ''start_date'', ''end_date'']"

definition toggleSort :: "string \<Rightarrow> dash \<Rightarrow> dash" where
  "toggleSort col d =
     (if d_sortCol d = col then d\<lparr>d_sortDir := (if d_sortDir d = ''asc'' then ''desc'' else ''asc'')\<rparr>
      else d\<lparr>d_sortCol := col, d_sortDir := ''desc''\<rparr>)"

definition sort_icon :: "dash \<Rightarrow> string \<Rightarrow> string" where
  "sort_icon d col =
     (if d_sortCol d \<noteq> col then ''ChevronDown faint'' else if d_sortDir d = ''asc'' then ''ChevronUp'' else ''ChevronDown'')"

text \<open>A click on a column heading of the breakdown; two of the columns cannot be sorted.\<close>

definition heading_click :: "string \<Rightarrow> dash \<Rightarrow> dash" where
  "heading_click key d = (if key \<noteq> ''error_rate'' \<and> key \<noteq> ''health'' then toggleSort key d else d)"

datatype dash_action =
    FilterText string string | ClearAll | FeedSort string | Hour "int option" | StatusBar string | MethodBar string
  | Range picker_out | Page int | Heading string | FilterPanel | ExportMenu | Orphans | Event string | CloseEvent
  | Environment "string option"

fun dash_step :: "dash \<Rightarrow> dash_action \<Rightarrow> dash" where
  "dash_step d (FilterText k v) = setFilter k v d"
| "dash_step d ClearAll = clearFilters d"
| "dash_step d (FeedSort col) = toggleFeedSort col d"
| "dash_step d (Hour h) = click_hour h d"
| "dash_step d (StatusBar c) = click_status c d"
| "dash_step d (MethodBar m) = click_method m d"
| "dash_step d (Range out) = on_range out d"
| "dash_step d (Page p) = go_page p d"
| "dash_step d (Heading key) = heading_click key d"
| "dash_step d FilterPanel = d\<lparr>d_filterOpen := \<not> d_filterOpen d\<rparr>"
| "dash_step d ExportMenu = d\<lparr>d_exportOpen := \<not> d_exportOpen d\<rparr>"
| "dash_step d Orphans = d\<lparr>d_showOrphans := \<not> d_showOrphans d\<rparr>"
| "dash_step d (Event i) = d\<lparr>d_selectedEvent := Some i\<rparr>"
| "dash_step d CloseEvent = d\<lparr>d_selectedEvent := None\<rparr>"
| "dash_step d (Environment e) = d\<lparr>d_environment := e\<rparr>"

section \<open>Export\<close>

text \<open>The outcome of an export: a file saved under a name, or an alert. The text of a status line is a
  parameter of the platform.\<close>

datatype export_outcome = Saved string | Alerted string

definition export_params :: "string \<Rightarrow> string option \<Rightarrow> dash \<Rightarrow> (string \<times> string option) list" where
  "export_params fmt projectId d =
     (let f = filter_val (activeFilters d)
      in [(''format'', Some fmt), (''project_id'', projectId), (''service_name'', f ''service_name''),
          (''method'', f ''method''), (''status_code'', f ''status_code''), (''environment'', f ''environment''),
          (''identifier'', f ''identifier''), (''start_date'', f ''start_date''), (''end_date'', f ''end_date'')])"

definition export_request :: "string \<Rightarrow> string \<Rightarrow> string option \<Rightarrow> dash \<Rightarrow> storage \<Rightarrow> request" where
  "export_request base fmt projectId d m =
     \<lparr>req_url = base @ ''/v1/audit/export?'' @ params_str (set_all (export_params fmt projectId d) []), req_method = ''GET'',
      req_headers = [(''Authorization'', ''Bearer '' @ nullish (getToken m) [])], req_body = None\<rparr>"

definition export_filename :: "int \<Rightarrow> string \<Rightarrow> string" where
  "export_filename now fmt = ''bataudit-export-'' @ take 10 (toISOString now) @ ''.'' @ fmt"

text \<open>\<open>body.error ?? 'Export failed'\<close> throws when the body is \<open>null\<close>.\<close>

definition export_alert :: "(nat \<Rightarrow> string) \<Rightarrow> response \<Rightarrow> js_error + export_outcome" where
  "export_alert statusText res =
     (let body = (case res_json res of Inr b \<Rightarrow> b | Inl _ \<Rightarrow> JObj [(''error'', JStr (statusText (res_status res)))])
      in case jprop body ''error'' of
           Inl e \<Rightarrow> Inl e
         | Inr e \<Rightarrow> Inr (Alerted (jstring (jnullish e (JStr ''Export failed'')))))"

definition handleExport ::
  "server \<Rightarrow> string \<Rightarrow> (nat \<Rightarrow> string) \<Rightarrow> int \<Rightarrow> string \<Rightarrow> string option \<Rightarrow> dash \<times> browser \<Rightarrow> (js_error + export_outcome) \<times> dash \<times> browser" where
  "handleExport srv base statusText now fmt projectId dw =
     (case dw of (d, w) \<Rightarrow>
        case js_fetch srv (export_request base fmt projectId d (b_store w)) w of
          (Inl e, w1) \<Rightarrow> (Inl e, d\<lparr>d_exporting := False\<rparr>, w1)
        | (Inr res, w1) \<Rightarrow>
            ((if \<not> res_ok res then export_alert statusText res else Inr (Saved (export_filename now fmt))),
             d\<lparr>d_exporting := False\<rparr>, w1))"

text \<open>The entry of the export menu: it starts the export and closes the menu.\<close>

definition export_start :: "dash \<Rightarrow> dash" where
  "export_start d = d\<lparr>d_exporting := True, d_exportOpen := False\<rparr>"

section \<open>Breakdown by service\<close>

record ServiceBreakdown =
  sb_service_name :: string
  sb_requests :: nat
  sb_errors :: nat
  sb_avg_response_time :: rat
  sb_last_event :: string

text \<open>\<open>a[key]\<close>, a number or a text; other keys give \<open>undefined\<close>.\<close>

datatype cell = CNum rat | CText string

definition service_cell :: "string \<Rightarrow> ServiceBreakdown \<Rightarrow> cell option" where
  "service_cell key a =
     (if key = ''service_name'' then Some (CText (sb_service_name a))
      else if key = ''requests'' then Some (CNum (of_nat (sb_requests a)))
      else if key = ''errors'' then Some (CNum (of_nat (sb_errors a)))
      else if key = ''avg_response_time'' then Some (CNum (sb_avg_response_time a))
      else if key = ''last_event'' then Some (CText (sb_last_event a))
      else None)"

fun cell_less :: "cell option \<Rightarrow> cell option \<Rightarrow> bool" where
  "cell_less (Some (CNum a)) (Some (CNum b)) \<longleftrightarrow> a < b"
| "cell_less (Some (CText s)) (Some (CText t)) \<longleftrightarrow> map code s < map code t"
| "cell_less _ _ \<longleftrightarrow> False"

definition service_cmp :: "string \<Rightarrow> string \<Rightarrow> ServiceBreakdown \<Rightarrow> ServiceBreakdown \<Rightarrow> int" where
  "service_cmp sortCol sortDir a b =
     (let va = service_cell sortCol a; vb = service_cell sortCol b
      in if cell_less va vb then (if sortDir = ''asc'' then -1 else 1)
         else if cell_less vb va then (if sortDir = ''asc'' then 1 else -1)
         else 0)"

text \<open>\<open>Array.prototype.sort\<close> is stable; for a consistent comparison its result is the one of insertion.\<close>

fun sort_insert :: "('a \<Rightarrow> 'a \<Rightarrow> int) \<Rightarrow> 'a \<Rightarrow> 'a list \<Rightarrow> 'a list" where
  "sort_insert cmp x [] = [x]"
| "sort_insert cmp x (y # ys) = (if cmp x y \<le> 0 then x # y # ys else y # sort_insert cmp x ys)"

definition js_sort :: "('a \<Rightarrow> 'a \<Rightarrow> int) \<Rightarrow> 'a list \<Rightarrow> 'a list" where
  "js_sort cmp xs = foldr (sort_insert cmp) xs []"

definition sortedServices :: "ServiceBreakdown list option \<Rightarrow> dash \<Rightarrow> ServiceBreakdown list" where
  "sortedServices by_service d =
     (case by_service of None \<Rightarrow> [] | Some xs \<Rightarrow> js_sort (service_cmp (d_sortCol d) (d_sortDir d)) xs)"

section \<open>Displayed values\<close>

definition dash_statusColor :: "nat \<Rightarrow> string" where
  "dash_statusColor c =
     (if c \<ge> 500 then ''text-[#f87171] border-[#f87171]/40''
      else if c \<ge> 400 then ''text-[#fb923c] border-[#fb923c]/40''
      else if c \<ge> 300 then ''text-[#60a5fa] border-[#60a5fa]/40''
      else ''text-[#34d399] border-[#34d399]/40'')"

definition dash_methodColor :: "string \<Rightarrow> string" where
  "dash_methodColor m =
     nullish (map_of [(''GET'', ''text-[#34d399] border-[#34d399]/40''), (''POST'', ''text-[#818cf8] border-[#818cf8]/40''),
                      (''PUT'', ''text-[#fb923c] border-[#fb923c]/40''), (''PATCH'', ''text-[#60a5fa] border-[#60a5fa]/40''),
                      (''DELETE'', ''text-[#f87171] border-[#f87171]/40'')] (toUpperCase m)) ''text-muted-foreground border-border''"

text \<open>The badge of an error rate: its colour and its text.\<close>

definition errorRateBadge :: "rat \<Rightarrow> string \<times> string" where
  "errorRateBadge rate =
     (if rate \<ge> 5 then ''bg-[#f87171]/20 text-[#f87171] border-[#f87171]/30''
      else if rate \<ge> 1 then ''bg-[#fb923c]/20 text-[#fb923c] border-[#fb923c]/30''
      else ''bg-[#34d399]/20 text-[#34d399] border-[#34d399]/30'', to_fixed 1 rate @ ''%'')"

text \<open>What the platform's locale decides.\<close>

record locale_texts =
  lt_date :: "int \<Rightarrow> string"      \<comment> \<open>\<open>toLocaleDateString()\<close>\<close>
  lt_number :: "nat \<Rightarrow> string"    \<comment> \<open>\<open>toLocaleString()\<close> of a count\<close>
  lt_time :: "int \<Rightarrow> string"      \<comment> \<open>\<open>toLocaleTimeString\<close> with hour and minute\<close>
  lt_parse :: date_parser         \<comment> \<open>\<open>new Date(text)\<close>\<close>

text \<open>A comparison with NaN fails, so an unreadable date falls through to the last branch.\<close>

definition timeAgo :: "locale_texts \<Rightarrow> int \<Rightarrow> string \<Rightarrow> string" where
  "timeAgo lt now ts =
     (if ts = [] then em_dash
      else case lt_parse lt ts of
             None \<Rightarrow> ''Invalid Date''
           | Some t \<Rightarrow>
               let diff = now - t; s = diff div 1000; m = s div 60; h = m div 60; dd = h div 24
               in if diff < 0 then ''just now''
                  else if s < 60 then show_int s @ ''s ago''
                  else if m < 60 then show_int m @ ''m ago''
                  else if h < 24 then show_int h @ ''h ago''
                  else if dd < 7 then show_int dd @ ''d ago''
                  else lt_date lt t)"

record AuditStats =
  as_total :: nat
  as_errors_4xx :: nat
  as_errors_5xx :: nat
  as_avg_response_time :: rat
  as_p95_response_time :: rat
  as_active_services :: nat
  as_last_event_at :: string
  as_by_service :: "ServiceBreakdown list"
  as_by_status_class :: "(string \<times> nat) list"
  as_by_method :: "(string \<times> nat) list"
  as_timeline :: "(string \<times> nat) list"

definition dash_title :: "string option \<Rightarrow> AuditStats option \<Rightarrow> string" where
  "dash_title projectId stats =
     (if projectId = None then ''All Projects''
      else case stats of
             Some st \<Rightarrow> (case as_by_service st of svc # _ \<Rightarrow> sb_service_name svc | [] \<Rightarrow> ''Dashboard'')
           | None \<Rightarrow> ''Dashboard'')"

definition last_event_line :: "locale_texts \<Rightarrow> int \<Rightarrow> AuditStats option \<Rightarrow> string" where
  "last_event_line lt now stats =
     (case stats of
        Some st \<Rightarrow> if as_last_event_at st \<noteq> [] then ''Last event: '' @ timeAgo lt now (as_last_event_at st) else ''No events yet''
      | None \<Rightarrow> ''No events yet'')"

definition error_share :: "nat \<Rightarrow> nat \<Rightarrow> string" where
  "error_share errors n = to_fixed 1 (of_nat errors / of_nat n * 100) @ ''%''"

text \<open>The metric cards: label, value and the small print below it.\<close>

definition metric_cards ::
  "locale_texts \<Rightarrow> bool \<Rightarrow> AuditStats option \<Rightarrow> nat option \<Rightarrow> nat option \<Rightarrow> (string \<times> string \<times> string option) list" where
  "metric_cards lt statsLoading stats alerts orphans =
     (let num = (\<lambda>f. case stats of None \<Rightarrow> 0 | Some st \<Rightarrow> f st);
          ms = (\<lambda>f. case stats of None \<Rightarrow> (0::rat) | Some st \<Rightarrow> f st);
          val = (\<lambda>t. if statsLoading then ellipsis else t);
          sub = (\<lambda>f. case stats of None \<Rightarrow> None | Some st \<Rightarrow> if as_total st > 0 then Some (error_share (f st) (as_total st)) else None)
      in [(''Total Events'', val (lt_number lt (num as_total)), None),
          (''Active Services'', val (show_nat (num as_active_services)), None),
          (''Errors 4xx'', val (show_nat (num as_errors_4xx)), sub as_errors_4xx),
          (''Errors 5xx'', val (show_nat (num as_errors_5xx)), sub as_errors_5xx),
          (''Avg Response'', val (show_int (js_round (ms as_avg_response_time)) @ ''ms''), None),
          (''p95 Response'', val (show_int (js_round (ms as_p95_response_time)) @ ''ms''), None),
          (''Anomaly Alerts'', show_nat (nullish alerts 0), None),
          (''Orphan Requests'', show_nat (nullish orphans 0), None)])"

record Monitor =
  mo_id :: string
  mo_project_id :: string
  mo_name :: string
  mo_url :: string
  mo_interval_seconds :: nat
  mo_timeout_seconds :: nat
  mo_expected_status :: nat
  mo_enabled :: bool
  mo_last_status :: string
  mo_last_checked_at :: "string option"
  mo_created_at :: string
  mo_updated_at :: string

text \<open>\<open>for (const m of monitors) map[m.name] = m.last_status\<close>: the last monitor of a name counts.\<close>

definition monitorByService :: "Monitor list \<Rightarrow> string \<Rightarrow> string option" where
  "monitorByService monitors = foldl (\<lambda>f m. f(mo_name m \<mapsto> mo_last_status m)) (\<lambda>_. None) monitors"

definition plural :: "nat \<Rightarrow> string" where
  "plural n = (if n \<noteq> 1 then ''s'' else [])"

definition down_banner :: "Monitor list \<Rightarrow> dash_action view list" where
  "down_banner monitors =
     (let down = filter (\<lambda>m. mo_last_status m = ''down'') monitors
      in shown_if (length down > 0)
           (Text (show_nat (length down) @ '' monitor'' @ plural (length down) @ '' down'')
            # map (\<lambda>m. Text (mo_name m @ '' '' @ em_dash @ '' '' @ mo_url m)) down))"

record AuditSummary =
  ev_id :: string
  ev_event_type :: string
  ev_identifier :: string
  ev_user_email :: string
  ev_user_name :: string
  ev_method :: string
  ev_path :: string
  ev_status_code :: nat
  ev_service_name :: string
  ev_timestamp :: string
  ev_response_time :: rat
  ev_environment :: "string option"
  ev_project_id :: "string option"

definition event_clock :: "locale_texts \<Rightarrow> string \<Rightarrow> string" where
  "event_clock lt ts = (case lt_parse lt ts of None \<Rightarrow> ''Invalid Date'' | Some t \<Rightarrow> lt_time lt t)"

definition orphan_banner :: "locale_texts \<Rightarrow> (nat \<times> AuditSummary list) option \<Rightarrow> dash \<Rightarrow> dash_action view list" where
  "orphan_banner lt orphansData d =
     (case orphansData of
        None \<Rightarrow> []
      | Some (n, events) \<Rightarrow>
          shown_if (n > 0)
            ([Text (show_nat n @ '' request'' @ plural n @ '' without backend response in the last 24h''),
              Text (''Browser-side events with no matching backend audit '' @ em_dash @ '' possible crashes, timeouts, or OOM kills.''),
              Button (if d_showOrphans d then ''Hide'' else ''View orphans'') True Orphans]
             @ shown_if (d_showOrphans d)
                 (Text ''Orphan requests (last 24h)''
                  # map (\<lambda>e. Item (join_with '' '' [event_clock lt (ev_timestamp e), ev_service_name e, ev_method e, ev_path e, ev_identifier e])
                                 False (Event (ev_id e))) events)))"

definition service_columns :: "(string \<times> string) list" where
  "service_columns =
     [(''service_name'', ''Service''), (''requests'', ''Requests''), (''errors'', ''Errors''), (''error_rate'', ''Error Rate''),
      (''avg_response_time'', ''Avg Time''), (''last_event'', ''Last Event''), (''health'', ''Health'')]"

definition service_rate :: "ServiceBreakdown \<Rightarrow> rat" where
  "service_rate svc = (if sb_requests svc > 0 then of_nat (sb_errors svc) / of_nat (sb_requests svc) * 100 else 0)"

definition service_health :: "Monitor list \<Rightarrow> string \<Rightarrow> string list" where
  "service_health monitors name =
     (let st = monitorByService monitors name
      in (if st = Some ''up'' then [''UP''] else []) @ (if st = Some ''down'' then [''DOWN''] else [])
         @ (if \<not> truthy st then [em_dash] else []))"

definition service_row :: "locale_texts \<Rightarrow> int \<Rightarrow> Monitor list \<Rightarrow> ServiceBreakdown \<Rightarrow> string list" where
  "service_row lt now monitors svc =
     [sb_service_name svc, lt_number lt (sb_requests svc), lt_number lt (sb_errors svc), snd (errorRateBadge (service_rate svc)),
      show_int (js_round (sb_avg_response_time svc)) @ ''ms'', timeAgo lt now (sb_last_event svc)]
     @ service_health monitors (sb_service_name svc)"

definition service_table ::
  "locale_texts \<Rightarrow> int \<Rightarrow> Monitor list \<Rightarrow> AuditStats option \<Rightarrow> dash \<Rightarrow> dash_action view list" where
  "service_table lt now monitors stats d =
     (let rows = sortedServices (map_option as_by_service stats) d
      in shown_if (rows \<noteq> [])
           (map (\<lambda>(key, label). if key \<noteq> ''error_rate'' \<and> key \<noteq> ''health'' then Item label (d_sortCol d = key) (Heading key) else Text label)
              service_columns
            @ map (\<lambda>svc. Box (map Text (service_row lt now monitors svc))) rows))"

section \<open>Charts\<close>

definition methodData :: "AuditStats option \<Rightarrow> (string \<times> nat) list" where
  "methodData stats = (case stats of None \<Rightarrow> [] | Some st \<Rightarrow> as_by_method st)"

definition METHOD_COLORS :: "(string \<times> string) list" where
  "METHOD_COLORS = [(''GET'', ''#34d399''), (''POST'', ''#818cf8''), (''PUT'', ''#fb923c''), (''PATCH'', ''#60a5fa''), (''DELETE'', ''#f87171'')]"

definition statusData :: "AuditStats option \<Rightarrow> (string \<times> nat \<times> string) list" where
  "statusData stats =
     (case stats of
        None \<Rightarrow> []
      | Some st \<Rightarrow> map (\<lambda>(name, color). (name, nullish (map_of (as_by_status_class st) name) 0, color))
                     [(''2xx'', ''#34d399''), (''3xx'', ''#60a5fa''), (''4xx'', ''#fb923c''), (''5xx'', ''#f87171'')])"

text \<open>\<open>hours\<close> is \<open>getHours()\<close> of an instant; an unreadable hour is NaN, which no chart click reports.\<close>

definition timelineData :: "date_parser \<Rightarrow> (int \<Rightarrow> nat) \<Rightarrow> AuditStats option \<Rightarrow> (string \<times> int option \<times> nat) list" where
  "timelineData parse_date hours stats =
     map (\<lambda>(hour, count). ((case parse_date hour of None \<Rightarrow> ''NaN'' | Some t \<Rightarrow> show_nat (hours t)) @ ''h'', parse_date hour, count))
       (case stats of None \<Rightarrow> [] | Some st \<Rightarrow> as_timeline st)"

record HistoryPoint =
  hp_period_start :: string
  hp_period_type :: string
  hp_event_count :: nat
  hp_errors_4xx :: nat
  hp_errors_5xx :: nat
  hp_avg_ms :: rat
  hp_p95_ms :: rat

definition historyChartData :: "(string \<Rightarrow> string) \<Rightarrow> (string \<Rightarrow> string) \<Rightarrow> HistoryPoint list option \<Rightarrow> (string \<times> nat \<times> nat) list" where
  "historyChartData day_text hour_text history =
     map (\<lambda>p. (if hp_period_type p = ''day'' then day_text (hp_period_start p) else hour_text (hp_period_start p),
               hp_event_count p, hp_errors_4xx p + hp_errors_5xx p)) (nullish history [])"

definition history_panel :: "string option \<Rightarrow> (string \<times> nat \<times> nat) list \<Rightarrow> string list + (string \<times> nat \<times> nat) list" where
  "history_panel projectId chart =
     (if \<not> truthy projectId then Inl [''Select a project to view 90-day history'']
      else if chart = [] then Inl [''No history yet for this project'', ''Daily history builds up as events are recorded over time.'']
      else Inr chart)"

text \<open>The bars: name, value, colour, and whether the current filter dims it.\<close>

definition status_bars :: "AuditStats option \<Rightarrow> dash \<Rightarrow> (string \<times> nat \<times> string \<times> bool) list" where
  "status_bars stats d =
     (let f = se_text (d_search d) ''status_class''
      in map (\<lambda>(name, v, color). (name, v, color, \<not> (\<not> truthy f \<or> f = Some name))) (statusData stats))"

definition method_bars :: "AuditStats option \<Rightarrow> dash \<Rightarrow> (string \<times> nat \<times> string \<times> bool) list" where
  "method_bars stats d =
     (let f = se_text (d_search d) ''method''
      in map (\<lambda>(name, v). (name, v, nullish (map_of METHOD_COLORS name) ''#64748b'', \<not> (\<not> truthy f \<or> f = Some name)))
           (filter (\<lambda>(name, v). name \<noteq> []) (methodData stats)))"

section \<open>Event feed\<close>

definition feed_toolbar :: "dash \<Rightarrow> dash_action view list" where
  "feed_toolbar d =
     Text ''Event Feed''
     # shown_if (hasFilters (d_search d)) [Button ''Clear'' True ClearAll]
     @ [Button ''Filter'' True FilterPanel,
        Button (if d_exporting d then ''Exporting'' @ ellipsis else ''Export'') (\<not> d_exporting d) ExportMenu]
     @ shown_if (d_exportOpen d) [Text ''CSV'', Text ''JSON'']"

definition environment_chips :: "dash \<Rightarrow> dash_action view list" where
  "environment_chips d =
     map (\<lambda>(value, label). Item label (d_environment d = value) (Environment value))
       [(None, ''All envs''), (Some ''production'', ''production''), (Some ''staging'', ''staging''),
        (Some ''development'', ''development''), (Some ''testing'', ''testing''), (Some ''local'', ''local'')]"

definition filter_panel :: "dash \<Rightarrow> dash_action view list" where
  "filter_panel d =
     (let v = (\<lambda>k. nullish (se_text (d_search d) k) [])
      in shown_if (d_filterOpen d)
           [Field ''Service name'' (v ''service_name''),
            Select (v ''method'') ([([], ''All methods'')] @ map (\<lambda>m. (m, m)) [''GET'', ''POST'', ''PUT'', ''PATCH'', ''DELETE'']),
            Field ''Status code (e.g. 404)'' (v ''status_code''), Field ''Identifier'' (v ''identifier'')])"

definition event_row :: "locale_texts \<Rightarrow> AuditSummary \<Rightarrow> string list" where
  "event_row lt e =
     [event_clock lt (ev_timestamp e), ev_service_name e,
      if ev_event_type e = ''system.alert'' then ''ALERT'' else ev_method e, ev_path e]
     @ (if ev_event_type e \<noteq> ''system.alert'' then [show_nat (ev_status_code e)] else [])
     @ [if ev_response_time e \<noteq> 0 then number_to_string (ev_response_time e) @ ''ms'' else em_dash]"

definition sort_headings :: "dash \<Rightarrow> dash_action view list" where
  "sort_headings d =
     map (\<lambda>(col, label). Item label (nullish (se_text (d_search d) ''sort_by'') ''timestamp'' = col) (FeedSort col))
       [(''timestamp'', ''Time''), (''status_code'', ''Status''), (''response_time'', ''Time(ms)'')]"

definition event_list :: "locale_texts \<Rightarrow> bool \<Rightarrow> AuditSummary list option \<Rightarrow> dash \<Rightarrow> dash_action view list" where
  "event_list lt auditError auditList d =
     (if auditError then [Text ''Failed to load events. Check your connection and try again.'']
      else sort_headings d
           @ shown_if (auditList = Some []) [Text ''No events found.'']
           @ map (\<lambda>e. Item (join_with '' '' (event_row lt e)) False (Event (ev_id e))) (nullish auditList []))"

definition feed_pagination :: "int option \<Rightarrow> dash \<Rightarrow> dash_action view" where
  "feed_pagination totalPage d = map_view Page (AppPagination (search_page (d_search d)) (nullish totalPage 1))"

definition event_feed :: "locale_texts \<Rightarrow> bool \<Rightarrow> (AuditSummary list \<times> int) option \<Rightarrow> dash \<Rightarrow> dash_action view" where
  "event_feed lt auditError auditList d =
     Box (feed_toolbar d @ environment_chips d @ filter_panel d @ event_list lt auditError (map_option fst auditList) d
          @ [feed_pagination (map_option snd auditList) d])"


section \<open>Sorting\<close>

text \<open>What \<open>sort\<close> needs of a comparison, and what it then gives.\<close>

locale js_comparator =
  fixes cmp :: "'a \<Rightarrow> 'a \<Rightarrow> int"
  assumes cmp_swap: "cmp b a = - cmp a b"
    and cmp_trans: "cmp a b \<le> 0 \<Longrightarrow> cmp b c \<le> 0 \<Longrightarrow> cmp a c \<le> 0"
begin

lemma mset_insert: "mset (sort_insert cmp x ys) = add_mset x (mset ys)"
  by (induction ys) auto

lemma mset_sort: "mset (js_sort cmp xs) = mset xs"
  unfolding js_sort_def by (induction xs) (auto simp: mset_insert)

lemma cmp_total: "\<not> cmp x y \<le> 0 \<Longrightarrow> cmp y x \<le> 0"
  using cmp_swap [of x y] by linarith

lemma sorted_insert: "sorted_wrt (\<lambda>a b. cmp a b \<le> 0) ys \<Longrightarrow> sorted_wrt (\<lambda>a b. cmp a b \<le> 0) (sort_insert cmp x ys)"
proof (induction ys)
  case (Cons y ys)
  have "set (sort_insert cmp x ys) = insert x (set ys)"
    by (metis mset_insert set_mset_add_mset_insert set_mset_mset)
  with Cons show ?case by (auto intro: cmp_trans cmp_total)
qed simp

lemma sorted_sort: "sorted_wrt (\<lambda>a b. cmp a b \<le> 0) (js_sort cmp xs)"
  unfolding js_sort_def by (induction xs) (auto intro: sorted_insert)

lemma filter_insert_eq:
  assumes "\<And>y. P y \<Longrightarrow> cmp x y \<le> 0" "P x"
  shows "filter P (sort_insert cmp x ys) = x # filter P ys"
  using assms by (induction ys) (auto split: if_splits)

lemma cmp_zero_trans: "cmp a b = 0 \<Longrightarrow> cmp a c = 0 \<longleftrightarrow> cmp b c = 0"
proof
  assume ab: "cmp a b = 0" and ac: "cmp a c = 0"
  have "cmp b a = 0" "cmp c a = 0" using ab ac cmp_swap [of a b] cmp_swap [of a c] by simp_all
  then have "cmp b c \<le> 0" "cmp c b \<le> 0" using cmp_trans [of b a c] cmp_trans [of c a b] ab ac by simp_all
  then show "cmp b c = 0" using cmp_swap [of b c] by simp
next
  assume ab: "cmp a b = 0" and bc: "cmp b c = 0"
  have "cmp b a = 0" "cmp c b = 0" using ab bc cmp_swap [of a b] cmp_swap [of b c] by simp_all
  then have "cmp a c \<le> 0" "cmp c a \<le> 0" using cmp_trans [of a b c] cmp_trans [of c b a] ab bc by simp_all
  then show "cmp a c = 0" using cmp_swap [of a c] by simp
qed

lemma filter_insert_neq: "cmp z x \<noteq> 0 \<Longrightarrow> filter (\<lambda>y. cmp z y = 0) (sort_insert cmp x ys) = filter (\<lambda>y. cmp z y = 0) ys"
  by (induction ys) auto

lemma stable_sort: "filter (\<lambda>y. cmp z y = 0) (js_sort cmp xs) = filter (\<lambda>y. cmp z y = 0) xs"
  unfolding js_sort_def
proof (induction xs)
  case (Cons x xs)
  show ?case
  proof (cases "cmp z x = 0")
    case True
    then have "cmp z y = 0 \<Longrightarrow> cmp x y \<le> 0" for y using cmp_zero_trans [of z x y] by simp
    from filter_insert_eq [of "\<lambda>y. cmp z y = 0" x, OF this True] Cons True show ?thesis by simp
  next
    case False
    with Cons filter_insert_neq show ?thesis by simp
  qed
qed simp

end

text \<open>The cells of one column have one type, so that the comparison of a column is consistent.\<close>

definition num_cell :: "string \<Rightarrow> ServiceBreakdown \<Rightarrow> rat" where
  "num_cell col a = (case service_cell col a of Some (CNum n) \<Rightarrow> n | _ \<Rightarrow> 0)"

definition text_cell :: "string \<Rightarrow> ServiceBreakdown \<Rightarrow> nat list" where
  "text_cell col a = (case service_cell col a of Some (CText t) \<Rightarrow> map code t | _ \<Rightarrow> [])"

lemma cell_less_column:
  "cell_less (service_cell col a) (service_cell col b) \<longleftrightarrow>
     num_cell col a < num_cell col b \<or> text_cell col a < text_cell col b"
  by (simp add: service_cell_def num_cell_def text_cell_def)

lemma one_type: "num_cell col = (\<lambda>_. 0) \<or> text_cell col = (\<lambda>_. [])"
  by (simp add: service_cell_def num_cell_def text_cell_def fun_eq_iff)

lemma service_cmp_le:
  "service_cmp col dir a b \<le> 0 \<longleftrightarrow>
     (if dir = ''asc'' then num_cell col a \<le> num_cell col b \<and> text_cell col a \<le> text_cell col b
      else num_cell col b \<le> num_cell col a \<and> text_cell col b \<le> text_cell col a)"
  using one_type [of col] by (auto simp: service_cmp_def Let_def cell_less_column)

lemma service_cmp_swap: "service_cmp col dir b a = - service_cmp col dir a b"
  using one_type [of col] by (auto simp: service_cmp_def Let_def cell_less_column)

interpretation service_order: js_comparator "service_cmp col dir" for col dir
proof unfold_locales
  show "service_cmp col dir b a = - service_cmp col dir a b" for a b by (rule service_cmp_swap)
  show "service_cmp col dir a b \<le> 0 \<Longrightarrow> service_cmp col dir b c \<le> 0 \<Longrightarrow> service_cmp col dir a c \<le> 0" for a b c
    unfolding service_cmp_le by (auto split: if_splits)
qed


section \<open>Navigation keeps the search valid\<close>

text \<open>The arguments the page's controls pass: the filter fields, the sortable columns, the bars of the
  charts and the presets of the picker.\<close>

fun action_ok :: "dash_action \<Rightarrow> bool" where
  "action_ok (FilterText k v) \<longleftrightarrow> k \<in> {''service_name'', ''method'', ''status_code'', ''identifier''}"
| "action_ok (FeedSort col) \<longleftrightarrow> col \<in> {''timestamp'', ''status_code'', ''response_time''}"
| "action_ok (StatusBar c) \<longleftrightarrow> c \<in> set status_classes"
| "action_ok (Range (OnRelative r)) \<longleftrightarrow> map_of TIME_RANGE_MS r \<noteq> None"
| "action_ok _ \<longleftrightarrow> True"

lemma enum_opt_simps [simp]: "enum_opt vs None" "enum_opt vs (Some x) \<longleftrightarrow> x \<in> set vs"
  by (simp_all add: enum_opt_def)

lemma go_simps:
  "se_text (d_search (go kvs d)) = fold (\<lambda>(k, v) f. f(k := v)) kvs (se_text (d_search d))"
  "se_page (d_search (go kvs d)) = Some 1"
  by (simp_all add: go_def)

lemma presets_in_schema: "map_of TIME_RANGE_MS r \<noteq> None \<Longrightarrow> r \<in> set time_ranges"
  by (auto simp: TIME_RANGE_MS_def time_ranges_def split: if_splits)

lemma custom_in_schema: "''custom'' \<in> set time_ranges"
  by (simp add: time_ranges_def)

lemmas dash_defs = setFilter_def clearFilters_def toggleFeedSort_def click_hour_def click_status_def click_method_def
  go_page_def heading_click_def toggleSort_def

lemma dash_step_valid:
  assumes "searchSchema (d_search d)" "action_ok a"
  shows "searchSchema (d_search (dash_step d a))"
proof (cases a)
  case (FilterText k v)
  then show ?thesis using assms by (auto simp: searchSchema_def dash_defs go_simps)
next
  case (Range out)
  then show ?thesis using assms
    by (cases out) (auto simp: searchSchema_def go_simps custom_in_schema intro: presets_in_schema)
qed (use assms in \<open>auto simp: searchSchema_def dash_defs go_simps custom_in_schema Let_def split: option.split\<close>)

text \<open>A new filter starts again on the first page; the page changes alone.\<close>

lemma dash_step_page:
  "se_text (d_search (dash_step d a)) \<noteq> se_text (d_search d) \<Longrightarrow> search_page (d_search (dash_step d a)) = 1"
proof (cases a)
  case (Range out)
  then show ?thesis by (cases out) (simp_all add: go_simps search_page_def)
qed (auto simp: dash_defs go_simps search_page_def Let_def split: option.splits)

lemma active_relative:
  assumes "se_text (d_search d) ''time_range'' = Some r" "map_of TIME_RANGE_MS r = Some ms"
  shows "filter_val (activeFilters d) ''time_range'' = Some r"
    and "dashboard_filter k \<Longrightarrow> k \<noteq> ''event_type'' \<Longrightarrow> k \<noteq> ''environment'' \<Longrightarrow> filter_val (activeFilters d) k = se_text (d_search d) k"
  using assms by (auto simp: activeFilters_def filter_val_def Let_def dashboard_filter_def)

section \<open>Export request\<close>

lemma export_keys: "distinct (map fst (export_params fmt pid d))"
  by (simp add: export_params_def Let_def)

lemma export_sent:
  "snd (snd (handleExport srv base statusText now fmt pid (d, w))) = w\<lparr>b_sent := b_sent w @ [export_request base fmt pid d (b_store w)]\<rparr>"
  "fst (snd (handleExport srv base statusText now fmt pid (d, w))) = d\<lparr>d_exporting := False\<rparr>"
  by (simp_all add: handleExport_def js_fetch_def split: sum.split)

lemma export_lookup:
  "map_of (export_params fmt pid d) ''path'' = None" "map_of (export_params fmt pid d) ''status_class'' = None"
  "map_of (export_params fmt pid d) ''time_range'' = None" "map_of (export_params fmt pid d) ''format'' = Some (Some fmt)"
  "map_of (export_params fmt pid d) ''project_id'' = Some pid"
  "k \<in> {''service_name'', ''method'', ''status_code'', ''environment'', ''identifier'', ''start_date'', ''end_date''}
   \<Longrightarrow> map_of (export_params fmt pid d) k = Some (filter_val (activeFilters d) k)"
  by (auto simp: export_params_def Let_def)


section \<open>Properties\<close>

text \<open>C30. The breakdown by service is a rearrangement of the services the server reports, in the order of
  the chosen column and direction, and services that agree in that column keep their order; a click on
  another sortable column sorts it in descending order, and a second click reverses the direction.\<close>

theorem services_sorted:
  assumes "key \<in> {''service_name'', ''requests'', ''errors'', ''avg_response_time'', ''last_event''}" "key \<noteq> d_sortCol d"
  shows "mset (sortedServices (Some xs) d) = mset xs
    \<and> sorted_wrt (\<lambda>a b. if d_sortDir d = ''asc''
         then num_cell (d_sortCol d) a \<le> num_cell (d_sortCol d) b \<and> text_cell (d_sortCol d) a \<le> text_cell (d_sortCol d) b
         else num_cell (d_sortCol d) b \<le> num_cell (d_sortCol d) a \<and> text_cell (d_sortCol d) b \<le> text_cell (d_sortCol d) a)
       (sortedServices (Some xs) d)
    \<and> filter (\<lambda>y. service_cmp (d_sortCol d) (d_sortDir d) z y = 0) (sortedServices (Some xs) d)
      = filter (\<lambda>y. service_cmp (d_sortCol d) (d_sortDir d) z y = 0) xs
    \<and> d_sortCol (heading_click key d) = key \<and> d_sortDir (heading_click key d) = ''desc''
    \<and> d_sortCol (heading_click key (heading_click key d)) = key \<and> d_sortDir (heading_click key (heading_click key d)) = ''asc''"
proof -
  have key: "key \<noteq> ''error_rate''" "key \<noteq> ''health''" using assms(1) by auto
  have "sorted_wrt (\<lambda>a b. if d_sortDir d = ''asc''
         then num_cell (d_sortCol d) a \<le> num_cell (d_sortCol d) b \<and> text_cell (d_sortCol d) a \<le> text_cell (d_sortCol d) b
         else num_cell (d_sortCol d) b \<le> num_cell (d_sortCol d) a \<and> text_cell (d_sortCol d) b \<le> text_cell (d_sortCol d) a)
       (sortedServices (Some xs) d)"
    using service_order.sorted_sort [of "d_sortCol d" "d_sortDir d" xs] by (simp add: sortedServices_def service_cmp_le)
  then show ?thesis using key assms(2)
    by (simp add: sortedServices_def service_order.mset_sort service_order.stable_sort heading_click_def toggleSort_def)
qed

theorem services_sorted_witness:
  "d_sortDir (heading_click ''errors'' (dash_init \<lparr>se_page = None, se_text = (\<lambda>_. None)\<rparr> None)) = ''desc''
   \<and> mset (sortedServices (Some [\<lparr>sb_service_name = ''a'', sb_requests = 1, sb_errors = 0, sb_avg_response_time = 2, sb_last_event = []\<rparr>])
        (dash_init \<lparr>se_page = None, se_text = (\<lambda>_. None)\<rparr> None))
     = {#\<lparr>sb_service_name = ''a'', sb_requests = 1, sb_errors = 0, sb_avg_response_time = 2, sb_last_event = []\<rparr>#}"
  using services_sorted [of "''errors''" "dash_init \<lparr>se_page = None, se_text = (\<lambda>_. None)\<rparr> None"
      "[\<lparr>sb_service_name = ''a'', sb_requests = 1, sb_errors = 0, sb_avg_response_time = 2, sb_last_event = []\<rparr>]"]
  by (simp add: dash_init_def)

text \<open>C31. However the controls of the dashboard are used, the search in the URL stays one that the
  route's schema accepts; every change of a filter or of the order returns to the first page; and
  turning the page changes nothing else.\<close>

theorem dashboard_navigation:
  assumes "searchSchema (d_search d)" "list_all action_ok (acts @ [a])"
  shows "searchSchema (d_search (run dash_step d (acts @ [a])))
    \<and> (se_text (d_search (run dash_step d (acts @ [a]))) = se_text (d_search (run dash_step d acts))
       \<or> search_page (d_search (run dash_step d (acts @ [a]))) = 1)
    \<and> dash_step d (Page p) = d\<lparr>d_search := \<lparr>se_page = Some p, se_text = se_text (d_search d)\<rparr>\<rparr>"
proof -
  have "searchSchema (d_search (run dash_step d es))" if "list_all action_ok es" for es
    using that assms(1) by (induction es arbitrary: d) (simp_all add: dash_step_valid)
  with assms(2) have "searchSchema (d_search (run dash_step d (acts @ [a])))" by blast
  then show ?thesis using dash_step_page [of "run dash_step d acts" a] by (auto simp: go_page_def)
qed

theorem dashboard_navigation_witness:
  "searchSchema (d_search (run dash_step (dash_init \<lparr>se_page = None, se_text = (\<lambda>_. None)\<rparr> None)
     ([Page 3, StatusBar ''4xx''] @ [FeedSort ''response_time''])))"
  by (rule dashboard_navigation [where p = 1, THEN conjunct1]) (simp_all add: searchSchema_def dash_init_def status_classes_def)

text \<open>A preset of the picker reaches the server: clicking any relative range the picker shows sets it
  in the search, drops the dates, goes to the first page, and the list then asks for exactly the events
  since that many milliseconds before the fetch.\<close>

lemma picked_range_queried:
  assumes "TimeRangePicker df props pk = Inr v" "Relative r \<in> set (clicks v)"
  shows "\<exists>ms out d' req q ps. map_of TIME_RANGE_MS r = Some ms
    \<and> fst (picker_act df props pk (Relative r)) = Some out \<and> d' = dash_step d (Range out)
    \<and> search_page (d_search d') = 1 \<and> se_text (d_search d') ''start_date'' = None \<and> se_text (d_search d') ''end_date'' = None
    \<and> b_sent (snd (q_fn (dash_queries srv base off mounted now pid d' ! 1) w)) = b_sent w @ [req]
    \<and> req_url req = base @ ''/v1/audit?'' @ q \<and> read_query q = Some ps
    \<and> map_of ps ''start_date'' = Some (toISOString (now - ms)) \<and> map_of ps ''end_date'' = None"
proof -
  obtain ms where ms: "map_of TIME_RANGE_MS r = Some ms" using offered_presets [OF assms] by blast
  let ?d = "dash_step d (Range (OnRelative r))"
  have "se_text (d_search ?d) ''time_range'' = Some r" by (simp add: go_simps)
  note f = active_relative(1) [OF this ms]
  obtain req q ps where "b_sent (snd (q_fn (useAuditList srv base now (search_page (d_search ?d)) 50 pid (activeFilters ?d)) w)) = b_sent w @ [req]"
    "req_url req = base @ ''/v1/audit?'' @ q" "read_query q = Some ps"
    "map_of ps ''start_date'' = Some (toISOString (now - ms))" "map_of ps ''end_date'' = None"
    using relative_request [OF f ms] by blast
  then show ?thesis using ms
    by (intro exI [of _ ms] exI [of _ "OnRelative r"] exI [of _ ?d] exI [of _ req] exI [of _ q] exI [of _ ps])
      (simp add: picker_act_def handleRelative_def dash_queries_def go_simps search_page_def)
qed


text \<open>C32. An export asks for the events of the shown project, service, method, status code, environment,
  identifier and dates, each read back by the server as it is set; it never carries the path, the
  status class or a relative time range. It leaves the session and the search alone, also when the
  server refuses it, and the button is enabled again in the end.\<close>

theorem export_query:
  assumes "fmt \<noteq> []"
  shows "\<exists>req q ps. snd (snd (handleExport srv base statusText now fmt pid (d, w))) = w\<lparr>b_sent := b_sent w @ [req]\<rparr>
    \<and> req_url req = base @ ''/v1/audit/export?'' @ q \<and> read_query q = Some ps
    \<and> map_of ps ''format'' = Some fmt
    \<and> map_of ps ''project_id'' = (if truthy pid then pid else None)
    \<and> list_all (\<lambda>k. map_of ps k = (if truthy (filter_val (activeFilters d) k) then filter_val (activeFilters d) k else None))
        [''service_name'', ''method'', ''status_code'', ''environment'', ''identifier'', ''start_date'', ''end_date'']
    \<and> map_of ps ''path'' = None \<and> map_of ps ''status_class'' = None \<and> map_of ps ''time_range'' = None
    \<and> fst (snd (handleExport srv base statusText now fmt pid (d, w))) = d\<lparr>d_exporting := False\<rparr>"
proof -
  let ?ps = "sent_params (export_params fmt pid d)"
  let ?req = "export_request base fmt pid d (b_store w)"
  have s: "set_all (export_params fmt pid d) [] = ?ps" by (simp add: set_all_sent export_keys)
  note look = map_of_sent_params [OF export_keys] export_lookup(1-5)
  have opt: "(case v of None \<Rightarrow> None | Some s \<Rightarrow> if s = [] then None else Some s) = (if truthy v then v else None)" for v
    by (simp split: option.split)
  have f: "map_of ?ps k = (if truthy (filter_val (activeFilters d) k) then filter_val (activeFilters d) k else None)"
    if "k \<in> {''service_name'', ''method'', ''status_code'', ''environment'', ''identifier'', ''start_date'', ''end_date''}" for k
    using export_lookup(6) [OF that] by (simp add: map_of_sent_params [OF export_keys] opt)
  have r: "read_query (params_str ?ps) = Some ?ps" by (rule read_query_params_str)
  show ?thesis
    using r assms f
    by (intro exI [of _ ?req] exI [of _ "params_str ?ps"] exI [of _ ?ps])
      (simp add: export_sent export_request_def s look opt)
qed

theorem export_query_witness:
  "\<exists>req q ps. snd (snd (handleExport (\<lambda>_ _. Inl NetworkError) ''http://r'' (\<lambda>_. []) 0 ''csv'' (Some ''p'')
        (dash_init \<lparr>se_page = None, se_text = [''path'' \<mapsto> ''/x'', ''time_range'' \<mapsto> ''1h'']\<rparr> None, \<lparr>b_store = Map.empty, b_href = None, b_sent = []\<rparr>)))
      = \<lparr>b_store = Map.empty, b_href = None, b_sent = [req]\<rparr>
    \<and> req_url req = ''http://r'' @ ''/v1/audit/export?'' @ q \<and> read_query q = Some ps
    \<and> map_of ps ''project_id'' = Some ''p'' \<and> map_of ps ''path'' = None \<and> map_of ps ''time_range'' = None"
  using export_query [of "''csv''" "\<lambda>_ _. Inl NetworkError" "''http://r''" "\<lambda>_. []" 0 "Some ''p''"
      "dash_init \<lparr>se_page = None, se_text = [''path'' \<mapsto> ''/x'', ''time_range'' \<mapsto> ''1h'']\<rparr> None" "\<lparr>b_store = Map.empty, b_href = None, b_sent = []\<rparr>"]
  by auto

end
