(* ===== verification/Pages.thy ===== *)
theory Pages
  imports Nav Dashboard Wallboard
begin

text \<open>
  The pages outside the application layout, login (\<open>routes/login.tsx\<close>) and invitation
  (\<open>routes/invite.$token.tsx\<close>), and the shared components under \<open>routes/app/components\<close>: the event
  detail dialog, the event card, the status indicator and the health panel.
\<close>

section \<open>Login\<close>

record login_page =
  lp_email :: string
  lp_password :: string
  lp_error :: string
  lp_loading :: bool

definition login_init :: login_page where
  "login_init = \<lparr>lp_email = [], lp_password = [], lp_error = [], lp_loading = False\<rparr>"

text \<open>\<open>setAuth(token, user)\<close> with whatever the answer holds: a missing value is stored as the text
  \<open>undefined\<close>.\<close>

definition login_store :: "json option \<Rightarrow> json option \<Rightarrow> storage \<Rightarrow> storage" where
  "login_store token user m =
     (case user of
        Some u \<Rightarrow> setAuth (item_text token) u m
      | None \<Rightarrow> setItem USER_KEY ''undefined'' (setItem TOKEN_KEY (item_text token) m))"

text \<open>\<open>handleSubmit\<close>: the page, the path it navigates to, and the browser. Destructuring \<open>null\<close> throws,
  which the handler reports like a refused login.\<close>

definition login_submit :: "server \<Rightarrow> string \<Rightarrow> login_page \<Rightarrow> browser \<Rightarrow> login_page \<times> string option \<times> browser" where
  "login_submit srv base p w =
     (case login srv base (lp_email p) (lp_password p) w of
        (Inl _, w1) \<Rightarrow> (p\<lparr>lp_error := ''Invalid email or password.'', lp_loading := False\<rparr>, None, w1)
      | (Inr j, w1) \<Rightarrow>
          (case (jprop j ''token'', jprop j ''user'') of
             (Inr token, Inr user) \<Rightarrow>
               (p\<lparr>lp_error := [], lp_loading := False\<rparr>, Some ''/app'', w1\<lparr>b_store := login_store token user (b_store w1)\<rparr>)
           | _ \<Rightarrow> (p\<lparr>lp_error := ''Invalid email or password.'', lp_loading := False\<rparr>, None, w1)))"

datatype form_action = Submit

definition LoginPage :: "login_page \<Rightarrow> form_action view" where
  "LoginPage p =
     Box ([Text ''BatAudit'', Text ''Sign in to your account'', Text ''Email'', Field ''admin@example.com'' (lp_email p),
           Text ''Password'', Field ''password'' (lp_password p)]
          @ shown_if (lp_error p \<noteq> []) [Text (lp_error p)]
          @ [Button (if lp_loading p then ''Signing in...'' else ''Sign in'') (\<not> lp_loading p) Submit])"

section \<open>Invitation\<close>

record invite_page =
  ip_preview :: "json option"
  ip_invalid :: bool
  ip_name :: string
  ip_password :: string
  ip_error :: string
  ip_loading :: bool

definition invite_init :: invite_page where
  "invite_init = \<lparr>ip_preview = None, ip_invalid = False, ip_name = [], ip_password = [], ip_error = [], ip_loading = False\<rparr>"

definition invite_mount :: "server \<Rightarrow> string \<Rightarrow> string \<Rightarrow> invite_page \<Rightarrow> browser \<Rightarrow> invite_page \<times> browser" where
  "invite_mount srv base token p w =
     (case getInvitePreview srv base token w of
        (Inr v, w1) \<Rightarrow> (p\<lparr>ip_preview := Some v\<rparr>, w1)
      | (Inl _, w1) \<Rightarrow> (p\<lparr>ip_invalid := True\<rparr>, w1))"

definition invite_submit :: "server \<Rightarrow> string \<Rightarrow> string \<Rightarrow> invite_page \<Rightarrow> browser \<Rightarrow> invite_page \<times> string option \<times> browser" where
  "invite_submit srv base token p w =
     (case acceptInvite srv base token (js_trim (ip_name p)) (ip_password p) w of
        (Inr _, w1) \<Rightarrow> (p\<lparr>ip_error := [], ip_loading := False\<rparr>, Some ''/login'', w1)
      | (Inl e, w1) \<Rightarrow>
          (p\<lparr>ip_error := (case e of Error m \<Rightarrow> m | SyntaxError \<Rightarrow> ''SyntaxError'' | TypeError \<Rightarrow> ''TypeError'' | NetworkError \<Rightarrow> ''NetworkError''),
             ip_loading := False\<rparr>, None, w1))"

definition invite_disabled :: "invite_page \<Rightarrow> bool" where
  "invite_disabled p \<longleftrightarrow> ip_loading p \<or> js_trim (ip_name p) = [] \<or> js_length (ip_password p) < 8"

definition InvitePage :: "invite_page \<Rightarrow> form_action view" where
  "InvitePage p =
     Box ([Text ''BatAudit'', Text (''You'' @ [CHR 0x27] @ ''ve been invited to join'')]
          @ (if ip_invalid p then [Text ''Invite not found'', Text ''This link may have expired or already been used.'']
             else (case ip_preview p of
                     None \<Rightarrow> [Text (''Checking invite'' @ ellipsis)]
                   | Some v \<Rightarrow>
                       if \<not> jtruthy v then [Text (''Checking invite'' @ ellipsis)]
                       else [Text ''Email'', Field [] (member_text v ''email''), Text ''Your name'', Field ''Full name'' (ip_name p),
                             Text ''Password'', Field ''At least 8 characters'' (ip_password p)]
                            @ shown_if (ip_error p \<noteq> []) [Text (ip_error p)]
                            @ [Button (if ip_loading p then ''Creating account'' @ ellipsis else ''Create account'') (\<not> invite_disabled p) Submit])))"

section \<open>Event detail\<close>

datatype detail_action = CloseDetail | Reveal bool

text \<open>\<open>if (!value && value !== 0) return null\<close>.\<close>

definition detail_field :: "string \<Rightarrow> json option \<Rightarrow> detail_action view list" where
  "detail_field label value =
     (case value of
        None \<Rightarrow> []
      | Some v \<Rightarrow> shown_if (jtruthy v \<or> v = JNum 0) [Text label, Text (jstring v)])"

text \<open>The text of a JSON field; \<open>JSON.stringify(value, null, 2)\<close>, whose white space is left out here.\<close>

definition json_field_text :: "json option \<Rightarrow> string option" where
  "json_field_text value =
     (case value of
        None \<Rightarrow> None
      | Some v \<Rightarrow>
          if \<not> jtruthy v then None
          else let str = (case v of JStr s \<Rightarrow> s | _ \<Rightarrow> stringify v)
               in if str \<in> {''null'', ''{}'', ''[]''} then None else Some str)"

definition JsonField :: "string \<Rightarrow> json option \<Rightarrow> detail_action view list" where
  "JsonField label value = (case json_field_text value of None \<Rightarrow> [] | Some str \<Rightarrow> [Text label, Text str])"

definition SensitiveJsonField :: "bool \<Rightarrow> string \<Rightarrow> json option \<Rightarrow> detail_action view list" where
  "SensitiveJsonField revealed label value =
     (case json_field_text value of
        None \<Rightarrow> []
      | Some str \<Rightarrow>
          [Text label, Button (if revealed then ''Hide'' else ''Show'') True (Reveal (\<not> revealed)),
           if revealed then Text str else Button (''Hidden '' @ em_dash @ '' click to show'') True (Reveal True)])"

definition event_member :: "json \<Rightarrow> string \<Rightarrow> json option" where
  "event_member event k = (case jprop event k of Inr v \<Rightarrow> v | Inl _ \<Rightarrow> None)"

definition duration_member :: "json option \<Rightarrow> json option" where
  "duration_member v = (case v of Some x \<Rightarrow> if jtruthy x then Some (JStr (jstring x @ ''ms'')) else Some JNull | None \<Rightarrow> Some JNull)"

text \<open>The dialog. \<open>stamp\<close> is \<open>new Date(event.timestamp).toLocaleString()\<close>.\<close>

definition EventDetailModal ::
  "(json option \<Rightarrow> string) \<Rightarrow> string option \<Rightarrow> bool \<Rightarrow> json option \<Rightarrow> bool \<Rightarrow> detail_action view option" where
  "EventDetailModal stamp eventId isLoading event revealed =
     (if \<not> truthy eventId then None
      else Some (Box ([Text ''Event Detail'', Button ''close'' True CloseDetail]
        @ (if isLoading then [Text ''Loading...'']
           else case event of
             None \<Rightarrow> [Text ''Event not found.'']
           | Some ev \<Rightarrow>
               if \<not> jtruthy ev then [Text ''Event not found.'']
               else let m = event_member ev in
                 detail_field ''ID'' (m ''id'') @ detail_field ''Request ID'' (m ''request_id'') @ detail_field ''Service'' (m ''service_name'')
                 @ detail_field ''Environment'' (m ''environment'') @ detail_field ''Method'' (m ''method'') @ detail_field ''Path'' (m ''path'')
                 @ detail_field ''Status Code'' (m ''status_code'') @ detail_field ''Response Time'' (duration_member (m ''response_time''))
                 @ detail_field ''Timestamp'' (Some (JStr (stamp (m ''timestamp'')))) @ detail_field ''IP'' (m ''ip'')
                 @ detail_field ''Identifier'' (m ''identifier'') @ detail_field ''User Email'' (m ''user_email'')
                 @ detail_field ''User Name'' (m ''user_name'') @ detail_field ''User Type'' (m ''user_type'') @ detail_field ''Tenant ID'' (m ''tenant_id'')
                 @ detail_field ''User Agent'' (m ''user_agent'') @ detail_field ''Error Message'' (m ''error_message'')
                 @ JsonField ''User Roles'' (m ''user_roles'') @ JsonField ''Query Params'' (m ''query_params'')
                 @ JsonField ''Path Params'' (m ''path_params'') @ JsonField ''Request Body'' (m ''request_body'')
                 @ SensitiveJsonField revealed ''Response Body'' (m ''response_body'')))))"

definition detail_key_closes :: "string \<Rightarrow> bool" where
  "detail_key_closes key \<longleftrightarrow> key = ''Escape''"

section \<open>Cards\<close>

definition getStatusColor :: "nat \<Rightarrow> string" where
  "getStatusColor c =
     (if c \<ge> 200 \<and> c < 300 then ''bg-green-500'' else if c \<ge> 400 \<and> c < 500 then ''bg-yellow-500''
      else if c \<ge> 500 then ''bg-red-500'' else ''bg-muted'')"

definition getStatusText :: "nat \<Rightarrow> string" where
  "getStatusText c =
     (if c \<ge> 200 \<and> c < 300 then ''Success'' else if c \<ge> 400 \<and> c < 500 then ''Client Error''
      else if c \<ge> 500 then ''Server Error'' else ''Unknown'')"

definition StatusIndicator :: "nat \<Rightarrow> 'a view list" where
  "StatusIndicator status = [Text (show_nat status), Text (getStatusText status)]"

text \<open>Unlike the dashboard, the card has no branch for instants in the future.\<close>

definition formatTimestamp :: "locale_texts \<Rightarrow> int \<Rightarrow> string \<Rightarrow> string" where
  "formatTimestamp lt now timestamp =
     (case lt_parse lt timestamp of
        None \<Rightarrow> ''Invalid Date''
      | Some t \<Rightarrow>
          let seconds = (now - t) div 1000; minutes = seconds div 60; hours = minutes div 60
          in if seconds < 60 then show_int seconds @ ''s ago''
             else if minutes < 60 then show_int minutes @ ''m ago''
             else if hours < 24 then show_int hours @ ''h ago''
             else lt_date lt t)"

definition getMethodColor :: "string \<Rightarrow> string" where
  "getMethodColor m =
     nullish (map_of [(''GET'', ''text-green-500''), (''POST'', ''text-slate-500''), (''PUT'', ''text-yellow-500''),
                      (''DELETE'', ''text-red-500''), (''PATCH'', ''text-blue-500'')] (toUpperCase m)) ''text-muted-foreground''"

record card_event =
  ce_id :: string
  ce_timestamp :: string
  ce_method :: string
  ce_path :: string
  ce_status_code :: nat
  ce_identifier :: string
  ce_user_email :: string
  ce_service_name :: string
  ce_response_time :: "rat option"
  ce_user_agent :: "string option"

text \<open>\<open>event.response_time && ...\<close> renders the 0 itself.\<close>

definition EventCard :: "locale_texts \<Rightarrow> int \<Rightarrow> card_event \<Rightarrow> 'a view" where
  "EventCard lt now e =
     Box ([Text (formatTimestamp lt now (ce_timestamp e)), Text (ce_method e), Text (ce_path e)]
          @ StatusIndicator (ce_status_code e)
          @ [Text (ce_identifier e), Text (ce_user_email e), Text (ce_service_name e)]
          @ (case ce_response_time e of
               None \<Rightarrow> []
             | Some t \<Rightarrow> if t = 0 then [Text ''0''] else [Text (number_to_string t @ ''ms'')]))"

record HealthResponse =
  hr_status :: string
  hr_version :: string
  hr_environment :: string
  hr_api_response_ms :: rat
  hr_db_response_ms :: rat
  hr_db_status :: string
  hr_message :: string

text \<open>The panel: whether each of the two status marks is the good one, and the texts.\<close>

definition HealthStatus :: "HealthResponse \<Rightarrow> (bool \<times> bool) \<times> 'a view" where
  "HealthStatus h =
     ((hr_status h = ''ok'', hr_db_status h = ''ok''),
      Box [Text ''Status'', Text (toUpperCase (hr_status h)), Text ''API'', Text (number_to_string (hr_api_response_ms h) @ ''ms''),
           Text ''Database'', Text (number_to_string (hr_db_response_ms h) @ ''ms''), Text ''Environment'', Text (hr_environment h),
           Text ''Version'', Text (hr_version h), Text ''DB Status'', Text (toUpperCase (hr_db_status h))])"


section \<open>Facts\<close>

lemma login_sends:
  "login srv base email password w =
     (let req = \<lparr>req_url = base @ ''/v1/auth/login'', req_method = ''POST'', req_headers = json_header,
                 req_body = Some (stringify (JObj [(''email'', JStr email), (''password'', JStr password)]))\<rparr>;
          w1 = w\<lparr>b_sent := b_sent w @ [req]\<rparr>
      in case srv (b_sent w) req of
           Inl e \<Rightarrow> (Inl e, w1)
         | Inr res \<Rightarrow> if res_ok res then (res_json res, w1) else (Inl (Error ''Invalid credentials''), w1))"
  by (simp add: login_def plain_fetch_def json_init_def init_request_def js_fetch_def io_bind_def json_or_def require_ok_def
      io_throw_def io_return_def io_lift_def Let_def split: sum.split)

text \<open>A login that fails for any reason leaves the session as it was, stays on the page and says so.\<close>

lemma login_refused:
  assumes "\<And>req res. srv (b_sent w) req = Inr res \<Longrightarrow> \<not> res_ok res"
  shows "\<exists>req. login_submit srv base p w =
    (p\<lparr>lp_error := ''Invalid email or password.'', lp_loading := False\<rparr>, None, w\<lparr>b_sent := b_sent w @ [req]\<rparr>)"
  using assms by (auto simp: login_submit_def login_sends Let_def split: sum.split)

text \<open>A login the server accepts stores what it sent and enters the application.\<close>

lemma login_accepted:
  assumes "srv (b_sent w) = (\<lambda>req. Inr \<lparr>res_status = 200, res_json = Inr (JObj kvs)\<rparr>)"
    and "map_of kvs ''token'' = Some (JStr t)" "map_of kvs ''user'' = Some u"
  shows "\<exists>req. login_submit srv base p w =
    (p\<lparr>lp_error := [], lp_loading := False\<rparr>, Some ''/app'',
     w\<lparr>b_sent := b_sent w @ [req], b_store := setAuth t u (b_store w)\<rparr>)"
  using assms by (auto simp: login_submit_def login_sends Let_def res_ok_def login_store_def item_text_def)

text \<open>The submit button of the invitation is enabled only with a name that is not blank and a password of
  eight characters or more.\<close>

lemma invite_enabled:
  assumes "Submit \<in> set (clicks (InvitePage p))"
  shows "\<not> ip_loading p \<and> js_trim (ip_name p) \<noteq> [] \<and> 8 \<le> js_length (ip_password p)"
  using assms by (auto simp: InvitePage_def invite_disabled_def split: if_splits option.splits)

text \<open>The response body does not influence the dialog before it is revealed.\<close>

lemma response_body_hidden:
  assumes "\<And>k. k \<noteq> ''response_body'' \<Longrightarrow> event_member ev k = event_member ev' k"
    and "json_field_text (event_member ev ''response_body'') \<noteq> None" "json_field_text (event_member ev' ''response_body'') \<noteq> None"
    and "jtruthy ev" "jtruthy ev'"
  shows "EventDetailModal stamp i l (Some ev) False = EventDetailModal stamp i l (Some ev') False"
proof -
  have "SensitiveJsonField False lbl (event_member ev ''response_body'') = SensitiveJsonField False lbl (event_member ev' ''response_body'')" for lbl
    using assms(2,3) by (auto simp: SensitiveJsonField_def)
  moreover have "event_member ev k = event_member ev' k"
    if "k \<in> {''id'', ''request_id'', ''service_name'', ''environment'', ''method'', ''path'', ''status_code'', ''response_time'', ''timestamp'',
      ''ip'', ''identifier'', ''user_email'', ''user_name'', ''user_type'', ''tenant_id'', ''user_agent'', ''error_message'', ''user_roles'',
      ''query_params'', ''path_params'', ''request_body''}" for k
    using assms(1) [of k] that by auto
  ultimately show ?thesis using assms(4,5) by (simp add: EventDetailModal_def Let_def)
qed

end
