(* ===== verification/Sessions.thy ===== *)
theory Sessions
  imports Dashboard Pages
begin

text \<open>
  The sessions page (\<open>routes/app/_layout/sessions.tsx\<close>): the filters in the URL, the lookup by an
  explicit id, the list with one expanded timeline, the dialog, and the text of durations; and the page by
  its uses (\<open>sessions_reach\<close>), with an invariant of its search and its lookup. The texts of the locale
  (\<open>sl_stamp\<close>, \<open>sl_clock\<close>) are parameters.
\<close>

section \<open>Texts\<close>

text \<open>\<open>r % n\<close> for a number that is not negative.\<close>

definition js_mod :: "rat \<Rightarrow> nat \<Rightarrow> rat" where
  "js_mod r n = r - of_nat n * of_int \<lfloor>r / of_nat n\<rfloor>"

definition formatDuration :: "rat \<Rightarrow> string" where
  "formatDuration seconds =
     (if seconds < 60 then show_int (js_round seconds) @ ''s''
      else if seconds < 3600 then show_int \<lfloor>seconds / 60\<rfloor> @ ''m '' @ show_int (js_round (js_mod seconds 60)) @ ''s''
      else show_int \<lfloor>seconds / 3600\<rfloor> @ ''h '' @ show_int \<lfloor>js_mod seconds 3600 / 60\<rfloor> @ ''m'')"

record session_locale =
  sl_stamp :: "string \<Rightarrow> string"     \<comment> \<open>\<open>new Date(ts).toLocaleString\<close> with month, day, hour and minute\<close>
  sl_clock :: "string \<Rightarrow> string"     \<comment> \<open>\<open>new Date(ts).toLocaleTimeString\<close> with seconds\<close>
  sl_number :: "nat \<Rightarrow> string"

definition session_formatTime :: "session_locale \<Rightarrow> string \<Rightarrow> string" where
  "session_formatTime sl ts = (if ts = [] then em_dash else sl_stamp sl ts)"

definition sessionKey :: "Session \<Rightarrow> string" where
  "sessionKey s = s_identifier s @ ''|'' @ s_service_name s @ ''|'' @ s_session_start s"

definition STATUS_COLORS :: "(string \<times> string) list" where
  "STATUS_COLORS =
     [(''2'', ''bg-green-500/20 text-green-400''), (''3'', ''bg-blue-500/20 text-blue-400''),
      (''4'', ''bg-orange-500/20 text-orange-400''), (''5'', ''bg-red-500/20 text-red-400'')]"

definition SESSION_METHOD_COLORS :: "(string \<times> string) list" where
  "SESSION_METHOD_COLORS =
     [(''GET'', ''bg-[#34d399]/10 text-[#34d399]''), (''POST'', ''bg-[#818cf8]/10 text-[#818cf8]''),
      (''PUT'', ''bg-[#fb923c]/10 text-[#fb923c]''), (''PATCH'', ''bg-[#60a5fa]/10 text-[#60a5fa]''),
      (''DELETE'', ''bg-[#f87171]/10 text-[#f87171]'')]"

text \<open>\<open>STATUS_COLORS[String(event.status_code)[0]] ?? ...\<close> and the method's class.\<close>

definition statusClass :: "nat \<Rightarrow> string" where
  "statusClass c = nullish (map_of STATUS_COLORS (take 1 (show_nat c))) ''bg-secondary text-muted-foreground''"

definition methodClass :: "string \<Rightarrow> string" where
  "methodClass m = nullish (map_of SESSION_METHOD_COLORS m) ''bg-secondary/40 text-muted-foreground''"

section \<open>State and handlers\<close>

record SessionEvent =
  sv_id :: string
  sv_event_type :: string
  sv_identifier :: string
  sv_user_email :: string
  sv_user_name :: string
  sv_method :: string
  sv_path :: string
  sv_status_code :: nat
  sv_service_name :: string
  sv_timestamp :: string
  sv_response_time :: "rat option"

record SessionDetail =
  sd_session_id :: string
  sd_identifier :: string
  sd_service_name :: string
  sd_session_start :: string
  sd_session_end :: string
  sd_duration_seconds :: rat
  sd_event_count :: nat
  sd_events :: "SessionEvent list"

record sessions_page =
  sp_search :: "string \<Rightarrow> string option"
  sp_filterOpen :: bool
  sp_expandedKey :: "string option"
  sp_selectedEvent :: "string option"
  sp_sessionIDInput :: string
  sp_lookup :: "string option"

text \<open>\<open>searchSchema\<close>: of what stands in the URL the page sees these four texts and nothing else.\<close>

definition sessions_searchSchema :: "string list" where
  "sessions_searchSchema = [''identifier'', ''service_name'', ''start_date'', ''end_date'']"

definition sessions_validateSearch :: "(string \<Rightarrow> string option) \<Rightarrow> string \<Rightarrow> string option" where
  "sessions_validateSearch raw k = (if k \<in> set sessions_searchSchema then raw k else None)"

definition sessions_init :: "(string \<Rightarrow> string option) \<Rightarrow> sessions_page" where
  "sessions_init search =
     \<lparr>sp_search = search, sp_filterOpen = False, sp_expandedKey = None, sp_selectedEvent = None, sp_sessionIDInput = [], sp_lookup = None\<rparr>"

definition session_filters :: "string option \<Rightarrow> string option \<Rightarrow> sessions_page \<Rightarrow> SessionFilters" where
  "session_filters projectId environment p =
     \<lparr>sf_projectId = projectId, sf_identifier = sp_search p ''identifier'', sf_service_name = sp_search p ''service_name'',
      sf_start_date = sp_search p ''start_date'', sf_end_date = sp_search p ''end_date'', sf_environment = environment\<rparr>"

definition sessions_queries :: "server \<Rightarrow> string \<Rightarrow> string option \<Rightarrow> string option \<Rightarrow> sessions_page \<Rightarrow> query list" where
  "sessions_queries srv base projectId environment p =
     [useSessionByID srv base (sp_lookup p), useAuditSessions srv base (session_filters projectId environment p)]"

definition sessions_hasFilters :: "sessions_page \<Rightarrow> bool" where
  "sessions_hasFilters p \<longleftrightarrow> list_ex (\<lambda>k. truthy (sp_search p k)) [''identifier'', ''service_name'', ''start_date'', ''end_date'']"

definition sessions_setFilter :: "string \<Rightarrow> string \<Rightarrow> sessions_page \<Rightarrow> sessions_page" where
  "sessions_setFilter key value p = p\<lparr>sp_search := (sp_search p)(key := or_undefined value)\<rparr>"

definition sessions_clearFilters :: "sessions_page \<Rightarrow> sessions_page" where
  "sessions_clearFilters p = p\<lparr>sp_search := (\<lambda>_. None)\<rparr>"

text \<open>The date fields: the local time picked as an instant; \<open>toISOString\<close> throws on an unreadable text.\<close>

definition sessions_setDate :: "date_parser \<Rightarrow> string \<Rightarrow> string \<Rightarrow> sessions_page \<Rightarrow> js_error + sessions_page" where
  "sessions_setDate parse_date key value p =
     (if value = [] then Inr (sessions_setFilter key [] p)
      else case parse_date value of
             None \<Rightarrow> Inl (Error ''Invalid time value'')
           | Some t \<Rightarrow> Inr (sessions_setFilter key (toISOString t) p))"

definition toggleSession :: "Session \<Rightarrow> sessions_page \<Rightarrow> sessions_page" where
  "toggleSession s p =
     (let key = sessionKey s in p\<lparr>sp_expandedKey := if sp_expandedKey p = Some key then None else Some key\<rparr>)"

definition session_lookup :: "sessions_page \<Rightarrow> sessions_page" where
  "session_lookup p = p\<lparr>sp_lookup := or_undefined (js_trim (sp_sessionIDInput p))\<rparr>"

definition lookup_key :: "string \<Rightarrow> sessions_page \<Rightarrow> sessions_page" where
  "lookup_key key p = (if key = ''Enter'' then session_lookup p else p)"

definition clear_lookup :: "sessions_page \<Rightarrow> sessions_page" where
  "clear_lookup p = p\<lparr>sp_lookup := None, sp_sessionIDInput := []\<rparr>"

section \<open>Markup\<close>

datatype sessions_action = SClear | SFilterPanel | SLookup | SClearLookup | SToggle Session | SEvent string | SDetail detail_action

text \<open>What an input of type \<open>datetime-local\<close> shows of its value: the platform keeps a text of the shape
  \<open>yyyy-mm-ddThh:mm\<close>, with seconds and up to three digits of their fraction or without, and shows nothing
  for any other (it also checks the ranges of the parts).\<close>

definition digits_n :: "nat \<Rightarrow> string \<Rightarrow> bool" where
  "digits_n n ds \<longleftrightarrow> length ds = n \<and> list_all is_digit ds"

definition date_shape :: "string \<Rightarrow> bool" where
  "date_shape d \<longleftrightarrow>
     (case split_on (CHR ''-'') d of
        [y, m, dd] \<Rightarrow> 4 \<le> length y \<and> list_all is_digit y \<and> digits_n 2 m \<and> digits_n 2 dd
      | _ \<Rightarrow> False)"

definition seconds_shape :: "string \<Rightarrow> bool" where
  "seconds_shape s \<longleftrightarrow>
     (case split_on (CHR ''.'') s of
        [x] \<Rightarrow> digits_n 2 x
      | [x, f] \<Rightarrow> digits_n 2 x \<and> list_ex (\<lambda>n. digits_n n f) [1, 2, 3]
      | _ \<Rightarrow> False)"

definition time_shape :: "string \<Rightarrow> bool" where
  "time_shape t \<longleftrightarrow>
     (case split_on (CHR '':'') t of
        [h, m] \<Rightarrow> digits_n 2 h \<and> digits_n 2 m
      | [h, m, s] \<Rightarrow> digits_n 2 h \<and> digits_n 2 m \<and> seconds_shape s
      | _ \<Rightarrow> False)"

definition datetime_local :: "string \<Rightarrow> string" where
  "datetime_local v =
     (if list_ex (\<lambda>c. case split_on c v of [d, t] \<Rightarrow> date_shape d \<and> time_shape t | _ \<Rightarrow> False) ''T '' then v else [])"

definition session_event_row :: "session_locale \<Rightarrow> SessionEvent \<Rightarrow> sessions_action view" where
  "session_event_row sl e =
     Item (join_with '' '' ([sl_clock sl (sv_timestamp e), sv_method e, sv_path e, show_nat (sv_status_code e)]
            @ (case sv_response_time e of Some t \<Rightarrow> [number_to_string t @ ''ms''] | None \<Rightarrow> [])))
       False (SEvent (sv_id e))"

text \<open>The timeline of a session, from the state of its query.\<close>

definition SessionTimeline :: "session_locale \<Rightarrow> bool \<Rightarrow> bool \<Rightarrow> SessionEvent list option \<Rightarrow> sessions_action view list" where
  "SessionTimeline sl isLoading isError data =
     (let events = nullish data []
      in if isLoading then [Text ''Loading events...'']
         else if isError then [Text ''Failed to load events.'']
         else if events = [] then [Text ''No events found.'']
         else Text (show_nat (length events) @ '' events'') # map (session_event_row sl) events)"

definition sessions_filter_panel :: "sessions_page \<Rightarrow> sessions_action view list" where
  "sessions_filter_panel p =
     shown_if (sp_filterOpen p)
       [Text ''Identifier'', Field ''user-id or client-id'' (nullish (sp_search p ''identifier'') []),
        Text ''Service'', Field ''service-name'' (nullish (sp_search p ''service_name'') []),
        Text ''Start date'', Field ''datetime-local'' (datetime_local (nullish (sp_search p ''start_date'') [])),
        Text ''End date'', Field ''datetime-local'' (datetime_local (nullish (sp_search p ''end_date'') []))]"

definition session_detail_view :: "session_locale \<Rightarrow> SessionDetail \<Rightarrow> sessions_action view list" where
  "session_detail_view sl d =
     [Text (''Identifier: '' @ sd_identifier d), Text (''Service: '' @ sd_service_name d),
      Text (''Duration: '' @ formatDuration (sd_duration_seconds d)), Text (''Events: '' @ show_nat (sd_event_count d)),
      Text (session_formatTime sl (sd_session_start d) @ '' '' @ arrow_right @ '' '' @ session_formatTime sl (sd_session_end d))]
     @ map (session_event_row sl) (sd_events d)"

definition lookup_panel :: "session_locale \<Rightarrow> bool \<Rightarrow> SessionDetail option \<Rightarrow> sessions_page \<Rightarrow> sessions_action view list" where
  "lookup_panel sl detailLoading detail p =
     [Text ''Look up session by explicit ID'', Field ''session-id passed via SDK'' (sp_sessionIDInput p), Button ''Lookup'' True SLookup]
     @ shown_if (truthy (sp_lookup p)) [Button ''x'' True SClearLookup]
     @ shown_if (truthy (sp_lookup p))
         (if detailLoading then [Text ''Loading...'']
          else case detail of
                 None \<Rightarrow> [Text (''No session found for ID: '' @ nullish (sp_lookup p) [])]
               | Some d \<Rightarrow> session_detail_view sl d)"

text \<open>A card of the list; its timeline is shown when it is the expanded one. \<open>timeline\<close> is what the query
  of that session shows.\<close>

definition session_card :: "session_locale \<Rightarrow> (Session \<Rightarrow> sessions_action view list) \<Rightarrow> sessions_page \<Rightarrow> Session \<Rightarrow> sessions_action view" where
  "session_card sl timeline p s =
     (let isExpanded = (sp_expandedKey p = Some (sessionKey s))
      in Box ([Item (join_with '' '' [s_identifier s, s_service_name s, ''Duration'', formatDuration (s_duration_seconds s),
                       ''Events'', sl_number sl (s_event_count s), session_formatTime sl (s_session_start s),
                       arrow_right @ '' '' @ session_formatTime sl (s_session_end s)])
                 isExpanded (SToggle s)]
              @ shown_if isExpanded (timeline s)))"

text \<open>The answers the page shows: of the lookup, of the list, of the timeline of each session, and of the dialog's event, with
  whether its response body is revealed.\<close>

record sessions_data =
  sx_detailLoading :: bool
  sx_detail :: "SessionDetail option"
  sx_isLoading :: bool
  sx_isError :: bool
  sx_sessions :: "Session list"
  sx_timeline :: "Session \<Rightarrow> bool \<times> bool \<times> SessionEvent list option"
  sx_eventLoading :: bool
  sx_event :: "json option"
  sx_revealed :: bool

definition timeline_of :: "session_locale \<Rightarrow> sessions_data \<Rightarrow> Session \<Rightarrow> sessions_action view list" where
  "timeline_of sl D s = (case sx_timeline D s of (isLoading, isError, events) \<Rightarrow> SessionTimeline sl isLoading isError events)"

definition sessions_content :: "session_locale \<Rightarrow> sessions_data \<Rightarrow> sessions_page \<Rightarrow> sessions_action view list" where
  "sessions_content sl D p =
     (if sx_isLoading D then [Text ''Loading sessions...'']
      else if sx_isError D then [Text ''Failed to load sessions. Check your connection and try again.'']
      else if sx_sessions D = [] then Text ''No sessions found.'' # shown_if (sessions_hasFilters p) [Text ''Try adjusting your filters.'']
      else map (session_card sl (timeline_of sl D) p) (sx_sessions D))"

text \<open>The footer and the dialog. \<open>stamp\<close> is the locale's text of the event's timestamp.\<close>

definition sessions_footer :: "(json option \<Rightarrow> string) \<Rightarrow> sessions_data \<Rightarrow> sessions_page \<Rightarrow> sessions_action view list" where
  "sessions_footer stamp D p =
     Text ''Showing up to 200 most recent sessions''
     # (case EventDetailModal stamp (sp_selectedEvent p) (sx_eventLoading D) (sx_event D) (sx_revealed D) of
          None \<Rightarrow> []
        | Some v \<Rightarrow> [map_view SDetail v])"

definition sessions_heading :: "sessions_page \<Rightarrow> sessions_action view list" where
  "sessions_heading p =
     [Text ''Sessions'', Text (''User sessions derived from audit events '' @ em_dash @ '' 30 min inactivity gap = new session'')]
     @ shown_if (sessions_hasFilters p) [Button ''Clear'' True SClear]
     @ [Button ''Filter'' True SFilterPanel]"

definition SessionsPage ::
  "session_locale \<Rightarrow> (json option \<Rightarrow> string) \<Rightarrow> sessions_data \<Rightarrow> sessions_page \<Rightarrow> sessions_action view" where
  "SessionsPage sl stamp D p =
     Box (sessions_heading p @ sessions_filter_panel p @ lookup_panel sl (sx_detailLoading D) (sx_detail D) p
          @ sessions_content sl D p @ sessions_footer stamp D p)"

text \<open>A click. Revealing the response body is state of the dialog.\<close>

fun sessions_step :: "sessions_page \<Rightarrow> sessions_action \<Rightarrow> sessions_page" where
  "sessions_step p SClear = sessions_clearFilters p"
| "sessions_step p SFilterPanel = p\<lparr>sp_filterOpen := \<not> sp_filterOpen p\<rparr>"
| "sessions_step p SLookup = session_lookup p"
| "sessions_step p SClearLookup = clear_lookup p"
| "sessions_step p (SToggle s) = toggleSession s p"
| "sessions_step p (SEvent i) = p\<lparr>sp_selectedEvent := Some i\<rparr>"
| "sessions_step p (SDetail CloseDetail) = p\<lparr>sp_selectedEvent := None\<rparr>"
| "sessions_step p (SDetail (Reveal b)) = p"

text \<open>What is typed into a field of the page. A date that the platform cannot read makes the handler throw, and the page stays.\<close>

datatype sessions_input = InText string string | InDate string string | InId string | InKey string

fun sessions_typed :: "date_parser \<Rightarrow> sessions_page \<Rightarrow> sessions_input \<Rightarrow> js_error + sessions_page" where
  "sessions_typed parse_date p (InText k v) = Inr (sessions_setFilter k v p)"
| "sessions_typed parse_date p (InDate k v) = sessions_setDate parse_date k v p"
| "sessions_typed parse_date p (InId v) = Inr (p\<lparr>sp_sessionIDInput := v\<rparr>)"
| "sessions_typed parse_date p (InKey key) = Inr (lookup_key key p)"

text \<open>The fields that are on the page.\<close>

definition input_shown :: "sessions_page \<Rightarrow> sessions_input \<Rightarrow> bool" where
  "input_shown p i \<longleftrightarrow>
     (case i of InText k v \<Rightarrow> sp_filterOpen p \<and> k \<in> {''identifier'', ''service_name''}
      | InDate k v \<Rightarrow> sp_filterOpen p \<and> k \<in> {''start_date'', ''end_date''}
      | InId v \<Rightarrow> True | InKey key \<Rightarrow> True)"

text \<open>The page by its uses, from any URL: it is rendered with some answers, and a control or a field on it is used.\<close>

inductive sessions_reach :: "session_locale \<Rightarrow> (json option \<Rightarrow> string) \<Rightarrow> date_parser \<Rightarrow> sessions_page \<Rightarrow> bool" for sl stamp parse_date where
  sessions_start: "sessions_reach sl stamp parse_date (sessions_init (sessions_validateSearch raw))"
| sessions_click: "sessions_reach sl stamp parse_date p \<Longrightarrow> a \<in> set (clicks (SessionsPage sl stamp D p))
    \<Longrightarrow> sessions_reach sl stamp parse_date (sessions_step p a)"
| sessions_input: "sessions_reach sl stamp parse_date p \<Longrightarrow> input_shown p i \<Longrightarrow> sessions_typed parse_date p i = Inr p'
    \<Longrightarrow> sessions_reach sl stamp parse_date p'"

section \<open>Facts\<close>

text \<open>A whole number of seconds below an hour is shown exactly: the parts add up and the seconds stay below 60.\<close>

lemma formatDuration_whole:
  assumes "60 \<le> n" "n < 3600"
  shows "formatDuration (of_int n) = show_int (n div 60) @ ''m '' @ show_int (n mod 60) @ ''s''"
proof -
  have f: "\<lfloor>of_int n / (60 :: rat)\<rfloor> = n div 60"
    by (metis floor_divide_of_int_eq of_int_numeral)
  have "of_int n - 60 * of_int (n div 60) = (of_int (n mod 60) :: rat)"
    by (metis minus_mult_div_eq_mod of_int_diff of_int_mult of_int_numeral)
  moreover have "js_round (of_int k) = k" for k :: int
    unfolding js_round_def by linarith
  ultimately show ?thesis using assms f by (simp add: formatDuration_def js_mod_def)
qed

text \<open>Fractions can be rounded up to a full minute that is not carried.\<close>

lemma formatDuration_sixty: "formatDuration (239 / 2) = ''1m 60s''" "formatDuration (119 / 2) = ''60s''"
proof -
  have "js_round (119 / 2) = 60" "\<lfloor>239 / 2 / 60 :: rat\<rfloor> = 1" by (simp_all add: js_round_def floor_eq_iff)
  then show "formatDuration (239 / 2) = ''1m 60s''" "formatDuration (119 / 2) = ''60s''"
    by (simp_all add: formatDuration_def js_mod_def show_int_def) code_simp+
qed

text \<open>Opening another session closes the one that was open, and a second click closes it: at most one
  timeline is shown, for sessions with distinct keys.\<close>

lemma toggle_expands: "sp_expandedKey (toggleSession s p) = (if sp_expandedKey p = Some (sessionKey s) then None else Some (sessionKey s))"
  by (simp add: toggleSession_def Let_def)

lemma one_expanded:
  assumes "distinct (map sessionKey sessions)"
  shows "length (filter (\<lambda>s. sp_expandedKey p = Some (sessionKey s)) sessions) \<le> 1"
  using assms by (induction sessions) (auto simp: filter_empty_conv)

text \<open>The keys are not unique by construction: the separator may occur in the parts.\<close>

lemma sessionKey_collides:
  "sessionKey \<lparr>s_identifier = ''a|b'', s_service_name = ''c'', s_session_start = t, s_session_end = e, s_duration_seconds = d, s_event_count = n\<rparr>
   = sessionKey \<lparr>s_identifier = ''a'', s_service_name = ''b|c'', s_session_start = t, s_session_end = e, s_duration_seconds = d, s_event_count = n\<rparr>"
  by (simp add: sessionKey_def)

text \<open>Lookups never ask for a blank id, and what is asked for carries no surrounding blanks.\<close>

lemma lookup_nonblank:
  "sp_lookup (session_lookup p) = Some i \<Longrightarrow> i \<noteq> [] \<and> i = js_trim (sp_sessionIDInput p)
   \<and> q_enabled (hd (sessions_queries srv base pid env (session_lookup p)))"
  by (auto simp: session_lookup_def or_undefined_def sessions_queries_def useSessionByID_def mk_query_def split: if_splits)

text \<open>An invariant of the page: its search has the four parameters of the schema only, and a lookup is
  under way for a text that is not empty and has no blanks around it.\<close>

definition sessions_ok :: "sessions_page \<Rightarrow> bool" where
  "sessions_ok p \<longleftrightarrow> dom (sp_search p) \<subseteq> set sessions_searchSchema
     \<and> (case sp_lookup p of None \<Rightarrow> True | Some i \<Rightarrow> i \<noteq> [] \<and> js_trim i = i)"

lemma js_trim_idem: "js_trim (js_trim s) = js_trim s"
proof -
  let ?u = "dropWhile is_space s" let ?v = "rev (dropWhile is_space (rev ?u))"
  have "?v = [] \<or> \<not> is_space (hd ?v)"
  proof (cases ?u)
    case (Cons x xs)
    then have x: "\<not> is_space x" by (metis hd_dropWhile list.distinct(1) list.sel(1))
    have "?v \<noteq> [] \<Longrightarrow> hd ?v = x"
      using Cons x by (simp add: dropWhile_append1 dropWhile_append last_rev hd_rev split: if_splits)
    with x show ?thesis by blast
  next
    case Nil
    show ?thesis unfolding Nil by simp
  qed
  moreover have "dropWhile is_space v = v" if "v = [] \<or> \<not> is_space (hd v)" for v using that by (cases v) auto
  ultimately have "dropWhile is_space ?v = ?v" by blast
  then show ?thesis unfolding js_trim_def by (simp add: dropWhile_idem)
qed

lemma lookup_ok: "case sp_lookup (session_lookup p) of None \<Rightarrow> True | Some i \<Rightarrow> i \<noteq> [] \<and> js_trim i = i"
  by (simp add: session_lookup_def or_undefined_def js_trim_idem)

lemma sessions_step_ok: "sessions_ok p \<Longrightarrow> sessions_ok (sessions_step p a)"
  using lookup_ok [of p]
  by (cases "(p, a)" rule: sessions_step.cases)
     (auto simp: sessions_ok_def sessions_clearFilters_def clear_lookup_def toggleSession_def session_lookup_def Let_def)

lemma setFilter_ok: "sessions_ok p \<Longrightarrow> k \<in> set sessions_searchSchema \<Longrightarrow> sessions_ok (sessions_setFilter k v p)"
  by (auto simp: sessions_ok_def sessions_setFilter_def split: if_splits)

lemma sessions_typed_ok:
  assumes "sessions_ok p" "input_shown p i" "sessions_typed parse_date p i = Inr p'"
  shows "sessions_ok p'"
proof (cases i)
  case (InText k v)
  with assms show ?thesis using setFilter_ok [OF assms(1), of k v] by (auto simp: input_shown_def sessions_searchSchema_def)
next
  case (InDate k v)
  then have k: "k \<in> set sessions_searchSchema" using assms(2) by (auto simp: input_shown_def sessions_searchSchema_def)
  show ?thesis using assms(3) InDate setFilter_ok [OF assms(1) k] by (auto simp: sessions_setDate_def split: if_splits option.splits)
next
  case (InId v)
  then show ?thesis using assms by (auto simp: sessions_ok_def)
next
  case (InKey key)
  then show ?thesis using assms sessions_step_ok [OF assms(1), of SLookup] by (auto simp: lookup_key_def split: if_splits)
qed

lemma sessions_reach_ok: "sessions_reach sl stamp parse_date p \<Longrightarrow> sessions_ok p"
proof (induction rule: sessions_reach.induct)
  case (sessions_start raw)
  show ?case by (auto simp: sessions_ok_def sessions_init_def sessions_validateSearch_def split: if_splits)
qed (blast intro: sessions_step_ok sessions_typed_ok)+

text \<open>Without the mark of active filters and the control that clears them, the list is asked for without any filter: every
  parameter of its request that is not the project or the environment is missing or empty.\<close>

lemma unfiltered_request:
  assumes "SClear \<notin> set (clicks (SessionsPage sl stamp D p))"
  shows "\<not> truthy (sf_identifier (session_filters pid env p)) \<and> \<not> truthy (sf_service_name (session_filters pid env p))
    \<and> \<not> truthy (sf_start_date (session_filters pid env p)) \<and> \<not> truthy (sf_end_date (session_filters pid env p))"
  using assms by (auto simp: SessionsPage_def sessions_heading_def session_filters_def sessions_hasFilters_def shown_if_def split: if_splits)

text \<open>A picked date is kept in the URL as an instant that ends in \<open>Z\<close>, which is not the shape of the field that should show it: the
  filter is set, and its field is blank.\<close>

lemma last_digits_n: "digits_n (Suc n) x \<Longrightarrow> x \<noteq> [] \<and> is_digit (last x)"
  by (cases x rule: rev_cases) (auto simp: digits_n_def)

lemma last_join: "split_on c v = xs \<Longrightarrow> last xs \<noteq> [] \<Longrightarrow> v \<noteq> [] \<and> last v = last (last xs)"
proof -
  have "last xs \<noteq> [] \<Longrightarrow> xs \<noteq> [] \<Longrightarrow> join_with [c] xs \<noteq> [] \<and> last (join_with [c] xs) = last (last xs)" for xs
    by (induction "[c]" xs rule: join_with.induct) auto
  then show "split_on c v = xs \<Longrightarrow> last xs \<noteq> [] \<Longrightarrow> v \<noteq> [] \<and> last v = last (last xs)" by (metis join_split_on split_on_nonempty)
qed

lemma seconds_last: "seconds_shape s \<Longrightarrow> s \<noteq> [] \<and> is_digit (last s)"
  using last_join [of "CHR ''.''" s] last_digits_n [of 0] last_digits_n [of 1] last_digits_n [of 2]
  by (fastforce simp: seconds_shape_def numeral_2_eq_2 numeral_3_eq_3 split: list.splits)

lemma time_last: "time_shape t \<Longrightarrow> t \<noteq> [] \<and> is_digit (last t)"
  using last_join [of "CHR '':''" t] last_digits_n [of 1] seconds_last
  by (fastforce simp: time_shape_def numeral_2_eq_2 split: list.splits)

lemma datetime_local_ISO: "datetime_local (toISOString t) = []"
proof -
  have z: "\<not> is_digit (last (toISOString t))" by (simp add: toISOString_def Let_def is_digit_def)
  have "\<not> (date_shape d \<and> time_shape u)" if "split_on c (toISOString t) = [d, u]" for c d u
    using last_join [OF that] time_last [of u] z by force
  then show ?thesis by (fastforce simp: datetime_local_def split: list.splits)
qed

lemma picked_date_not_shown:
  assumes "sessions_setDate parse_date k v p = Inr p'" "v \<noteq> []" "k \<in> {''start_date'', ''end_date''}"
  shows "truthy (sp_search p' k) \<and> datetime_local (nullish (sp_search p' k) []) = []"
  using assms toISOString_nonempty datetime_local_ISO
  by (auto simp: sessions_setDate_def sessions_setFilter_def or_undefined_def split: if_splits option.splits)

end
