(* ===== verification/Anomalies.thy ===== *)
theory Anomalies
  imports Dashboard
begin

text \<open>
  The anomalies page (\<open>routes/app/_layout/anomalies.tsx\<close>): the alerts of the last day, the drawer with the
  details of one alert, the window of events it was raised for, and the affected users. The details
  are the alert's request body, a JSON text or value of the detection worker.
\<close>

section \<open>Rules and texts\<close>

record rule_meta =
  rm_label :: string
  rm_color :: string
  rm_description :: string

definition RULE_META :: "(string \<times> rule_meta) list" where
  "RULE_META =
     [(''volume_spike'', \<lparr>rm_label = ''Volume Spike'', rm_color = ''bg-[#818cf8]/20 text-[#818cf8] border-[#818cf8]/30'',
         rm_description = ''Abnormal spike in request volume (z-score)''\<rparr>),
      (''error_rate'', \<lparr>rm_label = ''Error Rate'', rm_color = ''bg-[#f87171]/20 text-[#f87171] border-[#f87171]/30'',
         rm_description = ''4xx/5xx rate exceeded threshold''\<rparr>),
      (''brute_force'', \<lparr>rm_label = ''Brute Force'', rm_color = ''bg-[#fb923c]/20 text-[#fb923c] border-[#fb923c]/30'',
         rm_description = ''Repeated auth failures from same identifier''\<rparr>),
      (''silent_service'', \<lparr>rm_label = ''Silent Service'', rm_color = ''bg-[#fbbf24]/20 text-[#fbbf24] border-[#fbbf24]/30'',
         rm_description = ''No events received for threshold minutes''\<rparr>),
      (''mass_delete'', \<lparr>rm_label = ''Mass Delete'', rm_color = ''bg-[#f87171]/20 text-[#f87171] border-[#f87171]/30'',
         rm_description = ''High volume of DELETE requests in short window''\<rparr>),
      (''error_rate_by_route'', \<lparr>rm_label = ''Error Rate by Route'', rm_color = ''bg-[#f472b6]/20 text-[#f472b6] border-[#f472b6]/30'',
         rm_description = ''High error rate detected on a specific route''\<rparr>)]"

definition rule_of :: "string \<Rightarrow> rule_meta" where
  "rule_of path =
     nullish (map_of RULE_META path)
       \<lparr>rm_label = path, rm_color = ''bg-muted text-muted-foreground border-border'', rm_description = []\<rparr>"

record AlertSummary =
  al_id :: string
  al_path :: string
  al_service_name :: string
  al_environment :: "string option"
  al_timestamp :: string

text \<open>Comparisons with NaN fail, which leaves the last branch.\<close>

definition anomaly_timeAgo :: "date_parser \<Rightarrow> int \<Rightarrow> string \<Rightarrow> string" where
  "anomaly_timeAgo parse_date now ts =
     (case parse_date ts of
        None \<Rightarrow> ''NaNd ago''
      | Some t \<Rightarrow>
          let m = (now - t) div 60000; h = m div 60
          in if m < 1 then ''just now'' else if m < 60 then show_int m @ ''m ago''
             else if h < 24 then show_int h @ ''h ago'' else show_int (h div 24) @ ''d ago'')"

definition anomaly_statusColor :: "nat \<Rightarrow> string" where
  "anomaly_statusColor c = (if c \<ge> 500 then ''text-[#f87171]'' else if c \<ge> 400 then ''text-[#fbbf24]'' else ''text-[#4ade80]'')"

definition anomaly_methodColor :: "string \<Rightarrow> string" where
  "anomaly_methodColor m =
     nullish (map_of [(''GET'', ''text-[#4ade80]''), (''POST'', ''text-[#818cf8]''), (''PUT'', ''text-[#fbbf24]''),
                      (''DELETE'', ''text-[#f87171]''), (''PATCH'', ''text-[#60a5fa]'')] m) ''text-muted-foreground''"

section \<open>Details of an alert\<close>

text \<open>\<open>details\<close>: a text is parsed, anything else taken as it is; a text that does not parse and a falsy
  value give \<open>null\<close>.\<close>

definition alert_details :: "json option \<Rightarrow> json option" where
  "alert_details request_body =
     (case request_body of
        None \<Rightarrow> None
      | Some b \<Rightarrow>
          if \<not> jtruthy b then None
          else (case b of
                  JStr s \<Rightarrow> (case json_parse s of Inr JNull \<Rightarrow> None | Inr v \<Rightarrow> Some v | Inl _ \<Rightarrow> None)
                | v \<Rightarrow> Some v))"

text \<open>\<open>details?.k\<close>, \<open>Object.entries\<close> and the text of an entry.\<close>

definition detail :: "json option \<Rightarrow> string \<Rightarrow> json option" where
  "detail details k = (case details of None \<Rightarrow> None | Some v \<Rightarrow> (case jprop v k of Inr m \<Rightarrow> m | Inl _ \<Rightarrow> None))"

definition truthy_detail :: "json option \<Rightarrow> string \<Rightarrow> bool" where
  "truthy_detail details k = (case detail details k of None \<Rightarrow> False | Some v \<Rightarrow> jtruthy v)"

definition detail_text :: "json option \<Rightarrow> string \<Rightarrow> string" where
  "detail_text details k = (case detail details k of None \<Rightarrow> ''undefined'' | Some v \<Rightarrow> jstring v)"

fun entries :: "json \<Rightarrow> (string \<times> json) list" where
  "entries (JObj kvs) = kvs"
| "entries (JArr vs) = map (\<lambda>(i, v). (show_nat i, v)) (List.enumerate 0 vs)"
| "entries (JStr s) = map (\<lambda>(i, c). (show_nat i, JStr [c])) (List.enumerate 0 s)"
| "entries _ = []"

definition detail_value :: "json \<Rightarrow> string" where
  "detail_value v =
     (case v of JNum n \<Rightarrow> if n = of_int \<lfloor>n\<rfloor> then number_to_string n else to_fixed 2 n | _ \<Rightarrow> jstring v)"

definition DetectionDetails :: "json \<Rightarrow> (string \<times> string) list" where
  "DetectionDetails details =
     map (\<lambda>(k, v). (map (\<lambda>c. if c = CHR ''_'' then CHR '' '' else c) k, detail_value v)) (entries details)"

section \<open>Related events\<close>

text \<open>\<open>new Date(ms).toISOString()\<close>: the time is cut to whole milliseconds, and an instant out of range
  throws.\<close>

definition time_clip :: "rat \<Rightarrow> int" where
  "time_clip r = (if 0 \<le> r then \<lfloor>r\<rfloor> else \<lceil>r\<rceil>)"

definition iso_of :: "rat option \<Rightarrow> js_error + string" where
  "iso_of ms =
     (case ms of
        None \<Rightarrow> Inl (Error ''Invalid time value'')
      | Some r \<Rightarrow> if \<bar>r\<bar> \<le> 8640000000000000 then Inr (toISOString (time_clip r)) else Inl (Error ''Invalid time value''))"

definition buildRelatedFilters :: "date_parser \<Rightarrow> AlertSummary \<Rightarrow> json option \<Rightarrow> string option \<Rightarrow> js_error + filters" where
  "buildRelatedFilters parse_date alert details projectId =
     (if al_path alert = ''silent_service''
      then let endDate = (if truthy_detail details ''last_event_at'' then detail_text details ''last_event_at'' else al_timestamp alert)
           in case iso_of (map_option (\<lambda>t. of_int t - 2 * 60 * 60 * 1000) (parse_date endDate)) of
                Inl e \<Rightarrow> Inl e
              | Inr startDate \<Rightarrow>
                  Inr [(''service_name'', Some (al_service_name alert)), (''event_type'', Some ''http''), (''start_date'', Some startDate),
                       (''end_date'', Some endDate), (''limit'', num_param 50), (''projectId'', projectId)]
      else let ts = parse_date (al_timestamp alert);
               windowSecs = jnumber (Some (jnullish (detail details ''window_secs'') (JNum 300)))
           in case iso_of (case (ts, windowSecs) of (Some t, Some w) \<Rightarrow> Some (of_int t - w * 1000) | _ \<Rightarrow> None) of
                Inl e \<Rightarrow> Inl e
              | Inr startDate \<Rightarrow>
                  (case iso_of (map_option of_int ts) of
                     Inl e \<Rightarrow> Inl e
                   | Inr endDate \<Rightarrow>
                       Inr ([(''service_name'', Some (al_service_name alert)), (''event_type'', Some ''http''), (''start_date'', Some startDate),
                             (''end_date'', Some endDate), (''limit'', num_param 100), (''projectId'', projectId)]
                            @ (if al_path alert = ''brute_force'' \<and> truthy_detail details ''identifier''
                               then [(''identifier'', Some (detail_text details ''identifier''))] else [])
                            @ (if al_path alert = ''error_rate_by_route'' \<and> truthy_detail details ''path''
                               then (''path'', Some (detail_text details ''path''))
                                    # (if truthy_detail details ''method'' then [(''method'', Some (detail_text details ''method''))] else [])
                               else []))))"

definition related_query :: "server \<Rightarrow> string \<Rightarrow> date_parser \<Rightarrow> AlertSummary \<Rightarrow> json option \<Rightarrow> string option \<Rightarrow> js_error + query" where
  "related_query srv base parse_date alert details projectId =
     map_sum (\<lambda>e. e) (\<lambda>f. useAnomalyRelatedEvents srv base f True) (buildRelatedFilters parse_date alert details projectId)"

definition related_row :: "date_parser \<Rightarrow> int \<Rightarrow> AuditSummary \<Rightarrow> string list" where
  "related_row parse_date now e =
     [ev_method e, ev_path e, show_nat (ev_status_code e), number_to_string (ev_response_time e) @ ''ms'',
      anomaly_timeAgo parse_date now (ev_timestamp e)]"

datatype anomaly_action = SelectAlert AlertSummary | CloseDrawer

definition RelatedEvents :: "date_parser \<Rightarrow> int \<Rightarrow> bool \<Rightarrow> AuditSummary list option \<Rightarrow> anomaly_action view list" where
  "RelatedEvents parse_date now isLoading data =
     (let events = nullish data []
      in if isLoading then [Text (''Loading events'' @ ellipsis)]
         else if events = [] then [Text ''No related events found in this window.'']
         else map (\<lambda>e. Box (map Text (related_row parse_date now e))) events
              @ [Text (show_nat (length events) @ '' event'' @ plural (length events) @ '' in window'')])"

section \<open>Affected users\<close>

record AffectedUser =
  au_identifier :: string
  au_user_email :: string
  au_user_name :: string
  au_error_count :: nat
  au_last_seen :: string

definition affected_path :: "json option \<Rightarrow> string option" where
  "affected_path details = (if truthy_detail details ''path'' then Some (detail_text details ''path'') else None)"

definition affected_method :: "json option \<Rightarrow> string option" where
  "affected_method details = (if truthy_detail details ''method'' then Some (detail_text details ''method'') else None)"

definition affected_query :: "server \<Rightarrow> string \<Rightarrow> json option \<Rightarrow> string option \<Rightarrow> query" where
  "affected_query srv base details projectId = useAffectedUsers srv base projectId (affected_path details) (affected_method details) None None"

definition AffectedUsersSection :: "json option \<Rightarrow> bool \<Rightarrow> AffectedUser list option \<Rightarrow> anomaly_action view list" where
  "AffectedUsersSection details isLoading data =
     (let users = nullish data []
      in case affected_path details of
           None \<Rightarrow> []
         | Some path \<Rightarrow>
             if path = [] then []
             else [Text ''Affected Users'',
                   Text ((if truthy (affected_method details) then nullish (affected_method details) [] @ '' '' else []) @ path)]
                  @ (if isLoading then [Text (''Loading'' @ ellipsis)]
                     else if users = [] then [Text ''No affected users found.'']
                     else map (\<lambda>u. Box [Text (or_else (or_else (au_user_email u) (au_user_name u)) (au_identifier u)),
                                        Text (show_nat (au_error_count u) @ '' err'')]) users
                          @ [Text (show_nat (length users) @ '' user'' @ plural (length users) @ '' affected'')]))"

section \<open>Cards, drawer and page\<close>

text \<open>\<open>stamp\<close> is \<open>formatTime\<close>, the locale's text of a date.\<close>

definition AlertCard :: "(string \<Rightarrow> string) \<Rightarrow> date_parser \<Rightarrow> int \<Rightarrow> AlertSummary \<Rightarrow> bool \<Rightarrow> anomaly_action view" where
  "AlertCard stamp parse_date now alert selected =
     (let rule = rule_of (al_path alert)
      in Box ([Item (rm_label rule) selected (SelectAlert alert), Text (al_service_name alert)]
              @ shown_if (truthy (al_environment alert)) [Text (nullish (al_environment alert) [])]
              @ shown_if (rm_description rule \<noteq> []) [Text (rm_description rule)]
              @ [Text (stamp (al_timestamp alert)), Text (anomaly_timeAgo parse_date now (al_timestamp alert))]))"

definition AlertDrawer ::
  "(string \<Rightarrow> string) \<Rightarrow> date_parser \<Rightarrow> int \<Rightarrow> AlertSummary option \<Rightarrow> bool \<Rightarrow> json option
   \<Rightarrow> anomaly_action view list \<Rightarrow> anomaly_action view list \<Rightarrow> anomaly_action view list" where
  "AlertDrawer stamp parse_date now alert loadingDetail details related affected =
     (case alert of
        None \<Rightarrow> []
      | Some a \<Rightarrow>
          let rule = rule_of (al_path a)
          in [Text (rm_label rule), Text (al_service_name a)]
             @ shown_if (truthy (al_environment a)) [Text (nullish (al_environment a) [])]
             @ [Button ''close'' True CloseDrawer, Text (stamp (al_timestamp a)), Text (anomaly_timeAgo parse_date now (al_timestamp a))]
             @ shown_if (rm_description rule \<noteq> []) [Text (rm_description rule)]
             @ [Text ''Detection Details'']
             @ (if loadingDetail then [Text (''Loading'' @ ellipsis)]
                else case details of
                       Some d \<Rightarrow> if jtruthy d then map (\<lambda>(k, v). Box [Text k, Text v]) (DetectionDetails d) else [Text ''No detail data available.'']
                     | None \<Rightarrow> [Text ''No detail data available.''])
             @ [Text (if al_path a = ''silent_service'' then ''Last Events Before Silence'' else ''Triggering Events'')]
             @ (if loadingDetail then [Text (''Loading'' @ ellipsis)] else related)
             @ shown_if (al_path a = ''error_rate_by_route'') affected
             @ shown_if (truthy_detail details ''identifier'' \<and> al_path a = ''brute_force'')
                 [Text (''Attacker identifier: '' @ detail_text details ''identifier'')])"

text \<open>The queries the drawer holds: the detail of the selected alert, disabled when there is none; once it has
  arrived, the related events, whose window is computed while the drawer is rendered and may throw; and the affected
  users of a route. \<open>full\<close> is \<open>full?.request_body\<close>.\<close>

definition drawer_detail_query :: "server \<Rightarrow> string \<Rightarrow> AlertSummary option \<Rightarrow> query" where
  "drawer_detail_query srv base alert = useAuditDetail srv base (map_option al_id alert)"

definition drawer_queries ::
  "server \<Rightarrow> string \<Rightarrow> date_parser \<Rightarrow> string option \<Rightarrow> AlertSummary option \<Rightarrow> bool \<Rightarrow> json option \<Rightarrow> js_error + query list" where
  "drawer_queries srv base parse_date projectId alert loadingDetail full =
     (let q = drawer_detail_query srv base alert; details = alert_details full
      in case alert of
           None \<Rightarrow> Inr [q]
         | Some a \<Rightarrow>
             let affected = (if al_path a = ''error_rate_by_route'' then [affected_query srv base details projectId] else [])
             in if loadingDetail then Inr (q # affected)
                else map_sum (\<lambda>e. e) (\<lambda>rq. q # rq # affected) (related_query srv base parse_date a details projectId))"

definition drawer_key_closes :: "string \<Rightarrow> bool" where
  "drawer_key_closes key \<longleftrightarrow> key = ''Escape''"

definition handleSelect :: "AlertSummary \<Rightarrow> AlertSummary option \<Rightarrow> AlertSummary option" where
  "handleSelect alert prev = (if map_option al_id prev = Some (al_id alert) then None else Some alert)"

fun anomaly_step :: "AlertSummary option \<Rightarrow> anomaly_action \<Rightarrow> AlertSummary option" where
  "anomaly_step sel (SelectAlert a) = handleSelect a sel"
| "anomaly_step sel CloseDrawer = None"

definition AnomaliesPage ::
  "(string \<Rightarrow> string) \<Rightarrow> date_parser \<Rightarrow> int \<Rightarrow> bool \<Rightarrow> AlertSummary list option \<Rightarrow> AlertSummary option
   \<Rightarrow> anomaly_action view list \<Rightarrow> anomaly_action view" where
  "AnomaliesPage stamp parse_date now isLoading data selectedAlert drawer =
     (let alerts = nullish data []
      in Box ([Text ''Anomaly Alerts'', Text (''Last 24 hours '' @ em_dash @ '' click an alert to open the detail panel'')]
              @ shown_if (alerts \<noteq> []) [Text (show_nat (length alerts) @ '' alert'' @ plural (length alerts))]
              @ shown_if isLoading [Text (''Loading'' @ ellipsis)]
              @ shown_if (\<not> isLoading \<and> alerts = []) [Text ''No anomalies detected in the last 24 hours.'']
              @ map (\<lambda>a. AlertCard stamp parse_date now a (map_option al_id selectedAlert = Some (al_id a))) alerts
              @ drawer))"


section \<open>The window of an alert\<close>

lemma related_filters_fixed:
  assumes "buildRelatedFilters parse_date alert details projectId = Inr f"
  shows "filter_val f ''service_name'' = Some (al_service_name alert) \<and> filter_val f ''event_type'' = Some ''http''
    \<and> filter_val f ''projectId'' = projectId"
  using assms
  by (cases "al_path alert = ''silent_service''")
    (auto simp: buildRelatedFilters_def Let_def filter_val_def split: sum.splits)

lemma related_filters_window:
  assumes "al_path alert \<noteq> ''silent_service''" "parse_date (al_timestamp alert) = Some t"
    "jnumber (Some (jnullish (detail details ''window_secs'') (JNum 300))) = Some (of_int w)"
    "\<bar>t\<bar> \<le> 8640000000000000" "\<bar>t - w * 1000\<bar> \<le> 8640000000000000"
  shows "\<exists>f. buildRelatedFilters parse_date alert details projectId = Inr f
    \<and> filter_val f ''start_date'' = Some (toISOString (t - w * 1000)) \<and> filter_val f ''end_date'' = Some (toISOString t)
    \<and> filter_val f ''identifier'' =
        (if al_path alert = ''brute_force'' \<and> truthy_detail details ''identifier'' then Some (detail_text details ''identifier'') else None)
    \<and> filter_val f ''path'' =
        (if al_path alert = ''error_rate_by_route'' \<and> truthy_detail details ''path'' then Some (detail_text details ''path'') else None)"
proof -
  have c: "time_clip (of_int i) = i" for i by (simp add: time_clip_def)
  have e: "(of_int t - of_int w * 1000 :: rat) = of_int (t - w * 1000)" by simp
  have r: "iso_of (Some (of_int i)) = Inr (toISOString i)" if "\<bar>i\<bar> \<le> 8640000000000000" for i
  proof -
    have "\<bar>of_int i :: rat\<bar> \<le> 8640000000000000" using that by (metis of_int_abs of_int_le_iff of_int_numeral)
    then show ?thesis by (simp add: iso_of_def c)
  qed
  show ?thesis
    using assms r [OF assms(4)] r [OF assms(5)]
    by (simp add: buildRelatedFilters_def Let_def e filter_val_def del: of_int_diff of_int_mult)
qed


text \<open>What \<open>ListAudit\<close> sends when the service is named.\<close>

lemma list_audit_service_request:
  assumes "p ''service_name'' = Some svc" "svc \<noteq> []"
  shows "\<exists>req q ps. b_sent (snd (ListAudit srv base p w)) = b_sent w @ [req] \<and> req_url req = base @ ''/v1/audit?'' @ q
    \<and> read_query q = Some ps \<and> ps = sent_params (list_audit_params p)"
proof -
  let ?ps = "sent_params (list_audit_params p)"
  have "map_of ?ps ''service_name'' = Some svc"
    using assms by (simp add: map_of_sent_params [OF list_audit_keys] list_audit_lookup)
  then have ne: "?ps \<noteq> []" by auto
  then show ?thesis using list_audit_request [of srv base p w] by (auto simp: Let_def)
qed



text \<open>The closed drawer asks for nothing. An open one asks for the detail of its alert first, and with it there for the
  window of the alert; it breaks the page when the alert's time cannot be read, whatever the detail says.\<close>

lemma drawer_closed: "drawer_queries srv base parse_date projectId None l full = Inr [q] \<Longrightarrow> \<not> q_enabled q"
  by (auto simp: drawer_queries_def drawer_detail_query_def useAuditDetail_def mk_query_def Let_def)

lemma drawer_waits:
  "drawer_queries srv base parse_date projectId (Some a) True full = Inr qs
   \<Longrightarrow> qs = useAuditDetail srv base (Some (al_id a)) # (if al_path a = ''error_rate_by_route'' then [affected_query srv base (alert_details full) projectId] else [])"
  by (auto simp: drawer_queries_def drawer_detail_query_def Let_def)

lemma drawer_unreadable:
  "al_path a \<noteq> ''silent_service'' \<Longrightarrow> parse_date (al_timestamp a) = None
   \<Longrightarrow> drawer_queries srv base parse_date projectId (Some a) False full = Inl (Error ''Invalid time value'')"
  by (simp add: drawer_queries_def related_query_def buildRelatedFilters_def iso_of_def Let_def)

lemma drawer_related:
  assumes "buildRelatedFilters parse_date a (alert_details full) projectId = Inr f"
  shows "\<exists>rest. drawer_queries srv base parse_date projectId (Some a) False full
    = Inr (useAuditDetail srv base (Some (al_id a)) # useAnomalyRelatedEvents srv base f True # rest)"
  using assms by (simp add: drawer_queries_def related_query_def drawer_detail_query_def Let_def)

end
