(* ===== verification/Insights.thy ===== *)
theory Insights
  imports Dashboard
begin

text \<open>
  The insights page (\<open>routes/app/_layout/insights.tsx\<close>): four rankings over a period, each row a way into
  the dashboard with the filters of the row. Grouped digits (\<open>toLocaleString\<close>) are a parameter.
\<close>

section \<open>Rankings\<close>

definition PERIODS :: "(string \<times> string) list" where
  "PERIODS = [(''7d'', ''7d''), (''30d'', ''30d''), (''90d'', ''90d'')]"

definition INSIGHT_METHOD_COLORS :: "(string \<times> string) list" where
  "INSIGHT_METHOD_COLORS =
     [(''GET'', ''bg-[#34d399]/20 text-[#34d399] border-[#34d399]/30''),
      (''POST'', ''bg-[#60a5fa]/20 text-[#60a5fa] border-[#60a5fa]/30''),
      (''PUT'', ''bg-[#fbbf24]/20 text-[#fbbf24] border-[#fbbf24]/30''),
      (''DELETE'', ''bg-[#f87171]/20 text-[#f87171] border-[#f87171]/30''),
      (''PATCH'', ''bg-[#c084fc]/20 text-[#c084fc] border-[#c084fc]/30'')]"

text \<open>The class and the text of the badge.\<close>

definition InsightMethodBadge :: "string \<Rightarrow> string \<times> string" where
  "InsightMethodBadge method = (nullish (map_of INSIGHT_METHOD_COLORS method) ''bg-muted text-muted-foreground border-border'', method)"

record TopEndpoint =
  te_path :: string
  te_method :: string
  te_count :: nat

record TopUser =
  tu_identifier :: string
  tu_user_email :: string
  tu_user_name :: string
  tu_count :: nat

record TopErrorRoute =
  tr_path :: string
  tr_method :: string
  tr_error_count :: nat
  tr_total :: nat
  tr_error_rate :: rat

record TopSlowRoute =
  ts_path :: string
  ts_method :: string
  ts_avg_ms :: rat

text \<open>\<open>data?.top_x?.length\<close>: a list that is missing counts as empty.\<close>

record InsightsResult =
  ir_endpoints :: "TopEndpoint list option"
  ir_users :: "TopUser list option"
  ir_error_routes :: "TopErrorRoute list option"
  ir_slow_routes :: "TopSlowRoute list option"

section \<open>State and navigation\<close>

datatype insight_action = SetPeriod string | GoToEvents "(string \<times> string) list"

text \<open>\<open>{ ...prev, ...filters, page: 1 }\<close>, the search the dashboard opens with.\<close>

definition goToEvents :: "(string \<times> string) list \<Rightarrow> search \<Rightarrow> search" where
  "goToEvents flt prev = \<lparr>se_page = Some 1, se_text = se_text prev ++ map_of (rev flt)\<rparr>"

text \<open>The period shown and the search of the location, before and after a click.\<close>

fun insight_step :: "string \<times> search \<Rightarrow> insight_action \<Rightarrow> string \<times> search" where
  "insight_step (period, s) (SetPeriod p) = (p, s)"
| "insight_step (period, s) (GoToEvents flt) = (period, goToEvents flt s)"

definition insights_query :: "server \<Rightarrow> string \<Rightarrow> string option \<Rightarrow> string \<Rightarrow> string option \<Rightarrow> query" where
  "insights_query srv base selectedProjectId period selectedEnvironment = useInsights srv base selectedProjectId period selectedEnvironment"

section \<open>Page\<close>

definition RankCard :: "string \<Rightarrow> insight_action view list \<Rightarrow> insight_action view" where
  "RankCard title children = Box (Text title # children)"

definition EmptyRow :: "insight_action view" where
  "EmptyRow = Text ''No data for this period''"

text \<open>\<open>rows.map((row, i) => ...)\<close> with its number, or the empty row.\<close>

definition ranked :: "('r \<Rightarrow> (string \<times> string) list) \<Rightarrow> string \<Rightarrow> ('r \<Rightarrow> insight_action view list) \<Rightarrow> 'r list option \<Rightarrow> insight_action view list" where
  "ranked flt title cells rows =
     (if nullish rows [] = [] then [EmptyRow]
      else map (\<lambda>(i, r). Box ([Item title False (GoToEvents (flt r)), Text (show_nat (i + 1))] @ cells r)) (List.enumerate 0 (nullish rows [])))"

definition endpoint_filters :: "TopEndpoint \<Rightarrow> (string \<times> string) list" where
  "endpoint_filters r = [(''method'', te_method r), (''path'', te_path r)]"

definition user_filters :: "TopUser \<Rightarrow> (string \<times> string) list" where
  "user_filters r = [(''identifier'', tu_identifier r)]"

definition error_filters :: "TopErrorRoute \<Rightarrow> (string \<times> string) list" where
  "error_filters r = [(''method'', tr_method r), (''path'', tr_path r)]"

definition slow_filters :: "TopSlowRoute \<Rightarrow> (string \<times> string) list" where
  "slow_filters r = [(''method'', ts_method r), (''path'', ts_path r), (''sort_by'', ''response_time''), (''sort_order'', ''desc'')]"

definition endpoint_card :: "(int \<Rightarrow> string) \<Rightarrow> InsightsResult option \<Rightarrow> insight_action view" where
  "endpoint_card digits data =
     RankCard ''Top Endpoints by Volume''
       (ranked endpoint_filters ''View events for this endpoint''
          (\<lambda>r. [Text (snd (InsightMethodBadge (te_method r))), Text (te_path r), Text (digits (int (te_count r)))])
          (Option.bind data ir_endpoints))"

definition user_card :: "(int \<Rightarrow> string) \<Rightarrow> InsightsResult option \<Rightarrow> insight_action view" where
  "user_card digits data =
     RankCard ''Top Users by Activity''
       (ranked user_filters ''View events for this user''
          (\<lambda>r. [Text (or_else (tu_user_email r) (tu_identifier r))]
               @ shown_if (tu_user_email r \<noteq> [] \<and> tu_identifier r \<noteq> tu_user_email r) [Text (tu_identifier r)]
               @ [Text (digits (int (tu_count r)))])
          (Option.bind data ir_users))"

definition error_card :: "(int \<Rightarrow> string) \<Rightarrow> InsightsResult option \<Rightarrow> insight_action view" where
  "error_card digits data =
     RankCard ''Top Routes by Error Rate''
       (ranked error_filters ''View error events for this route''
          (\<lambda>r. [Text (snd (InsightMethodBadge (tr_method r))), Text (tr_path r), Text (digits (int (tr_error_count r)) @ '' err''),
                Text (to_fixed 1 (tr_error_rate r) @ ''%'')])
          (Option.bind data ir_error_routes))"

definition slow_card :: "(int \<Rightarrow> string) \<Rightarrow> InsightsResult option \<Rightarrow> insight_action view" where
  "slow_card digits data =
     RankCard ''Top Routes by Response Time''
       (ranked slow_filters ''View slowest events for this route''
          (\<lambda>r. [Text (snd (InsightMethodBadge (ts_method r))), Text (ts_path r), Text (digits (js_round (ts_avg_ms r)) @ ''ms'')])
          (Option.bind data ir_slow_routes))"

definition InsightsPage :: "(int \<Rightarrow> string) \<Rightarrow> string \<Rightarrow> bool \<Rightarrow> InsightsResult option \<Rightarrow> insight_action view" where
  "InsightsPage digits period isLoading data =
     Box ([Text ''Insights'']
          @ map (\<lambda>(v, l). Item l (period = v) (SetPeriod v)) PERIODS
          @ (if isLoading then [Box [], Box [], Box [], Box []]
             else [endpoint_card digits data, user_card digits data, error_card digits data, slow_card digits data]))"


section \<open>From a row to the events\<close>

lemma resolve_filters_keep: "dashboard_filter k \<Longrightarrow> resolve_filters now f k = filter_val f k"
  using filter_names [of k] by (simp add: resolve_filters_def Let_def split: option.split)

lemma audit_list_sends:
  assumes "page \<noteq> 0" "filter_val f ''page'' = None"
  shows "\<exists>req q ps. b_sent (snd (q_fn (useAuditList srv base now page limit pid f) w)) = b_sent w @ [req]
    \<and> req_url req = base @ ''/v1/audit?'' @ q \<and> read_query q = Some ps
    \<and> (\<forall>k. dashboard_filter k \<longrightarrow> map_of ps k = (if truthy (filter_val f k) then filter_val f k else None))"
proof -
  let ?p = "audit_list_props now page limit pid f"
  let ?ps = "sent_params (list_audit_params ?p)"
  have others: "map_of ?ps k = (if truthy (filter_val f k) then filter_val f k else None)" if k: "dashboard_filter k" for k
    using list_audit_lookup(4) [of k ?p] k
    by (simp add: map_of_sent_params [OF list_audit_keys] audit_list_props_simps resolve_filters_keep truthy_def
        dashboard_filter_def split: option.split)
  have p: "map_of (list_audit_params ?p) ''page'' = Some (?p ''page'')" by (simp add: list_audit_params_def)
  have "resolve_filters now f ''page'' = filter_val f ''page''"
    by (simp add: resolve_filters_def Let_def split: option.split)
  then have "?p ''page'' = num_param page" using assms(2) by (simp add: audit_list_props_def map_add_def)
  then have "map_of ?ps ''page'' \<noteq> None"
    using p assms by (simp add: map_of_sent_params [OF list_audit_keys] num_param_def show_int_def)
  then have "?ps \<noteq> []" by auto
  then show ?thesis
    using list_audit_request [of srv base ?p w] others by (auto simp: Let_def useAuditList_def mk_query_def)
qed

lemma ranked_clicks:
  assumes "GoToEvents fs \<in> set (clicks (RankCard title (ranked flt t cells rows)))" "\<And>r. set (concat (map clicks (cells r))) = {}"
  shows "\<exists>r \<in> set (nullish rows []). fs = flt r"
  using assms
  by (auto simp: ranked_def RankCard_def EmptyRow_def in_set_enumerate_eq split: if_splits)

text \<open>The filters of a row name parameters of the dashboard, and sort values of its schema.\<close>

definition row_filters :: "(string \<times> string) list \<Rightarrow> bool" where
  "row_filters fs \<longleftrightarrow>
     (\<exists>r. fs = endpoint_filters r) \<or> (\<exists>r. fs = user_filters r) \<or> (\<exists>r. fs = error_filters r) \<or> (\<exists>r. fs = slow_filters r)"

lemma page_clicks:
  assumes "GoToEvents fs \<in> set (clicks (InsightsPage digits period isLoading data))"
  shows "row_filters fs"
proof -
  have "GoToEvents fs \<in> set (clicks (endpoint_card digits data)) \<union> set (clicks (user_card digits data))
      \<union> set (clicks (error_card digits data)) \<union> set (clicks (slow_card digits data))"
    using assms by (auto simp: InsightsPage_def PERIODS_def split: if_splits)
  then show ?thesis
    by (auto simp: row_filters_def endpoint_card_def user_card_def error_card_def slow_card_def shown_if_def
        dest!: ranked_clicks)
qed


lemma goToEvents_text:
  assumes "distinct (map fst fs)"
  shows "se_text (goToEvents fs prev) k = (case map_of fs k of Some v \<Rightarrow> Some v | None \<Rightarrow> se_text prev k)"
proof -
  have "map_of (rev fs) = map_of fs" using assms by (simp add: map_of_inject_set rev_map [symmetric])
  then show ?thesis by (simp add: goToEvents_def map_add_def)
qed

lemma row_filters_shape:
  assumes "row_filters fs"
  shows "distinct (map fst fs) \<and> map_of fs ''status_class'' = None \<and> map_of fs ''time_range'' = None
    \<and> map_of fs ''sort_by'' \<in> {None, Some ''response_time''} \<and> map_of fs ''sort_order'' \<in> {None, Some ''desc''}"
  using assms
  by (auto simp: row_filters_def endpoint_filters_def user_filters_def error_filters_def slow_filters_def split: if_splits)

definition row_key :: "string \<Rightarrow> bool" where
  "row_key k \<longleftrightarrow> k \<in> {''method'', ''path'', ''identifier'', ''sort_by'', ''sort_order''}"

lemma row_filters_keys: "row_filters fs \<Longrightarrow> map_of fs k = Some v \<Longrightarrow> row_key k"
  by (auto simp: row_filters_def row_key_def endpoint_filters_def user_filters_def error_filters_def slow_filters_def split: if_splits)

lemma row_key_filter: "row_key k \<Longrightarrow> dashboard_filter k"
  by (auto simp: row_key_def dashboard_filter_def)

lemma activeFilters_text:
  "row_key k \<Longrightarrow> filter_val (activeFilters d) k = se_text (d_search d) k"
  unfolding row_key_def by (elim insertE emptyE) (simp_all add: activeFilters_def Let_def filter_val_def)



end
