(* ===== verification/Settings_Tv.thy ===== *)
theory Settings_Tv
  imports Studio Pages
begin

text \<open>
  The wallboard profiles (\<open>routes/app/_layout/settings/wallboard.tsx\<close>), the retention page
  (\<open>retention.tsx\<close>) and the guard of the settings (\<open>settings.tsx\<close>). The profiles page loads its list
  again for every project; the answers are events of their own and may come in any order.
\<close>

section \<open>Profiles\<close>

record WbTokenItem =
  wt_id :: string
  wt_name :: string
  wt_code :: string
  wt_project_id :: string
  wt_expires_at :: string
  wt_created_at :: string
  wt_last_used_at :: "string option"

text \<open>A date that does not parse compares as idle.\<close>

definition getStatus :: "date_parser \<Rightarrow> int \<Rightarrow> WbTokenItem \<Rightarrow> string" where
  "getStatus parse_date now token =
     (if \<not> truthy (wt_last_used_at token) then ''never''
      else case parse_date (nullish (wt_last_used_at token) []) of
             None \<Rightarrow> ''idle''
           | Some t \<Rightarrow> if now - t < 60 * 60 * 1000 then ''active'' else ''idle'')"

definition wt_timeAgo :: "date_parser \<Rightarrow> int \<Rightarrow> string option \<Rightarrow> string" where
  "wt_timeAgo parse_date now ts =
     (if \<not> truthy ts then []
      else case parse_date (nullish ts []) of
             None \<Rightarrow> ''NaNd ago''
           | Some t \<Rightarrow>
               let m = (now - t) div 60000; h = m div 60
               in if m < 1 then ''just now'' else if m < 60 then show_int m @ ''m ago''
                  else if h < 24 then show_int h @ ''h ago'' else show_int (h div 24) @ ''d ago'')"

datatype profile_event =
    SelectProject "string option"
  | Loaded "WbTokenItem list"
  | LoadFailed
  | TypeProfile string
  | CreateProfile                 \<comment> \<open>the button, or Enter in the field\<close>
  | ProfileCreated WbTokenItem
  | CreateFailed
  | RevokeProfile string
  | ProfileRevoked string         \<comment> \<open>\<open>onRevoke\<close>\<close>
  | RevokeFailed string           \<comment> \<open>\<open>revokeWbCode\<close> throws\<close>
  | CopyText string

definition CopyBtn :: "bool \<Rightarrow> string \<Rightarrow> string option \<Rightarrow> profile_event view" where
  "CopyBtn copied t label = Button (if copied then ''Copied'' else nullish label ''Copy'') True (CopyText t)"

definition tv_link :: "string \<Rightarrow> WbTokenItem \<Rightarrow> string" where
  "tv_link origin token = origin @ ''/tv'' @ (if wt_project_id token = [] then [] else ''?project_id='' @ wt_project_id token)"

text \<open>\<open>handleRevoke\<close>: whether \<open>onRevoke\<close> runs, and the browser. \<open>revokeWbCode\<close> does not look at the status.\<close>

definition handleRevoke :: "server \<Rightarrow> string \<Rightarrow> string \<Rightarrow> browser \<Rightarrow> bool \<times> browser" where
  "handleRevoke srv base i w = (case revokeWbCode srv base i w of (Inr _, w1) \<Rightarrow> (True, w1) | (Inl _, w1) \<Rightarrow> (False, w1))"

definition TokenCard :: "date_parser \<Rightarrow> int \<Rightarrow> string \<Rightarrow> (string \<Rightarrow> bool) \<Rightarrow> bool \<Rightarrow> WbTokenItem \<Rightarrow> profile_event view" where
  "TokenCard parse_date now origin copied revoking token =
     (let status = getStatus parse_date now token
      in Box ([Text (or_else (wt_name token) ''Unnamed profile'')]
              @ shown_if (wt_project_id token \<noteq> []) [Text (wt_project_id token)]
              @ [Text (if status = ''active'' then ''Active'' else if status = ''idle'' then ''Idle'' else ''Never used''),
                 Text (wt_code token), CopyBtn (copied (wt_code token)) (wt_code token) None,
                 Text (if truthy (wt_last_used_at token) then ''Last seen '' @ wt_timeAgo parse_date now (wt_last_used_at token)
                       else ''Created '' @ wt_timeAgo parse_date now (Some (wt_created_at token))),
                 CopyBtn (copied (tv_link origin token)) (tv_link origin token) (Some ''Copy TV URL''),
                 Button ''Revoke'' (\<not> revoking) (RevokeProfile (wt_id token))]))"

section \<open>The page\<close>

text \<open>Besides the state variables: the project selected, and the loads and creations in flight.\<close>

record profiles_page =
  pf_tokens :: "WbTokenItem list"
  pf_loading :: bool
  pf_creating :: bool
  pf_name :: string
  pf_error :: string
  pf_project :: "string option"
  pf_revoking :: "string \<Rightarrow> bool"
  pf_loads :: nat
  pf_creations :: "(string option \<times> string) list"

definition profiles_init :: "string option \<Rightarrow> profiles_page" where
  "profiles_init p = \<lparr>pf_tokens = [], pf_loading = True, pf_creating = False, pf_name = [], pf_error = [], pf_project = p,
     pf_revoking = (\<lambda>_. False), pf_loads = 1, pf_creations = []\<rparr>"

text \<open>\<open>load\<close>, up to its request and from its answer on.\<close>

definition load_start :: "string option \<Rightarrow> profiles_page \<Rightarrow> profiles_page" where
  "load_start p s = s\<lparr>pf_project := p, pf_loading := True, pf_loads := pf_loads s + 1\<rparr>"

definition load_done :: "WbTokenItem list option \<Rightarrow> profiles_page \<Rightarrow> profiles_page" where
  "load_done r s =
     (let s1 = s\<lparr>pf_loading := False, pf_loads := pf_loads s - 1\<rparr>
      in case r of Some ts \<Rightarrow> s1\<lparr>pf_tokens := ts\<rparr> | None \<Rightarrow> s1\<lparr>pf_error := ''Failed to load profiles''\<rparr>)"

definition create_profile :: "profiles_page \<Rightarrow> profiles_page" where
  "create_profile s =
     (if js_trim (pf_name s) = [] then s
      else s\<lparr>pf_error := [], pf_creating := True, pf_creations := pf_creations s @ [(pf_project s, js_trim (pf_name s))]\<rparr>)"

definition create_done :: "WbTokenItem option \<Rightarrow> profiles_page \<Rightarrow> profiles_page" where
  "create_done r s =
     (let s1 = s\<lparr>pf_creating := False, pf_creations := tl (pf_creations s)\<rparr>
      in case r of Some t \<Rightarrow> s1\<lparr>pf_tokens := t # pf_tokens s, pf_name := []\<rparr> | None \<Rightarrow> s1\<lparr>pf_error := ''Failed to create profile''\<rparr>)"

definition on_revoke :: "string \<Rightarrow> profiles_page \<Rightarrow> profiles_page" where
  "on_revoke i s = s\<lparr>pf_tokens := filter (\<lambda>t. wt_id t \<noteq> i) (pf_tokens s)\<rparr>"

fun profiles_step :: "profiles_page \<Rightarrow> profile_event \<Rightarrow> profiles_page" where
  "profiles_step s (SelectProject p) = load_start p s"
| "profiles_step s (Loaded ts) = load_done (Some ts) s"
| "profiles_step s LoadFailed = load_done None s"
| "profiles_step s (TypeProfile n) = s\<lparr>pf_name := n\<rparr>"
| "profiles_step s CreateProfile = create_profile s"
| "profiles_step s (ProfileCreated t) = create_done (Some t) s"
| "profiles_step s CreateFailed = create_done None s"
| "profiles_step s (RevokeProfile i) = s\<lparr>pf_revoking := (pf_revoking s)(i := True)\<rparr>"
| "profiles_step s (ProfileRevoked i) = (on_revoke i s)\<lparr>pf_revoking := (pf_revoking s)(i := False)\<rparr>"
| "profiles_step s (RevokeFailed i) = s\<lparr>pf_revoking := (pf_revoking s)(i := False)\<rparr>"
| "profiles_step s (CopyText t) = s"

text \<open>\<open>[...active, ...rest]\<close>.\<close>

definition active_profiles :: "date_parser \<Rightarrow> int \<Rightarrow> WbTokenItem list \<Rightarrow> WbTokenItem list" where
  "active_profiles parse_date now tokens = filter (\<lambda>t. getStatus parse_date now t = ''active'') tokens"

definition shown_profiles :: "date_parser \<Rightarrow> int \<Rightarrow> WbTokenItem list \<Rightarrow> WbTokenItem list" where
  "shown_profiles parse_date now tokens =
     active_profiles parse_date now tokens @ filter (\<lambda>t. getStatus parse_date now t \<noteq> ''active'') tokens"

definition WallboardSettingsPage ::
  "date_parser \<Rightarrow> int \<Rightarrow> string \<Rightarrow> (string \<Rightarrow> bool) \<Rightarrow> profiles_page \<Rightarrow> profile_event view" where
  "WallboardSettingsPage parse_date now origin copied s =
     (let active = active_profiles parse_date now (pf_tokens s)
      in Box ([Text ''Wallboard'',
               Text ''Manage TV profiles. Each profile has its own activation code and can run on a different screen.'']
              @ shown_if (active \<noteq> [])
                  [Text (show_nat (length active) @ '' screen'' @ (if length active > 1 then ''s'' else []) @ '' currently active''),
                   Text (join_with '', '' (map (\<lambda>t. or_else (wt_name t) ''Unnamed'') active))]
              @ [Text ''New profile'', Field ''e.g. TV NOC, TV Software, Reception'' (pf_name s),
                 Button ''Create'' (\<not> pf_creating s \<and> js_trim (pf_name s) \<noteq> []) CreateProfile]
              @ shown_if (pf_error s \<noteq> []) [Text (pf_error s)]
              @ (if pf_loading s then [Text (''Loading'' @ ellipsis)]
                 else if pf_tokens s = [] then [Text ''No profiles yet.'', Text ''Create one above to get started.'']
                 else map (\<lambda>t. TokenCard parse_date now origin copied (pf_revoking s (wt_id t)) t)
                        (shown_profiles parse_date now (pf_tokens s)))
              @ [Text ''How it works'', Text (''Open '' @ origin @ ''/tv on any screen and enter the activation code.''),
                 Text ''The dashboard refreshes every 30 seconds.'',
                 Text (''Sessions renew automatically '' @ em_dash @ '' a screen stays locked in for 30 days of inactivity before needing a new code.'')]))"

section \<open>Retention, and the guard of the settings\<close>

record UsageStat =
  ut_raw_events :: nat
  ut_hourly_summaries :: nat
  ut_daily_summaries :: nat

definition usage_items :: "UsageStat option \<Rightarrow> (string \<times> nat) list" where
  "usage_items usage =
     (let num = (\<lambda>f. nullish (map_option f usage) 0)
      in [(''Raw events'', num ut_raw_events), (''Hourly summaries'', num ut_hourly_summaries), (''Daily summaries'', num ut_daily_summaries)])"

definition totalRows :: "UsageStat option \<Rightarrow> nat" where
  "totalRows usage =
     nullish (map_option ut_raw_events usage) 0 + nullish (map_option ut_hourly_summaries usage) 0 + nullish (map_option ut_daily_summaries usage) 0"

text \<open>Environment variable, default, label, unit and description.\<close>

definition tiering_policy :: "(string \<times> string \<times> string \<times> string \<times> string) list" where
  "tiering_policy =
     [(''TIERING_RAW_DAYS'', ''30'', ''Keep raw events for'', ''days'',
       ''After this period, events are aggregated into hourly summaries and the raw rows are deleted.''),
      (''TIERING_HOURLY_DAYS'', ''365'', ''Keep hourly summaries for'', ''days'',
       ''After this period, hourly summaries are aggregated into daily summaries and deleted.''),
      (''TIERING_HOUR'', ''2'', ''Run aggregation at hour (UTC)'', [],
       ''The UTC hour when the nightly tiering job runs.'')]"

text \<open>\<open>digits\<close> is \<open>toLocaleString\<close>.\<close>

definition RetentionPage :: "(nat \<Rightarrow> string) \<Rightarrow> string option \<Rightarrow> UsageStat option \<Rightarrow> unit view" where
  "RetentionPage digits selectedProjectId usage =
     (if \<not> truthy selectedProjectId then Text ''Select a project in the header to view retention settings.''
      else Box ([Text ''Data Retention'',
                 Text ''BatAudit automatically tiers old data to keep storage costs low without losing history.'', Text ''Storage Usage'']
                @ map (\<lambda>(label, n). Box [Text label, Text (digits n), Text ''rows'']) (usage_items usage)
                @ [Text (''Total rows: '' @ digits (totalRows usage)), Text ''Tiering Policy'',
                   Text ''Configured via environment variables on the Worker service.'']
                @ map (\<lambda>(env, def, label, unit, description).
                         Box [Text label, Text description, Text (env @ ''='' @ def), Text (''default: '' @ def @ '' '' @ unit)]) tiering_policy
                @ [Text (''Daily summaries are kept indefinitely '' @ em_dash
                         @ '' you always retain statistical history even after raw data is tiered.'')]))"

definition settings_beforeLoad :: "int \<Rightarrow> browser \<Rightarrow> (string + unit) \<times> browser" where
  "settings_beforeLoad now w =
     (let (ok, m) = isAuthenticated now (b_store w); w1 = w\<lparr>b_store := m\<rparr>
      in if \<not> ok then (Inl ''/login'', w1) else (Inr (), w1))"

section \<open>Facts\<close>

lemma settings_guard: "settings_beforeLoad now w = layout_beforeLoad now w"
  by (simp add: settings_beforeLoad_def layout_beforeLoad_def)

lemma usage_sum: "totalRows usage = sum_list (map snd (usage_items usage))"
  by (simp add: totalRows_def usage_items_def Let_def)

text \<open>The order of the cards is the stable sort by activity.\<close>

lemma shown_profiles_sort:
  "shown_profiles parse_date now tokens = sort_key (\<lambda>t. if getStatus parse_date now t = ''active'' then 0 else (1::nat)) tokens"
proof (induction tokens)
  case (Cons t ts)
  let ?k = "\<lambda>t. if getStatus parse_date now t = ''active'' then 0 else (1::nat)"
  have act: "insort_key ?k t zs = t # zs" if "?k t = 0" for zs
    using that by (cases zs) auto
  have idle: "insort_key ?k t (xs @ ys) = xs @ t # ys"
    if "?k t = 1" "\<forall>x \<in> set xs. ?k x = 0" "\<forall>y \<in> set ys. ?k y = 1" for xs ys
    using that
  proof (induction xs)
    case Nil
    then show ?case by (cases ys) auto
  qed auto
  show ?case
  proof (cases "getStatus parse_date now t = ''active''")
    case True
    then show ?thesis using Cons act by (simp add: shown_profiles_def active_profiles_def)
  next
    case False
    then show ?thesis
      using Cons idle [of "active_profiles parse_date now ts" "filter (\<lambda>t. getStatus parse_date now t \<noteq> ''active'') ts"]
      by (simp add: shown_profiles_def active_profiles_def)
  qed
qed (simp add: shown_profiles_def active_profiles_def)

text \<open>A profile disappears from the page without being revoked: \<open>Revoke\<close> takes the card away after any answer but a 401,
  whatever its status; only a 401 or a failed request keeps it.\<close>

lemma revoke_ignores_status:
  "fst (handleRevoke srv base i w) \<longleftrightarrow>
    (case srv (b_sent w) (auth_req (base @ ''/v1/wallboard/token?id='' @ encodeURIComponent i) (method_init ''DELETE'') w) of
       Inl _ \<Rightarrow> False | Inr res \<Rightarrow> res_status res \<noteq> 401)"
  by (auto simp: handleRevoke_def revokeWbCode_def io_bind_def fetchWithAuth_def js_fetch_def io_return_def Let_def split: sum.split)

text \<open>Answers that come out of order leave the profiles of another project on the page, and a failure reported once
  stays after later loads.\<close>

lemma stale_profiles:
  "let s = run profiles_step (profiles_init (Some ''a'')) [SelectProject (Some ''b''), Loaded tb, Loaded ta]
   in pf_project s = Some ''b'' \<and> pf_tokens s = ta \<and> \<not> pf_loading s"
  by (simp add: profiles_init_def load_start_def load_done_def Let_def)

lemma load_error_stays:
  "pf_error (run profiles_step (profiles_init p) [LoadFailed, SelectProject q, Loaded ts]) = ''Failed to load profiles''"
  by (simp add: profiles_init_def load_start_def load_done_def Let_def)

text \<open>Enter is not disabled with the button: pressed twice it creates two profiles.\<close>

lemma enter_creates_twice:
  "js_trim n \<noteq> [] \<Longrightarrow>
   pf_creations (run profiles_step (profiles_init p) [TypeProfile n, CreateProfile, CreateProfile]) = [(p, js_trim n), (p, js_trim n)]"
  by (simp add: profiles_init_def create_profile_def)

end
