(* ===== verification/Routes.thy ===== *)
theory Routes
  imports Nav Settings_Tv Pages
begin

text \<open>
  The route table (\<open>routeTree.gen.ts\<close>), the shell of the application (\<open>routes/__root.tsx\<close>, \<open>routes/app/_layout.tsx\<close>) and its
  start (\<open>main.tsx\<close>). A route is a constructor with the options its \<open>update\<close> call gives it; the declared tables, types that the
  router's \<open>Link\<close> and \<open>navigate\<close> are checked against, are lists. The router itself is the parameters \<open>match\<close> (the routes, root
  first, that a path leads to) and \<open>load\<close> (what running their \<open>beforeLoad\<close> gives).
\<close>

section \<open>Routes and their options\<close>

datatype route =
    RootRoute | AppRoute | TvRoute | LoginRoute | InviteTokenRoute | AppLayoutRoute | AppLayoutIndexRoute | AppLayoutStudioRoute
  | AppLayoutSettingsRoute | AppLayoutSessionsRoute | AppLayoutQueryRoute | AppLayoutInsightsRoute | AppLayoutAnomaliesRoute
  | AppLayoutSettingsWallboardRoute | AppLayoutSettingsUsersRoute | AppLayoutSettingsRetentionRoute
  | AppLayoutSettingsNotificationsRoute | AppLayoutSettingsMembersRoute | AppLayoutSettingsHealthcheckRoute
  | AppLayoutSettingsApiKeysRoute

record route_opts =
  ro_id :: string
  ro_path :: "string option"
  ro_parent :: route

fun route_options :: "route \<Rightarrow> route_opts option" where
  "route_options RootRoute = None"
| "route_options AppRoute = Some \<lparr>ro_id = ''/app'', ro_path = Some ''/app'', ro_parent = RootRoute\<rparr>"
| "route_options TvRoute = Some \<lparr>ro_id = ''/tv'', ro_path = Some ''/tv'', ro_parent = RootRoute\<rparr>"
| "route_options LoginRoute = Some \<lparr>ro_id = ''/login'', ro_path = Some ''/login'', ro_parent = RootRoute\<rparr>"
| "route_options InviteTokenRoute = Some \<lparr>ro_id = ''/invite/$token'', ro_path = Some ''/invite/$token'', ro_parent = RootRoute\<rparr>"
| "route_options AppLayoutRoute = Some \<lparr>ro_id = ''/_layout'', ro_path = None, ro_parent = AppRoute\<rparr>"
| "route_options AppLayoutIndexRoute = Some \<lparr>ro_id = ''/'', ro_path = Some ''/'', ro_parent = AppLayoutRoute\<rparr>"
| "route_options AppLayoutStudioRoute = Some \<lparr>ro_id = ''/studio'', ro_path = Some ''/studio'', ro_parent = AppLayoutRoute\<rparr>"
| "route_options AppLayoutSettingsRoute = Some \<lparr>ro_id = ''/settings'', ro_path = Some ''/settings'', ro_parent = AppLayoutRoute\<rparr>"
| "route_options AppLayoutSessionsRoute = Some \<lparr>ro_id = ''/sessions'', ro_path = Some ''/sessions'', ro_parent = AppLayoutRoute\<rparr>"
| "route_options AppLayoutQueryRoute = Some \<lparr>ro_id = ''/query'', ro_path = Some ''/query'', ro_parent = AppLayoutRoute\<rparr>"
| "route_options AppLayoutInsightsRoute = Some \<lparr>ro_id = ''/insights'', ro_path = Some ''/insights'', ro_parent = AppLayoutRoute\<rparr>"
| "route_options AppLayoutAnomaliesRoute = Some \<lparr>ro_id = ''/anomalies'', ro_path = Some ''/anomalies'', ro_parent = AppLayoutRoute\<rparr>"
| "route_options AppLayoutSettingsWallboardRoute = Some \<lparr>ro_id = ''/wallboard'', ro_path = Some ''/wallboard'', ro_parent = AppLayoutSettingsRoute\<rparr>"
| "route_options AppLayoutSettingsUsersRoute = Some \<lparr>ro_id = ''/users'', ro_path = Some ''/users'', ro_parent = AppLayoutSettingsRoute\<rparr>"
| "route_options AppLayoutSettingsRetentionRoute = Some \<lparr>ro_id = ''/retention'', ro_path = Some ''/retention'', ro_parent = AppLayoutSettingsRoute\<rparr>"
| "route_options AppLayoutSettingsNotificationsRoute = Some \<lparr>ro_id = ''/notifications'', ro_path = Some ''/notifications'', ro_parent = AppLayoutSettingsRoute\<rparr>"
| "route_options AppLayoutSettingsMembersRoute = Some \<lparr>ro_id = ''/members'', ro_path = Some ''/members'', ro_parent = AppLayoutSettingsRoute\<rparr>"
| "route_options AppLayoutSettingsHealthcheckRoute = Some \<lparr>ro_id = ''/healthcheck'', ro_path = Some ''/healthcheck'', ro_parent = AppLayoutSettingsRoute\<rparr>"
| "route_options AppLayoutSettingsApiKeysRoute = Some \<lparr>ro_id = ''/api-keys'', ro_path = Some ''/api-keys'', ro_parent = AppLayoutSettingsRoute\<rparr>"

section \<open>The declared tables\<close>

definition FileRoutesByFullPath :: "(string \<times> route) list" where
  "FileRoutesByFullPath =
     [(''/login'', LoginRoute), (''/tv'', TvRoute), (''/app'', AppLayoutRoute), (''/invite/$token'', InviteTokenRoute),
      (''/app/anomalies'', AppLayoutAnomaliesRoute), (''/app/insights'', AppLayoutInsightsRoute),
      (''/app/query'', AppLayoutQueryRoute), (''/app/sessions'', AppLayoutSessionsRoute),
      (''/app/settings'', AppLayoutSettingsRoute), (''/app/studio'', AppLayoutStudioRoute),
      (''/app/'', AppLayoutIndexRoute), (''/app/settings/api-keys'', AppLayoutSettingsApiKeysRoute),
      (''/app/settings/healthcheck'', AppLayoutSettingsHealthcheckRoute),
      (''/app/settings/members'', AppLayoutSettingsMembersRoute),
      (''/app/settings/notifications'', AppLayoutSettingsNotificationsRoute),
      (''/app/settings/retention'', AppLayoutSettingsRetentionRoute),
      (''/app/settings/users'', AppLayoutSettingsUsersRoute), (''/app/settings/wallboard'', AppLayoutSettingsWallboardRoute)]"

definition FileRoutesByTo :: "(string \<times> route) list" where
  "FileRoutesByTo =
     [(''/login'', LoginRoute), (''/tv'', TvRoute), (''/app'', AppLayoutIndexRoute), (''/invite/$token'', InviteTokenRoute),
      (''/app/anomalies'', AppLayoutAnomaliesRoute), (''/app/insights'', AppLayoutInsightsRoute),
      (''/app/query'', AppLayoutQueryRoute), (''/app/sessions'', AppLayoutSessionsRoute),
      (''/app/settings'', AppLayoutSettingsRoute), (''/app/studio'', AppLayoutStudioRoute),
      (''/app/settings/api-keys'', AppLayoutSettingsApiKeysRoute),
      (''/app/settings/healthcheck'', AppLayoutSettingsHealthcheckRoute),
      (''/app/settings/members'', AppLayoutSettingsMembersRoute),
      (''/app/settings/notifications'', AppLayoutSettingsNotificationsRoute),
      (''/app/settings/retention'', AppLayoutSettingsRetentionRoute),
      (''/app/settings/users'', AppLayoutSettingsUsersRoute), (''/app/settings/wallboard'', AppLayoutSettingsWallboardRoute)]"

definition FileRoutesById :: "(string \<times> route) list" where
  "FileRoutesById =
     [(''__root__'', RootRoute), (''/login'', LoginRoute), (''/tv'', TvRoute), (''/app'', AppRoute),
      (''/app/_layout'', AppLayoutRoute), (''/invite/$token'', InviteTokenRoute),
      (''/app/_layout/anomalies'', AppLayoutAnomaliesRoute), (''/app/_layout/insights'', AppLayoutInsightsRoute),
      (''/app/_layout/query'', AppLayoutQueryRoute), (''/app/_layout/sessions'', AppLayoutSessionsRoute),
      (''/app/_layout/settings'', AppLayoutSettingsRoute), (''/app/_layout/studio'', AppLayoutStudioRoute),
      (''/app/_layout/'', AppLayoutIndexRoute), (''/app/_layout/settings/api-keys'', AppLayoutSettingsApiKeysRoute),
      (''/app/_layout/settings/healthcheck'', AppLayoutSettingsHealthcheckRoute),
      (''/app/_layout/settings/members'', AppLayoutSettingsMembersRoute),
      (''/app/_layout/settings/notifications'', AppLayoutSettingsNotificationsRoute),
      (''/app/_layout/settings/retention'', AppLayoutSettingsRetentionRoute),
      (''/app/_layout/settings/users'', AppLayoutSettingsUsersRoute),
      (''/app/_layout/settings/wallboard'', AppLayoutSettingsWallboardRoute)]"

definition FileRouteTypes_fullPaths :: "string list" where
  "FileRouteTypes_fullPaths =
     [''/login'', ''/tv'', ''/app'', ''/invite/$token'', ''/app/anomalies'', ''/app/insights'', ''/app/query'',
      ''/app/sessions'', ''/app/settings'', ''/app/studio'', ''/app/'', ''/app/settings/api-keys'',
      ''/app/settings/healthcheck'', ''/app/settings/members'', ''/app/settings/notifications'',
      ''/app/settings/retention'', ''/app/settings/users'', ''/app/settings/wallboard'']"

definition FileRouteTypes_to :: "string list" where
  "FileRouteTypes_to =
     [''/login'', ''/tv'', ''/app'', ''/invite/$token'', ''/app/anomalies'', ''/app/insights'', ''/app/query'',
      ''/app/sessions'', ''/app/settings'', ''/app/studio'', ''/app/settings/api-keys'', ''/app/settings/healthcheck'',
      ''/app/settings/members'', ''/app/settings/notifications'', ''/app/settings/retention'', ''/app/settings/users'',
      ''/app/settings/wallboard'']"

definition FileRouteTypes_id :: "string list" where
  "FileRouteTypes_id =
     [''__root__'', ''/login'', ''/tv'', ''/app'', ''/app/_layout'', ''/invite/$token'', ''/app/_layout/anomalies'',
      ''/app/_layout/insights'', ''/app/_layout/query'', ''/app/_layout/sessions'', ''/app/_layout/settings'',
      ''/app/_layout/studio'', ''/app/_layout/'', ''/app/_layout/settings/api-keys'', ''/app/_layout/settings/healthcheck'',
      ''/app/_layout/settings/members'', ''/app/_layout/settings/notifications'', ''/app/_layout/settings/retention'',
      ''/app/_layout/settings/users'', ''/app/_layout/settings/wallboard'']"

record file_route =
  fr_id :: string
  fr_path :: string
  fr_fullPath :: string
  fr_preLoader :: route
  fr_parent :: route

definition FileRoutesByPath :: "(string \<times> file_route) list" where
  "FileRoutesByPath =
     [(''/app'', \<lparr>fr_id = ''/app'', fr_path = ''/app'', fr_fullPath = ''/app'',
          fr_preLoader = AppRoute, fr_parent = RootRoute\<rparr>),
      (''/tv'', \<lparr>fr_id = ''/tv'', fr_path = ''/tv'', fr_fullPath = ''/tv'',
          fr_preLoader = TvRoute, fr_parent = RootRoute\<rparr>),
      (''/login'', \<lparr>fr_id = ''/login'', fr_path = ''/login'', fr_fullPath = ''/login'',
          fr_preLoader = LoginRoute, fr_parent = RootRoute\<rparr>),
      (''/invite/$token'', \<lparr>fr_id = ''/invite/$token'', fr_path = ''/invite/$token'', fr_fullPath = ''/invite/$token'',
          fr_preLoader = InviteTokenRoute, fr_parent = RootRoute\<rparr>),
      (''/app/_layout'', \<lparr>fr_id = ''/app/_layout'', fr_path = ''/app'', fr_fullPath = ''/app'',
          fr_preLoader = AppLayoutRoute, fr_parent = AppRoute\<rparr>),
      (''/app/_layout/'', \<lparr>fr_id = ''/app/_layout/'', fr_path = ''/'', fr_fullPath = ''/app/'',
          fr_preLoader = AppLayoutIndexRoute, fr_parent = AppLayoutRoute\<rparr>),
      (''/app/_layout/studio'', \<lparr>fr_id = ''/app/_layout/studio'', fr_path = ''/studio'', fr_fullPath = ''/app/studio'',
          fr_preLoader = AppLayoutStudioRoute, fr_parent = AppLayoutRoute\<rparr>),
      (''/app/_layout/settings'', \<lparr>fr_id = ''/app/_layout/settings'', fr_path = ''/settings'', fr_fullPath = ''/app/settings'',
          fr_preLoader = AppLayoutSettingsRoute, fr_parent = AppLayoutRoute\<rparr>),
      (''/app/_layout/sessions'', \<lparr>fr_id = ''/app/_layout/sessions'', fr_path = ''/sessions'', fr_fullPath = ''/app/sessions'',
          fr_preLoader = AppLayoutSessionsRoute, fr_parent = AppLayoutRoute\<rparr>),
      (''/app/_layout/query'', \<lparr>fr_id = ''/app/_layout/query'', fr_path = ''/query'', fr_fullPath = ''/app/query'',
          fr_preLoader = AppLayoutQueryRoute, fr_parent = AppLayoutRoute\<rparr>),
      (''/app/_layout/insights'', \<lparr>fr_id = ''/app/_layout/insights'', fr_path = ''/insights'', fr_fullPath = ''/app/insights'',
          fr_preLoader = AppLayoutInsightsRoute, fr_parent = AppLayoutRoute\<rparr>),
      (''/app/_layout/anomalies'', \<lparr>fr_id = ''/app/_layout/anomalies'', fr_path = ''/anomalies'', fr_fullPath = ''/app/anomalies'',
          fr_preLoader = AppLayoutAnomaliesRoute, fr_parent = AppLayoutRoute\<rparr>),
      (''/app/_layout/settings/wallboard'', \<lparr>fr_id = ''/app/_layout/settings/wallboard'', fr_path = ''/wallboard'', fr_fullPath = ''/app/settings/wallboard'',
          fr_preLoader = AppLayoutSettingsWallboardRoute, fr_parent = AppLayoutSettingsRoute\<rparr>),
      (''/app/_layout/settings/users'', \<lparr>fr_id = ''/app/_layout/settings/users'', fr_path = ''/users'', fr_fullPath = ''/app/settings/users'',
          fr_preLoader = AppLayoutSettingsUsersRoute, fr_parent = AppLayoutSettingsRoute\<rparr>),
      (''/app/_layout/settings/retention'', \<lparr>fr_id = ''/app/_layout/settings/retention'', fr_path = ''/retention'', fr_fullPath = ''/app/settings/retention'',
          fr_preLoader = AppLayoutSettingsRetentionRoute, fr_parent = AppLayoutSettingsRoute\<rparr>),
      (''/app/_layout/settings/notifications'', \<lparr>fr_id = ''/app/_layout/settings/notifications'', fr_path = ''/notifications'', fr_fullPath = ''/app/settings/notifications'',
          fr_preLoader = AppLayoutSettingsNotificationsRoute, fr_parent = AppLayoutSettingsRoute\<rparr>),
      (''/app/_layout/settings/members'', \<lparr>fr_id = ''/app/_layout/settings/members'', fr_path = ''/members'', fr_fullPath = ''/app/settings/members'',
          fr_preLoader = AppLayoutSettingsMembersRoute, fr_parent = AppLayoutSettingsRoute\<rparr>),
      (''/app/_layout/settings/healthcheck'', \<lparr>fr_id = ''/app/_layout/settings/healthcheck'', fr_path = ''/healthcheck'', fr_fullPath = ''/app/settings/healthcheck'',
          fr_preLoader = AppLayoutSettingsHealthcheckRoute, fr_parent = AppLayoutSettingsRoute\<rparr>),
      (''/app/_layout/settings/api-keys'', \<lparr>fr_id = ''/app/_layout/settings/api-keys'', fr_path = ''/api-keys'', fr_fullPath = ''/app/settings/api-keys'',
          fr_preLoader = AppLayoutSettingsApiKeysRoute, fr_parent = AppLayoutSettingsRoute\<rparr>)]"

section \<open>The tree\<close>

datatype route_tree = RouteNode route "route_tree list"

definition AppLayoutSettingsRouteChildren :: "route_tree list" where
  "AppLayoutSettingsRouteChildren =
     [RouteNode AppLayoutSettingsApiKeysRoute [], RouteNode AppLayoutSettingsHealthcheckRoute [],
      RouteNode AppLayoutSettingsMembersRoute [], RouteNode AppLayoutSettingsNotificationsRoute [],
      RouteNode AppLayoutSettingsRetentionRoute [], RouteNode AppLayoutSettingsUsersRoute [],
      RouteNode AppLayoutSettingsWallboardRoute []]"

definition AppLayoutSettingsRouteWithChildren :: route_tree where
  "AppLayoutSettingsRouteWithChildren = RouteNode AppLayoutSettingsRoute AppLayoutSettingsRouteChildren"

definition AppLayoutRouteChildren :: "route_tree list" where
  "AppLayoutRouteChildren =
     [RouteNode AppLayoutAnomaliesRoute [], RouteNode AppLayoutInsightsRoute [], RouteNode AppLayoutQueryRoute [],
      RouteNode AppLayoutSessionsRoute [], AppLayoutSettingsRouteWithChildren, RouteNode AppLayoutStudioRoute [],
      RouteNode AppLayoutIndexRoute []]"

definition AppLayoutRouteWithChildren :: route_tree where
  "AppLayoutRouteWithChildren = RouteNode AppLayoutRoute AppLayoutRouteChildren"

definition AppRouteChildren :: "route_tree list" where
  "AppRouteChildren = [AppLayoutRouteWithChildren]"

definition AppRouteWithChildren :: route_tree where
  "AppRouteWithChildren = RouteNode AppRoute AppRouteChildren"

definition rootRouteChildren :: "route_tree list" where
  "rootRouteChildren =
     [RouteNode LoginRoute [], RouteNode TvRoute [], AppRouteWithChildren, RouteNode InviteTokenRoute []]"

definition routeTree :: route_tree where
  "routeTree = RouteNode RootRoute rootRouteChildren"

text \<open>The branches of a tree: for every node the routes from the root to it.\<close>

primrec tree_branches :: "route_tree \<Rightarrow> route list list" where
  "tree_branches (RouteNode r ts) = [r] # map (Cons r) (concat (map tree_branches ts))"

text \<open>The routes above a route by its \<open>getParentRoute\<close>, root first; the fuel is the depth of the table.\<close>

primrec chain :: "nat \<Rightarrow> route \<Rightarrow> route list" where
  "chain 0 r = [r]"
| "chain (Suc n) r = (case route_options r of None \<Rightarrow> [r] | Some opts \<Rightarrow> chain n (ro_parent opts) @ [r])"

definition route_branch :: "route \<Rightarrow> route list" where
  "route_branch r = chain 4 r"

text \<open>A route's full path and identifier: those of its options, from the root down.\<close>

definition full_path :: "route \<Rightarrow> string" where
  "full_path r = concat (map (\<lambda>q. case route_options q of None \<Rightarrow> [] | Some opts \<Rightarrow> nullish (ro_path opts) []) (route_branch r))"

definition full_id :: "route \<Rightarrow> string" where
  "full_id r =
     (if r = RootRoute then ''__root__''
      else concat (map (\<lambda>q. case route_options q of None \<Rightarrow> [] | Some opts \<Rightarrow> ro_id opts) (route_branch r)))"

section \<open>Shell and start\<close>

text \<open>The \<open>beforeLoad\<close> of a route; only the layout and the settings have one.\<close>

definition beforeLoad :: "int \<Rightarrow> route \<Rightarrow> browser \<Rightarrow> (string + unit) \<times> browser" where
  "beforeLoad now r w =
     (if r = AppLayoutRoute then layout_beforeLoad now w
      else if r = AppLayoutSettingsRoute then settings_beforeLoad now w
      else (Inr (), w))"

text \<open>What surrounds a page: the root adds the providers, which show nothing, and the layout the sidebar and the header.\<close>

definition root_component :: "'a view \<Rightarrow> 'a view" where
  "root_component outlet = Box [outlet]"

definition AppLayout :: "'a view \<Rightarrow> 'a view \<Rightarrow> 'a view \<Rightarrow> 'a view" where
  "AppLayout sidebar header outlet = Box [Box [sidebar], Box [Box [header], Box [outlet]]]"

text \<open>\<open>main.tsx\<close>: the theme is set on the document, then the application is rendered unless the root element already has
  content; \<open>None\<close> is a document without the element, on which the code throws.\<close>

definition main_start :: "string option \<Rightarrow> page \<Rightarrow> (js_error + bool) \<times> page" where
  "main_start rootElement p =
     (case rootElement of
        None \<Rightarrow> (Inl TypeError, sync_theme p)
      | Some innerHTML \<Rightarrow> (Inr (innerHTML = []), sync_theme p))"

section \<open>The router\<close>

text \<open>The documented behaviour the application relies on: a path leads to a branch of the tree, the one the declared table
  names for a target of \<open>Link\<close> and \<open>navigate\<close> without parameters, and the \<open>beforeLoad\<close> functions of a branch run from the
  root on until one redirects.\<close>

definition has_param :: "string \<Rightarrow> bool" where
  "has_param p \<longleftrightarrow> CHR ''$'' \<in> set p"

locale router =
  fixes match :: "string \<Rightarrow> route list"
    and load :: "int \<Rightarrow> route list \<Rightarrow> browser \<Rightarrow> (string + unit) \<times> browser"
  assumes match_branch: "match p \<in> set (tree_branches routeTree)"
    and match_to: "(p, r) \<in> set FileRoutesByTo \<Longrightarrow> \<not> has_param p \<Longrightarrow> last (match p) = r"
    and load_Nil: "load now [] w = (Inr (), w)"
    and load_Cons: "load now (r # rs) w =
      (case beforeLoad now r w of (Inl p, w1) \<Rightarrow> (Inl p, w1) | (Inr _, w1) \<Rightarrow> load now rs w1)"

lemma beforeLoad_open [simp]:
  "r \<noteq> AppLayoutRoute \<Longrightarrow> r \<noteq> AppLayoutSettingsRoute \<Longrightarrow> beforeLoad now r w = (Inr (), w)"
  by (simp add: beforeLoad_def)

lemma beforeLoad_guard:
  "beforeLoad now AppLayoutRoute w = layout_beforeLoad now w" "beforeLoad now AppLayoutSettingsRoute w = layout_beforeLoad now w"
  by (simp_all add: beforeLoad_def settings_guard)

lemma guard_then:
  assumes "\<And>w1. k w1 = layout_beforeLoad now w1 \<or> k w1 = (Inr (), w1)"
  shows "(case layout_beforeLoad now w of (Inl p, w1) \<Rightarrow> (Inl p, w1) | (Inr _, w1) \<Rightarrow> k w1) = layout_beforeLoad now w"
  using assms [of w] by (auto simp: layout_beforeLoad_def isAuthenticated_def Let_def)

lemmas tree_defs = routeTree_def rootRouteChildren_def AppRouteWithChildren_def AppRouteChildren_def
  AppLayoutRouteWithChildren_def AppLayoutRouteChildren_def AppLayoutSettingsRouteWithChildren_def AppLayoutSettingsRouteChildren_def

lemma routeTree_branches: "set (tree_branches routeTree) = range route_branch"
proof -
  have "tree_branches routeTree = map (route_branch \<circ> last) (tree_branches routeTree)" by (simp add: tree_defs route_branch_def eval_nat_numeral)
  moreover have "r \<in> set (map last (tree_branches routeTree))" for r by (cases r) (simp_all add: tree_defs)
  ultimately show ?thesis by (metis (no_types, lifting) list.map_comp list.set_map subsetI subset_antisym UNIV_I image_mono top_greatest)
qed

lemma last_route_branch [simp]: "last (route_branch r) = r"
  by (cases r) (simp_all add: route_branch_def eval_nat_numeral)

definition guarded :: "route \<Rightarrow> bool" where
  "guarded r \<longleftrightarrow> startsWith (full_path r) ''/app'' \<and> r \<noteq> AppRoute"

lemma guarded_branch: "guarded r \<longleftrightarrow> AppLayoutRoute \<in> set (route_branch r)"
  by (cases r) (simp_all add: guarded_def full_path_def route_branch_def eval_nat_numeral startsWith_def)

lemma guarded_shape:
  assumes "guarded r"
  obtains rs where "route_branch r = RootRoute # AppRoute # AppLayoutRoute # rs"
    "(\<forall>q \<in> set rs. q \<noteq> AppLayoutRoute \<and> q \<noteq> AppLayoutSettingsRoute)
     \<or> (\<exists>rs'. rs = AppLayoutSettingsRoute # rs' \<and> (\<forall>q \<in> set rs'. q \<noteq> AppLayoutRoute \<and> q \<noteq> AppLayoutSettingsRoute))"
  using assms by (cases r) (simp_all add: guarded_branch route_branch_def eval_nat_numeral)

context router
begin

lemma load_unguarded: "\<not> guarded r \<Longrightarrow> load now (route_branch r) w = (Inr (), w)"
  by (cases r) (simp_all add: guarded_branch route_branch_def eval_nat_numeral load_Nil load_Cons)

lemma load_open: "\<forall>r \<in> set rs. r \<noteq> AppLayoutRoute \<and> r \<noteq> AppLayoutSettingsRoute \<Longrightarrow> load now rs w = (Inr (), w)"
  by (induction rs) (simp_all add: load_Nil load_Cons)

lemma load_guarded:
  assumes "guarded r"
  shows "load now (route_branch r) w = layout_beforeLoad now w"
proof -
  obtain rs where br: "route_branch r = RootRoute # AppRoute # AppLayoutRoute # rs"
    and rs: "(\<forall>q \<in> set rs. q \<noteq> AppLayoutRoute \<and> q \<noteq> AppLayoutSettingsRoute)
       \<or> (\<exists>rs'. rs = AppLayoutSettingsRoute # rs' \<and> (\<forall>q \<in> set rs'. q \<noteq> AppLayoutRoute \<and> q \<noteq> AppLayoutSettingsRoute))"
    using guarded_shape [OF assms] by blast
  from rs have "load now rs w1 = layout_beforeLoad now w1 \<or> load now rs w1 = (Inr (), w1)" for w1
  proof
    assume "\<exists>rs'. rs = AppLayoutSettingsRoute # rs' \<and> (\<forall>q \<in> set rs'. q \<noteq> AppLayoutRoute \<and> q \<noteq> AppLayoutSettingsRoute)"
    then obtain rs' where "rs = AppLayoutSettingsRoute # rs'" "load now rs' w2 = (Inr (), w2)" for w2 using load_open by blast
    then show ?thesis by (simp add: load_Cons beforeLoad_guard guard_then)
  qed (simp add: load_open)
  then show ?thesis by (simp add: br load_Cons beforeLoad_guard guard_then)
qed

lemma load_visit:
  "load now (match p) w = (if guarded (last (match p)) then layout_beforeLoad now w else (Inr (), w))"
proof -
  obtain r where "match p = route_branch r" using match_branch [of p] by (auto simp: routeTree_branches)
  then show ?thesis by (simp add: load_guarded load_unguarded)
qed

lemma login_open: "load now (match ''/login'') w = (Inr (), w)"
proof -
  have "last (match ''/login'') = LoginRoute" by (rule match_to) (simp_all add: FileRoutesByTo_def has_param_def)
  then show ?thesis by (simp add: load_visit guarded_branch route_branch_def eval_nat_numeral)
qed

end

text \<open>A router that reads the declared tables, for paths without parameters.\<close>

definition table_match :: "string \<Rightarrow> route list" where
  "table_match p = (case map_of FileRoutesByTo p of None \<Rightarrow> [RootRoute] | Some r \<Rightarrow> route_branch r)"

primrec run_guards :: "int \<Rightarrow> route list \<Rightarrow> browser \<Rightarrow> (string + unit) \<times> browser" where
  "run_guards now [] w = (Inr (), w)"
| "run_guards now (r # rs) w = (case beforeLoad now r w of (Inl p, w1) \<Rightarrow> (Inl p, w1) | (Inr _, w1) \<Rightarrow> run_guards now rs w1)"

lemma to_distinct: "distinct (map fst FileRoutesByTo)"
  by (simp add: FileRoutesByTo_def)

interpretation table_router: router table_match run_guards
proof
  show "table_match p \<in> set (tree_branches routeTree)" for p
  proof -
    have "[RootRoute] = route_branch RootRoute" by (simp add: route_branch_def eval_nat_numeral)
    then show ?thesis by (auto simp: table_match_def routeTree_branches split: option.split)
  qed
  show "(p, r) \<in> set FileRoutesByTo \<Longrightarrow> \<not> has_param p \<Longrightarrow> last (table_match p) = r" for p r
    using map_of_is_SomeI [OF to_distinct] by (simp add: table_match_def)
qed simp_all

section \<open>Properties\<close>

text \<open>C12. The application is closed to visitors without a session: whatever path is visited, loading a page under
  \<open>/app\<close> lets the visitor in exactly when the stored token is valid, and otherwise redirects to \<open>/login\<close>, dropping an expired
  session; every other page, the one redirected to included, loads for everyone and leaves the browser as it is.\<close>

theorem pages_guarded:
  assumes "router match load"
  shows "load now (match p) w =
      (if startsWith (full_path (last (match p))) ''/app'' \<and> last (match p) \<noteq> AppRoute
       then (if fst (isAuthenticated now (b_store w)) then (Inr (), w)
             else (Inl ''/login'', w\<lparr>b_store := snd (isAuthenticated now (b_store w))\<rparr>))
       else (Inr (), w))
    \<and> load now (match ''/login'') w = (Inr (), w)"
proof -
  have "layout_beforeLoad now w =
      (if fst (isAuthenticated now (b_store w)) then (Inr (), w)
       else (Inl ''/login'', w\<lparr>b_store := snd (isAuthenticated now (b_store w))\<rparr>))"
    by (auto simp: layout_beforeLoad_def isAuthenticated_def Let_def)
  then show ?thesis
    using router.load_visit [OF assms, of now p w] router.login_open [OF assms, of now w] by (simp add: guarded_def)
qed

theorem pages_guarded_witness:
  "run_guards 0 (table_match ''/app/settings/members'') \<lparr>b_store = Map.empty, b_href = None, b_sent = []\<rparr> =
     (Inl ''/login'', \<lparr>b_store = Map.empty, b_href = None, b_sent = []\<rparr>)"
proof -
  have "table_match ''/app/settings/members'' = route_branch AppLayoutSettingsMembersRoute"
    by (simp add: table_match_def FileRoutesByTo_def)
  then show ?thesis
    using pages_guarded [OF table_router.router_axioms, of 0 "''/app/settings/members''" "\<lparr>b_store = Map.empty, b_href = None, b_sent = []\<rparr>"]
    by (simp add: full_path_def route_branch_def eval_nat_numeral startsWith_def isAuthenticated_def getToken_def getItem_def)
qed

text \<open>The declared route tables are the tree's: the full path and the identifier of every entry are the concatenated
  options of its route and the routes above it, the unions of the type list the keys of the tables in order, every route has
  exactly one identifier, the parents declared are those of \<open>getParentRoute\<close>, and the branches of the tree are the chains
  of parents.\<close>

lemma route_tables:
  "map (full_path \<circ> snd) FileRoutesByFullPath = map fst FileRoutesByFullPath
   \<and> map (full_id \<circ> snd) FileRoutesById = map fst FileRoutesById
   \<and> FileRouteTypes_fullPaths = map fst FileRoutesByFullPath
   \<and> FileRouteTypes_to = map fst FileRoutesByTo
   \<and> FileRouteTypes_id = map fst FileRoutesById
   \<and> distinct FileRouteTypes_fullPaths \<and> distinct FileRouteTypes_to \<and> distinct FileRouteTypes_id
   \<and> set (map snd FileRoutesById) = UNIV \<and> distinct (map snd FileRoutesById)
   \<and> list_all (\<lambda>(i, e). fr_id e = i \<and> full_id (fr_preLoader e) = i \<and> fr_fullPath e = full_path (fr_preLoader e)
        \<and> map_option ro_parent (route_options (fr_preLoader e)) = Some (fr_parent e)) FileRoutesByPath
   \<and> set (map (fr_preLoader \<circ> snd) FileRoutesByPath) = UNIV - {RootRoute}
   \<and> set (tree_branches routeTree) = range route_branch"
proof (intro conjI)
  show "set (map snd FileRoutesById) = UNIV"
  proof -
    have "r \<in> set (map snd FileRoutesById)" for r by (cases r) (simp_all add: FileRoutesById_def)
    then show ?thesis by blast
  qed
  show "set (map (fr_preLoader \<circ> snd) FileRoutesByPath) = UNIV - {RootRoute}"
  proof -
    have "r \<in> set (map (fr_preLoader \<circ> snd) FileRoutesByPath) \<longleftrightarrow> r \<noteq> RootRoute" for r
      by (cases r) (simp_all add: FileRoutesByPath_def)
    then show ?thesis by blast
  qed
  show "set (tree_branches routeTree) = range route_branch" by (rule routeTree_branches)
qed (code_simp+)

lemma settings_nav_links: "links (SettingsNav r) = settings_links (if r = Some (JStr ''owner'') then Owner else if r = Some (JStr ''admin'') then Admin else Viewer)"
  by (simp add: settings_links_def SettingsNav_def NavItem_def SectionLabel_def Let_def)

lemma sidebar_links: "set (links (Sidebar pathname m)) \<subseteq> set FileRouteTypes_to \<inter> {t. startsWith t ''/app''}"
proof -
  have "list_all (\<lambda>t. t \<in> set FileRouteTypes_to \<and> startsWith t ''/app'') (settings_links r)" for r
    by (cases r) (simp_all add: settings_links_eq less_eq_role_def FileRouteTypes_to_def startsWith_def)
  moreover have "list_all (\<lambda>t. t \<in> set FileRouteTypes_to \<and> startsWith t ''/app'') (links (MainNav :: 'a view))"
    by (simp add: MainNav_def NavItem_def FileRouteTypes_to_def startsWith_def)
  moreover have "links (Sidebar pathname m :: 'a view) =
      (if startsWith pathname ''/app/settings'' then links (SettingsNav (user_role (getUser m)) :: 'a view) else links (MainNav :: 'a view))"
    by (simp add: Sidebar_def Let_def)
  ultimately show ?thesis by (auto simp: list_all_iff settings_nav_links)
qed

lemma target_without_param: "list_all (\<lambda>t. startsWith t ''/app'' \<or> t = ''/login'' \<longrightarrow> \<not> has_param t) FileRouteTypes_to"
  by code_simp

lemma unauthorized_target: "b_href (snd (fetchWithAuth srv url init w)) \<in> {b_href w, Some ''/login''}"
  by (auto simp: fetchWithAuth_def io_bind_def js_fetch_def Let_def split: sum.split)



text \<open>The start renders exactly when the document has the root element and the element is empty, and always sets the stored theme.\<close>

lemma main_start_renders:
  "fst (main_start el p) = Inr True \<longleftrightarrow> el = Some []"
  "snd (main_start el p) = sync_theme p"
  by (auto simp: main_start_def split: option.split)

end
