(* ===== verification/Ui.thy ===== *)
theory Ui
  imports Nav
begin

text \<open>
  The building blocks of the interface (\<open>components/ui\<close>): functions from the caller's properties to one element. A component's
  own properties come first and the caller's are spread over them, so that the caller's win; only \<open>className\<close> is taken
  out and merged. The class libraries (\<open>clsx\<close>, \<open>tailwind-merge\<close>, \<open>class-variance-authority\<close>) are the parameter \<open>L\<close>; elements
  of the component libraries have the names of their components. The element tree of the pagination bar is shown to be what
  the view of \<open>Nav\<close> says.
\<close>

section \<open>Elements\<close>

datatype 'a attr = PText string | PBool bool | PNum int | PUndefined | PHandler 'a

type_synonym 'a props = "(string \<times> 'a attr) list"

datatype 'a node = Element string "(string \<times> 'a attr) list" "'a node list" | TextNode string

text \<open>\<open>{ ...own, ...props }\<close>: a property of the caller replaces the one of the same name.\<close>

definition spread :: "'a props \<Rightarrow> 'a props \<Rightarrow> 'a props" where
  "spread own props = assoc_spread own props"

text \<open>What \<open>cn\<close> takes: a string, nothing, \<open>false\<close>, or an object from classes to conditions.\<close>

datatype class_value = CStr string | CUndefined | CFalse | CWhen "(string \<times> bool) list"

record variants =
  v_variants :: "(string \<times> (string \<times> string) list) list"
  v_defaults :: "(string \<times> string) list"

record libs =
  twMerge :: "string \<Rightarrow> string"
  clsx :: "class_value list \<Rightarrow> string"
  cva :: "string \<Rightarrow> variants \<Rightarrow> (string \<times> class_value) list \<Rightarrow> string"

definition cn :: "libs \<Rightarrow> class_value list \<Rightarrow> string" where
  "cn L inputs = twMerge L (clsx L inputs)"

section \<open>Button and badge\<close>

definition button_base :: string where
  "button_base = (''inline-flex items-center justify-center gap-2 whitespace-nowrap rounded-md text-sm font-medium transition-all ''
        @ ''disabled:pointer-events-none disabled:opacity-50 [&_svg]:pointer-events-none ''
        @ ''[&_svg:not([class*='size-'])]:size-4 shrink-0 [&_svg]:shrink-0 outline-none focus-visible:border-ring ''
        @ ''focus-visible:ring-ring/50 focus-visible:ring-[3px] aria-invalid:ring-destructive/20 ''
        @ ''dark:aria-invalid:ring-destructive/40 aria-invalid:border-destructive'')"

definition button_variants :: variants where
  "button_variants =
     \<lparr>v_variants =
        [(''variant'',
          [(''default'', ''bg-primary text-primary-foreground shadow-xs hover:bg-primary/90''),
           (''destructive'', (''bg-destructive text-white shadow-xs hover:bg-destructive/90 focus-visible:ring-destructive/20 ''
        @ ''dark:focus-visible:ring-destructive/40 dark:bg-destructive/60'')),
           (''outline'', (''border bg-background shadow-xs hover:bg-accent hover:text-accent-foreground dark:bg-input/30 ''
        @ ''dark:border-input dark:hover:bg-input/50'')),
           (''secondary'', ''bg-secondary text-secondary-foreground shadow-xs hover:bg-secondary/80''),
           (''ghost'', ''hover:bg-accent hover:text-accent-foreground dark:hover:bg-accent/50''),
           (''link'', ''text-primary underline-offset-4 hover:underline'')]),
         (''size'',
          [(''default'', ''h-9 px-4 py-2 has-[>svg]:px-3''),
           (''sm'', ''h-8 rounded-md gap-1.5 px-3 has-[>svg]:px-2.5''),
           (''lg'', ''h-10 rounded-md px-6 has-[>svg]:px-4''),
           (''icon'', ''size-9'')])],
      v_defaults = [(''variant'', ''default''), (''size'', ''default'')]\<rparr>"

definition buttonVariants :: "libs \<Rightarrow> (string \<times> class_value) list \<Rightarrow> string" where
  "buttonVariants L opts = cva L button_base button_variants opts"

definition Ui_Button :: "libs \<Rightarrow> class_value \<Rightarrow> class_value \<Rightarrow> class_value \<Rightarrow> bool \<Rightarrow> 'a props \<Rightarrow> 'a node list \<Rightarrow> 'a node" where
  "Ui_Button L className variant sz asChild props kids =
     Element (if asChild then ''Slot'' else ''button'')
       (spread [(''data-slot'', PText ''button''),
                (''className'', PText (cn L [CStr (buttonVariants L [(''variant'', variant), (''size'', sz), (''className'', className)])]))]
          props) kids"

definition badge_base :: string where
  "badge_base = (''inline-flex items-center justify-center rounded-md border px-2 py-0.5 text-xs font-medium w-fit ''
        @ ''whitespace-nowrap shrink-0 [&>svg]:size-3 gap-1 [&>svg]:pointer-events-none focus-visible:border-ring ''
        @ ''focus-visible:ring-ring/50 focus-visible:ring-[3px] aria-invalid:ring-destructive/20 ''
        @ ''dark:aria-invalid:ring-destructive/40 aria-invalid:border-destructive transition-[color,box-shadow] ''
        @ ''overflow-hidden'')"

definition badge_variants :: variants where
  "badge_variants =
     \<lparr>v_variants =
        [(''variant'',
          [(''default'', ''border-transparent bg-primary text-primary-foreground [a&]:hover:bg-primary/90''),
           (''secondary'', ''border-transparent bg-secondary text-secondary-foreground [a&]:hover:bg-secondary/90''),
           (''destructive'', (''border-transparent bg-destructive text-white [a&]:hover:bg-destructive/90 focus-visible:ring-destructive/20 ''
        @ ''dark:focus-visible:ring-destructive/40 dark:bg-destructive/60'')),
           (''outline'', ''text-foreground [a&]:hover:bg-accent [a&]:hover:text-accent-foreground'')])],
      v_defaults = [(''variant'', ''default'')]\<rparr>"

definition badgeVariants :: "libs \<Rightarrow> (string \<times> class_value) list \<Rightarrow> string" where
  "badgeVariants L opts = cva L badge_base badge_variants opts"

definition Ui_Badge :: "libs \<Rightarrow> class_value \<Rightarrow> class_value \<Rightarrow> bool \<Rightarrow> 'a props \<Rightarrow> 'a node list \<Rightarrow> 'a node" where
  "Ui_Badge L className variant asChild props kids =
     Element (if asChild then ''Slot'' else ''span'')
       (spread [(''data-slot'', PText ''badge''),
                (''className'', PText (cn L [CStr (badgeVariants L [(''variant'', variant)]), className]))] props) kids"

section \<open>Cards, input and separator\<close>

text \<open>An element with a slot name whose class is its own followed by the caller's.\<close>

definition slotted :: "libs \<Rightarrow> string \<Rightarrow> string \<Rightarrow> class_value list \<Rightarrow> class_value \<Rightarrow> 'a props \<Rightarrow> 'a node list \<Rightarrow> 'a node" where
  "slotted L tag slot cls className props kids =
     Element tag (spread [(''data-slot'', PText slot), (''className'', PText (cn L (cls @ [className])))] props) kids"

definition Ui_Card :: "libs \<Rightarrow> class_value \<Rightarrow> 'a props \<Rightarrow> 'a node list \<Rightarrow> 'a node" where
  "Ui_Card L = slotted L ''div'' ''card'' [CStr ''bg-card text-card-foreground flex flex-col gap-6 rounded-xl border py-6 shadow-sm'']"

definition CardHeader :: "libs \<Rightarrow> class_value \<Rightarrow> 'a props \<Rightarrow> 'a node list \<Rightarrow> 'a node" where
  "CardHeader L = slotted L ''div'' ''card-header'' [CStr (''@container/card-header grid auto-rows-min grid-rows-[auto_auto] items-start gap-1.5 px-6 ''
        @ ''has-data-[slot=card-action]:grid-cols-[1fr_auto] [.border-b]:pb-6'')]"

definition CardTitle :: "libs \<Rightarrow> class_value \<Rightarrow> 'a props \<Rightarrow> 'a node list \<Rightarrow> 'a node" where
  "CardTitle L = slotted L ''div'' ''card-title'' [CStr ''leading-none font-semibold'']"

definition CardDescription :: "libs \<Rightarrow> class_value \<Rightarrow> 'a props \<Rightarrow> 'a node list \<Rightarrow> 'a node" where
  "CardDescription L = slotted L ''div'' ''card-description'' [CStr ''text-muted-foreground text-sm'']"

definition CardAction :: "libs \<Rightarrow> class_value \<Rightarrow> 'a props \<Rightarrow> 'a node list \<Rightarrow> 'a node" where
  "CardAction L = slotted L ''div'' ''card-action'' [CStr ''col-start-2 row-span-2 row-start-1 self-start justify-self-end'']"

definition CardContent :: "libs \<Rightarrow> class_value \<Rightarrow> 'a props \<Rightarrow> 'a node list \<Rightarrow> 'a node" where
  "CardContent L = slotted L ''div'' ''card-content'' [CStr ''px-6'']"

definition CardFooter :: "libs \<Rightarrow> class_value \<Rightarrow> 'a props \<Rightarrow> 'a node list \<Rightarrow> 'a node" where
  "CardFooter L = slotted L ''div'' ''card-footer'' [CStr ''flex items-center px-6 [.border-t]:pt-6'']"

definition Ui_Input :: "libs \<Rightarrow> class_value \<Rightarrow> 'a attr \<Rightarrow> 'a props \<Rightarrow> 'a node" where
  "Ui_Input L className type props =
     Element ''input''
       (spread [(''type'', type), (''data-slot'', PText ''input''),
                (''className'', PText (cn L
                   [CStr (''file:text-foreground placeholder:text-muted-foreground selection:bg-primary selection:text-primary-foreground ''
        @ ''dark:bg-input/30 border-input flex h-9 w-full min-w-0 rounded-md border bg-transparent px-3 py-1 text-base ''
        @ ''shadow-xs transition-[color,box-shadow] outline-none file:inline-flex file:h-7 file:border-0 ''
        @ ''file:bg-transparent file:text-sm file:font-medium disabled:pointer-events-none disabled:cursor-not-allowed ''
        @ ''disabled:opacity-50 md:text-sm''),
                    CStr ''focus-visible:border-ring focus-visible:ring-ring/50 focus-visible:ring-[3px]'',
                    CStr ''aria-invalid:ring-destructive/20 dark:aria-invalid:ring-destructive/40 aria-invalid:border-destructive'', className]))] props) []"

definition Separator :: "libs \<Rightarrow> class_value \<Rightarrow> string option \<Rightarrow> bool option \<Rightarrow> 'a props \<Rightarrow> 'a node" where
  "Separator L className orientation decorative props =
     Element ''Separator.Root''
       (spread [(''data-slot'', PText ''separator''), (''decorative'', PBool (nullish decorative True)),
                (''orientation'', PText (nullish orientation ''horizontal'')),
                (''className'', PText (cn L [CStr (''shrink-0 bg-border data-[orientation=horizontal]:h-px data-[orientation=horizontal]:w-full ''
        @ ''data-[orientation=vertical]:h-full data-[orientation=vertical]:w-px''), className]))] props) []"

section \<open>Tabs and popover\<close>

definition Tabs :: "libs \<Rightarrow> class_value \<Rightarrow> string option \<Rightarrow> 'a props \<Rightarrow> 'a node list \<Rightarrow> 'a node" where
  "Tabs L className orientation props kids =
     (let o' = nullish orientation ''horizontal''
      in Element ''Tabs.Root''
           (spread [(''data-slot'', PText ''tabs''), (''data-orientation'', PText o'), (''orientation'', PText o'),
                    (''className'', PText (cn L [CStr ''group/tabs flex gap-2 data-[orientation=horizontal]:flex-col'', className]))] props) kids)"

definition tabs_list_base :: string where
  "tabs_list_base = (''group/tabs-list inline-flex w-fit items-center justify-center rounded-lg p-[3px] text-muted-foreground ''
        @ ''group-data-[orientation=horizontal]/tabs:h-9 group-data-[orientation=vertical]/tabs:h-fit ''
        @ ''group-data-[orientation=vertical]/tabs:flex-col data-[variant=line]:rounded-none'')"

definition tabsListVariants :: "libs \<Rightarrow> (string \<times> class_value) list \<Rightarrow> string" where
  "tabsListVariants L opts =
     cva L tabs_list_base
       \<lparr>v_variants = [(''variant'', [(''default'', ''bg-muted''), (''line'', ''gap-1 bg-transparent'')])],
        v_defaults = [(''variant'', ''default'')]\<rparr> opts"

definition TabsList :: "libs \<Rightarrow> class_value \<Rightarrow> string option \<Rightarrow> 'a props \<Rightarrow> 'a node list \<Rightarrow> 'a node" where
  "TabsList L className variant props kids =
     (let v = nullish variant ''default''
      in Element ''Tabs.List''
           (spread [(''data-slot'', PText ''tabs-list''), (''data-variant'', PText v),
                    (''className'', PText (cn L [CStr (tabsListVariants L [(''variant'', CStr v)]), className]))] props) kids)"

definition TabsTrigger :: "libs \<Rightarrow> class_value \<Rightarrow> 'a props \<Rightarrow> 'a node list \<Rightarrow> 'a node" where
  "TabsTrigger L = slotted L ''Tabs.Trigger'' ''tabs-trigger''
     [CStr ((''relative inline-flex h-[calc(100%-1px)] flex-1 items-center justify-center gap-1.5 rounded-md border ''
        @ ''border-transparent px-2 py-1 text-sm font-medium whitespace-nowrap text-foreground/60 transition-all ''
        @ ''group-data-[orientation=vertical]/tabs:w-full group-data-[orientation=vertical]/tabs:justify-start ''
        @ ''hover:text-foreground focus-visible:border-ring focus-visible:ring-[3px] focus-visible:ring-ring/50 ''
        @ ''focus-visible:outline-1 focus-visible:outline-ring disabled:pointer-events-none disabled:opacity-50 ''
        @ ''group-data-[variant=default]/tabs-list:data-[state=active]:shadow-sm ''
        @ ''group-data-[variant=line]/tabs-list:data-[state=active]:shadow-none dark:text-muted-foreground ''
        @ ''dark:hover:text-foreground [&_svg]:pointer-events-none [&_svg]:shrink-0 [&_svg:not([class*='size-'])]:size-4'')),
      CStr ((''group-data-[variant=line]/tabs-list:bg-transparent ''
        @ ''group-data-[variant=line]/tabs-list:data-[state=active]:bg-transparent ''
        @ ''dark:group-data-[variant=line]/tabs-list:data-[state=active]:border-transparent ''
        @ ''dark:group-data-[variant=line]/tabs-list:data-[state=active]:bg-transparent'')),
      CStr ((''data-[state=active]:bg-background data-[state=active]:text-foreground dark:data-[state=active]:border-input ''
        @ ''dark:data-[state=active]:bg-input/30 dark:data-[state=active]:text-foreground'')),
      CStr ((''after:absolute after:bg-foreground after:opacity-0 after:transition-opacity ''
        @ ''group-data-[orientation=horizontal]/tabs:after:inset-x-0 ''
        @ ''group-data-[orientation=horizontal]/tabs:after:bottom-[-5px] ''
        @ ''group-data-[orientation=horizontal]/tabs:after:h-0.5 group-data-[orientation=vertical]/tabs:after:inset-y-0 ''
        @ ''group-data-[orientation=vertical]/tabs:after:-right-1 group-data-[orientation=vertical]/tabs:after:w-0.5 ''
        @ ''group-data-[variant=line]/tabs-list:data-[state=active]:after:opacity-100''))]"

definition TabsContent :: "libs \<Rightarrow> class_value \<Rightarrow> 'a props \<Rightarrow> 'a node list \<Rightarrow> 'a node" where
  "TabsContent L = slotted L ''Tabs.Content'' ''tabs-content'' [CStr ''flex-1 outline-none'']"

definition Popover :: "'a props \<Rightarrow> 'a node list \<Rightarrow> 'a node" where
  "Popover props kids = Element ''Popover.Root'' (spread [(''data-slot'', PText ''popover'')] props) kids"

definition PopoverTrigger :: "'a props \<Rightarrow> 'a node list \<Rightarrow> 'a node" where
  "PopoverTrigger props kids = Element ''Popover.Trigger'' (spread [(''data-slot'', PText ''popover-trigger'')] props) kids"

definition PopoverContent :: "libs \<Rightarrow> class_value \<Rightarrow> string option \<Rightarrow> int option \<Rightarrow> 'a props \<Rightarrow> 'a node list \<Rightarrow> 'a node" where
  "PopoverContent L className align sideOffset props kids =
     Element ''Popover.Portal'' []
       [Element ''Popover.Content''
          (spread [(''data-slot'', PText ''popover-content''), (''align'', PText (nullish align ''center'')),
                   (''sideOffset'', PNum (nullish sideOffset 4)),
                   (''className'', PText (cn L
                      [CStr ((''z-50 w-72 origin-(--radix-popover-content-transform-origin) rounded-md border bg-popover p-4 ''
        @ ''text-popover-foreground shadow-md outline-hidden data-[side=bottom]:slide-in-from-top-2 ''
        @ ''data-[side=left]:slide-in-from-right-2 data-[side=right]:slide-in-from-left-2 ''
        @ ''data-[side=top]:slide-in-from-bottom-2 data-[state=closed]:animate-out data-[state=closed]:fade-out-0 ''
        @ ''data-[state=closed]:zoom-out-95 data-[state=open]:animate-in data-[state=open]:fade-in-0 ''
        @ ''data-[state=open]:zoom-in-95'')), className]))] props) kids]"

definition PopoverAnchor :: "'a props \<Rightarrow> 'a node list \<Rightarrow> 'a node" where
  "PopoverAnchor props kids = Element ''Popover.Anchor'' (spread [(''data-slot'', PText ''popover-anchor'')] props) kids"

definition PopoverHeader :: "libs \<Rightarrow> class_value \<Rightarrow> 'a props \<Rightarrow> 'a node list \<Rightarrow> 'a node" where
  "PopoverHeader L = slotted L ''div'' ''popover-header'' [CStr ''flex flex-col gap-1 text-sm'']"

definition PopoverTitle :: "libs \<Rightarrow> class_value \<Rightarrow> 'a props \<Rightarrow> 'a node list \<Rightarrow> 'a node" where
  "PopoverTitle L = slotted L ''div'' ''popover-title'' [CStr ''font-medium'']"

definition PopoverDescription :: "libs \<Rightarrow> class_value \<Rightarrow> 'a props \<Rightarrow> 'a node list \<Rightarrow> 'a node" where
  "PopoverDescription L = slotted L ''p'' ''popover-description'' [CStr ''text-muted-foreground'']"

section \<open>Pagination\<close>

definition Pagination :: "libs \<Rightarrow> class_value \<Rightarrow> 'a props \<Rightarrow> 'a node list \<Rightarrow> 'a node" where
  "Pagination L className props kids =
     Element ''nav''
       (spread [(''role'', PText ''navigation''), (''aria-label'', PText ''pagination''), (''data-slot'', PText ''pagination''),
                (''className'', PText (cn L [CStr ''mx-auto flex w-full justify-center'', className]))] props) kids"

definition PaginationContent :: "libs \<Rightarrow> class_value \<Rightarrow> 'a props \<Rightarrow> 'a node list \<Rightarrow> 'a node" where
  "PaginationContent L = slotted L ''ul'' ''pagination-content'' [CStr ''flex flex-row items-center gap-1'']"

definition PaginationItem :: "'a props \<Rightarrow> 'a node list \<Rightarrow> 'a node" where
  "PaginationItem props kids = Element ''li'' (spread [(''data-slot'', PText ''pagination-item'')] props) kids"

definition PaginationLink :: "libs \<Rightarrow> class_value \<Rightarrow> bool option \<Rightarrow> string option \<Rightarrow> 'a props \<Rightarrow> 'a node list \<Rightarrow> 'a node" where
  "PaginationLink L className isActive sz props kids =
     (let active = nullish isActive False
      in Element ''a''
           (spread [(''aria-current'', if active then PText ''page'' else PUndefined), (''data-slot'', PText ''pagination-link''),
                    (''data-active'', case isActive of None \<Rightarrow> PUndefined | Some b \<Rightarrow> PBool b),
                    (''className'', PText (cn L
                       [CStr (buttonVariants L [(''variant'', CStr (if active then ''outline'' else ''ghost'')),
                                                (''size'', CStr (nullish sz ''icon''))]), className]))] props) kids)"

definition PaginationPrevious :: "libs \<Rightarrow> class_value \<Rightarrow> bool option \<Rightarrow> string option \<Rightarrow> 'a props \<Rightarrow> 'a node" where
  "PaginationPrevious L className isActive sz props =
     PaginationLink L (CStr (cn L [CStr ''gap-1 px-2.5 sm:pl-2.5'', className])) isActive (Some (nullish sz ''default''))
       (spread [(''aria-label'', PText ''Go to previous page'')] props)
       [Element ''ChevronLeftIcon'' [] [], Element ''span'' [(''className'', PText ''hidden sm:block'')] [TextNode ''Previous'']]"

definition PaginationNext :: "libs \<Rightarrow> class_value \<Rightarrow> bool option \<Rightarrow> string option \<Rightarrow> 'a props \<Rightarrow> 'a node" where
  "PaginationNext L className isActive sz props =
     PaginationLink L (CStr (cn L [CStr ''gap-1 px-2.5 sm:pr-2.5'', className])) isActive (Some (nullish sz ''default''))
       (spread [(''aria-label'', PText ''Go to next page'')] props)
       [Element ''span'' [(''className'', PText ''hidden sm:block'')] [TextNode ''Next''], Element ''ChevronRightIcon'' [] []]"

definition PaginationEllipsis :: "libs \<Rightarrow> class_value \<Rightarrow> 'a props \<Rightarrow> 'a node" where
  "PaginationEllipsis L className props =
     Element ''span''
       (spread [(''aria-hidden'', PBool True), (''data-slot'', PText ''pagination-ellipsis''),
                (''className'', PText (cn L [CStr ''flex size-9 items-center justify-center'', className]))] props)
       [Element ''MoreHorizontalIcon'' [(''className'', PText ''size-4'')] [],
        Element ''span'' [(''className'', PText ''sr-only'')] [TextNode ''More pages'']]"

text \<open>The element tree of \<open>AppPagination\<close>; a handler is the page it calls \<open>setPage\<close> with.\<close>

definition node_if :: "bool \<Rightarrow> 'a node \<Rightarrow> 'a node list" where
  "node_if c n = (if c then [n] else [])"

definition page_link :: "libs \<Rightarrow> bool option \<Rightarrow> int \<Rightarrow> int node" where
  "page_link L isActive n =
     PaginationItem [] [PaginationLink L CUndefined isActive None [(''href'', PText ''#''), (''onClick'', PHandler n)] [TextNode (show_int n)]]"

definition AppPagination_nodes :: "libs \<Rightarrow> int \<Rightarrow> int \<Rightarrow> int node" where
  "AppPagination_nodes L page totalPages =
     Pagination L CUndefined []
       [PaginationContent L CUndefined []
          ([PaginationItem [] [PaginationPrevious L CUndefined None None
              [(''href'', PText ''#''), (''onClick'', PHandler (if page > 1 then page - 1 else 1))]],
            page_link L (Some (page = 1)) 1]
           @ node_if (page > 2) (PaginationItem [] [PaginationEllipsis L CUndefined []])
           @ node_if (page > 1 \<and> page < totalPages) (page_link L (Some True) page)
           @ node_if (page < totalPages - 1) (PaginationItem [] [PaginationEllipsis L CUndefined []])
           @ node_if (totalPages > 1) (page_link L (Some (page = totalPages)) totalPages)
           @ [PaginationItem [] [PaginationNext L CUndefined None None
                [(''href'', PText ''#''), (''onClick'', PHandler (if page < totalPages then page + 1 else totalPages))]]])]"

section \<open>Calendar\<close>

text \<open>What \<open>Calendar\<close> hands to the date picker: the defaults of its parameters, the class of every part (its own, then the
  library's default for that part, \<open>def\<close>; the caller's entries replace whole entries), the month formatter and the
  components, each overridden by the caller's of the same name.\<close>

record 'a calendar_props =
  cal_showOutsideDays :: bool
  cal_className :: string
  cal_captionLayout :: string
  cal_formatters :: "(string \<times> 'a) list"
  cal_classNames :: "(string \<times> string) list"
  cal_components :: "(string \<times> string) list"

definition calendar_classes :: "libs \<Rightarrow> (string \<Rightarrow> string) \<Rightarrow> string \<Rightarrow> string \<Rightarrow> bool \<Rightarrow> (string \<times> string) list" where
  "calendar_classes L def buttonVariant captionLayout showWeekNumber =
     (let own = (\<lambda>part cls. (part, cn L (map CStr cls @ [CStr (def part)])));
          button = buttonVariants L [(''variant'', CStr buttonVariant)]
      in [own ''root'' [''w-fit''],
          own ''months'' [''relative flex flex-col gap-4 md:flex-row''],
          own ''month'' [''flex w-full flex-col gap-4''],
          own ''nav'' [''absolute inset-x-0 top-0 flex w-full items-center justify-between gap-1''],
          own ''button_previous'' [button, ''size-(--cell-size) p-0 select-none aria-disabled:opacity-50''],
          own ''button_next'' [button, ''size-(--cell-size) p-0 select-none aria-disabled:opacity-50''],
          own ''month_caption'' [''flex h-(--cell-size) w-full items-center justify-center px-(--cell-size)''],
          own ''dropdowns'' [''flex h-(--cell-size) w-full items-center justify-center gap-1.5 text-sm font-medium''],
          own ''dropdown_root'' [(''relative rounded-md border border-input shadow-xs has-focus:border-ring has-focus:ring-[3px] ''
        @ ''has-focus:ring-ring/50'')],
          own ''dropdown'' [''absolute inset-0 bg-popover opacity-0''],
          own ''caption_label'' [''font-medium select-none'',
            if captionLayout = ''label'' then ''text-sm''
            else ''flex h-8 items-center gap-1 rounded-md pr-1 pl-2 text-sm [&>svg]:size-3.5 [&>svg]:text-muted-foreground''],
          own ''month_grid'' [''w-full border-collapse''],
          own ''weekdays'' [''flex''],
          own ''weekday'' [''flex-1 rounded-md text-[0.8rem] font-normal text-muted-foreground select-none''],
          own ''week'' [''mt-2 flex w-full''],
          own ''week_number_header'' [''w-(--cell-size) select-none''],
          own ''week_number'' [''text-[0.8rem] text-muted-foreground select-none''],
          own ''day'' [(''group/day relative aspect-square h-full w-full p-0 text-center select-none ''
        @ ''[&:last-child[data-selected=true]_button]:rounded-r-md''),
            if showWeekNumber then ''[&:nth-child(2)[data-selected=true]_button]:rounded-l-md''
            else ''[&:first-child[data-selected=true]_button]:rounded-l-md''],
          own ''range_start'' [''rounded-l-md bg-accent''],
          own ''range_middle'' [''rounded-none''],
          own ''range_end'' [''rounded-r-md bg-accent''],
          own ''today'' [''rounded-md bg-accent text-accent-foreground data-[selected=true]:rounded-none''],
          own ''outside'' [''text-muted-foreground aria-selected:text-muted-foreground''],
          own ''disabled'' [''text-muted-foreground opacity-50''],
          own ''hidden'' [''invisible'']])"

definition Calendar_base :: "string list" where
  "Calendar_base =
     [(''group/calendar bg-background p-3 [--cell-size:--spacing(8)] [''
        @ ''[data-slot=card-content]_&]:bg-transparent [''
        @ ''[data-slot=popover-content]_&]:bg-transparent''),
      ''rtl:**:[.rdp-button'' @ [CHR 0x5C] @ ''_next>svg]:rotate-180'',
      ''rtl:**:[.rdp-button'' @ [CHR 0x5C] @ ''_previous>svg]:rotate-180'']"

definition Calendar :: "libs \<Rightarrow> (string \<Rightarrow> string) \<Rightarrow> 'f \<Rightarrow> class_value \<Rightarrow> (string \<times> string) list \<Rightarrow> bool option \<Rightarrow> string option
    \<Rightarrow> string option \<Rightarrow> (string \<times> 'f) list \<Rightarrow> (string \<times> string) list \<Rightarrow> bool \<Rightarrow> 'f calendar_props" where
  "Calendar L def shortMonth className classNames showOutsideDays captionLayout buttonVariant formatters components showWeekNumber =
     (let layout = nullish captionLayout ''label''
      in \<lparr>cal_showOutsideDays = nullish showOutsideDays True,
          cal_className = cn L (map CStr Calendar_base @ [className]),
          cal_captionLayout = layout,
          cal_formatters = assoc_spread [(''formatMonthDropdown'', shortMonth)] formatters,
          cal_classNames = assoc_spread (calendar_classes L def (nullish buttonVariant ''ghost'') layout showWeekNumber) classNames,
          cal_components =
            assoc_spread [(''Root'', ''Root''), (''Chevron'', ''Chevron''), (''DayButton'', ''CalendarDayButton''), (''WeekNumber'', ''WeekNumber'')]
              components\<rparr>)"

text \<open>The four components it replaces.\<close>

definition calendar_Root :: "libs \<Rightarrow> class_value \<Rightarrow> 'a attr \<Rightarrow> 'a props \<Rightarrow> 'a node list \<Rightarrow> 'a node" where
  "calendar_Root L className rootRef props kids =
     Element ''div''
       (spread [(''data-slot'', PText ''calendar''), (''ref'', rootRef), (''className'', PText (cn L [className]))] props) kids"

definition calendar_Chevron :: "libs \<Rightarrow> class_value \<Rightarrow> string option \<Rightarrow> 'a props \<Rightarrow> 'a node" where
  "calendar_Chevron L className orientation props =
     Element (if orientation = Some ''left'' then ''ChevronLeftIcon''
              else if orientation = Some ''right'' then ''ChevronRightIcon'' else ''ChevronDownIcon'')
       (spread [(''className'', PText (cn L [CStr ''size-4'', className]))] props) []"

definition calendar_WeekNumber :: "'a props \<Rightarrow> 'a node list \<Rightarrow> 'a node" where
  "calendar_WeekNumber props kids =
     Element ''td'' props
       [Element ''div'' [(''className'', PText ''flex size-(--cell-size) items-center justify-center text-center'')] kids]"

record day_modifiers =
  dm_selected :: bool
  dm_range_start :: bool
  dm_range_end :: bool
  dm_range_middle :: bool
  dm_focused :: bool

definition day_button_base :: string where
  "day_button_base =
     (''flex aspect-square size-auto w-full min-w-(--cell-size) flex-col gap-1 leading-none font-normal ''
        @ ''group-data-[focused=true]/day:relative group-data-[focused=true]/day:z-10 ''
        @ ''group-data-[focused=true]/day:border-ring group-data-[focused=true]/day:ring-[3px] ''
        @ ''group-data-[focused=true]/day:ring-ring/50 data-[range-end=true]:rounded-md ''
        @ ''data-[range-end=true]:rounded-r-md data-[range-end=true]:bg-primary ''
        @ ''data-[range-end=true]:text-primary-foreground data-[range-middle=true]:rounded-none ''
        @ ''data-[range-middle=true]:bg-accent data-[range-middle=true]:text-accent-foreground ''
        @ ''data-[range-start=true]:rounded-md data-[range-start=true]:rounded-l-md data-[range-start=true]:bg-primary ''
        @ ''data-[range-start=true]:text-primary-foreground data-[selected-single=true]:bg-primary ''
        @ ''data-[selected-single=true]:text-primary-foreground dark:hover:text-accent-foreground [&>span]:text-xs ''
        @ ''[&>span]:opacity-70'')"

text \<open>The button of a day; \<open>day_label\<close> is the day in the reader's locale.\<close>

definition CalendarDayButton :: "libs \<Rightarrow> (string \<Rightarrow> string) \<Rightarrow> string \<Rightarrow> day_modifiers \<Rightarrow> class_value \<Rightarrow> 'a props \<Rightarrow> 'a node list \<Rightarrow> 'a node" where
  "CalendarDayButton L def day_label m className props kids =
     Ui_Button L (CStr (cn L [CStr day_button_base, CStr (def ''day''), className])) (CStr ''ghost'') (CStr ''icon'') False
       (spread [(''data-day'', PText day_label),
                (''data-selected-single'', PBool (dm_selected m \<and> \<not> dm_range_start m \<and> \<not> dm_range_end m \<and> \<not> dm_range_middle m)),
                (''data-range-start'', PBool (dm_range_start m)), (''data-range-end'', PBool (dm_range_end m)),
                (''data-range-middle'', PBool (dm_range_middle m))] props) kids"

text \<open>The effect runs on the first render and whenever \<open>focused\<close> changes (\<open>prev\<close> is its value at the last run): whether it focuses
  the button.\<close>

definition day_focus :: "bool option \<Rightarrow> day_modifiers \<Rightarrow> bool" where
  "day_focus prev m \<longleftrightarrow> prev \<noteq> Some (dm_focused m) \<and> dm_focused m"

section \<open>Reading an element\<close>

primrec attrs :: "'a node \<Rightarrow> string \<Rightarrow> 'a attr option" where
  "attrs (Element t ps kids) = map_of ps"
| "attrs (TextNode s) = Map.empty"

primrec children :: "'a node \<Rightarrow> 'a node list" where
  "children (Element t ps kids) = kids"
| "children (TextNode s) = []"

primrec node_text :: "'a node \<Rightarrow> string" where
  "node_text (Element t ps kids) = concat (map node_text kids)"
| "node_text (TextNode s) = s"

text \<open>The links of a tree, in document order.\<close>

primrec anchors :: "'a node \<Rightarrow> 'a node list" where
  "anchors (Element t ps kids) = (if t = ''a'' then [Element t ps kids] else []) @ concat (map anchors kids)"
| "anchors (TextNode s) = []"

text \<open>What a link shows and does: its text, whether it is the current page, and its handler.\<close>

definition link_view :: "'a node \<Rightarrow> string \<times> bool \<times> 'a attr option" where
  "link_view n = (node_text n, attrs n ''aria-current'' = Some (PText ''page''), attrs n ''onClick'')"

section \<open>The caller's properties\<close>

lemma spread_map: "distinct (map fst props) \<Longrightarrow> map_of (spread own props) = map_of own ++ map_of props"
  by (simp add: spread_def assoc_spread_map)

text \<open>The wrappers of one element, with their slots.\<close>

definition slot_wrappers :: "libs \<Rightarrow> (string \<times> (class_value \<Rightarrow> 'a props \<Rightarrow> 'a node list \<Rightarrow> 'a node)) list" where
  "slot_wrappers L =
     [(''card'', Ui_Card L), (''card-header'', CardHeader L), (''card-title'', CardTitle L), (''card-description'', CardDescription L),
      (''card-action'', CardAction L), (''card-content'', CardContent L), (''card-footer'', CardFooter L),
      (''tabs-trigger'', TabsTrigger L), (''tabs-content'', TabsContent L), (''popover-header'', PopoverHeader L),
      (''popover-title'', PopoverTitle L), (''popover-description'', PopoverDescription L),
      (''pagination-content'', PaginationContent L)]"

lemmas wrapper_defs = Ui_Card_def CardHeader_def CardTitle_def CardDescription_def CardAction_def CardContent_def CardFooter_def
  TabsTrigger_def TabsContent_def PopoverHeader_def PopoverTitle_def PopoverDescription_def PaginationContent_def

lemma wrappers_slotted: "list_all (\<lambda>(slot, f). \<exists>tag cls. f = slotted L tag slot cls) (slot_wrappers L)"
  unfolding slot_wrappers_def list.pred_inject prod.case by (intro conjI exI) (rule wrapper_defs list.pred_inject(1))+

lemma slotted_attrs:
  "distinct (map fst props) \<Longrightarrow>
   attrs (slotted L tag slot cls className props kids) =
     [''className'' \<mapsto> PText (cn L (cls @ [className])), ''data-slot'' \<mapsto> PText slot] ++ map_of props"
  by (auto simp: slotted_def spread_map)

text \<open>A wrapper passes everything on: its children are the caller's, every property of the caller is the element's, and where
  the caller sets none the slot names the wrapper and the class is its own followed by the caller's.\<close>

lemma wrappers_transparent:
  assumes "(slot, f) \<in> set (slot_wrappers L)" "distinct (map fst props)"
  shows "children (f className props kids) = kids
    \<and> (\<forall>k v. (k, v) \<in> set props \<longrightarrow> attrs (f className props kids) k = Some v)
    \<and> (''data-slot'' \<notin> fst ` set props \<longrightarrow> attrs (f className props kids) ''data-slot'' = Some (PText slot))
    \<and> (''className'' \<notin> fst ` set props \<longrightarrow> (\<exists>cls. attrs (f className props kids) ''className'' = Some (PText (cn L (cls @ [className])))))"
proof -
  obtain tag cls where f: "f = slotted L tag slot cls" using wrappers_slotted [of L] assms(1) by (auto simp: list_all_iff)
  have "children (f className props kids) = kids" by (simp add: f slotted_def)
  with slotted_attrs [OF assms(2), of L tag slot cls className kids] show ?thesis
    unfolding f using map_of_is_SomeI [OF assms(2)] by (auto simp: map_add_Some_iff map_of_eq_None_iff [symmetric] map_add_def split: option.split)
qed

lemma button_attrs:
  "distinct (map fst props) \<Longrightarrow>
   attrs (Ui_Button L className variant sz asChild props kids) =
     [''className'' \<mapsto> PText (cn L [CStr (buttonVariants L [(''variant'', variant), (''size'', sz), (''className'', className)])]),
      ''data-slot'' \<mapsto> PText ''button''] ++ map_of props"
  by (auto simp: Ui_Button_def spread_map)

text \<open>A day carries at most one of the four marks that colour it, when the picker marks at most one end or the middle of a range,
  and a selected day always carries one.\<close>

lemma day_marks:
  assumes "attrs (CalendarDayButton L def d m c [] kids) = a"
  shows "(a ''data-selected-single'' = Some (PBool True)) \<longleftrightarrow>
      dm_selected m \<and> a ''data-range-start'' = Some (PBool False) \<and> a ''data-range-end'' = Some (PBool False)
        \<and> a ''data-range-middle'' = Some (PBool False)"
  using assms by (auto simp: CalendarDayButton_def button_attrs spread_def)

section \<open>Properties\<close>

lemma anchors_parts:
  "anchors (PaginationItem [] kids) = concat (map anchors kids)"
  "anchors (PaginationEllipsis L c ps) = []"
  "anchors (PaginationLink L c b sz ps [TextNode t]) = [PaginationLink L c b sz ps [TextNode t]]"
  "anchors (PaginationPrevious L c b sz ps) = [PaginationPrevious L c b sz ps]"
  "anchors (PaginationNext L c b sz ps) = [PaginationNext L c b sz ps]"
  "anchors (Pagination L c ps kids) = concat (map anchors kids)"
  "anchors (PaginationContent L c ps kids) = concat (map anchors kids)"
  by (simp_all add: PaginationItem_def PaginationEllipsis_def PaginationLink_def PaginationPrevious_def PaginationNext_def
      Pagination_def PaginationContent_def slotted_def Let_def)

lemma anchors_node_if [simp]: "concat (map anchors (node_if c v)) = (if c then anchors v else [])"
  by (simp add: node_if_def)

lemma link_attrs:
  "attrs (PaginationLink L c b sz ps kids) k =
     map_of (spread [(''aria-current'', if nullish b False then PText ''page'' else PUndefined), (''data-slot'', PText ''pagination-link''),
       (''data-active'', case b of None \<Rightarrow> PUndefined | Some a \<Rightarrow> PBool a),
       (''className'', PText (cn L [CStr (buttonVariants L [(''variant'', CStr (if nullish b False then ''outline'' else ''ghost'')),
          (''size'', CStr (nullish sz ''icon''))]), c]))] ps) k"
  by (simp add: PaginationLink_def Let_def)

lemma link_text: "node_text (PaginationLink L c b sz ps kids) = concat (map node_text kids)"
  by (simp add: PaginationLink_def Let_def)

lemma page_link_view:
  fixes h :: "int attr"
  defines "ps \<equiv> [(''href'', PText ''#''), (''onClick'', h)]"
  shows "link_view (PaginationLink L c b sz ps kids) = (concat (map node_text kids), b = Some True, Some h)"
    and "attrs (PaginationLink L c b sz ps kids) ''href'' = Some (PText ''#'')"
    and "link_view (PaginationPrevious L c None sz ps) = (''Previous'', False, Some h)"
    and "attrs (PaginationPrevious L c None sz ps) ''href'' = Some (PText ''#'')"
    and "link_view (PaginationNext L c None sz ps) = (''Next'', False, Some h)"
    and "attrs (PaginationNext L c None sz ps) ''href'' = Some (PText ''#'')"
  unfolding ps_def PaginationPrevious_def PaginationNext_def link_view_def link_attrs link_text spread_def
  by (cases b; simp)+

lemma pagination_anchors:
  "anchors (AppPagination_nodes L page n) =
     (let goto = \<lambda>p. [(''href'', PText ''#''), (''onClick'', PHandler p)];
          link = \<lambda>b p. PaginationLink L CUndefined (Some b) None (goto p) [TextNode (show_int p)]
      in PaginationPrevious L CUndefined None None (goto (if page > 1 then page - 1 else 1)) # link (page = 1) 1
         # (if page > 1 \<and> page < n then [link True page] else []) @ (if n > 1 then [link (page = n) n] else [])
         @ [PaginationNext L CUndefined None None (goto (if page < n then page + 1 else n))])"
  unfolding AppPagination_nodes_def page_link_def Let_def anchors_parts list.map concat.simps map_append concat_append
    anchors_node_if append_Nil append_Nil2 append_Cons by (simp add: anchors_parts)

text \<open>C28. The markup of the pagination bar is the bar: its links, in order, are "Previous", the page links and "Next" with the
  labels, the current page and the handlers of the abstract view, so that clicking them gives exactly its actions; every
  link stays on the page, and the only link announced as the current page is the highlighted one.\<close>

theorem pagination_markup:
  "map link_view (anchors (AppPagination_nodes L page n)) =
     (''Previous'', False, Some (PHandler (hd (clicks (AppPagination page n)))))
     # map (\<lambda>(label, active, a). (label, active, Some (PHandler a))) (items (AppPagination page n))
     @ [(''Next'', False, Some (PHandler (last (clicks (AppPagination page n)))))]
   \<and> map (snd \<circ> snd \<circ> link_view) (anchors (AppPagination_nodes L page n)) = map (Some \<circ> PHandler) (clicks (AppPagination page n))
   \<and> list_all (\<lambda>l. attrs l ''href'' = Some (PText ''#'')) (anchors (AppPagination_nodes L page n))"
proof -
  show ?thesis
    unfolding pagination_anchors AppPagination_items AppPagination_clicks Let_def
    by (cases "page > 1 \<and> page < n"; cases "n > 1") (simp_all add: page_link_view show_int_one)
qed

end
