(* ===== verification/Chart.thy ===== *)
theory Chart
  imports Ui
begin

text \<open>
  The chart wrapper (\<open>components/ui/chart.tsx\<close>): the context with the series' configuration, the style sheet with one variable per
  series and theme, and the contents of tooltip and legend, as element trees. The charts themselves are the library's; what
  it passes to tooltip and legend (\<open>payload\<close>) are values of \<open>json\<close>. A configuration is an object, so a look-up also finds the
  members every object inherits, which have none of the fields.
\<close>

section \<open>Configuration\<close>

definition THEMES :: "(string \<times> string) list" where
  "THEMES = [(''light'', []), (''dark'', ''.dark'')]"

definition INITIAL_DIMENSION :: "int \<times> int" where
  "INITIAL_DIMENSION = (320, 200)"

record chart_item =
  ci_label :: "string option"
  ci_icon :: "string option"
  ci_color :: "string option"
  ci_theme :: "(string \<times> string) list option"

type_synonym ChartConfig = "(string \<times> chart_item) list"

definition useChart :: "ChartConfig option \<Rightarrow> js_error + ChartConfig" where
  "useChart context =
     (case context of None \<Rightarrow> Inl (Error ''useChart must be used within a <ChartContainer />'') | Some config \<Rightarrow> Inr config)"

definition inherited_members :: "string list" where
  "inherited_members =
     [''constructor'', ''__defineGetter__'', ''__defineSetter__'', ''hasOwnProperty'', ''__lookupGetter__'', ''__lookupSetter__'',
      ''isPrototypeOf'', ''propertyIsEnumerable'', ''toString'', ''valueOf'', ''__proto__'', ''toLocaleString'']"

definition no_item :: chart_item where
  "no_item = \<lparr>ci_label = None, ci_icon = None, ci_color = None, ci_theme = None\<rparr>"

text \<open>\<open>config[k]\<close>; \<open>k in config\<close> holds exactly when it is not \<open>undefined\<close>.\<close>

definition config_get :: "ChartConfig \<Rightarrow> string \<Rightarrow> chart_item option" where
  "config_get config k =
     (case map_of config k of Some i \<Rightarrow> Some i | None \<Rightarrow> if k \<in> set inherited_members then Some no_item else None)"

text \<open>\<open>v?.[k]\<close> for a value of the library's; the members of an array are its elements by index.\<close>

definition jget :: "json option \<Rightarrow> string \<Rightarrow> json option" where
  "jget v k =
     (case v of
        Some (JObj kvs) \<Rightarrow> map_of kvs k
      | Some (JArr vs) \<Rightarrow> map_of (map (\<lambda>(i, x). (show_nat i, x)) (List.enumerate 0 vs)) k
      | _ \<Rightarrow> None)"

definition string_member :: "json option \<Rightarrow> string \<Rightarrow> string option" where
  "string_member v k = (case jget v k of Some (JStr s) \<Rightarrow> Some s | _ \<Rightarrow> None)"

definition is_object :: "json option \<Rightarrow> bool" where
  "is_object v \<longleftrightarrow> (case v of Some (JObj _) \<Rightarrow> True | Some (JArr _) \<Rightarrow> True | _ \<Rightarrow> False)"

definition getPayloadConfigFromPayload :: "ChartConfig \<Rightarrow> json option \<Rightarrow> string \<Rightarrow> chart_item option" where
  "getPayloadConfigFromPayload config payload key =
     (if \<not> is_object payload then None
      else
        let configLabelKey =
              (case string_member payload key of
                 Some s \<Rightarrow> s
               | None \<Rightarrow> (case string_member (jget payload ''payload'') key of Some s \<Rightarrow> s | None \<Rightarrow> key))
        in if config_get config configLabelKey \<noteq> None then config_get config configLabelKey else config_get config key)"

section \<open>Container and style sheet\<close>

definition chartId :: "string option \<Rightarrow> string \<Rightarrow> string" where
  "chartId i uniqueId = ''chart-'' @ nullish i (filter (\<lambda>c. c \<noteq> CHR '':'') uniqueId)"

text \<open>\<open>config.theme ?? config.color\<close> as a condition, and the series it keeps.\<close>

definition colorConfig :: "ChartConfig \<Rightarrow> ChartConfig" where
  "colorConfig config = filter (\<lambda>(_, c). ci_theme c \<noteq> None \<or> truthy (ci_color c)) config"

definition item_color :: "string \<Rightarrow> chart_item \<Rightarrow> string option" where
  "item_color theme c = (case Option.bind (ci_theme c) (\<lambda>t. map_of t theme) of Some s \<Rightarrow> Some s | None \<Rightarrow> ci_color c)"

text \<open>The line of a series; \<open>null\<close> joins as an empty line.\<close>

definition color_line :: "string \<Rightarrow> string \<times> chart_item \<Rightarrow> string" where
  "color_line theme kc =
     (case kc of (key, c) \<Rightarrow>
        if truthy (item_color theme c) then ''  --color-'' @ key @ '': '' @ nullish (item_color theme c) [] @ '';'' else [])"

definition lf :: string where
  "lf = [CHR 0x0A]"

definition style_block :: "string \<Rightarrow> ChartConfig \<Rightarrow> string \<times> string \<Rightarrow> string" where
  "style_block i series tp =
     (case tp of (theme, pre) \<Rightarrow>
        lf @ pre @ '' [data-chart='' @ i @ ''] {'' @ lf @ join_with lf (map (color_line theme) series) @ lf @ ''}'' @ lf)"

definition ChartStyle :: "string \<Rightarrow> ChartConfig \<Rightarrow> string option" where
  "ChartStyle i config =
     (if colorConfig config = [] then None else Some (join_with lf (map (style_block i (colorConfig config)) THEMES)))"

definition chart_base :: string where
  "chart_base =
     (''flex aspect-video justify-center text-xs [&_.recharts-cartesian-axis-tick_text]:fill-muted-foreground ''
        @ ''[&_.recharts-cartesian-grid_line[stroke='#ccc']]:stroke-border/50 ''
        @ ''[&_.recharts-curve.recharts-tooltip-cursor]:stroke-border [&_.recharts-dot[stroke='#fff']]:stroke-transparent ''
        @ ''[&_.recharts-layer]:outline-hidden [&_.recharts-polar-grid_[stroke='#ccc']]:stroke-border ''
        @ ''[&_.recharts-radial-bar-background-sector]:fill-muted ''
        @ ''[&_.recharts-rectangle.recharts-tooltip-cursor]:fill-muted ''
        @ ''[&_.recharts-reference-line_[stroke='#ccc']]:stroke-border [&_.recharts-sector]:outline-hidden ''
        @ ''[&_.recharts-sector[stroke='#fff']]:stroke-transparent [&_.recharts-surface]:outline-hidden'')"

definition ChartContainer :: "libs \<Rightarrow> string \<Rightarrow> string option \<Rightarrow> class_value \<Rightarrow> ChartConfig \<Rightarrow> (int \<times> int) option \<Rightarrow> 'a props
    \<Rightarrow> 'a node list \<Rightarrow> ChartConfig \<times> 'a node" where
  "ChartContainer L uniqueId i className config initialDimension props kids =
     (let cid = chartId i uniqueId; (width, height) = nullish initialDimension INITIAL_DIMENSION
      in (config,
          Element ''div''
            (spread [(''data-slot'', PText ''chart''), (''data-chart'', PText cid), (''className'', PText (cn L [CStr chart_base, className]))] props)
            ((case ChartStyle cid config of None \<Rightarrow> [] | Some css \<Rightarrow> [Element ''style'' [(''dangerouslySetInnerHTML'', PText css)] []])
             @ [Element ''ResponsiveContainer'' [(''initialDimension.width'', PNum width), (''initialDimension.height'', PNum height)] kids])))"

section \<open>Tooltip\<close>

record 'a tooltip =
  tt_active :: bool
  tt_payload :: "json list option"
  tt_className :: class_value
  tt_indicator :: "string option"
  tt_hideLabel :: bool
  tt_hideIndicator :: bool
  tt_label :: "json option"
  tt_labelFormatter :: "(string option \<Rightarrow> json list \<Rightarrow> 'a node list) option"
  tt_labelClassName :: class_value
  tt_formatter :: "(json \<Rightarrow> json \<Rightarrow> json \<Rightarrow> nat \<Rightarrow> json option \<Rightarrow> 'a node list) option"
  tt_color :: "string option"
  tt_nameKey :: "string option"
  tt_labelKey :: "string option"

definition or_json :: "json option \<Rightarrow> json option \<Rightarrow> json option" where
  "or_json v w = (case v of None \<Rightarrow> w | Some JNull \<Rightarrow> w | _ \<Rightarrow> v)"

definition value_key :: "json option list \<Rightarrow> string" where
  "value_key vs = jstring (jnullish (foldr or_json vs None) (JStr ''value''))"

definition tooltipLabel :: "libs \<Rightarrow> ChartConfig \<Rightarrow> 'a tooltip \<Rightarrow> 'a node list" where
  "tooltipLabel L config t =
     (case tt_payload t of
        None \<Rightarrow> []
      | Some [] \<Rightarrow> []
      | Some (item # rest) \<Rightarrow>
          if tt_hideLabel t then []
          else
            let key = value_key [map_option JStr (tt_labelKey t), jget (Some item) ''dataKey'', jget (Some item) ''name''];
                itemConfig = getPayloadConfigFromPayload config (Some item) key;
                val = (case tt_label t of
                           Some (JStr s) \<Rightarrow>
                             if \<not> truthy (tt_labelKey t)
                             then Some (nullish (Option.bind (config_get config s) ci_label) s)
                             else Option.bind itemConfig ci_label
                         | _ \<Rightarrow> Option.bind itemConfig ci_label);
                cls = PText (cn L [CStr ''font-medium'', tt_labelClassName t])
            in case tt_labelFormatter t of
                 Some f \<Rightarrow> [Element ''div'' [(''className'', cls)] (f val (item # rest))]
               | None \<Rightarrow> if truthy val then [Element ''div'' [(''className'', cls)] [TextNode (nullish val [])]] else [])"

definition nestLabel :: "'a tooltip \<Rightarrow> bool" where
  "nestLabel t \<longleftrightarrow> length (nullish (tt_payload t) []) = 1 \<and> nullish (tt_indicator t) ''dot'' \<noteq> ''dot''"

definition not_none :: "json \<Rightarrow> bool" where
  "not_none item \<longleftrightarrow> jget (Some item) ''type'' \<noteq> Some (JStr ''none'')"

definition text_of :: "json option \<Rightarrow> 'a node list" where
  "text_of v = (case v of Some (JStr s) \<Rightarrow> [TextNode s] | Some (JNum n) \<Rightarrow> [TextNode (number_to_string n)] | _ \<Rightarrow> [])"

definition color_attr :: "json option \<Rightarrow> 'a attr" where
  "color_attr v = (case v of Some (JStr s) \<Rightarrow> PText s | _ \<Rightarrow> PUndefined)"

definition indicator_mark :: "libs \<Rightarrow> 'a tooltip \<Rightarrow> json option \<Rightarrow> 'a node" where
  "indicator_mark L t indicatorColor =
     (let ind = nullish (tt_indicator t) ''dot''
      in Element ''div''
           [(''className'', PText (cn L
               [CStr ''shrink-0 rounded-[2px] border-(--color-border) bg-(--color-bg)'',
                CWhen [(''h-2.5 w-2.5'', ind = ''dot''), (''w-1'', ind = ''line''),
                       (''w-0 border-[1.5px] border-dashed bg-transparent'', ind = ''dashed''),
                       (''my-0.5'', nestLabel t \<and> ind = ''dashed'')]])),
            (''--color-bg'', color_attr indicatorColor), (''--color-border'', color_attr indicatorColor)] [])"

text \<open>A row; \<open>digits\<close> is \<open>toLocaleString\<close>.\<close>

definition tooltip_row :: "libs \<Rightarrow> (rat \<Rightarrow> string) \<Rightarrow> ChartConfig \<Rightarrow> 'a tooltip \<Rightarrow> nat \<times> json \<Rightarrow> 'a node" where
  "tooltip_row L digits config t ix =
     (case ix of (index, item) \<Rightarrow>
        let get = jget (Some item);
            key = value_key [map_option JStr (tt_nameKey t), get ''name'', get ''dataKey''];
            itemConfig = getPayloadConfigFromPayload config (Some item) key;
            indicatorColor = or_json (map_option JStr (tt_color t)) (or_json (jget (get ''payload'') ''fill'') (get ''color''));
            plain =
              (case Option.bind itemConfig ci_icon of
                 Some icon \<Rightarrow> [Element icon [] []]
               | None \<Rightarrow> if tt_hideIndicator t then [] else [indicator_mark L t indicatorColor])
              @ [Element ''div''
                   [(''className'', PText (cn L [CStr ''flex flex-1 justify-between leading-none'',
                       CStr (if nestLabel t then ''items-end'' else ''items-center'')]))]
                   (Element ''div'' [(''className'', PText ''grid gap-1.5'')]
                      ((if nestLabel t then tooltipLabel L config t else [])
                       @ [Element ''span'' [(''className'', PText ''text-muted-foreground'')]
                            (text_of (or_json (map_option JStr (Option.bind itemConfig ci_label)) (get ''name'')))])
                    # (case get ''value'' of
                         None \<Rightarrow> []
                       | Some JNull \<Rightarrow> []
                       | Some v \<Rightarrow>
                           [Element ''span'' [(''className'', PText ''font-mono font-medium text-foreground tabular-nums'')]
                              [TextNode (case v of JNum n \<Rightarrow> digits n | _ \<Rightarrow> jstring v)]]))]
        in Element ''div''
             [(''className'', PText (cn L
                 [CStr ''flex w-full flex-wrap items-stretch gap-2 [&>svg]:h-2.5 [&>svg]:w-2.5 [&>svg]:text-muted-foreground'',
                  if nullish (tt_indicator t) ''dot'' = ''dot'' then CStr ''items-center'' else CFalse]))]
             (case (tt_formatter t, get ''value'', get ''name'') of
                (Some f, Some v, Some n) \<Rightarrow> if jtruthy n then f v n item index (get ''payload'') else plain
              | _ \<Rightarrow> plain))"

definition ChartTooltipContent :: "libs \<Rightarrow> (rat \<Rightarrow> string) \<Rightarrow> ChartConfig option \<Rightarrow> 'a tooltip \<Rightarrow> js_error + 'a node option" where
  "ChartTooltipContent L digits context t =
     (case useChart context of
        Inl e \<Rightarrow> Inl e
      | Inr config \<Rightarrow>
          Inr (if \<not> tt_active t \<or> nullish (tt_payload t) [] = [] then None
               else Some (Element ''div''
                      [(''className'', PText (cn L [CStr (''grid min-w-[8rem] items-start gap-1.5 rounded-lg border border-border/50 bg-background px-2.5 py-1.5 text-xs ''
        @ ''shadow-xl''), tt_className t]))]
                      ((if \<not> nestLabel t then tooltipLabel L config t else [])
                       @ [Element ''div'' [(''className'', PText ''grid gap-1.5'')]
                            (map (tooltip_row L digits config t)
                               (List.enumerate 0 (filter not_none (nullish (tt_payload t) []))))]))))"

section \<open>Legend\<close>

definition legend_row :: "libs \<Rightarrow> ChartConfig \<Rightarrow> bool \<Rightarrow> string option \<Rightarrow> json \<Rightarrow> 'a node" where
  "legend_row L config hideIcon nameKey item =
     (let key = value_key [map_option JStr nameKey, jget (Some item) ''dataKey''];
          itemConfig = getPayloadConfigFromPayload config (Some item) key
      in Element ''div''
           [(''className'', PText (cn L [CStr ''flex items-center gap-1.5 [&>svg]:h-3 [&>svg]:w-3 [&>svg]:text-muted-foreground'']))]
           ((case (Option.bind itemConfig ci_icon, hideIcon) of
               (Some icon, False) \<Rightarrow> Element icon [] []
             | _ \<Rightarrow> Element ''div'' [(''className'', PText ''h-2 w-2 shrink-0 rounded-[2px]''),
                                     (''backgroundColor'', color_attr (jget (Some item) ''color''))] [])
            # text_of (map_option JStr (Option.bind itemConfig ci_label))))"

definition ChartLegendContent :: "libs \<Rightarrow> ChartConfig option \<Rightarrow> class_value \<Rightarrow> bool \<Rightarrow> json list option \<Rightarrow> string option \<Rightarrow> string option
    \<Rightarrow> js_error + 'a node option" where
  "ChartLegendContent L context className hideIcon payload verticalAlign nameKey =
     (case useChart context of
        Inl e \<Rightarrow> Inl e
      | Inr config \<Rightarrow>
          Inr (if nullish payload [] = [] then None
               else Some (Element ''div''
                      [(''className'', PText (cn L [CStr ''flex items-center justify-center gap-4'',
                          CStr (if nullish verticalAlign ''bottom'' = ''top'' then ''pb-3'' else ''pt-3''), className]))]
                      (map (legend_row L config hideIcon nameKey) (filter not_none (nullish payload []))))))"

section \<open>Facts\<close>

text \<open>The lines of a block, and of the whole style sheet.\<close>

definition block_lines :: "string \<Rightarrow> ChartConfig \<Rightarrow> string \<times> string \<Rightarrow> string list" where
  "block_lines i series tp =
     (case tp of (theme, pre) \<Rightarrow> [[], pre @ '' [data-chart='' @ i @ ''] {''] @ map (color_line theme) series @ [''}'', []])"

definition one_line :: "string \<Rightarrow> bool" where
  "one_line s \<longleftrightarrow> CHR 0x0A \<notin> set s"

lemma join_with_append: "xs \<noteq> [] \<Longrightarrow> ys \<noteq> [] \<Longrightarrow> join_with sep (xs @ ys) = join_with sep xs @ sep @ join_with sep ys"
proof (induction sep xs rule: join_with.induct)
  case (2 sep x)
  then show ?case by (cases ys) simp_all
qed simp_all

lemma join_with_Cons: "ys \<noteq> [] \<Longrightarrow> join_with sep (x # ys) = x @ sep @ join_with sep ys"
  by (cases ys) simp_all

lemma join_with_concat:
  "(\<And>xs. xs \<in> set xss \<Longrightarrow> xs \<noteq> []) \<Longrightarrow> join_with sep (map (join_with sep) xss) = join_with sep (concat xss)"
proof (induction xss)
  case (Cons xs xss)
  then have *: "xs \<noteq> []" "join_with sep (map (join_with sep) xss) = join_with sep (concat xss)" by simp_all
  show ?case
  proof (cases xss)
    case (Cons ys yss)
    then have "concat xss \<noteq> []" using Cons.prems by simp
    from join_with_append [OF *(1) this, of sep] have "join_with sep (concat (xs # xss)) = join_with sep xs @ sep @ join_with sep (concat xss)"
      by simp
    with *(2) Cons show ?thesis by (simp add: join_with_Cons)
  qed simp
qed simp

lemma block_lines_nonempty [simp]: "block_lines i series tp \<noteq> []"
  by (cases tp) (simp add: block_lines_def)

lemma style_block_join: "series \<noteq> [] \<Longrightarrow> style_block i series tp = join_with lf (block_lines i series tp)"
  by (cases tp) (simp add: style_block_def block_lines_def join_with_append join_with_Cons)

lemma color_line_one_line:
  assumes "one_line k" "\<And>c. ci_color x = Some c \<Longrightarrow> one_line c" "\<And>t c. ci_theme x = Some t \<Longrightarrow> c \<in> snd ` set t \<Longrightarrow> one_line c"
  shows "one_line (color_line theme (k, x))"
proof -
  have "one_line s" if "item_color theme x = Some s" for s
  proof (cases "Option.bind (ci_theme x) (\<lambda>t. map_of t theme)")
    case None
    with that assms(2) show ?thesis by (simp add: item_color_def)
  next
    case (Some c)
    then obtain t where "ci_theme x = Some t" "map_of t theme = Some c" by (cases "ci_theme x") auto
    then have "c \<in> snd ` set t" by (auto dest!: map_of_SomeD intro: rev_image_eqI)
    with assms(3) \<open>ci_theme x = Some t\<close> have "one_line c" by blast
    with Some that show ?thesis by (simp add: item_color_def)
  qed
  with assms(1) show ?thesis by (auto simp: color_line_def one_line_def truthy_iff)
qed

text \<open>The style sheet, line by line: for each theme a block that selects the chart and sets one variable for every series
  with a colour in that theme; a series with a colour in one theme only leaves an empty line in the other, and without any
  colour there is no style sheet.\<close>

lemma chart_style_lines:
  assumes "one_line i"
    and "\<And>k x. (k, x) \<in> set config \<Longrightarrow> one_line k \<and> (\<forall>c. ci_color x = Some c \<longrightarrow> one_line c)
      \<and> (\<forall>t c. ci_theme x = Some t \<longrightarrow> c \<in> snd ` set t \<longrightarrow> one_line c)"
  shows "map_option (split_on (CHR 0x0A)) (ChartStyle i config) =
    (if colorConfig config = [] then None else Some (concat (map (block_lines i (colorConfig config)) THEMES)))"
proof (cases "colorConfig config = []")
  case False
  have part: "one_line s" if "s \<in> set (block_lines i (colorConfig config) tp)" "tp \<in> set THEMES" for s tp
  proof -
    have "one_line (color_line theme (k, x))" if "(k, x) \<in> set (colorConfig config)" for k x theme
    proof -
      from that have "(k, x) \<in> set config" by (simp add: colorConfig_def)
      from assms(2) [OF this] show ?thesis by (intro color_line_one_line) blast+
    qed
    with that assms(1) show ?thesis by (auto simp: block_lines_def THEMES_def one_line_def)
  qed
  have "join_with lf (map (style_block i (colorConfig config)) THEMES) =
      join_with lf (concat (map (block_lines i (colorConfig config)) THEMES))"
    unfolding style_block_join [OF False] by (rule join_with_concat [of "map (block_lines i (colorConfig config)) THEMES" lf, unfolded map_map comp_def]) auto
  moreover have "split_on (CHR 0x0A) (join_with lf (concat (map (block_lines i (colorConfig config)) THEMES))) =
      concat (map (block_lines i (colorConfig config)) THEMES)"
    unfolding lf_def
  proof (rule split_on_join)
    show "concat (map (block_lines i (colorConfig config)) THEMES) \<noteq> []" by (simp add: THEMES_def block_lines_def)
    show "CHR 0x0A \<notin> set s" if "s \<in> set (concat (map (block_lines i (colorConfig config)) THEMES))" for s
      using that part unfolding one_line_def by auto
  qed
  ultimately show ?thesis using False by (simp add: ChartStyle_def)
qed (simp add: ChartStyle_def)

text \<open>Which series an item of a tooltip or legend belongs to: the one its own member \<open>key\<close> names, else the one the member of
  its data names, else \<open>key\<close> itself, a name that is no series counting as absent.\<close>

lemma chart_series:
  assumes "set inherited_members \<inter> {n, key} = {}" "map_of config n = Some x"
  shows "string_member (Some (JObj kvs)) key = Some n \<Longrightarrow> getPayloadConfigFromPayload config (Some (JObj kvs)) key = Some x"
    and "string_member (Some (JObj kvs)) key = None \<Longrightarrow> string_member (map_of kvs ''payload'') key = Some n \<Longrightarrow>
      getPayloadConfigFromPayload config (Some (JObj kvs)) key = Some x"
    and "string_member (Some (JObj kvs)) key = Some m \<Longrightarrow> config_get config m = None \<Longrightarrow>
      getPayloadConfigFromPayload config (Some (JObj kvs)) key = map_of config key"
  using assms by (auto simp: getPayloadConfigFromPayload_def is_object_def config_get_def jget_def Let_def split: option.splits if_splits)

text \<open>The tooltip shows one row for every item that is not of type "none", and its label at most once, above the rows or inside
  the only one.\<close>

lemma tooltip_shape:
  assumes "tt_active t" "tt_payload t = Some ps" "ps \<noteq> []"
  shows "\<exists>attrs rows. ChartTooltipContent L digits (Some config) t =
      Inr (Some (Element ''div'' attrs ((if nestLabel t then [] else tooltipLabel L config t)
        @ [Element ''div'' [(''className'', PText ''grid gap-1.5'')] rows])))
    \<and> length rows = length (filter not_none ps) \<and> length (tooltipLabel L config t) \<le> 1"
proof -
  have "length (tooltipLabel L config t) \<le> 1"
    using assms by (auto simp: tooltipLabel_def Let_def split: option.split list.split json.split)
  with assms show ?thesis by (simp add: ChartTooltipContent_def useChart_def)
qed

lemma no_chart_context:
  "ChartTooltipContent L digits None t = Inl (Error ''useChart must be used within a <ChartContainer />'')"
  "ChartLegendContent L None c h p v n = Inl (Error ''useChart must be used within a <ChartContainer />'')"
  by (simp_all add: ChartTooltipContent_def ChartLegendContent_def useChart_def)

end
