(* ===== verification/Dashboard_View.thy ===== *)
theory Dashboard_View
  imports Pages
begin

text \<open>
  The dashboard page as a whole (\<open>RouteComponent\<close> of \<open>routes/app/_layout/index.tsx\<close>): header, metric cards, banners, service table,
  the four charts, the feed with its range picker and export menu, and the event dialog, with the state of the page and of the
  picker stepping together. A point or a bar of a chart is an item whose action is the chart's click handler on it.
\<close>

section \<open>The page's data and actions\<close>

text \<open>What the page's queries hold when it renders.\<close>

record dash_data =
  dd_project :: "string option"
  dd_stats :: "AuditStats option"
  dd_statsLoading :: bool
  dd_alerts :: "nat option"
  dd_orphans :: "(nat \<times> AuditSummary list) option"
  dd_monitors :: "Monitor list"
  dd_history :: "HistoryPoint list option"
  dd_list :: "(AuditSummary list \<times> int) option"
  dd_listError :: bool
  dd_event :: "json option"
  dd_eventLoading :: bool
  dd_revealed :: bool

text \<open>What the platform's locale and time zone give.\<close>

record dash_locale =
  dl_texts :: locale_texts
  dl_fns :: date_fns
  dl_hours :: "int \<Rightarrow> nat"
  dl_day :: "string \<Rightarrow> string"
  dl_hour :: "string \<Rightarrow> string"
  dl_stamp :: "json option \<Rightarrow> string"

datatype page_action = Dash dash_action | Picker picker_action | Refresh | ExportAs string | Detail detail_action

text \<open>\<open>refresh\<close>: the queries asked for again, the numbers and the list.\<close>

definition refresh :: "server \<Rightarrow> string \<Rightarrow> int \<Rightarrow> int \<Rightarrow> int \<Rightarrow> string option \<Rightarrow> dash \<Rightarrow> query list" where
  "refresh srv base off mounted now projectId d =
     [dash_queries srv base off mounted now projectId d ! 0, dash_queries srv base off mounted now projectId d ! 1]"

definition picker_props_of :: "dash \<Rightarrow> picker_props" where
  "picker_props_of d =
     \<lparr>pp_timeRange = se_text (d_search d) ''time_range'', pp_startDate = se_text (d_search d) ''start_date'',
      pp_endDate = se_text (d_search d) ''end_date''\<rparr>"

text \<open>The state of the page and of its picker after an action.\<close>

fun page_step :: "date_fns \<Rightarrow> dash \<times> picker \<Rightarrow> page_action \<Rightarrow> dash \<times> picker" where
  "page_step df (d, pk) (Dash a) = (dash_step d a, pk)"
| "page_step df (d, pk) (Picker a) =
     (case picker_act df (picker_props_of d) pk a of
        (None, pk') \<Rightarrow> (d, pk')
      | (Some out, pk') \<Rightarrow> (dash_step d (Range out), pk'))"
| "page_step df (d, pk) Refresh = (d, pk)"
| "page_step df (d, pk) (ExportAs fmt) = (export_start d, pk)"
| "page_step df (d, pk) (Detail CloseDetail) = (dash_step d CloseEvent, pk)"
| "page_step df (d, pk) (Detail (Reveal b)) = (d, pk)"

section \<open>Cards\<close>

definition page_header :: "dash_locale \<Rightarrow> int \<Rightarrow> dash_data \<Rightarrow> page_action view" where
  "page_header dl now D =
     Box [Text (dash_title (dd_project D) (dd_stats D)), Text (last_event_line (dl_texts dl) now (dd_stats D)),
          Button ''Refresh'' True Refresh]"

definition metric_grid :: "dash_locale \<Rightarrow> dash_data \<Rightarrow> page_action view" where
  "metric_grid dl D =
     Box (map (\<lambda>(label, val, sub). Box ([Text label, Text val] @ (case sub of None \<Rightarrow> [] | Some s \<Rightarrow> shown_if (s \<noteq> []) [Text s])))
            (metric_cards (dl_texts dl) (dd_statsLoading D) (dd_stats D) (dd_alerts D) (map_option fst (dd_orphans D))))"

definition timeline_card :: "dash_locale \<Rightarrow> dash_data \<Rightarrow> page_action view" where
  "timeline_card dl D =
     Box (Text ''Events / hour (last 24h) (click to filter)''
          # map (\<lambda>(hour, rawHour, count). Item (hour @ '' '' @ show_nat count) False (Dash (Hour rawHour)))
              (timelineData (lt_parse (dl_texts dl)) (dl_hours dl) (dd_stats D)))"

definition history_card :: "dash_locale \<Rightarrow> dash_data \<Rightarrow> page_action view" where
  "history_card dl D =
     Box (Text ''Event history (90 days)''
          # (case history_panel (dd_project D) (historyChartData (dl_day dl) (dl_hour dl) (dd_history D)) of
               Inl msgs \<Rightarrow> map Text msgs
             | Inr pts \<Rightarrow> map (\<lambda>(label, events, errors). Box [Text label, Text (show_nat events), Text (show_nat errors)]) pts))"

definition status_card :: "dash_locale \<Rightarrow> dash_data \<Rightarrow> dash \<Rightarrow> page_action view" where
  "status_card dl D d =
     Box (Text ''Status distribution (click to filter)''
          # map (\<lambda>(name, v, color, dimmed). Item (name @ '' '' @ show_nat v) (\<not> dimmed) (Dash (StatusBar name))) (status_bars (dd_stats D) d)
          @ map (\<lambda>(name, v, color). Text (name @ '': '' @ lt_number (dl_texts dl) v)) (statusData (dd_stats D)))"

definition method_card :: "dash_data \<Rightarrow> dash \<Rightarrow> page_action view" where
  "method_card D d =
     Box (Text ''Methods (click to filter)''
          # map (\<lambda>(name, v, color, dimmed). Item (name @ '' '' @ show_nat v) (\<not> dimmed) (Dash (MethodBar name))) (method_bars (dd_stats D) d))"

definition export_menu :: "dash \<Rightarrow> page_action view list" where
  "export_menu d = shown_if (d_exportOpen d) [Button ''CSV'' True (ExportAs ''csv''), Button ''JSON'' True (ExportAs ''json'')]"

text \<open>The parts of the page in their order, given its range picker.\<close>

definition page_parts :: "dash_locale \<Rightarrow> int \<Rightarrow> dash_data \<Rightarrow> dash \<Rightarrow> picker_action view \<Rightarrow> page_action view list" where
  "page_parts dl now D d rangePicker =
     [page_header dl now D, metric_grid dl D]
     @ map (map_view Dash) (down_banner (dd_monitors D))
     @ map (map_view Dash) (orphan_banner (dl_texts dl) (dd_orphans D) d)
     @ map (map_view Dash) (service_table (dl_texts dl) now (dd_monitors D) (dd_stats D) d)
     @ [timeline_card dl D, history_card dl D, status_card dl D d, method_card D d]
     @ [map_view Picker rangePicker, map_view Dash (event_feed (dl_texts dl) (dd_listError D) (dd_list D) d)]
     @ export_menu d
     @ (case EventDetailModal (dl_stamp dl) (d_selectedEvent d) (dd_eventLoading D) (dd_event D) (dd_revealed D) of
          None \<Rightarrow> []
        | Some v \<Rightarrow> [map_view Detail v])"

text \<open>The whole page. The picker throws on a custom range that is no date, and so does the page.\<close>

definition RouteComponent :: "dash_locale \<Rightarrow> int \<Rightarrow> dash_data \<Rightarrow> dash \<times> picker \<Rightarrow> js_error + page_action view" where
  "RouteComponent dl now D dp =
     (case dp of (d, pk) \<Rightarrow>
        case TimeRangePicker (dl_fns dl) (picker_props_of d) pk of
          Inl e \<Rightarrow> Inl e
        | Inr rangePicker \<Rightarrow> Inr (Box (page_parts dl now D d rangePicker)))"

section \<open>Every control is sound\<close>

lemma banner_clicks:
  "a \<in> set (concat (map clicks (down_banner ms))) \<Longrightarrow> action_ok a"
  "a \<in> set (concat (map clicks (orphan_banner lt orph d))) \<Longrightarrow> action_ok a"
  "a \<in> set (concat (map clicks (service_table lt now ms stats d))) \<Longrightarrow> action_ok a"
  by (auto simp: down_banner_def orphan_banner_def service_table_def Let_def split: option.splits if_splits)

lemma feed_clicks: "a \<in> set (clicks (event_feed lt err l d)) \<Longrightarrow> action_ok a"
  by (auto simp: event_feed_def feed_toolbar_def environment_chips_def filter_panel_def event_list_def sort_headings_def feed_pagination_def
      clicks_map_view Let_def split: if_splits)

lemma status_bar_classes: "(name, v, c, b) \<in> set (status_bars stats d) \<Longrightarrow> name \<in> set status_classes"
  by (auto simp: status_bars_def statusData_def status_classes_def Let_def split: option.splits)

lemma chart_clicks:
  "a \<in> set (clicks (timeline_card dl D)) \<or> a \<in> set (clicks (history_card dl D)) \<or> a \<in> set (clicks (status_card dl D d)) \<or> a \<in> set (clicks (method_card D d))
   \<Longrightarrow> \<exists>b. a = Dash b \<and> action_ok b"
  by (auto simp: timeline_card_def history_card_def status_card_def method_card_def dest: status_bar_classes split: sum.splits)

text \<open>The actions the page may offer, where \<open>w\<close> is its range picker.\<close>

definition offered :: "picker_action view \<Rightarrow> page_action \<Rightarrow> bool" where
  "offered w a \<longleftrightarrow>
     (case a of Dash b \<Rightarrow> action_ok b | Picker b \<Rightarrow> b \<in> set (clicks w) | Refresh \<Rightarrow> True | ExportAs _ \<Rightarrow> True | Detail _ \<Rightarrow> True)"

lemma offered_Dash: "a \<in> Dash ` S \<Longrightarrow> (\<And>b. b \<in> S \<Longrightarrow> action_ok b) \<Longrightarrow> offered w a"
  by (auto simp: offered_def)

lemma offered_mapped:
  assumes "\<And>b. b \<in> set (concat (map clicks vs)) \<Longrightarrow> action_ok b" "x \<in> set (map (map_view Dash) vs)" "a \<in> set (clicks x)"
  shows "offered w a"
proof (rule offered_Dash [OF _ assms(1)])
  show "a \<in> Dash ` set (concat (map clicks vs))" using assms(2,3) by (simp add: clicks_map_view image_iff) (metis (no_types, lifting) clicks_map_view image_iff list.set_map)
qed

lemma offered_cards:
  "x \<in> set [page_header dl now D, metric_grid dl D] \<Longrightarrow> a \<in> set (clicks x) \<Longrightarrow> offered w a"
  "x \<in> set [timeline_card dl D, history_card dl D, status_card dl D d, method_card D d] \<Longrightarrow> a \<in> set (clicks x) \<Longrightarrow> offered w a"
  "x \<in> set [map_view Picker w, map_view Dash (event_feed lt er l d)] \<Longrightarrow> a \<in> set (clicks x) \<Longrightarrow> offered w a"
  "x \<in> set (export_menu d) \<Longrightarrow> a \<in> set (clicks x) \<Longrightarrow> offered w a"
proof -
  show "x \<in> set [page_header dl now D, metric_grid dl D] \<Longrightarrow> a \<in> set (clicks x) \<Longrightarrow> offered w a"
    by (auto simp: page_header_def metric_grid_def metric_cards_def offered_def Let_def split: option.splits)
  show "x \<in> set [timeline_card dl D, history_card dl D, status_card dl D d, method_card D d] \<Longrightarrow> a \<in> set (clicks x) \<Longrightarrow> offered w a"
    using chart_clicks [of a dl D d] by (auto simp: offered_def)
  show "x \<in> set [map_view Picker w, map_view Dash (event_feed lt er l d)] \<Longrightarrow> a \<in> set (clicks x) \<Longrightarrow> offered w a"
    using offered_Dash [of a "set (clicks (event_feed lt er l d))" w, OF _ feed_clicks] by (auto simp: clicks_map_view offered_def)
  show "x \<in> set (export_menu d) \<Longrightarrow> a \<in> set (clicks x) \<Longrightarrow> offered w a"
    by (auto simp: export_menu_def offered_def)
qed

lemma offered_modal:
  "x \<in> set (case m of None \<Rightarrow> [] | Some v \<Rightarrow> [map_view Detail v]) \<Longrightarrow> a \<in> set (clicks x) \<Longrightarrow> offered w a"
  by (auto simp: clicks_map_view offered_def split: option.splits)

lemma part_offered:
  assumes "x \<in> set (page_parts dl now D d w)" "a \<in> set (clicks x)"
  shows "offered w a"
  using assms(1) unfolding page_parts_def set_append
proof (elim UnE)
  assume "x \<in> set (map (map_view Dash) (down_banner (dd_monitors D)))"
  from offered_mapped [OF banner_clicks(1) this assms(2)] show ?thesis .
next
  assume "x \<in> set (map (map_view Dash) (orphan_banner (dl_texts dl) (dd_orphans D) d))"
  from offered_mapped [OF banner_clicks(2) this assms(2)] show ?thesis .
next
  assume "x \<in> set (map (map_view Dash) (service_table (dl_texts dl) now (dd_monitors D) (dd_stats D) d))"
  from offered_mapped [OF banner_clicks(3) this assms(2)] show ?thesis .
qed (fact offered_cards(1) [OF _ assms(2)] offered_cards(2) [OF _ assms(2)] offered_cards(3) [OF _ assms(2)]
    offered_cards(4) [OF _ assms(2)] offered_modal [OF _ assms(2)])+

lemma dash_page_clicks:
  assumes "RouteComponent dl now D (d, pk) = Inr v" "a \<in> set (clicks v)"
  shows "\<exists>w. TimeRangePicker (dl_fns dl) (picker_props_of d) pk = Inr w \<and> offered w a"
  using assms part_offered by (auto simp: RouteComponent_def split: sum.splits)

lemma picker_out_ok:
  assumes "TimeRangePicker df props pk = Inr w" "b \<in> set (clicks w)" "picker_act df props pk b = (Some out, pk')"
  shows "action_ok (Range out)"
proof (cases b)
  case (Relative r)
  with assms offered_presets [OF assms(1), of r] show ?thesis by (auto simp: picker_act_def handleRelative_def)
qed (use assms(3) in \<open>auto simp: picker_act_def handleClear_def handleApply_def Let_def split: option.splits\<close>)

lemma page_step_valid:
  assumes "RouteComponent dl now D (d, pk) = Inr v" "a \<in> set (clicks v)" "searchSchema (d_search d)"
  shows "searchSchema (d_search (fst (page_step (dl_fns dl) (d, pk) a)))"
proof -
  obtain w where w: "TimeRangePicker (dl_fns dl) (picker_props_of d) pk = Inr w" "offered w a" using dash_page_clicks [OF assms(1,2)] by blast
  show ?thesis
  proof (cases a)
    case (Picker b)
    obtain out pk' where act: "picker_act (dl_fns dl) (picker_props_of d) pk b = (out, pk')" by fastforce
    show ?thesis
    proof (cases out)
      case (Some o')
      with act Picker have "fst (page_step (dl_fns dl) (d, pk) a) = dash_step d (Range o')" by simp
      moreover have "action_ok (Range o')" using picker_out_ok [OF w(1)] w(2) act Some Picker by (simp add: offered_def)
      ultimately show ?thesis using dash_step_valid [OF assms(3), of "Range o'"] by simp
    qed (use act Picker assms(3) in simp)
  next
    case (Detail b)
    then show ?thesis using assms(3) by (cases b) simp_all
  qed (use assms(3) w(2) dash_step_valid [OF assms(3)] in \<open>simp_all add: export_start_def offered_def\<close>)
qed

text \<open>The page by its clicks: it is rendered with some data, at some time, and one of its enabled controls is used.\<close>

inductive page_reach :: "dash_locale \<Rightarrow> dash \<times> picker \<Rightarrow> dash \<times> picker \<Rightarrow> bool" for dl s where
  page_start: "page_reach dl s s"
| page_click: "page_reach dl s t \<Longrightarrow> RouteComponent dl now D t = Inr v \<Longrightarrow> a \<in> set (clicks v) \<Longrightarrow> page_reach dl s (page_step (dl_fns dl) t a)"

text \<open>Clicking through the page, whatever its data are at each moment, the search stays one that the route accepts.\<close>

lemma page_search_valid:
  "page_reach dl s t \<Longrightarrow> searchSchema (d_search (fst s)) \<Longrightarrow> searchSchema (d_search (fst t))"
proof (induction rule: page_reach.induct)
  case (page_click t now D v a)
  then show ?case using page_step_valid by (cases t) fastforce
qed

text \<open>Closing the dialog and asking for the numbers again leave everything else as it is.\<close>

lemma page_quiet:
  "page_step df (d, pk) Refresh = (d, pk)"
  "page_step df (d, pk) (Detail CloseDetail) = (d\<lparr>d_selectedEvent := None\<rparr>, pk)"
  by simp_all

end
