(* ===== verification/Settings_Keys.thy ===== *)
theory Settings_Keys
  imports Dashboard
begin

text \<open>
  The project settings page (\<open>routes/app/_layout/settings/api-keys.tsx\<close>): creating projects with a slug
  made from the name, generating and revoking API keys, and the members of a project. The state of
  the component is a record, a handler is a step of it together with the requests it makes; the
  answers of those requests are events of their own, so that they interleave with the user's.
\<close>

section \<open>The slug of a name\<close>

text \<open>\<open>name.toLowerCase()\<close> on the bytes of the name. Two characters outside ASCII have an ASCII letter in
  their lower case, the Kelvin sign and the capital I with a dot; the lower case of every other
  one lies outside ASCII, where the slug does not tell the letters apart.\<close>

fun name_lower :: "string \<Rightarrow> string" where
  "name_lower [] = []"
| "name_lower (c # cs) =
     (if c = CHR 0xE2 \<and> take 2 cs = [CHR 0x84, CHR 0xAA] then CHR ''k'' # name_lower (drop 2 cs)
      else if c = CHR 0xC4 \<and> take 1 cs = [CHR 0xB0] then CHR ''i'' # CHR 0xCC # CHR 0x87 # name_lower (drop 1 cs)
      else lower_char c # name_lower cs)"

definition slug_char :: "char \<Rightarrow> bool" where
  "slug_char c \<longleftrightarrow> is_lower c \<or> is_digit c"

lemma dropWhile_shorter [termination_simp]: "length (dropWhile P xs) < Suc (length xs)"
  by (simp add: length_dropWhile_le less_Suc_eq_le)

text \<open>\<open>.replace(/[^a-z0-9]+/g, '-')\<close>.\<close>

fun slug_runs :: "string \<Rightarrow> string" where
  "slug_runs [] = []"
| "slug_runs (c # cs) =
     (if slug_char c then c # slug_runs cs else CHR ''-'' # slug_runs (dropWhile (\<lambda>x. \<not> slug_char x) cs))"

text \<open>\<open>.replace(/^-|-$/g, '')\<close>.\<close>

definition trim_dash :: "string \<Rightarrow> string" where
  "trim_dash s =
     (let t = (if s \<noteq> [] \<and> hd s = CHR ''-'' then tl s else s)
      in if t \<noteq> [] \<and> last t = CHR ''-'' then butlast t else t)"

definition slug_of :: "string \<Rightarrow> string" where
  "slug_of name = trim_dash (slug_runs (name_lower name))"

section \<open>Data and state\<close>

record Project =
  pj_id :: string
  pj_name :: string
  pj_slug :: string
  pj_created_by :: string
  pj_created_at :: string

record APIKey =
  ak_id :: string
  ak_name :: string
  ak_project_id :: string
  ak_created_at :: string
  ak_expires_at :: "string option"
  ak_active :: bool

record Member =
  mb_user_id :: string
  mb_project_id :: string
  mb_role :: string
  mb_name :: string
  mb_email :: string

text \<open>What the queries of the page hold: the projects, whether they are loading, and the keys and
  members of the expanded project.\<close>

record keys_data =
  kd_projects :: "Project list"
  kd_loading :: bool
  kd_keys :: "APIKey list"
  kd_members :: "Member list"

text \<open>The state variables, and the mutations in flight: whether a key or a project is being created,
  and the project a member is being added from.\<close>

record keys_page =
  kp_expanded :: "string option"
  kp_newKeyName :: "string \<Rightarrow> string option"
  kp_revealed :: "string option"
  kp_copied :: bool
  kp_showNew :: bool
  kp_name :: string
  kp_slug :: string
  kp_error :: string
  kp_tab :: "string \<Rightarrow> string option"
  kp_email :: "string \<Rightarrow> string option"
  kp_role :: "string \<Rightarrow> string option"
  kp_keyPending :: bool
  kp_projectPending :: bool
  kp_memberPending :: "string option"

definition keys_init :: keys_page where
  "keys_init = \<lparr>kp_expanded = None, kp_newKeyName = Map.empty, kp_revealed = None, kp_copied = False, kp_showNew = False,
     kp_name = [], kp_slug = [], kp_error = [], kp_tab = Map.empty, kp_email = Map.empty, kp_role = Map.empty,
     kp_keyPending = False, kp_projectPending = False, kp_memberPending = None\<rparr>"

section \<open>Events, requests and handlers\<close>

datatype keys_event =
    ToggleNew | CancelNew | TypeName string | TypeSlug string | ClickCreate | ProjectCreated | ProjectFailed string
  | CopyKey string | CopyTimeout | DismissKey | ToggleProject string | SetTab string string
  | TypeKeyName string string | GenerateKey string | KeyCreated "string option" | KeyFailed | RevokeKey string
  | TypeEmail string string | SetMemberRole string string | ClickAddMember string | MemberAdded | MemberFailed
  | ChangeRole string string | ClickRemoveMember string

datatype keys_call =
    CallCreateProject string string
  | CallCreateKey string string
  | CallRevokeKey string
  | CallAddMember string string
  | CallUpdateRole string string
  | CallRemoveMember string

definition keys_queries :: "server \<Rightarrow> string \<Rightarrow> keys_page \<Rightarrow> query list" where
  "keys_queries srv base s = [useProjects srv base, useAPIKeys srv base (kp_expanded s), useMembers srv base (kp_expanded s)]"

text \<open>The request a call makes, through the mutation of its hook.\<close>

fun keys_io :: "server \<Rightarrow> string \<Rightarrow> string option \<Rightarrow> keys_call \<Rightarrow> json io" where
  "keys_io srv base p (CallCreateProject name slug) = m_fn (useCreateProject srv base) (name, slug)"
| "keys_io srv base p (CallCreateKey pid name) = m_fn (useCreateAPIKey srv base p) (pid, name)"
| "keys_io srv base p (CallRevokeKey i) = m_fn (useRevokeAPIKey srv base p) i"
| "keys_io srv base p (CallAddMember email role) = m_fn (useAddMember srv base p) (email, role)"
| "keys_io srv base p (CallUpdateRole u role) = m_fn (useUpdateMemberRole srv base p) (u, role)"
| "keys_io srv base p (CallRemoveMember u) = m_fn (useRemoveMember srv base p) u"

definition keys_handleCopy :: "keys_page \<Rightarrow> keys_page" where
  "keys_handleCopy s = s\<lparr>kp_copied := True\<rparr>"

definition handleSlugFromName :: "string \<Rightarrow> keys_page \<Rightarrow> keys_page" where
  "handleSlugFromName name s = s\<lparr>kp_name := name, kp_slug := slug_of name\<rparr>"

definition handleCreateProject :: "keys_page \<Rightarrow> keys_page \<times> keys_call list" where
  "handleCreateProject s =
     (s\<lparr>kp_error := [], kp_projectPending := True\<rparr>, [CallCreateProject (kp_name s) (kp_slug s)])"

definition project_created :: "keys_page \<Rightarrow> keys_page" where
  "project_created s = s\<lparr>kp_showNew := False, kp_name := [], kp_slug := [], kp_projectPending := False\<rparr>"

definition toggle_project :: "string \<Rightarrow> keys_page \<Rightarrow> keys_page" where
  "toggle_project i s = s\<lparr>kp_expanded := (if kp_expanded s = Some i then None else Some i), kp_revealed := None\<rparr>"

definition generate_key :: "string \<Rightarrow> keys_page \<Rightarrow> keys_page \<times> keys_call list" where
  "generate_key i s =
     (s\<lparr>kp_newKeyName := (kp_newKeyName s)(i \<mapsto> []), kp_keyPending := True\<rparr>, [CallCreateKey i (nullish (kp_newKeyName s i) [])])"

definition add_member :: "string \<Rightarrow> keys_page \<Rightarrow> keys_page \<times> keys_call list" where
  "add_member i s =
     (s\<lparr>kp_memberPending := Some i\<rparr>, [CallAddMember (nullish (kp_email s i) []) (nullish (kp_role s i) ''viewer'')])"

definition member_added :: "keys_page \<Rightarrow> keys_page" where
  "member_added s =
     (case kp_memberPending s of
        None \<Rightarrow> s
      | Some i \<Rightarrow> s\<lparr>kp_email := (kp_email s)(i \<mapsto> []), kp_memberPending := None\<rparr>)"

fun keys_step :: "keys_page \<Rightarrow> keys_event \<Rightarrow> keys_page \<times> keys_call list" where
  "keys_step s ToggleNew = (s\<lparr>kp_showNew := \<not> kp_showNew s\<rparr>, [])"
| "keys_step s CancelNew = (s\<lparr>kp_showNew := False\<rparr>, [])"
| "keys_step s (TypeName n) = (handleSlugFromName n s, [])"
| "keys_step s (TypeSlug t) = (s\<lparr>kp_slug := t\<rparr>, [])"
| "keys_step s ClickCreate = handleCreateProject s"
| "keys_step s ProjectCreated = (project_created s, [])"
| "keys_step s (ProjectFailed msg) = (s\<lparr>kp_error := msg, kp_projectPending := False\<rparr>, [])"
| "keys_step s (CopyKey k) = (keys_handleCopy s, [])"
| "keys_step s CopyTimeout = (s\<lparr>kp_copied := False\<rparr>, [])"
| "keys_step s DismissKey = (s\<lparr>kp_revealed := None\<rparr>, [])"
| "keys_step s (ToggleProject i) = (toggle_project i s, [])"
| "keys_step s (SetTab i t) = (s\<lparr>kp_tab := (kp_tab s)(i \<mapsto> t)\<rparr>, [])"
| "keys_step s (TypeKeyName i t) = (s\<lparr>kp_newKeyName := (kp_newKeyName s)(i \<mapsto> t)\<rparr>, [])"
| "keys_step s (GenerateKey i) = generate_key i s"
| "keys_step s (KeyCreated k) = (s\<lparr>kp_revealed := k, kp_keyPending := False\<rparr>, [])"
| "keys_step s KeyFailed = (s\<lparr>kp_keyPending := False\<rparr>, [])"
| "keys_step s (RevokeKey i) = (s, [CallRevokeKey i])"
| "keys_step s (TypeEmail i t) = (s\<lparr>kp_email := (kp_email s)(i \<mapsto> t)\<rparr>, [])"
| "keys_step s (SetMemberRole i r) = (s\<lparr>kp_role := (kp_role s)(i \<mapsto> r)\<rparr>, [])"
| "keys_step s (ClickAddMember i) = add_member i s"
| "keys_step s MemberAdded = (member_added s, [])"
| "keys_step s MemberFailed = (s\<lparr>kp_memberPending := None\<rparr>, [])"
| "keys_step s (ChangeRole u r) = (s, [CallUpdateRole u r])"
| "keys_step s (ClickRemoveMember u) = (s, [CallRemoveMember u])"


section \<open>The page\<close>

definition new_project_card :: "keys_page \<Rightarrow> keys_event view" where
  "new_project_card s =
     Box ([Text ''Create project'', Field ''Project name'' (kp_name s), Field ''slug'' (kp_slug s),
           Button ''Create'' (kp_name s \<noteq> [] \<and> kp_slug s \<noteq> [] \<and> \<not> kp_projectPending s) ClickCreate,
           Button ''Cancel'' True CancelNew]
          @ shown_if (kp_error s \<noteq> []) [Text (kp_error s)])"

definition revealed_card :: "keys_page \<Rightarrow> string \<Rightarrow> keys_event view" where
  "revealed_card s k =
     Box [Text (''New API Key '' @ em_dash @ '' copy it now, it will not be shown again''), Text k,
          Button (if kp_copied s then ''Copied'' else ''Copy'') True (CopyKey k), Button ''Dismiss'' True DismissKey]"

text \<open>\<open>date\<close> is the locale's text of a day.\<close>

definition key_row :: "(string \<Rightarrow> string) \<Rightarrow> APIKey \<Rightarrow> keys_event view" where
  "key_row date k =
     Box ([Text (ak_name k), Text (if ak_active k then ''active'' else ''revoked''), Text (date (ak_created_at k))]
          @ shown_if (ak_active k) [Button ''Revoke'' True (RevokeKey (ak_id k))])"

definition keys_tab :: "(string \<Rightarrow> string) \<Rightarrow> keys_data \<Rightarrow> keys_page \<Rightarrow> string \<Rightarrow> keys_event view" where
  "keys_tab date d s i =
     Box ([Field ''Key name (e.g. production)'' (nullish (kp_newKeyName s i) []),
           Button ''Generate key'' (truthy (kp_newKeyName s i) \<and> \<not> kp_keyPending s) (GenerateKey i)]
          @ (if kd_keys d = [] then [Text ''No keys yet for this project.''] else map (key_row date) (kd_keys d)))"

definition member_row :: "Member \<Rightarrow> keys_event view" where
  "member_row m =
     Box ([Text (mb_name m), Text (mb_email m),
           chooser (mb_role m) (mb_role m \<noteq> ''owner'')
             [(''viewer'', ''Viewer'', True), (''admin'', ''Admin'', True), (''owner'', ''Owner'', False)] (ChangeRole (mb_user_id m))]
          @ shown_if (mb_role m \<noteq> ''owner'') [Button ''remove'' True (ClickRemoveMember (mb_user_id m))])"

definition members_tab :: "keys_data \<Rightarrow> keys_page \<Rightarrow> string \<Rightarrow> keys_event view" where
  "members_tab d s i =
     Box ([Field ''Email address'' (nullish (kp_email s i) []),
           chooser (nullish (kp_role s i) ''viewer'') True [(''viewer'', ''Viewer'', True), (''admin'', ''Admin'', True)] (SetMemberRole i),
           Button ''Add member'' (truthy (kp_email s i) \<and> kp_memberPending s = None) (ClickAddMember i)]
          @ (if kd_members d = [] then [Text ''No members yet.''] else map member_row (kd_members d)))"

definition project_card :: "(string \<Rightarrow> string) \<Rightarrow> keys_data \<Rightarrow> keys_page \<Rightarrow> Project \<Rightarrow> keys_event view" where
  "project_card date d s p =
     (let i = pj_id p
      in Box ([Item (pj_name p) (kp_expanded s = Some i) (ToggleProject i), Text (pj_slug p)]
              @ shown_if (kp_expanded s = Some i)
                  ([Item ''API Keys'' (nullish (kp_tab s i) ''keys'' = ''keys'') (SetTab i ''keys''),
                    Item ''Members'' (kp_tab s i = Some ''members'') (SetTab i ''members'')]
                   @ shown_if (nullish (kp_tab s i) ''keys'' = ''keys'') [keys_tab date d s i]
                   @ shown_if (kp_tab s i = Some ''members'') [members_tab d s i])))"

definition projects_list :: "(string \<Rightarrow> string) \<Rightarrow> keys_data \<Rightarrow> keys_page \<Rightarrow> keys_event view list" where
  "projects_list date d s =
     (if kd_loading d then [Text ''Loading projects...'']
      else if kd_projects d = []
      then [Text ''No projects yet.'',
            Text ''Projects are created automatically when your SDK sends its first event, or you can create one manually above.'']
      else map (project_card date d s) (kd_projects d))"

definition APIKeysPage :: "(string \<Rightarrow> string) \<Rightarrow> keys_data \<Rightarrow> keys_page \<Rightarrow> keys_event view" where
  "APIKeysPage date d s =
     Box ([Text ''API Keys'', Text ''Manage API keys used by your SDKs to send events to BatAudit.'', Button ''New Project'' True ToggleNew]
          @ shown_if (kp_showNew s) [new_project_card s]
          @ (case kp_revealed s of None \<Rightarrow> [] | Some k \<Rightarrow> shown_if (k \<noteq> []) [revealed_card s k])
          @ projects_list date d s)"

section \<open>Runs of the page\<close>

text \<open>What can happen in a state: a click on an enabled control of the page as it is shown with some
  data, a text typed, the answer of a mutation in flight, or the end of the copy notice.\<close>

fun typed :: "keys_event \<Rightarrow> bool" where
  "typed (TypeName n) = True"
| "typed (TypeSlug t) = True"
| "typed (TypeKeyName i t) = True"
| "typed (TypeEmail i t) = True"
| "typed _ = False"

fun answer_due :: "keys_page \<Rightarrow> keys_event \<Rightarrow> bool" where
  "answer_due s ProjectCreated = kp_projectPending s"
| "answer_due s (ProjectFailed msg) = kp_projectPending s"
| "answer_due s (KeyCreated k) = kp_keyPending s"
| "answer_due s KeyFailed = kp_keyPending s"
| "answer_due s MemberAdded = (kp_memberPending s \<noteq> None)"
| "answer_due s MemberFailed = (kp_memberPending s \<noteq> None)"
| "answer_due s CopyTimeout = kp_copied s"
| "answer_due s _ = False"

inductive keys_may :: "keys_page \<Rightarrow> keys_event \<Rightarrow> bool" where
  may_click: "e \<in> set (clicks (APIKeysPage date d s)) \<Longrightarrow> keys_may s e"
| may_type: "typed e \<Longrightarrow> keys_may s e"
| may_answer: "answer_due s e \<Longrightarrow> keys_may s e"

text \<open>A run: the events in order, the state reached and the requests made.\<close>

inductive keys_run :: "keys_event list \<Rightarrow> keys_page \<Rightarrow> keys_call list \<Rightarrow> bool" where
  run_start: "keys_run [] keys_init []"
| run_more: "keys_run es s cs \<Longrightarrow> keys_may s e \<Longrightarrow> keys_run (es @ [e]) (fst (keys_step s e)) (cs @ snd (keys_step s e))"


section \<open>The slug\<close>

text \<open>The words of a text: its maximal runs of slug characters.\<close>

function slug_words :: "string \<Rightarrow> string list" where
  "slug_words s =
     (let t = dropWhile (\<lambda>x. \<not> slug_char x) s
      in if t = [] then [] else takeWhile slug_char t # slug_words (dropWhile slug_char t))"
  by auto
termination
proof (relation "measure length")
  fix s t :: string
  assume t: "t = dropWhile (\<lambda>x. \<not> slug_char x) s" "t \<noteq> []"
  obtain c cs where c: "t = c # cs" using t(2) by (meson list.exhaust)
  moreover have "slug_char c" using t c by (metis hd_dropWhile list.sel(1))
  ultimately have "length (dropWhile slug_char t) < length t" by (simp add: length_dropWhile_le less_Suc_eq_le)
  also have "length t \<le> length s" by (simp add: t length_dropWhile_le)
  finally show "(dropWhile slug_char t, s) \<in> measure length" by simp
qed simp

declare slug_words.simps [simp del]

lemma slug_words_word: "w \<in> set (slug_words s) \<Longrightarrow> w \<noteq> [] \<and> list_all slug_char w"
proof (induction s rule: slug_words.induct)
  case (1 s)
  let ?t = "dropWhile (\<lambda>x. \<not> slug_char x) s"
  have t: "?t \<noteq> []" using 1(2) by (subst (asm) slug_words.simps) (auto simp: Let_def split: if_splits)
  then have "slug_char (hd ?t)" by (metis hd_dropWhile)
  then have "takeWhile slug_char ?t \<noteq> []" using t by (cases ?t) auto
  moreover have "list_all slug_char (takeWhile slug_char ?t)" by (auto simp: list.pred_set dest: set_takeWhileD)
  moreover have "slug_words s = takeWhile slug_char ?t # slug_words (dropWhile slug_char ?t)"
    using t by (subst slug_words.simps) (simp add: Let_def)
  ultimately show ?case using 1 t by (metis set_ConsD)
qed

lemma slug_words_skip: "slug_words (dropWhile (\<lambda>x. \<not> slug_char x) s) = slug_words s"
  by (subst slug_words.simps, subst (2) slug_words.simps) simp

lemma slug_words_step:
  assumes "s \<noteq> []" "slug_char (hd s)"
  shows "slug_words s = takeWhile slug_char s # slug_words (dropWhile slug_char s)"
proof -
  have "dropWhile (\<lambda>x. \<not> slug_char x) s = s" using assms by (cases s) auto
  then show ?thesis using assms by (subst slug_words.simps) simp
qed

lemma slug_runs_word: "slug_runs s = takeWhile slug_char s @ slug_runs (dropWhile slug_char s)"
  by (induction s rule: slug_runs.induct) auto

lemma slug_runs_join:
  assumes "s \<noteq> []" "slug_char (hd s)"
  shows "slug_runs s = join_with ''-'' (slug_words s) \<or> slug_runs s = join_with ''-'' (slug_words s) @ ''-''"
  using assms
proof (induction "length s" arbitrary: s rule: less_induct)
  case less
  define r where "r = dropWhile slug_char s"
  have s: "slug_words s = takeWhile slug_char s # slug_words r" "slug_runs s = takeWhile slug_char s @ slug_runs r"
    using slug_words_step [OF less.prems] slug_runs_word [of s] by (simp_all add: r_def)
  show ?case
  proof (cases r)
    case Nil
    then show ?thesis using s by (simp add: slug_words.simps)
  next
    case (Cons c cs)
    define q where "q = dropWhile (\<lambda>x. \<not> slug_char x) cs"
    have c: "\<not> slug_char c" using Cons r_def by (metis hd_dropWhile list.discI list.sel(1))
    have rr: "slug_runs r = CHR ''-'' # slug_runs q" "slug_words r = slug_words q"
      using c slug_words_skip [of r] slug_words_skip [of cs] by (simp_all add: Cons q_def)
    show ?thesis
    proof (cases "q = []")
      case True
      then show ?thesis using s rr by (simp add: slug_words.simps)
    next
      case False
      then have q: "slug_char (hd q)" using q_def by (metis hd_dropWhile)
      have "length q \<le> length cs" "length r \<le> length s" by (simp_all add: q_def r_def length_dropWhile_le)
      then have "length q < length s" using Cons by simp
      then have ih: "slug_runs q = join_with ''-'' (slug_words q) \<or> slug_runs q = join_with ''-'' (slug_words q) @ ''-''"
        using less.hyps False q by blast
      obtain w ws where "slug_words q = w # ws" using slug_words_step [OF False q] by blast
      then show ?thesis using ih s rr by auto
    qed
  qed
qed

lemma join_ends:
  assumes "ws \<noteq> []" "\<And>w. w \<in> set ws \<Longrightarrow> w \<noteq> [] \<and> list_all slug_char w"
  shows "join_with ''-'' ws \<noteq> [] \<and> slug_char (hd (join_with ''-'' ws)) \<and> slug_char (last (join_with ''-'' ws))"
  using assms
proof (induction "''-''" ws rule: join_with.induct)
  case (2 x)
  then show ?case by (cases x) (auto simp: list.pred_set)
next
  case (3 x y ys)
  have "x \<noteq> []" "slug_char (hd x)" using 3(3) [of x] by (cases x; auto)+
  moreover have "join_with ''-'' (y # ys) \<noteq> [] \<and> slug_char (last (join_with ''-'' (y # ys)))" using 3 by auto
  ultimately show ?case by simp
qed simp

lemma not_slug_dash: "\<not> slug_char (CHR ''-'')"
  by (simp add: slug_char_def is_lower_def is_digit_def)

lemma trim_runs: "trim_dash (slug_runs s) = join_with ''-'' (slug_words s)"
proof -
  define q where "q = dropWhile (\<lambda>x. \<not> slug_char x) s"
  have w: "slug_words s = slug_words q" by (simp add: q_def slug_words_skip)
  have lead: "slug_runs s = slug_runs q \<or> slug_runs s = CHR ''-'' # slug_runs q"
    by (cases s) (auto simp: q_def)
  show ?thesis
  proof (cases "q = []")
    case True
    then show ?thesis using lead w by (auto simp: trim_dash_def slug_words.simps)
  next
    case False
    then have q: "slug_char (hd q)" using q_def by (metis hd_dropWhile)
    let ?j = "join_with ''-'' (slug_words q)"
    have e: "?j \<noteq> []" "slug_char (hd ?j)" "slug_char (last ?j)"
      using join_ends [of "slug_words q"] slug_words_word [of _ q] slug_words_step [OF False q] by auto
    have "hd ?j \<noteq> CHR ''-''" "last ?j \<noteq> CHR ''-''" using e not_slug_dash by metis+
    then show ?thesis
      using slug_runs_join [OF False q] lead w e(1) by (auto simp: trim_dash_def Let_def butlast_append)
  qed
qed

lemma slug_words_join:
  assumes "\<And>w. w \<in> set ws \<Longrightarrow> w \<noteq> [] \<and> list_all slug_char w"
  shows "slug_words (join_with ''-'' ws) = ws"
  using assms
proof (induction "''-''" ws rule: join_with.induct)
  case 1
  then show ?case by (simp add: slug_words.simps)
next
  case (2 x)
  then have x: "x \<noteq> []" "takeWhile slug_char x = x" "dropWhile slug_char x = []" "slug_char (hd x)"
    by (auto simp: list.pred_set)
  moreover have "slug_words [] = []" by (simp add: slug_words.simps)
  ultimately show ?case using slug_words_step [OF x(1,4)] unfolding x(2,3) by simp
next
  case (3 x y ys)
  let ?j = "join_with ''-'' (y # ys)"
  have x: "x \<noteq> []" "\<forall>c \<in> set x. slug_char c" using 3(2) [of x] by (auto simp: list.pred_set)
  then have t: "takeWhile slug_char (x @ CHR ''-'' # ?j) = x" "dropWhile slug_char (x @ CHR ''-'' # ?j) = CHR ''-'' # ?j"
    by (simp_all add: takeWhile_append2 dropWhile_append2 not_slug_dash)
  have "slug_words (CHR ''-'' # ?j) = slug_words ?j"
    using slug_words_skip [of "CHR ''-'' # ?j"] slug_words_skip [of ?j] by (simp add: not_slug_dash)
  then show ?case using 3 x t by (simp add: slug_words_step)
qed


lemma slug_of_words: "slug_of name = join_with ''-'' (slug_words (name_lower name))"
  by (simp add: slug_of_def trim_runs)

lemma lower_slug_char: "slug_char c \<or> c = CHR ''-'' \<Longrightarrow> lower_char c = c \<and> c \<noteq> CHR 0xE2 \<and> c \<noteq> CHR 0xC4"
  by (auto simp: slug_char_def is_lower_def is_digit_def lower_char_def is_upper_def)

lemma name_lower_slug: "(\<And>c. c \<in> set s \<Longrightarrow> slug_char c \<or> c = CHR ''-'') \<Longrightarrow> name_lower s = s"
proof (induction s)
  case (Cons c cs)
  then show ?case using lower_slug_char [of c] by auto
qed simp

lemma join_with_chars: "c \<in> set (join_with ''-'' ws) \<Longrightarrow> c = CHR ''-'' \<or> (\<exists>w \<in> set ws. c \<in> set w)"
  by (induction "''-''" ws rule: join_with.induct) auto

text \<open>C36. The slug proposed for a project name is the words of the name in lower case joined by single dashes, a word being a
  longest run of letters and digits: it has no other characters, no leading, trailing or doubled dash, and a slug typed as a
  name stays as it is.\<close>

theorem slug_normal_form:
  "kp_slug (fst (keys_step s (TypeName name))) = join_with ''-'' (slug_words (name_lower name))
   \<and> list_all (\<lambda>w. w \<noteq> [] \<and> list_all slug_char w) (slug_words (name_lower name))
   \<and> (slug_of name = [] \<or> list_all (\<lambda>w. w \<noteq> [] \<and> list_all slug_char w) (split_on (CHR ''-'') (slug_of name)))
   \<and> slug_of (slug_of name) = slug_of name"
proof -
  let ?ws = "slug_words (name_lower name)"
  have w: "w \<noteq> [] \<and> list_all slug_char w" if "w \<in> set ?ws" for w using slug_words_word [OF that] .
  have nd: "CHR ''-'' \<notin> set w" if "w \<in> set ?ws" for w
    using w [OF that] not_slug_dash by (auto simp: list.pred_set)
  have "split_on (CHR ''-'') (slug_of name) = ?ws" if "?ws \<noteq> []"
    using split_on_join [OF that nd] by (simp add: slug_of_words)
  then have split: "slug_of name = [] \<or> list_all (\<lambda>w. w \<noteq> [] \<and> list_all slug_char w) (split_on (CHR ''-'') (slug_of name))"
    using w by (cases "?ws = []") (auto simp: slug_of_words list.pred_set)
  have "name_lower (slug_of name) = slug_of name"
    by (rule name_lower_slug) (use w in \<open>fastforce simp: slug_of_words list.pred_set dest: join_with_chars\<close>)
  then have "slug_of (slug_of name) = slug_of name"
    using slug_words_join [of ?ws] w by (simp add: slug_of_words)
  then show ?thesis using split w by (simp add: handleSlugFromName_def slug_of_words list.pred_set)
qed

section \<open>Keys are generated one at a time and shown once\<close>

lemma generate_shown:
  assumes "GenerateKey i \<in> set (clicks (APIKeysPage date d s))"
  shows "kp_expanded s = Some i \<and> truthy (kp_newKeyName s i) \<and> \<not> kp_keyPending s"
  using assms
  by (auto simp: APIKeysPage_def new_project_card_def revealed_card_def projects_list_def project_card_def keys_tab_def
      key_row_def members_tab_def member_row_def Let_def shown_if_def chooser_def split: if_splits option.splits)

lemma generate_may:
  assumes "keys_may s (GenerateKey i)"
  shows "kp_expanded s = Some i \<and> truthy (kp_newKeyName s i) \<and> \<not> kp_keyPending s"
  using assms generate_shown by (cases rule: keys_may.cases) auto

lemma answer_may: "keys_may s (KeyCreated k) \<Longrightarrow> kp_keyPending s"
  by (auto simp: keys_may.simps APIKeysPage_def new_project_card_def revealed_card_def projects_list_def project_card_def
      keys_tab_def key_row_def members_tab_def member_row_def Let_def shown_if_def chooser_def split: if_splits option.splits)

lemma failure_may: "keys_may s KeyFailed \<Longrightarrow> kp_keyPending s"
  by (auto simp: keys_may.simps APIKeysPage_def new_project_card_def revealed_card_def projects_list_def project_card_def
      keys_tab_def key_row_def members_tab_def member_row_def Let_def shown_if_def chooser_def split: if_splits option.splits)

fun key_call :: "keys_call \<Rightarrow> bool" where
  "key_call (CallCreateKey i n) = True"
| "key_call _ = False"

fun key_answer :: "keys_event \<Rightarrow> bool" where
  "key_answer (KeyCreated k) = True"
| "key_answer KeyFailed = True"
| "key_answer _ = False"

text \<open>The events that hide a revealed key or replace it.\<close>

fun hides_key :: "keys_event \<Rightarrow> bool" where
  "hides_key (KeyCreated k) = True"
| "hides_key DismissKey = True"
| "hides_key (ToggleProject i) = True"
| "hides_key _ = False"

lemma revealed_step: "\<not> hides_key e \<Longrightarrow> kp_revealed (fst (keys_step s e)) = kp_revealed s"
  by (cases e) (auto simp: handleSlugFromName_def handleCreateProject_def project_created_def keys_handleCopy_def
      generate_key_def add_member_def member_added_def split: option.split)

lemma calls_step:
  assumes "keys_may s e"
  shows "length (filter key_call (snd (keys_step s e))) + (if kp_keyPending s then 1 else 0)
    = (if key_answer e then 1 else 0) + (if kp_keyPending (fst (keys_step s e)) then 1 else (0::nat))"
proof (cases e)
  case (GenerateKey i)
  then show ?thesis using assms generate_may [of s i] by (simp add: generate_key_def)
next
  case (KeyCreated k)
  then show ?thesis using assms answer_may by simp
next
  case KeyFailed
  then show ?thesis using assms failure_may by simp
qed (auto simp: handleSlugFromName_def handleCreateProject_def project_created_def keys_handleCopy_def toggle_project_def
      add_member_def member_added_def split: option.split)

lemma named_step: "keys_may s e \<Longrightarrow> CallCreateKey i n \<in> set (snd (keys_step s e)) \<Longrightarrow> e = GenerateKey i \<and> n \<noteq> []"
  by (cases e) (auto simp: handleCreateProject_def generate_key_def add_member_def nullish_def truthy_def dest!: generate_may
      split: option.splits)

lemma revealed_from:
  assumes "keys_run es s cs" "kp_revealed s = Some k"
  shows "\<exists>pre post. es = pre @ KeyCreated (Some k) # post \<and> list_all (\<lambda>e. \<not> hides_key e) post"
  using assms
proof (induction arbitrary: k rule: keys_run.induct)
  case (run_more es s cs e)
  show ?case
  proof (cases "hides_key e")
    case True
    with run_more.prems have "e = KeyCreated (Some k)" by (cases e) (auto simp: toggle_project_def)
    then show ?thesis by (intro exI [of _ es] exI [of _ "[]"]) simp
  next
    case False
    then obtain pre post where "es = pre @ KeyCreated (Some k) # post" "list_all (\<lambda>e. \<not> hides_key e) post"
      using run_more revealed_step by metis
    then show ?thesis using False by (intro exI [of _ pre] exI [of _ "post @ [e]"]) simp
  qed
qed (simp add: keys_init_def)


text \<open>C33. In every run of the page the requests for new keys are answered one by one, so that no second key is asked for
  while one is in flight; each was clicked and carries a non-empty name; and a key on display is the one of the last answer,
  with neither a dismissal nor a click on a project since.\<close>

theorem keys_one_at_a_time:
  assumes "keys_run es s cs"
  shows "length (filter key_call cs) = length (filter key_answer es) + (if kp_keyPending s then 1 else 0)
    \<and> (\<forall>i n. CallCreateKey i n \<in> set cs \<longrightarrow> n \<noteq> [] \<and> GenerateKey i \<in> set es)
    \<and> (\<forall>k. kp_revealed s = Some k \<longrightarrow>
        (\<exists>pre post. es = pre @ KeyCreated (Some k) # post \<and> list_all (\<lambda>e. \<not> hides_key e) post))"
proof -
  have "length (filter key_call cs) = length (filter key_answer es) + (if kp_keyPending s then 1 else 0)
    \<and> (\<forall>i n. CallCreateKey i n \<in> set cs \<longrightarrow> n \<noteq> [] \<and> GenerateKey i \<in> set es)"
    using assms
  proof (induction rule: keys_run.induct)
    case (run_more es s cs e)
    then show ?case using calls_step [OF run_more(2)] named_step [OF run_more(2)] by (auto split: if_splits)
  qed (simp add: keys_init_def)
  then show ?thesis using revealed_from [OF assms] by blast
qed

definition sample_keys_data :: keys_data where
  "sample_keys_data = \<lparr>kd_projects = [\<lparr>pj_id = ''p'', pj_name = ''P'', pj_slug = ''p'', pj_created_by = [], pj_created_at = []\<rparr>], kd_loading = False, kd_keys = [], kd_members = []\<rparr>"

lemma sample_keys_run:
  "\<exists>s cs. keys_run [ToggleProject ''p'', TypeKeyName ''p'' ''prod'', GenerateKey ''p'', KeyCreated (Some ''bat_1'')] s cs
    \<and> kp_revealed s = Some ''bat_1'' \<and> cs = [CallCreateKey ''p'' ''prod'']"
proof -
  note v = APIKeysPage_def projects_list_def project_card_def keys_tab_def sample_keys_data_def keys_init_def toggle_project_def truthy_def
  let ?st = "\<lambda>s e. fst (keys_step s e)"
  let ?s1 = "?st keys_init (ToggleProject ''p'')"
  let ?s2 = "?st ?s1 (TypeKeyName ''p'' ''prod'')"
  let ?s3 = "?st ?s2 (GenerateKey ''p'')"
  have m1: "keys_may keys_init (ToggleProject ''p'')"
    by (rule may_click [of _ "\<lambda>_. []" sample_keys_data]) (simp add: v)
  have m2: "keys_may ?s1 (TypeKeyName ''p'' ''prod'')" by (rule may_type) simp
  have m3: "keys_may ?s2 (GenerateKey ''p'')"
    by (rule may_click [of _ "\<lambda>_. []" sample_keys_data]) (simp add: v nullish_def Let_def)
  have m4: "keys_may ?s3 (KeyCreated (Some ''bat_1''))" by (rule may_answer) (simp add: generate_key_def)
  from run_more [OF run_more [OF run_more [OF run_more [OF run_start m1] m2] m3] m4]
  show ?thesis by (auto simp: generate_key_def toggle_project_def keys_init_def nullish_def)
qed

theorem keys_one_at_a_time_witness:
  "\<exists>s cs. keys_run [ToggleProject ''p'', TypeKeyName ''p'' ''prod'', GenerateKey ''p'', KeyCreated (Some ''bat_1'')] s cs
    \<and> kp_revealed s = Some ''bat_1'' \<and> length (filter key_call cs) = 1 \<and> \<not> kp_keyPending s"
  using sample_keys_run keys_one_at_a_time by fastforce

text \<open>A key that is answered after the user has moved on is revealed on another project.\<close>

lemma key_revealed_elsewhere:
  "\<exists>s. s = run (\<lambda>s e. fst (keys_step s e)) keys_init
        [ToggleProject ''a'', TypeKeyName ''a'' ''n'', GenerateKey ''a'', ToggleProject ''b'', KeyCreated (Some ''k'')]
    \<and> kp_expanded s = Some ''b'' \<and> kp_revealed s = Some ''k''"
  by (simp add: generate_key_def toggle_project_def keys_init_def)

end
