(* ===== verification/Settings_Monitors.thy ===== *)
theory Settings_Monitors
  imports Studio Pages
begin

text \<open>
  The healthcheck page (\<open>routes/app/_layout/settings/healthcheck.tsx\<close>): the monitors of a project with
  their history and immediate test, the form that creates or edits one, and the overview shown
  when no project is selected.
\<close>

section \<open>Badges and times\<close>

definition MonitorStatusBadge :: "string \<Rightarrow> string" where
  "MonitorStatusBadge status = (if status = ''up'' then ''UP'' else if status = ''down'' then ''DOWN'' else ''Unknown'')"

text \<open>Comparisons with NaN fail, which leaves the last branch.\<close>

definition relativeTime :: "date_parser \<Rightarrow> int \<Rightarrow> string option \<Rightarrow> string" where
  "relativeTime parse_date now ts =
     (if \<not> truthy ts then em_dash
      else case parse_date (nullish ts []) of
             None \<Rightarrow> ''NaNh ago''
           | Some t \<Rightarrow>
               let s = (now - t) div 1000; m = s div 60
               in if s < 60 then show_int s @ ''s ago'' else if m < 60 then show_int m @ ''m ago''
                  else show_int (m div 60) @ ''h ago'')"

record MonitorResult =
  mr_id :: string
  mr_monitor_id :: string
  mr_status :: string
  mr_status_code :: "nat option"
  mr_response_ms :: "rat option"
  mr_error :: string
  mr_checked_at :: string

section \<open>Events\<close>

datatype monitor_field = FName | FUrl | FInterval | FTimeout | FExpected

datatype monitor_event =
    ToggleHistory string
  | SwitchMonitor Monitor          \<comment> \<open>\<open>updateMutation.mutate({ id, enabled: !enabled })\<close>\<close>
  | EditMonitor Monitor
  | TestMonitor string
  | DeleteMonitor string
  | AddMonitor
  | CloseForm
  | SubmitForm "Monitor option"

section \<open>A row\<close>

definition history_row :: "date_parser \<Rightarrow> int \<Rightarrow> MonitorResult \<Rightarrow> string list" where
  "history_row parse_date now r =
     [if mr_status r = ''up'' then ''check'' else ''cross'', relativeTime parse_date now (Some (mr_checked_at r))]
     @ (case mr_status_code r of None \<Rightarrow> [] | Some c \<Rightarrow> [show_nat c])
     @ (case mr_response_ms r of None \<Rightarrow> [] | Some ms \<Rightarrow> [number_to_string ms @ ''ms''])
     @ (if mr_error r = [] then [] else [mr_error r])"

record row_state =
  rw_expanded :: bool
  rw_testResult :: "MonitorResult option"
  rw_testPending :: bool

definition row_init :: row_state where
  "row_init = \<lparr>rw_expanded = False, rw_testResult = None, rw_testPending = False\<rparr>"

text \<open>\<open>handleTest\<close>: the click, and the result. A test that fails throws in the handler, which leaves the
  result empty.\<close>

definition test_click :: "row_state \<Rightarrow> row_state" where
  "test_click r = r\<lparr>rw_testResult := None, rw_testPending := True\<rparr>"

definition test_answer :: "MonitorResult option \<Rightarrow> row_state \<Rightarrow> row_state" where
  "test_answer result r =
     (case result of
        None \<Rightarrow> r\<lparr>rw_testPending := False\<rparr>
      | Some v \<Rightarrow> r\<lparr>rw_testResult := Some v, rw_testPending := False\<rparr>)"

definition history_query :: "server \<Rightarrow> string \<Rightarrow> row_state \<Rightarrow> Monitor \<Rightarrow> query" where
  "history_query srv base r m = useMonitorHistory srv base (if rw_expanded r then Some (mo_id m) else None)"

definition test_result_view :: "MonitorResult \<Rightarrow> monitor_event view" where
  "test_result_view t =
     Box ([Text ''Test result:'', Text (MonitorStatusBadge (mr_status t))]
          @ (case mr_status_code t of None \<Rightarrow> [] | Some c \<Rightarrow> [Text (''HTTP '' @ show_nat c)])
          @ (case mr_response_ms t of None \<Rightarrow> [] | Some ms \<Rightarrow> [Text (number_to_string ms @ ''ms'')])
          @ shown_if (mr_error t \<noteq> []) [Text (mr_error t)])"

definition MonitorRow ::
  "date_parser \<Rightarrow> int \<Rightarrow> row_state \<Rightarrow> MonitorResult list option \<Rightarrow> Monitor \<Rightarrow> monitor_event view" where
  "MonitorRow parse_date now r history m =
     Box ([Item ''history'' (rw_expanded r) (ToggleHistory (mo_id m)), Text (MonitorStatusBadge (mo_last_status m)), Text (mo_name m),
           Text (mo_url m),
           Text (''every '' @ show_nat (mo_interval_seconds m) @ ''s '' @ [CHR 0xC2, CHR 0xB7] @ '' ''
                 @ relativeTime parse_date now (mo_last_checked_at m)),
           Button (if mo_enabled m then ''Disable '' @ em_dash @ '' pauses all checks for this monitor'' else ''Enable '' @ em_dash @ '' resume periodic checks'')
             True (SwitchMonitor m),
           Button ''Edit monitor settings'' True (EditMonitor m),
           Button ''Run an immediate check and see the result'' (\<not> rw_testPending r) (TestMonitor (mo_id m)),
           Button ''Delete this monitor permanently'' True (DeleteMonitor (mo_id m))]
          @ (case rw_testResult r of None \<Rightarrow> [] | Some t \<Rightarrow> [test_result_view t])
          @ shown_if (rw_expanded r)
              (if nullish history [] = [] then [Text ''No history yet'']
               else map (\<lambda>h. Box (map Text (history_row parse_date now h))) (nullish history [])))"

text \<open>The requests of a row's buttons.\<close>

fun row_io :: "server \<Rightarrow> string \<Rightarrow> string \<Rightarrow> monitor_event \<Rightarrow> json io" where
  "row_io srv base projectId (SwitchMonitor m) =
     m_fn (useUpdateMonitor srv base projectId) (mo_id m, JObj [(''enabled'', JBool (\<not> mo_enabled m))])"
| "row_io srv base projectId (TestMonitor i) = m_fn (useTestMonitor srv base) i"
| "row_io srv base projectId (DeleteMonitor i) = m_fn (useDeleteMonitor srv base projectId) i"
| "row_io srv base projectId _ = io_return JNull"

section \<open>The form\<close>

record monitor_form =
  mf_name :: string
  mf_url :: string
  mf_interval :: rat
  mf_timeout :: rat
  mf_expected :: rat
  mf_error :: string
  mf_pending :: bool

definition EMPTY_FORM :: monitor_form where
  "EMPTY_FORM = \<lparr>mf_name = [], mf_url = [], mf_interval = 60, mf_timeout = 10, mf_expected = 200, mf_error = [], mf_pending = False\<rparr>"

definition form_init :: "Monitor option \<Rightarrow> monitor_form" where
  "form_init initial =
     (case initial of
        Some m \<Rightarrow> \<lparr>mf_name = mo_name m, mf_url = mo_url m, mf_interval = of_nat (mo_interval_seconds m),
                   mf_timeout = of_nat (mo_timeout_seconds m), mf_expected = of_nat (mo_expected_status m), mf_error = [], mf_pending = False\<rparr>
      | None \<Rightarrow> EMPTY_FORM)"

text \<open>\<open>Number(e.target.value)\<close>: the value of a number input is the text of a number or empty.\<close>

definition number_input :: "string \<Rightarrow> rat" where
  "number_input v = nullish (number_of_string v) 0"

fun set_field :: "monitor_field \<Rightarrow> string \<Rightarrow> monitor_form \<Rightarrow> monitor_form" where
  "set_field FName v f = f\<lparr>mf_name := v\<rparr>"
| "set_field FUrl v f = f\<lparr>mf_url := v\<rparr>"
| "set_field FInterval v f = f\<lparr>mf_interval := number_input v\<rparr>"
| "set_field FTimeout v f = f\<lparr>mf_timeout := number_input v\<rparr>"
| "set_field FExpected v f = f\<lparr>mf_expected := number_input v\<rparr>"

text \<open>The constraints of the inputs, which the browser checks before \<open>onSubmit\<close>: required texts, and whole
  numbers between \<open>min\<close> and \<open>max\<close>.\<close>

definition in_range :: "int \<Rightarrow> int \<Rightarrow> rat \<Rightarrow> bool" where
  "in_range lo hi r \<longleftrightarrow> r = of_int \<lfloor>r\<rfloor> \<and> of_int lo \<le> r \<and> r \<le> of_int hi"

definition form_valid :: "monitor_form \<Rightarrow> bool" where
  "form_valid f \<longleftrightarrow>
     mf_name f \<noteq> [] \<and> mf_url f \<noteq> [] \<and> in_range 10 3600 (mf_interval f) \<and> in_range 1 30 (mf_timeout f)
     \<and> in_range 100 599 (mf_expected f)"

definition form_body :: "monitor_form \<Rightarrow> (string \<times> json) list" where
  "form_body f =
     [(''name'', JStr (mf_name f)), (''url'', JStr (mf_url f)), (''interval_seconds'', JNum (mf_interval f)),
      (''timeout_seconds'', JNum (mf_timeout f)), (''expected_status'', JNum (mf_expected f))]"

text \<open>\<open>submit\<close>: the form and whether it was closed.\<close>

definition monitor_submit ::
  "server \<Rightarrow> string \<Rightarrow> string \<Rightarrow> Monitor option \<Rightarrow> monitor_form \<Rightarrow> browser \<Rightarrow> monitor_form \<times> bool \<times> browser" where
  "monitor_submit srv base projectId initial f w =
     (let f1 = f\<lparr>mf_error := []\<rparr>;
          r = (case initial of
                 Some m \<Rightarrow> m_fn (useUpdateMonitor srv base projectId) (mo_id m, JObj (form_body f)) w
               | None \<Rightarrow> m_fn (useCreateMonitor srv base projectId) (JObj ((''project_id'', JStr projectId) # form_body f)) w)
      in case r of
           (Inr _, w1) \<Rightarrow> (f1, True, w1)
         | (Inl e, w1) \<Rightarrow> (f1\<lparr>mf_error := error_message e\<rparr>, False, w1))"

definition MonitorForm :: "Monitor option \<Rightarrow> monitor_form \<Rightarrow> monitor_event view" where
  "MonitorForm initial f =
     Box ([Text ''Name'', Field ''API Health'' (mf_name f), Text ''URL'', Field ''https://api.example.com/health'' (mf_url f),
           Text ''Interval (seconds)'', Field [] (number_to_string (mf_interval f)),
           Text ''Timeout (seconds)'', Field [] (number_to_string (mf_timeout f)),
           Text ''Expected status code'', Field [] (number_to_string (mf_expected f))]
          @ shown_if (mf_error f \<noteq> []) [Text (mf_error f)]
          @ [Button ''Cancel'' True CloseForm,
             Button (if mf_pending f then ''Saving'' @ ellipsis else if initial \<noteq> None then ''Update'' else ''Create'') (\<not> mf_pending f)
               (SubmitForm initial)])"

section \<open>The page\<close>

record monitors_page =
  hc_showForm :: bool
  hc_editing :: "Monitor option"
  hc_rows :: "string \<Rightarrow> row_state"

definition monitors_init :: monitors_page where
  "monitors_init = \<lparr>hc_showForm = False, hc_editing = None, hc_rows = \<lambda>_. row_init\<rparr>"

definition monitors_query :: "server \<Rightarrow> string \<Rightarrow> string option \<Rightarrow> query" where
  "monitors_query srv base selectedProjectId = useMonitors srv base (or_undefined (nullish selectedProjectId []))"

definition handleEdit :: "Monitor \<Rightarrow> monitors_page \<Rightarrow> monitors_page" where
  "handleEdit m p = p\<lparr>hc_editing := Some m, hc_showForm := False\<rparr>"

definition closeForm :: "monitors_page \<Rightarrow> monitors_page" where
  "closeForm p = p\<lparr>hc_showForm := False, hc_editing := None\<rparr>"

definition add_click :: "monitors_page \<Rightarrow> monitors_page" where
  "add_click p = p\<lparr>hc_editing := None, hc_showForm := \<not> hc_showForm p\<rparr>"

fun monitors_step :: "monitors_page \<Rightarrow> monitor_event \<Rightarrow> monitors_page" where
  "monitors_step p (ToggleHistory i) = p\<lparr>hc_rows := (hc_rows p)(i := (hc_rows p i)\<lparr>rw_expanded := \<not> rw_expanded (hc_rows p i)\<rparr>)\<rparr>"
| "monitors_step p (EditMonitor m) = handleEdit m p"
| "monitors_step p (TestMonitor i) = p\<lparr>hc_rows := (hc_rows p)(i := test_click (hc_rows p i))\<rparr>"
| "monitors_step p AddMonitor = add_click p"
| "monitors_step p CloseForm = closeForm p"
| "monitors_step p _ = p"

definition monitors_overview :: "date_parser \<Rightarrow> int \<Rightarrow> bool \<Rightarrow> Monitor list \<Rightarrow> monitor_event view" where
  "monitors_overview parse_date now isLoading monitors =
     (let downMonitors = filter (\<lambda>m. mo_last_status m = ''down'') monitors
      in Box ([Text ''Healthcheck Monitors'', Text (''All projects '' @ em_dash @ '' select a project to manage monitors.'')]
              @ (if isLoading then [Text (''Loading'' @ ellipsis)]
                 else if downMonitors = [] then [Text ''All monitors are UP across all projects.'']
                 else Text (show_nat (length downMonitors) @ '' monitor'' @ plural (length downMonitors) @ '' down'')
                      # map (\<lambda>m. Box [Text (MonitorStatusBadge ''down''), Text (mo_name m), Text (mo_url m),
                                      Text (relativeTime parse_date now (mo_last_checked_at m))]) downMonitors)))"

text \<open>\<open>forms\<close> is the state of the form that is mounted, \<open>history\<close> the loaded history of a row.\<close>

definition monitor_entry ::
  "date_parser \<Rightarrow> int \<Rightarrow> (Monitor option \<Rightarrow> monitor_form) \<Rightarrow> (string \<Rightarrow> MonitorResult list option) \<Rightarrow> monitors_page \<Rightarrow> Monitor
   \<Rightarrow> monitor_event view list" where
  "monitor_entry parse_date now forms history p m =
     MonitorRow parse_date now (hc_rows p (mo_id m)) (history (mo_id m)) m
     # shown_if (map_option mo_id (hc_editing p) = Some (mo_id m)) [MonitorForm (hc_editing p) (forms (hc_editing p))]"

definition HealthcheckPage ::
  "date_parser \<Rightarrow> int \<Rightarrow> (Monitor option \<Rightarrow> monitor_form) \<Rightarrow> (string \<Rightarrow> MonitorResult list option) \<Rightarrow> string option \<Rightarrow> bool
   \<Rightarrow> Monitor list \<Rightarrow> monitors_page \<Rightarrow> monitor_event view" where
  "HealthcheckPage parse_date now forms history selectedProjectId isLoading monitors p =
     (if \<not> truthy selectedProjectId then monitors_overview parse_date now isLoading monitors
      else Box ([Text ''Healthcheck Monitors'', Text ''BatAudit pings your URLs and notifies on status changes.'',
                 Button ''Add monitor'' (length monitors < 10) AddMonitor]
                @ shown_if (hc_showForm p \<and> hc_editing p = None) [MonitorForm None (forms None)]
                @ (if isLoading then [Text (''Loading'' @ ellipsis)]
                   else if monitors = [] \<and> \<not> hc_showForm p then [Text ''No monitors yet. Add one to start tracking uptime.'']
                   else concat (map (monitor_entry parse_date now forms history p) monitors))
                @ shown_if (length monitors \<ge> 10) [Text ''Maximum of 10 monitors per project reached.'']))"


section \<open>Saving a monitor\<close>

lemma in_range_integral: "in_range lo hi r \<Longrightarrow> r = of_int \<lfloor>r\<rfloor>"
  by (simp add: in_range_def)

lemma form_body_wf:
  assumes "form_valid f"
  shows "wf_json (JObj (form_body f)) \<and> wf_json (JObj ((''project_id'', JStr p) # form_body f))"
  using assms by (simp add: form_body_def form_valid_def) (blast dest: in_range_integral)

text \<open>What a call that reads JSON does: one request, and a value exactly for an accepted answer with a readable body.\<close>

definition accepts :: "server \<Rightarrow> browser \<Rightarrow> request \<Rightarrow> bool" where
  "accepts srv w req = (case srv (b_sent w) req of Inl _ \<Rightarrow> False | Inr res \<Rightarrow> res_ok res \<and> \<not> isl (res_json res))"

lemma auth_json_outcome:
  "b_sent (snd (auth_json srv url init m w)) = b_sent w @ [auth_req url init w]
   \<and> (isl (fst (auth_json srv url init m w)) \<longleftrightarrow> \<not> accepts srv w (auth_req url init w))"
  by (auto simp: auth_json_def io_bind_def fetchWithAuth_def js_fetch_def json_or_def require_ok_def accepts_def
      io_return_def io_throw_def io_lift_def Let_def res_ok_def split: sum.split)

lemma createMonitor_outcome:
  "b_sent (snd (createMonitor srv base body w)) = b_sent w @ [auth_req (base @ ''/v1/monitors'') (json_init ''POST'' body) w]
   \<and> (isl (fst (createMonitor srv base body w)) \<longleftrightarrow> \<not> accepts srv w (auth_req (base @ ''/v1/monitors'') (json_init ''POST'' body) w))"
  by (auto simp: createMonitor_def io_bind_def fetchWithAuth_def js_fetch_def accepts_def io_catch_def
      throw_server_error_def io_return_def io_throw_def io_lift_def Let_def res_ok_def split: sum.split)

lemma auth_req_simps [simp]:
  "req_url (auth_req url init w) = url"
  "req_method (auth_req url (json_init me body) w) = me"
  "req_body (auth_req url (json_init me body) w) = Some (stringify body)"
  by (simp_all add: init_request_def json_init_def)

lemma submit_cases:
  "monitor_submit srv base pid initial f w =
    (let r = (case initial of
                Some m \<Rightarrow> updateMonitor srv base (mo_id m) (JObj (form_body f)) w
              | None \<Rightarrow> createMonitor srv base (JObj ((''project_id'', JStr pid) # form_body f)) w)
     in (f\<lparr>mf_error := (case fst r of Inl e \<Rightarrow> error_message e | Inr _ \<Rightarrow> [])\<rparr>, \<not> isl (fst r), snd r))"
  by (auto simp: monitor_submit_def useUpdateMonitor_def useCreateMonitor_def Let_def split: option.split sum.split prod.split)


definition sample_form :: monitor_form where
  "sample_form = set_field FInterval ''30'' (set_field FUrl ''https://api'' (set_field FName ''api'' EMPTY_FORM))"


section \<open>One form at a time\<close>

definition one_form :: "monitors_page \<Rightarrow> bool" where
  "one_form p \<longleftrightarrow> \<not> (hc_showForm p \<and> hc_editing p \<noteq> None)"

interpretation monitors: inv_machine monitors_step one_form
proof
  fix p e
  assume "one_form p"
  then show "one_form (monitors_step p e)"
    by (cases e) (auto simp: one_form_def handleEdit_def add_click_def closeForm_def)
qed

lemma count_concat: "count_list (concat xss) a = sum_list (map (\<lambda>xs. count_list xs a) xss)"
  by (induction xss) auto

lemma row_no_form: "count_list (clicks (MonitorRow parse_date now r history m)) CloseForm = 0"
  by (auto simp: MonitorRow_def test_result_view_def shown_if_def count_concat comp_def split: option.split)

lemma form_one: "count_list (clicks (MonitorForm initial f)) CloseForm = 1"
  by (simp add: MonitorForm_def shown_if_def)

lemma entries_forms:
  assumes "distinct (map mo_id ms)"
  shows "count_list (concat (map clicks (concat (map (monitor_entry parse_date now forms history p) ms)))) CloseForm
    = (if \<exists>m \<in> set ms. map_option mo_id (hc_editing p) = Some (mo_id m) then 1 else 0)"
  using assms
proof (induction ms)
  case (Cons m ms)
  have "mo_id m' \<noteq> mo_id m" if "m' \<in> set ms" for m'
    using Cons.prems that by (metis distinct.simps(2) image_eqI list.map(2) list.set_map)
  then show ?case using Cons by (auto simp: monitor_entry_def shown_if_def row_no_form form_one)
qed simp

text \<open>However the page is used, at most one form is open at a time, for a new monitor or for the one being edited, and a new
  monitor can be added only while the project has fewer than ten.\<close>

lemma one_monitor_form:
  assumes "p = run monitors_step monitors_init es" "distinct (map mo_id ms)"
  shows "count_list (clicks (HealthcheckPage parse_date now forms history pid isLoading ms p)) CloseForm \<le> 1
    \<and> (AddMonitor \<in> set (clicks (HealthcheckPage parse_date now forms history pid isLoading ms p)) \<longrightarrow> length ms < 10)"
proof -
  have inv: "one_form p" using monitors.inv_run [of monitors_init es] by (simp add: assms(1) one_form_def monitors_init_def)
  have "AddMonitor \<notin> set (clicks (MonitorRow parse_date now r h m))" for r h m
    by (auto simp: MonitorRow_def test_result_view_def shown_if_def split: option.splits if_splits)
  moreover have "AddMonitor \<notin> set (clicks (MonitorForm i f))" for i f by (auto simp: MonitorForm_def shown_if_def)
  ultimately have "AddMonitor \<in> set (clicks (HealthcheckPage parse_date now forms history pid isLoading ms p)) \<longrightarrow> length ms < 10"
    by (auto simp: HealthcheckPage_def monitors_overview_def monitor_entry_def Let_def shown_if_def split: if_splits)
  moreover have "count_list (clicks (HealthcheckPage parse_date now forms history pid isLoading ms p)) CloseForm \<le> 1"
    using inv entries_forms [OF assms(2), of parse_date now forms history p] form_one
    by (auto simp: HealthcheckPage_def monitors_overview_def Let_def shown_if_def one_form_def count_concat comp_def)
  ultimately show ?thesis by blast
qed


definition sample_monitor :: Monitor where
  "sample_monitor = \<lparr>mo_id = ''m'', mo_project_id = ''p'', mo_name = ''api'', mo_url = ''https://api'', mo_interval_seconds = 60,
     mo_timeout_seconds = 10, mo_expected_status = 200, mo_enabled = True, mo_last_status = ''up'', mo_last_checked_at = None,
     mo_created_at = [], mo_updated_at = []\<rparr>"


end
