(* ===== verification/Settings_Notify.thy ===== *)
theory Settings_Notify
  imports Studio Pages
begin

text \<open>
  The notifications page (\<open>routes/app/_layout/settings/notifications.tsx\<close>): browser push with its state
  and the channel kept in \<open>localStorage\<close>, and the webhooks with their test and delivery history.
  The push interfaces of the browser are parameters: whether they exist, what the permission dialog
  answers, and the subscription of the service worker.
\<close>

section \<open>The VAPID key\<close>

text \<open>\<open>urlBase64ToUint8Array\<close>: padding, the URL alphabet, \<open>atob\<close>. \<open>atob\<close> gives the text whose characters are
  the bytes; its characters are read back one by one. \<open>None\<close> is the exception of \<open>atob\<close>, which a text
  outside ASCII raises whatever its padding.\<close>

definition b64_padding :: "string \<Rightarrow> string" where
  "b64_padding s = replicate ((4 - length s mod 4) mod 4) (CHR ''='')"

definition url_alphabet :: "string \<Rightarrow> string" where
  "url_alphabet s = map (\<lambda>c. if c = CHR ''-'' then CHR ''+'' else if c = CHR ''_'' then CHR ''/'' else c) s"

definition atob_codes :: "string \<Rightarrow> nat list option" where
  "atob_codes s =
     (let t = strip_padding (filter (\<lambda>c. \<not> (code c = 32 \<or> code c = 9 \<or> code c = 10 \<or> code c = 12 \<or> code c = 13)) s)
      in if length t mod 4 = 1 then None else map_option b64_bytes (all_some (map b64_val t)))"

definition urlBase64ToUint8Array :: "string \<Rightarrow> nat list option" where
  "urlBase64ToUint8Array base64String = atob_codes (url_alphabet (base64String @ b64_padding base64String))"

section \<open>Push notifications\<close>

definition PUSH_CHANNEL_KEY :: string where
  "PUSH_CHANNEL_KEY = ''bat_push_channel_id''"

definition push_key :: "string \<Rightarrow> string" where
  "push_key projectId = PUSH_CHANNEL_KEY @ '':'' @ projectId"

record push_state =
  pu_status :: string
  pu_channelId :: "string option"
  pu_errorMsg :: string

definition push_init :: push_state where
  "push_init = \<lparr>pu_status = ''idle'', pu_channelId = None, pu_errorMsg = []\<rparr>"

text \<open>\<open>String(e)\<close>; the kind of a platform error stands for the text of the engine.\<close>

definition error_string :: "js_error \<Rightarrow> string" where
  "error_string e = (case e of Error m \<Rightarrow> (if m = [] then ''Error'' else ''Error: '' @ m) | _ \<Rightarrow> error_message e)"

text \<open>The effect of a mount or of a change of project, in two parts: what it reads at once, and what the
  service worker's subscription, if any, makes of it later.\<close>

definition push_mount :: "string \<Rightarrow> storage \<Rightarrow> string option" where
  "push_mount projectId m = (if truthy (getItem m (push_key projectId)) then getItem m (push_key projectId) else None)"

definition push_detected :: "string \<Rightarrow> string \<Rightarrow> bool \<Rightarrow> push_state \<times> storage \<Rightarrow> push_state \<times> storage" where
  "push_detected projectId stored sub = (\<lambda>(s, m).
     if sub then (s\<lparr>pu_channelId := Some stored, pu_status := ''active''\<rparr>, m)
     else (s, removeItem (push_key projectId) m))"

text \<open>What the browser offers: the interfaces, the answer of the permission dialog, and the subscription or
  the error of \<open>register\<close> and \<open>subscribe\<close>, given the bytes of the server's key.\<close>

record push_browser =
  pb_supported :: bool
  pb_register :: "js_error option"
  pb_permission :: string
  pb_subscribe :: "nat list \<Rightarrow> js_error + json"

text \<open>\<open>channel.id\<close> as the state holds it; a missing id leaves no channel, and is stored as the text \<open>undefined\<close>.\<close>

definition id_state :: "json option \<Rightarrow> string option" where
  "id_state v = (case v of None \<Rightarrow> None | Some JNull \<Rightarrow> None | Some x \<Rightarrow> Some (jstring x))"

definition handleEnable ::
  "server \<Rightarrow> string \<Rightarrow> string \<Rightarrow> push_browser \<Rightarrow> string option \<Rightarrow> push_state \<Rightarrow> browser \<Rightarrow> push_state \<times> browser" where
  "handleEnable srv base projectId pb vapidKey s w =
     (let s1 = s\<lparr>pu_errorMsg := []\<rparr>;
          failed = (\<lambda>e w1. (s1\<lparr>pu_errorMsg := error_string e, pu_status := ''error''\<rparr>, w1))
      in if \<not> pb_supported pb then (s1\<lparr>pu_errorMsg := ''Push notifications are not supported in this browser.''\<rparr>, w)
         else case pb_register pb of
           Some e \<Rightarrow> failed e w
         | None \<Rightarrow>
             if pb_permission pb \<noteq> ''granted'' then (s1\<lparr>pu_errorMsg := ''Notification permission denied.''\<rparr>, w)
             else if \<not> truthy vapidKey then (s1\<lparr>pu_errorMsg := ''VAPID key not available.''\<rparr>, w)
             else (case urlBase64ToUint8Array (nullish vapidKey []) of
                     None \<Rightarrow> (s1\<lparr>pu_errorMsg := ''InvalidCharacterError'', pu_status := ''error''\<rparr>, w)
                   | Some key \<Rightarrow>
                       (case pb_subscribe pb key of
                          Inl e \<Rightarrow> failed e w
                        | Inr sub \<Rightarrow>
                            (case m_fn (useSubscribePush srv base projectId) sub w of
                               (Inl e, w1) \<Rightarrow> failed e w1
                             | (Inr channel, w1) \<Rightarrow>
                                 (case jprop channel ''id'' of
                                    Inl e \<Rightarrow> failed e w1
                                  | Inr i \<Rightarrow>
                                      (s1\<lparr>pu_channelId := id_state i, pu_status := ''active''\<rparr>,
                                       w1\<lparr>b_store := setItem (push_key projectId) (item_text i) (b_store w1)\<rparr>))))))"

text \<open>\<open>unsub\<close> is what unsubscribing in the service worker comes to.\<close>

definition handleDisable ::
  "server \<Rightarrow> string \<Rightarrow> string \<Rightarrow> js_error option \<Rightarrow> push_state \<Rightarrow> browser \<Rightarrow> push_state \<times> browser" where
  "handleDisable srv base projectId unsub s w =
     (if \<not> truthy (pu_channelId s) then (s, w)
      else case m_fn (useUnsubscribePush srv base projectId) (nullish (pu_channelId s) []) w of
             (Inl e, w1) \<Rightarrow> (s\<lparr>pu_errorMsg := error_string e\<rparr>, w1)
           | (Inr _, w1) \<Rightarrow>
               (case unsub of
                  Some e \<Rightarrow> (s\<lparr>pu_errorMsg := error_string e\<rparr>, w1)
                | None \<Rightarrow> (s\<lparr>pu_status := ''idle'', pu_channelId := None\<rparr>,
                           w1\<lparr>b_store := removeItem (push_key projectId) (b_store w1)\<rparr>)))"

datatype notify_action = EnablePush | DisablePush | ToggleWebhookForm | SaveWebhook | CancelWebhook | ExpandWebhook string
  | TestWebhook string | DeleteWebhook string

definition PushSection :: "bool \<Rightarrow> bool \<Rightarrow> push_state \<Rightarrow> notify_action view" where
  "PushSection subscribing unsubscribing s =
     Box ([Text ''Browser Push Notifications'', Text ''Receive alerts in this browser even when the tab is in the background.'']
          @ (if pu_status s = ''active'' then [Text ''Active'', Button ''Disable'' (\<not> unsubscribing) DisablePush]
             else [Button ''Enable notifications'' (\<not> subscribing) EnablePush])
          @ shown_if (pu_errorMsg s \<noteq> []) [Text (pu_errorMsg s)])"


section \<open>Webhooks\<close>

record WebhookChannel =
  wh_id :: string
  wh_project_id :: string
  wh_url :: string
  wh_secret :: "string option"
  wh_active :: bool
  wh_created_at :: string

record Delivery =
  dl_id :: string
  dl_channel_id :: string
  dl_alert_event_id :: string
  dl_status :: string
  dl_status_code :: "nat option"
  dl_response_body :: "string option"
  dl_delivered_at :: string

definition middot :: string where
  "middot = [CHR 0xC2, CHR 0xB7]"

definition tick :: string where
  "tick = [CHR 0xE2, CHR 0x9C, CHR 0x93]"

definition cross :: string where
  "cross = [CHR 0xE2, CHR 0x9C, CHR 0x97]"

text \<open>The answer of a test: \<open>r.ok\<close>, \<open>r.status_code\<close>, \<open>r.response\<close>, \<open>r.error\<close>.\<close>

record test_reply =
  tp_ok :: bool
  tp_status_code :: int
  tp_response :: string
  tp_error :: string

definition test_text :: "test_reply \<Rightarrow> string" where
  "test_text r =
     (let tail = (if tp_response r = [] then [] else '' '' @ middot @ '' '' @ tp_response r)
      in if tp_ok r then tick @ '' Delivered '' @ em_dash @ '' HTTP '' @ show_int (tp_status_code r) @ tail
         else if tp_status_code r > 0 then cross @ '' Endpoint returned HTTP '' @ show_int (tp_status_code r) @ tail
         else cross @ '' '' @ or_else (tp_error r) ''Could not reach the endpoint'')"

definition webhook_test_result :: "js_error + test_reply \<Rightarrow> string" where
  "webhook_test_result r = (case r of Inr t \<Rightarrow> test_text t | Inl e \<Rightarrow> ''Error: '' @ error_string e)"

record webhook_row =
  wr_expanded :: bool
  wr_testResult :: "string option"
  wr_testing :: bool
  wr_deleting :: bool

definition webhook_row_init :: webhook_row where
  "webhook_row_init = \<lparr>wr_expanded = False, wr_testResult = None, wr_testing = False, wr_deleting = False\<rparr>"

definition webhook_test_start :: "webhook_row \<Rightarrow> webhook_row" where
  "webhook_test_start r = r\<lparr>wr_testResult := None, wr_testing := True\<rparr>"

definition webhook_test_done :: "js_error + test_reply \<Rightarrow> webhook_row \<Rightarrow> webhook_row" where
  "webhook_test_done a r = r\<lparr>wr_testResult := Some (webhook_test_result a), wr_testing := False\<rparr>"

fun webhook_io :: "server \<Rightarrow> string \<Rightarrow> string \<Rightarrow> notify_action \<Rightarrow> json io" where
  "webhook_io srv base projectId (TestWebhook i) = m_fn (useTestWebhook srv base projectId) i"
| "webhook_io srv base projectId (DeleteWebhook i) = m_fn (useDeleteWebhook srv base projectId) i"
| "webhook_io srv base projectId _ = io_return JNull"

text \<open>\<open>stamp\<close> is the locale's text of a date.\<close>

definition DeliveryHistory :: "(string \<Rightarrow> string) \<Rightarrow> Delivery list \<Rightarrow> notify_action view list" where
  "DeliveryHistory stamp deliveries =
     shown_if (deliveries = []) [Text ''No deliveries yet.'']
     @ map (\<lambda>d. Box ([Text (if dl_status d = ''success'' then tick else cross), Text (stamp (dl_delivered_at d))]
                     @ (case dl_status_code d of None \<Rightarrow> [] | Some c \<Rightarrow> [Text (show_nat c)])
                     @ shown_if (truthy (dl_response_body d)) [Text (nullish (dl_response_body d) [])])) deliveries"

definition WebhookRow :: "(string \<Rightarrow> string) \<Rightarrow> webhook_row \<Rightarrow> Delivery list \<Rightarrow> WebhookChannel \<Rightarrow> notify_action view" where
  "WebhookRow stamp r deliveries webhook =
     Box ([Item ''deliveries'' (wr_expanded r) (ExpandWebhook (wh_id webhook)), Text (wh_url webhook)]
          @ shown_if (truthy (wh_secret webhook)) [Text ''HMAC'']
          @ [Button ''Test'' (\<not> wr_testing r) (TestWebhook (wh_id webhook)), Button ''delete'' (\<not> wr_deleting r) (DeleteWebhook (wh_id webhook))]
          @ shown_if (truthy (wr_testResult r)) [Text (nullish (wr_testResult r) [])]
          @ shown_if (wr_expanded r) (DeliveryHistory stamp deliveries))"

record webhook_form =
  wf_show :: bool
  wf_url :: string
  wf_secret :: string
  wf_error :: string
  wf_saving :: bool

definition webhook_form_init :: webhook_form where
  "webhook_form_init = \<lparr>wf_show = False, wf_url = [], wf_secret = [], wf_error = [], wf_saving = False\<rparr>"

definition handleCreate :: "server \<Rightarrow> string \<Rightarrow> string \<Rightarrow> webhook_form \<Rightarrow> browser \<Rightarrow> webhook_form \<times> browser" where
  "handleCreate srv base projectId f w =
     (let f1 = f\<lparr>wf_error := []\<rparr>
      in if \<not> startsWith (wf_url f) ''http'' then (f1\<lparr>wf_error := ''URL must start with http:// or https://''\<rparr>, w)
         else case m_fn (useCreateWebhook srv base projectId) (wf_url f, or_undefined (wf_secret f)) w of
                (Inr _, w1) \<Rightarrow> (f1\<lparr>wf_url := [], wf_secret := [], wf_show := False\<rparr>, w1)
              | (Inl e, w1) \<Rightarrow> (f1\<lparr>wf_error := error_string e\<rparr>, w1))"

fun webhook_form_step :: "webhook_form \<Rightarrow> notify_action \<Rightarrow> webhook_form" where
  "webhook_form_step f ToggleWebhookForm = f\<lparr>wf_show := \<not> wf_show f\<rparr>"
| "webhook_form_step f CancelWebhook = f\<lparr>wf_show := False, wf_error := []\<rparr>"
| "webhook_form_step f _ = f"

definition WebhookSection ::
  "(string \<Rightarrow> string) \<Rightarrow> (string \<Rightarrow> webhook_row) \<Rightarrow> (string \<Rightarrow> Delivery list) \<Rightarrow> WebhookChannel list \<Rightarrow> webhook_form \<Rightarrow> notify_action view" where
  "WebhookSection stamp rows deliveries webhooks f =
     Box ([Text ''Webhooks'', Text (''POST alerts to any URL '' @ em_dash @ '' Discord, Slack, n8n, PagerDuty, etc.''),
           Button ''Add webhook'' True ToggleWebhookForm]
          @ shown_if (wf_show f)
              ([Field ''https://hooks.example.com/...'' (wf_url f),
                Field (''Secret (optional '' @ em_dash @ '' used for HMAC-SHA256 signature)'') (wf_secret f)]
               @ shown_if (wf_error f \<noteq> []) [Text (wf_error f)]
               @ [Button ''Save'' (\<not> wf_saving f) SaveWebhook, Button ''Cancel'' True CancelWebhook])
          @ map (\<lambda>wh. WebhookRow stamp (rows (wh_id wh)) (deliveries (wh_id wh)) wh) webhooks
          @ shown_if (webhooks = [] \<and> \<not> wf_show f) [Text ''No webhooks configured.''])"

definition NotificationsPage :: "string option \<Rightarrow> notify_action view \<Rightarrow> notify_action view \<Rightarrow> notify_action view" where
  "NotificationsPage selectedProjectId push webhooks =
     (if \<not> truthy selectedProjectId then Text ''Select a project in the header to manage notifications.''
      else Box [Text ''Notifications'', Text ''Configure how you receive alerts when anomalies are detected.'', push, webhooks])"

section \<open>Decoding the key\<close>

text \<open>Base64 for URLs without padding, the form of a VAPID key.\<close>

definition b64url_encode :: "string \<Rightarrow> string" where
  "b64url_encode s = map (\<lambda>c. if c = CHR ''+'' then CHR ''-'' else if c = CHR ''/'' then CHR ''_'' else c) (b64_encode s)"

lemma b64_encode_char: "c \<in> set (b64_encode s) \<Longrightarrow> c \<noteq> CHR ''-'' \<and> c \<noteq> CHR ''_'' \<and> c \<noteq> CHR ''=''"
proof -
  have "\<forall>n \<in> set (sixes (map code s)). n < 64"
    using sixes_less [of "map code s"] by (simp add: list.pred_set)
  moreover have "n < 64 \<Longrightarrow> b64_val (b64_char n) = Some n" for n by (rule b64_val_char)
  moreover have "b64_val (CHR ''-'') = None" "b64_val (CHR ''_'') = None" "b64_val (CHR ''='') = None"
    by (simp_all add: b64_val_def is_upper_def is_lower_def is_digit_def)
  ultimately show "c \<in> set (b64_encode s) \<Longrightarrow> c \<noteq> CHR ''-'' \<and> c \<noteq> CHR ''_'' \<and> c \<noteq> CHR ''=''"
    by (auto simp: b64_encode_def) (metis option.distinct(1))+
qed

lemma url_alphabet_encode: "url_alphabet (b64url_encode s @ replicate k (CHR ''='')) = b64_encode s @ replicate k (CHR ''='')"
proof -
  have "url_alphabet (b64url_encode s) = map id (b64_encode s)"
    unfolding url_alphabet_def b64url_encode_def map_map by (rule map_cong) (use b64_encode_char [of _ s] in auto)
  then show ?thesis by (simp add: url_alphabet_def)
qed

lemma strip_padding_padded:
  assumes "length e mod 4 \<noteq> 1" "CHR ''='' \<notin> set e"
  shows "strip_padding (e @ replicate ((4 - length e mod 4) mod 4) (CHR ''='')) = e"
proof -
  consider "length e mod 4 = 0" | "length e mod 4 = 2" | "length e mod 4 = 3" using assms(1) by linarith
  then show ?thesis
  proof cases
    case 1
    then show ?thesis using strip_padding_id [OF assms(2)] by simp
  next
    case 2
    have "(length e + 2) mod 4 = 0" using 2 by presburger
    then show ?thesis using 2 by (simp add: strip_padding_def numeral_2_eq_2 butlast_append)
  next
    case 3
    then have "e \<noteq> []" by auto
    then have "last e \<noteq> CHR ''=''" using assms(2) by (metis last_in_set)
    moreover have "(length e + 1) mod 4 = 0" using 3 by presburger
    ultimately show ?thesis using 3 by (simp add: strip_padding_def butlast_append)
  qed
qed

lemma atob_codes_atob: "atob s = map_option (\<lambda>bs. concat (map utf8 bs)) (atob_codes s)"
  by (simp add: atob_def atob_codes_def Let_def option.map_comp comp_def)

text \<open>C37. The server's key reaches the push service byte by byte: the unpadded URL form of base64 of any bytes is decoded to
  these bytes.\<close>

theorem vapid_key_roundtrip: "urlBase64ToUint8Array (b64url_encode s) = Some (map code s)"
proof -
  let ?e = "b64_encode s" and ?k = "(4 - length (b64_encode s) mod 4) mod 4"
  let ?ws = "\<lambda>c. \<not> (code c = 32 \<or> code c = 9 \<or> code c = 10 \<or> code c = 12 \<or> code c = (13::nat))"
  have l: "list_all (\<lambda>n. n < 256) (map code s)" by (simp add: list.pred_set)
  have f: "filter ?ws (?e @ replicate ?k (CHR ''='')) = ?e @ replicate ?k (CHR ''='')"
    by (rule filter_True) (use b64_encode_codes [of _ s] in fastforce)
  have m: "length ?e mod 4 \<noteq> 1" using sixes_length [of "map code s"] by (simp add: b64_encode_def)
  have st: "strip_padding (?e @ replicate ?k (CHR ''='')) = ?e"
    using strip_padding_padded [OF m] b64_encode_char [of "CHR ''=''" s] by blast
  have v: "all_some (map b64_val ?e) = Some (map id (sixes (map code s)))"
    unfolding b64_encode_def map_map
    by (rule all_some_map) (use sixes_less [OF l] in \<open>auto simp: list.pred_set b64_val_char\<close>)
  have p: "b64_padding (b64url_encode s) = replicate ?k (CHR ''='')" by (simp add: b64_padding_def b64url_encode_def)
  show ?thesis
    unfolding urlBase64ToUint8Array_def p url_alphabet_encode atob_codes_def Let_def f st
    using m v b64_bytes_sixes [OF l] by simp
qed


section \<open>A subscription from enabling to disabling\<close>

lemma handleEnable_active:
  assumes "handleEnable srv base p pb vk s w = (s1, w1)" "pu_status s1 = ''active''" "pu_status s \<noteq> ''active''"
  shows "\<exists>i. pu_channelId s1 = id_state i \<and> getItem (b_store w1) (push_key p) = Some (item_text i)"
  using assms
  by (auto simp: handleEnable_def Let_def store_simps split: if_splits option.splits sum.splits prod.splits)

lemma id_state_text: "id_state i = Some c \<Longrightarrow> item_text i = c"
  by (auto simp: id_state_def item_text_def split: option.splits json.splits)

definition unsubscribe_request :: "string \<Rightarrow> string \<Rightarrow> string \<Rightarrow> browser \<Rightarrow> request" where
  "unsubscribe_request base p c w =
     auth_req (base @ ''/v1/notifications/push/subscribe'')
       (json_init ''DELETE'' (JObj [(''project_id'', JStr p), (''channel_id'', JStr c)])) w"

lemma unsubscribe_body:
  "\<exists>b. req_body (unsubscribe_request base p c w) = Some b
    \<and> json_parse b = Inr (JObj [(''project_id'', JStr p), (''channel_id'', JStr c)])"
  using parse_stringify [of "JObj [(''project_id'', JStr p), (''channel_id'', JStr c)]"]
  by (simp add: unsubscribe_request_def init_request_def json_init_def)

lemma handleDisable_cases:
  assumes "pu_channelId s = Some c" "c \<noteq> []" "srv (b_sent w) (unsubscribe_request base p c w) = Inr res"
  shows "handleDisable srv base p None s w =
    (let w1 = w\<lparr>b_sent := b_sent w @ [unsubscribe_request base p c w]\<rparr>
     in if res_status res = 401
        then (s\<lparr>pu_errorMsg := ''Error: Unauthorized''\<rparr>, w1\<lparr>b_store := clearAuth (b_store w), b_href := Some ''/login''\<rparr>)
        else if res_ok res then (s\<lparr>pu_status := ''idle'', pu_channelId := None\<rparr>, w1\<lparr>b_store := removeItem (push_key p) (b_store w)\<rparr>)
        else (s\<lparr>pu_errorMsg := ''Error: Failed to unsubscribe''\<rparr>, w1))"
  using assms
  by (auto simp: handleDisable_def useUnsubscribePush_def unsubscribePush_def unsubscribe_request_def truthy_def io_unit_def
      auth_unit_def io_bind_def fetchWithAuth_def js_fetch_def require_ok_def io_return_def io_throw_def error_string_def Let_def)

text \<open>C35. A push subscription survives a reload and can be taken back: once enabling has succeeded, the channel is stored for the
  project, a new page that finds the subscription starts active with this channel, and disabling there sends the project and
  the channel to the server and, when it accepts, forgets them.\<close>

theorem push_lifecycle:
  assumes "handleEnable srv base p pb vk s w = (s1, w1)" "pu_status s \<noteq> ''active''" "pu_status s1 = ''active''"
    "pu_channelId s1 = Some c" "c \<noteq> []"
    "srv (b_sent w1) (unsubscribe_request base p c w1) = Inr res" "res_ok res"
  shows "push_mount p (b_store w1) = Some c
    \<and> (\<exists>s2 w2 b. push_detected p c True (push_init, b_store w1) = (s2, b_store w1) \<and> pu_status s2 = ''active''
        \<and> handleDisable srv base p None s2 w1 = (push_init, w2)
        \<and> b_sent w2 = b_sent w1 @ [unsubscribe_request base p c w1]
        \<and> req_body (unsubscribe_request base p c w1) = Some b
        \<and> json_parse b = Inr (JObj [(''project_id'', JStr p), (''channel_id'', JStr c)])
        \<and> push_mount p (b_store w2) = None)"
proof -
  have st: "getItem (b_store w1) (push_key p) = Some c"
    using handleEnable_active [OF assms(1,3,2)] assms(4) id_state_text by metis
  let ?s2 = "push_init\<lparr>pu_channelId := Some c, pu_status := ''active''\<rparr>"
  have "res_status res \<noteq> 401" using assms(7) by (auto simp: res_ok_def)
  then have "handleDisable srv base p None ?s2 w1 =
      (push_init, w1\<lparr>b_sent := b_sent w1 @ [unsubscribe_request base p c w1], b_store := removeItem (push_key p) (b_store w1)\<rparr>)"
    using handleDisable_cases [where s = ?s2 and srv = srv and w = w1 and base = base and p = p and c = c and res = res] assms(5-7)
    by (simp add: push_init_def Let_def)
  then show ?thesis
    using st assms(5) unsubscribe_body [of base p c w1]
    by (auto simp: push_mount_def push_detected_def truthy_def store_simps push_init_def)
qed

text \<open>The state belongs to the component, not to the project: after a change to a project without a channel the page
  still shows the old one, and disabling asks the server to remove it from the new project.\<close>

lemma push_state_outlives_project:
  assumes "getItem m (push_key b) = None" "c \<noteq> []" "b_store w = m"
    "srv (b_sent w) (unsubscribe_request base b c w) = Inr res" "res_ok res"
  shows "let (s, m1) = push_detected a c True (push_init, m)
    in push_mount b m1 = None \<and> pu_status s = ''active''
      \<and> b_sent (snd (handleDisable srv base b None s w)) = b_sent w @ [unsubscribe_request base b c w]"
proof -
  have "res_status res \<noteq> 401" using assms(5) by (auto simp: res_ok_def)
  then show ?thesis
    using handleDisable_cases [where s = "push_init\<lparr>pu_channelId := Some c, pu_status := ''active''\<rparr>" and srv = srv and w = w
        and base = base and p = b and c = c and res = res] assms
    by (simp add: push_detected_def push_mount_def truthy_def Let_def)
qed


definition sample_push :: push_browser where
  "sample_push = \<lparr>pb_supported = True, pb_register = None, pb_permission = ''granted'', pb_subscribe = \<lambda>_. Inr (JObj [])\<rparr>"

definition sample_push_server :: server where
  "sample_push_server = (\<lambda>_ _. Inr \<lparr>res_status = 200, res_json = Inr (JObj [(''id'', JStr ''c1'')])\<rparr>)"

theorem push_lifecycle_witness:
  "\<exists>s1 w1. handleEnable sample_push_server ''http://r'' ''p'' sample_push (Some (b64url_encode ''key'')) push_init
        \<lparr>b_store = Map.empty, b_href = None, b_sent = []\<rparr> = (s1, w1)
    \<and> push_mount ''p'' (b_store w1) = Some ''c1''"
proof -
  let ?w = "\<lparr>b_store = Map.empty, b_href = None, b_sent = []\<rparr>"
  obtain s1 w1 where e: "handleEnable sample_push_server ''http://r'' ''p'' sample_push (Some (b64url_encode ''key'')) push_init ?w = (s1, w1)"
    by (meson surj_pair)
  have k: "urlBase64ToUint8Array (b64url_encode ''key'') = Some (map code ''key'')" by code_simp
  have n: "b64url_encode ''key'' \<noteq> []" by code_simp
  have s: "pu_status s1 = ''active'' \<and> pu_channelId s1 = Some ''c1''"
    using e k n by (auto simp: handleEnable_def Let_def sample_push_def truthy_def useSubscribePush_def subscribePush_def auth_json_def
        io_bind_def fetchWithAuth_def js_fetch_def json_or_def require_ok_def io_return_def io_lift_def sample_push_server_def
        res_ok_def id_state_def)
  have "sample_push_server (b_sent w1) (unsubscribe_request ''http://r'' ''p'' ''c1'' w1)
      = Inr \<lparr>res_status = 200, res_json = Inr (JObj [(''id'', JStr ''c1'')])\<rparr>"
    by (simp add: sample_push_server_def)
  then show ?thesis
    using push_lifecycle [where srv = sample_push_server and base = "''http://r''" and p = "''p''" and c = "''c1''", OF e] s e
    by (auto simp: push_init_def res_ok_def)
qed

text \<open>A webhook is sent to the server exactly when its URL starts with the letters \<open>http\<close>, so the check also lets through
  what its message rules out.\<close>

lemma webhook_check:
  "b_sent (snd (handleCreate srv base p f w)) \<noteq> b_sent w \<longleftrightarrow> prefix ''http'' (wf_url f)"
  "prefix ''http'' ''httpx'' \<and> \<not> prefix ''http://'' ''httpx'' \<and> \<not> prefix ''https://'' ''httpx''"
  by (auto simp: handleCreate_def startsWith_def Let_def useCreateWebhook_def createWebhook_def auth_sent split: prod.split sum.split
      dest: arg_cong [of _ _ "\<lambda>r. b_sent (snd r)"])

end
