(* ===== verification/Settings_Team.thy ===== *)
theory Settings_Team
  imports Settings_Keys Studio Pages
begin

text \<open>
  The members of a project (\<open>routes/app/_layout/settings/members.tsx\<close>) and the users of the installation
  with their invitations (\<open>users.tsx\<close>). A row is a small state machine: removing takes a second
  click, and no request starts while one is in flight.
\<close>

section \<open>Roles\<close>

definition ROLE_META :: "(string \<times> string \<times> string) list" where
  "ROLE_META =
     [(''owner'', ''Owner'', ''bg-[#fbbf24]/20 text-[#fbbf24] border-[#fbbf24]/30''),
      (''admin'', ''Admin'', ''bg-[#818cf8]/20 text-[#818cf8] border-[#818cf8]/30''),
      (''viewer'', ''Viewer'', ''bg-secondary text-muted-foreground border-border'')]"

text \<open>The badge is for the three roles of its type; the lookup of another text gives no entry to read a label from.\<close>

definition RoleBadge :: "string \<Rightarrow> string" where
  "RoleBadge role = (case map_of ROLE_META role of Some (label, _) \<Rightarrow> label | None \<Rightarrow> [])"

text \<open>\<open>(name || email).charAt(0).toUpperCase()\<close>, for a first character in ASCII.\<close>

definition avatar :: "string \<Rightarrow> string \<Rightarrow> string" where
  "avatar name email = toUpperCase (take 1 (or_else name email))"

section \<open>Rows with a confirmation\<close>

text \<open>The state of a row, of a member or of a user: the armed confirmation, and the mutations in flight.\<close>

record team_row =
  tm_confirm :: bool
  tm_removing :: bool
  tm_updating :: bool

definition team_row_init :: team_row where
  "team_row_init = \<lparr>tm_confirm = False, tm_removing = False, tm_updating = False\<rparr>"

datatype team_event = ChooseRole string | ClickRemove | RemoveSettled | RoleSettled

datatype team_call = RoleCall string string | RemoveCall string

text \<open>\<open>handleRemove\<close>, \<open>handleDelete\<close>: the first click arms, the second removes.\<close>

definition handleRemove :: "string \<Rightarrow> team_row \<Rightarrow> team_row \<times> team_call list" where
  "handleRemove i r = (if \<not> tm_confirm r then (r\<lparr>tm_confirm := True\<rparr>, []) else (r\<lparr>tm_removing := True\<rparr>, [RemoveCall i]))"

definition handleRoleChange :: "string \<Rightarrow> string \<Rightarrow> team_row \<Rightarrow> team_row \<times> team_call list" where
  "handleRoleChange i role r = (r\<lparr>tm_updating := True\<rparr>, [RoleCall i role])"

fun team_step :: "string \<Rightarrow> team_row \<Rightarrow> team_event \<Rightarrow> team_row \<times> team_call list" where
  "team_step i r (ChooseRole role) = handleRoleChange i role r"
| "team_step i r ClickRemove = handleRemove i r"
| "team_step i r RemoveSettled = (r\<lparr>tm_confirm := False, tm_removing := False\<rparr>, [])"
| "team_step i r RoleSettled = (r\<lparr>tm_updating := False\<rparr>, [])"

fun member_io :: "server \<Rightarrow> string \<Rightarrow> string \<Rightarrow> team_call \<Rightarrow> json io" where
  "member_io srv base projectId (RoleCall i role) = m_fn (useUpdateMemberRole srv base (Some projectId)) (i, role)"
| "member_io srv base projectId (RemoveCall i) = m_fn (useRemoveMember srv base (Some projectId)) i"

definition user_io :: "server \<Rightarrow> string \<Rightarrow> string \<Rightarrow> json io" where
  "user_io srv base i = m_fn (useDeleteUser srv base) i"

definition canManage :: "string \<Rightarrow> bool" where
  "canManage currentUserRole \<longleftrightarrow> currentUserRole = ''owner'' \<or> currentUserRole = ''admin''"

definition remove_button :: "team_row \<Rightarrow> team_event view" where
  "remove_button r = Button (if tm_confirm r then ''Confirm?'' else ''Remove'') (\<not> tm_removing r) ClickRemove"

definition MemberRow :: "string \<Rightarrow> team_row \<Rightarrow> Member \<Rightarrow> team_event view" where
  "MemberRow currentUserRole r m =
     (let isOwner = (mb_role m = ''owner''); manage = (canManage currentUserRole \<and> \<not> isOwner)
      in Box ([Text (avatar (mb_name m) (mb_email m)), Text (or_else (mb_name m) em_dash), Text (mb_email m)]
              @ (if manage
                 then [chooser (mb_role m) (\<not> tm_updating r) [(''admin'', ''Admin'', True), (''viewer'', ''Viewer'', True)] ChooseRole]
                 else [Text (RoleBadge (mb_role m))])
              @ shown_if manage [remove_button r]))"

section \<open>Adding a member\<close>

record add_form =
  af_email :: string
  af_role :: string
  af_error :: string
  af_pending :: bool

definition add_form_init :: add_form where
  "add_form_init = \<lparr>af_email = [], af_role = ''viewer'', af_error = [], af_pending = False\<rparr>"

text \<open>\<open>handleSubmit\<close>: the form and the member it asks for.\<close>

definition add_submit :: "add_form \<Rightarrow> add_form \<times> (string \<times> string) option" where
  "add_submit f =
     (if js_trim (af_email f) = [] then (f, None)
      else (f\<lparr>af_error := [], af_pending := True\<rparr>, Some (js_trim (af_email f), af_role f)))"

definition add_settled :: "js_error + unit \<Rightarrow> add_form \<Rightarrow> add_form" where
  "add_settled a f =
     (case a of
        Inr _ \<Rightarrow> f\<lparr>af_email := [], af_role := ''viewer'', af_pending := False\<rparr>
      | Inl e \<Rightarrow> f\<lparr>af_error := error_message e, af_pending := False\<rparr>)"

datatype form_event = SubmitAdd | PickRole string

definition AddMemberForm :: "add_form \<Rightarrow> form_event view" where
  "AddMemberForm f =
     Box ([Field ''user@example.com'' (af_email f),
           chooser (af_role f) True [(''viewer'', ''Viewer'', True), (''admin'', ''Admin'', True)] PickRole,
           Button (if af_pending f then ''Adding'' @ ellipsis else ''Add Member'') (\<not> af_pending f \<and> js_trim (af_email f) \<noteq> []) SubmitAdd]
          @ shown_if (af_error f \<noteq> []) [Text (af_error f)])"

section \<open>The members page\<close>

definition current_role :: "Member list \<Rightarrow> string" where
  "current_role members = nullish (map_option mb_role (find (\<lambda>m. mb_role m = ''owner'') members)) ''admin''"

text \<open>An action of the page: of the form, or of the row of a member.\<close>

definition MembersPage :: "string option \<Rightarrow> bool \<Rightarrow> Member list \<Rightarrow> (string \<Rightarrow> team_row) \<Rightarrow> add_form \<Rightarrow> (form_event + string \<times> team_event) view" where
  "MembersPage selectedProjectId isLoading members rows f =
     (if \<not> truthy selectedProjectId then Text ''Select a project to manage its members.''
      else Box ([Text ''Members'', Text ''Manage who has access to this project'']
                @ shown_if (members \<noteq> []) [Text (show_nat (length members) @ '' member'' @ plural (length members))]
                @ [Text ''Add member'', map_view Inl (AddMemberForm f), Text ''The user must already have a BatAudit account.'']
                @ shown_if isLoading [Text (''Loading'' @ ellipsis)]
                @ shown_if (\<not> isLoading \<and> members = []) [Text ''No members yet.'']
                @ map (\<lambda>m. map_view (\<lambda>e. Inr (mb_user_id m, e)) (MemberRow (current_role members) (rows (mb_user_id m)) m)) members))"

section \<open>Users and invitations\<close>

record User =
  us_id :: string
  us_name :: string
  us_email :: string
  us_role :: string
  us_created_at :: string

record Invite =
  iv_id :: string
  iv_email :: string
  iv_role :: string
  iv_expires_at :: string
  iv_created_at :: string

text \<open>The page of users has its own table of roles.\<close>

definition USER_ROLE_META :: "(string \<times> string \<times> string) list" where
  "USER_ROLE_META =
     [(''owner'', ''Owner'', ''bg-[#fbbf24]/20 text-[#fbbf24] border-[#fbbf24]/30''),
      (''admin'', ''Admin'', ''bg-[#818cf8]/20 text-[#818cf8] border-[#818cf8]/30''),
      (''viewer'', ''Viewer'', ''bg-secondary text-muted-foreground border-border'')]"

definition UserRoleBadge :: "string \<Rightarrow> string" where
  "UserRoleBadge role = (case map_of USER_ROLE_META role of Some (label, _) \<Rightarrow> label | None \<Rightarrow> [])"

definition UserRow :: "team_row \<Rightarrow> User \<Rightarrow> team_event view" where
  "UserRow r u =
     Box ([Text (avatar (us_name u) (us_email u)), Text (or_else (us_name u) em_dash), Text (us_email u), Text (UserRoleBadge (us_role u))]
          @ shown_if (us_role u \<noteq> ''owner'') [remove_button r])"

text \<open>\<open>CopyButton\<close>: the text goes to the clipboard, and the notice ends with any of its timers.\<close>

definition CopyButton :: "bool \<Rightarrow> 'a \<Rightarrow> 'a view" where
  "CopyButton copied act = Button (if copied then ''Copied!'' else ''Copy'') True act"

definition InviteRow :: "(string \<Rightarrow> string) \<Rightarrow> bool \<Rightarrow> Invite \<Rightarrow> string view" where
  "InviteRow date revoking iv =
     Box [Text (iv_email iv), Text (''Expires '' @ date (iv_expires_at iv)), Text (iv_role iv), Button ''Revoke invite'' (\<not> revoking) (iv_id iv)]"

record invite_form =
  vf_email :: string
  vf_role :: string
  vf_link :: string
  vf_error :: string
  vf_pending :: bool

definition invite_form_init :: invite_form where
  "invite_form_init = \<lparr>vf_email = [], vf_role = ''viewer'', vf_link = [], vf_error = [], vf_pending = False\<rparr>"

definition invite_link :: "string \<Rightarrow> string \<Rightarrow> string" where
  "invite_link origin token = origin @ ''/invite/'' @ token"

text \<open>\<open>handleSubmit\<close> with the answer it waits for. An answer that is \<open>null\<close> throws in the callback, which leaves the form as it
  is; a missing token prints as \<open>undefined\<close>.\<close>

definition invite_form_submit :: "server \<Rightarrow> string \<Rightarrow> string \<Rightarrow> invite_form \<Rightarrow> browser \<Rightarrow> invite_form \<times> browser" where
  "invite_form_submit srv base origin f w =
     (if js_trim (vf_email f) = [] then (f, w)
      else let f1 = f\<lparr>vf_error := [], vf_link := []\<rparr>
           in case m_fn (useCreateInvite srv base) (js_trim (vf_email f), vf_role f) w of
                (Inl e, w1) \<Rightarrow> (f1\<lparr>vf_error := error_message e\<rparr>, w1)
              | (Inr data, w1) \<Rightarrow>
                  (case jprop data ''token'' of
                     Inl _ \<Rightarrow> (f1, w1)
                   | Inr t \<Rightarrow> (f1\<lparr>vf_link := invite_link origin (item_text t), vf_email := [], vf_role := ''viewer''\<rparr>, w1)))"

datatype invite_event = SubmitInvite | PickInviteRole string | CopyLink string

definition InviteForm :: "bool \<Rightarrow> invite_form \<Rightarrow> invite_event view" where
  "InviteForm copied f =
     Box ([Field ''colleague@company.com'' (vf_email f),
           chooser (vf_role f) True [(''viewer'', ''Viewer'', True), (''admin'', ''Admin'', True)] PickInviteRole,
           Button (if vf_pending f then ''Generating'' @ ellipsis else ''Generate Invite'') (\<not> vf_pending f \<and> js_trim (vf_email f) \<noteq> []) SubmitInvite]
          @ shown_if (vf_link f \<noteq> []) [Text (vf_link f), CopyButton copied (CopyLink (vf_link f))]
          @ shown_if (vf_error f \<noteq> []) [Text (vf_error f)])"

definition users_queries :: "server \<Rightarrow> string \<Rightarrow> query list" where
  "users_queries srv base = [useUsers srv base, useInvites srv base]"

datatype users_event = InviteEvent invite_event | RevokeEvent string | UserEvent string team_event

definition UsersPage ::
  "(string \<Rightarrow> string) \<Rightarrow> bool \<Rightarrow> User list \<Rightarrow> Invite list \<Rightarrow> (string \<Rightarrow> team_row) \<Rightarrow> (string \<Rightarrow> bool) \<Rightarrow> bool \<Rightarrow> invite_form
   \<Rightarrow> users_event view" where
  "UsersPage date usersLoading users invites rows revoking copied f =
     Box ([Text ''Users'', Text ''Manage BatAudit accounts'']
          @ shown_if (users \<noteq> []) [Text (show_nat (length users) @ '' user'' @ plural (length users))]
          @ [Text ''Invite user'', map_view InviteEvent (InviteForm copied f)]
          @ shown_if (invites \<noteq> [])
              (Text ''Pending invites'' # map (\<lambda>iv. map_view RevokeEvent (InviteRow date (revoking (iv_id iv)) iv)) invites)
          @ shown_if usersLoading [Text (''Loading'' @ ellipsis)]
          @ shown_if (\<not> usersLoading \<and> users = []) [Text ''No users yet.'']
          @ map (\<lambda>u. map_view (UserEvent (us_id u)) (UserRow (rows (us_id u)) u)) users)"


section \<open>Runs of a row\<close>

text \<open>A row as it is shown, and what can happen to it: a click on an enabled control, or the end of a request in flight.\<close>

inductive row_may :: "(team_row \<Rightarrow> team_event view) \<Rightarrow> team_row \<Rightarrow> team_event \<Rightarrow> bool" for v where
  row_click: "e \<in> set (clicks (v r)) \<Longrightarrow> row_may v r e"
| row_removed: "tm_removing r \<Longrightarrow> row_may v r RemoveSettled"
| row_updated: "tm_updating r \<Longrightarrow> row_may v r RoleSettled"

inductive row_run :: "(team_row \<Rightarrow> team_event view) \<Rightarrow> string \<Rightarrow> team_event list \<Rightarrow> team_row \<Rightarrow> team_call list \<Rightarrow> bool" for v i where
  row_start: "row_run v i [] team_row_init []"
| row_more: "row_run v i es r cs \<Longrightarrow> row_may v r e
    \<Longrightarrow> row_run v i (es @ [e]) (fst (team_step i r e)) (cs @ snd (team_step i r e))"

inductive_cases row_mayE: "row_may v r e"

fun remove_call :: "team_call \<Rightarrow> bool" where
  "remove_call (RemoveCall i) = True"
| "remove_call (RoleCall i role) = False"

text \<open>What the rows of both pages promise: removing is not offered while it is under way, and a role that is offered is
  one of \<open>roles\<close>.\<close>

locale confirm_row =
  fixes v :: "team_row \<Rightarrow> team_event view"
    and roles :: "string set"
  assumes remove_idle: "ClickRemove \<in> set (clicks (v r)) \<Longrightarrow> \<not> tm_removing r"
    and no_answers: "RemoveSettled \<notin> set (clicks (v r))" "RoleSettled \<notin> set (clicks (v r))"
    and role_offered: "ChooseRole role \<in> set (clicks (v r)) \<Longrightarrow> role \<in> roles"
begin

lemma confirmed:
  assumes "row_run v i es r cs"
  shows "2 * length (filter remove_call cs) + (if tm_confirm r \<and> \<not> tm_removing r then 1 else 0) \<le> length (filter (\<lambda>e. e = ClickRemove) es)
    \<and> (tm_removing r \<longrightarrow> tm_confirm r)"
  using assms
proof (induction rule: row_run.induct)
  case (row_more es r cs e)
  show ?case
  proof (cases e)
    case (ChooseRole role)
    then show ?thesis using row_more by (simp add: handleRoleChange_def)
  next
    case ClickRemove
    with row_more have "\<not> tm_removing r" using remove_idle by (auto elim!: row_mayE)
    then show ?thesis using row_more.IH ClickRemove by (auto simp: handleRemove_def)
  qed (use row_more in \<open>auto split: if_splits\<close>)
qed (simp add: team_row_init_def)

lemma own_calls:
  assumes "row_run v i es r cs" "c \<in> set cs"
  shows "c = RemoveCall i \<or> (\<exists>role \<in> roles. c = RoleCall i role)"
  using assms
proof (induction arbitrary: rule: row_run.induct)
  case (row_more es r cs e)
  consider "c \<in> set cs" | "c \<in> set (snd (team_step i r e))" using row_more.prems by auto
  then show ?case
  proof cases
    case 2
    then show ?thesis
      using row_more.hyps(2) role_offered
      by (cases e) (auto simp: handleRemove_def handleRoleChange_def elim!: row_mayE split: if_splits)
  qed (rule row_more.IH)
qed simp

lemma silent:
  assumes "row_run v i es r cs" "\<And>r. clicks (v r) = []"
  shows "es = [] \<and> cs = []"
proof -
  have "es = [] \<and> cs = [] \<and> r = team_row_init" using assms(1)
  proof (induction rule: row_run.induct)
    case (row_more es r cs e)
    then have "row_may v team_row_init e" by simp
    then show ?case by (cases rule: row_may.cases) (auto simp: assms(2) team_row_init_def)
  qed simp
  then show ?thesis by simp
qed

end

interpretation mrow: confirm_row "\<lambda>r. MemberRow role r m" "{''admin'', ''viewer''}" for role m
  by unfold_locales (auto simp: MemberRow_def remove_button_def Let_def shown_if_def chooser_def split: if_splits)

interpretation urow: confirm_row "\<lambda>r. UserRow r u" "{}" for u
  by unfold_locales (auto simp: UserRow_def remove_button_def shown_if_def split: if_splits)


definition sample_member :: Member where
  "sample_member = \<lparr>mb_user_id = ''u'', mb_project_id = ''p'', mb_role = ''viewer'', mb_name = ''Ann'', mb_email = ''a@x''\<rparr>"

definition sample_user :: User where
  "sample_user = \<lparr>us_id = ''u'', us_name = ''Ann'', us_email = ''a@x'', us_role = ''viewer'', us_created_at = []\<rparr>"

lemma two_clicks:
  assumes "\<And>r. \<not> tm_removing r \<Longrightarrow> ClickRemove \<in> set (clicks (v r))"
  shows "\<exists>r. row_run v i [ClickRemove, ClickRemove] r [RemoveCall i]"
proof -
  let ?r1 = "team_row_init\<lparr>tm_confirm := True\<rparr>"
  have "row_run v i ([] @ [ClickRemove]) (fst (team_step i team_row_init ClickRemove)) ([] @ snd (team_step i team_row_init ClickRemove))"
    by (rule row_more [OF row_start row_click]) (simp add: assms team_row_init_def)
  then have "row_run v i [ClickRemove] ?r1 []" by (simp add: handleRemove_def team_row_init_def)
  then have "row_run v i ([ClickRemove] @ [ClickRemove]) (fst (team_step i ?r1 ClickRemove)) ([] @ snd (team_step i ?r1 ClickRemove))"
    by (rule row_more [OF _ row_click]) (simp add: assms team_row_init_def)
  then show ?thesis by (auto simp: handleRemove_def)
qed


text \<open>The role taken for the current user always manages: the test of \<open>canManage\<close> never fails on this page.\<close>

lemma everyone_manages: "canManage (current_role members)"
  by (auto simp: canManage_def current_role_def nullish_def find_Some_iff split: option.split)

text \<open>The token of an invitation is the last segment of its link.\<close>

lemma invite_link_token: "CHR ''/'' \<notin> set token \<Longrightarrow> last (split_on (CHR ''/'') (invite_link origin token)) = token"
proof -
  assume t: "CHR ''/'' \<notin> set token"
  have "\<exists>ps. ps \<noteq> [] \<and> split_on c (s @ c # t') = ps @ split_on c t'" for c s t'
  proof (induction s)
    case Nil
    then show ?case by (intro exI [of _ "[[]]"]) simp
  next
    case (Cons x s)
    then obtain p ps where "split_on c (s @ c # t') = (p # ps) @ split_on c t'" by (metis neq_Nil_conv)
    then show ?case
      by (cases "x = c") (auto intro: exI [of _ "[] # p # ps"] exI [of _ "(x # p) # ps"])
  qed
  from this [of "CHR ''/''" "origin @ ''/invite''" token] show ?thesis using t by (auto simp: invite_link_def split_on_absent)
qed

end
