(* ===== verification/Session_Spec.thy ===== *)
theory Session_Spec
  imports Routes Tv
begin

text \<open>
  What the session promises, and that the code keeps it. The specification is a machine with two states, signed out and signed
  in with a token, over the events a user and a server can observe. The browser, with all that the login page, the API client,
  the router with its guards, the header, the theme and the wallboard screen do to it, refines this machine: the locale
  \<open>simulation\<close> carries the runs over, and with them what the specification alone guarantees.
\<close>

section \<open>Runs with labels\<close>

inductive path :: "('s \<Rightarrow> 'l \<Rightarrow> 's \<Rightarrow> bool) \<Rightarrow> 's \<Rightarrow> 'l list \<Rightarrow> 's \<Rightarrow> bool" for step where
  Nil: "path step s [] s"
| snoc: "path step s ls t \<Longrightarrow> step t l u \<Longrightarrow> path step s (ls @ [l]) u"

inductive_cases path_snocE: "path step s (ls @ [l]) u"

locale simulation =
  fixes cstep :: "'c \<Rightarrow> 'l \<Rightarrow> 'c \<Rightarrow> bool"
    and astep :: "'a \<Rightarrow> 'l \<Rightarrow> 'a \<Rightarrow> bool"
    and abs :: "'c \<Rightarrow> 'a"
  assumes sim: "cstep c l c' \<Longrightarrow> astep (abs c) l (abs c')"
begin

lemma path_sim: "path cstep c ls c' \<Longrightarrow> path astep (abs c) ls (abs c')"
  by (induction rule: path.induct) (auto intro: path.intros sim)

end

section \<open>Specification\<close>

datatype session = Out | In string

text \<open>The events: a login accepted with a token or refused, an authenticated request answered or rejected with 401, a page of the
  application entered or refused at a time, a logout, and anything else the browser stores.\<close>

datatype session_event =
    SignedIn string | SignInFailed | Answered | Rejected | Entered int | TurnedAway int | SignedOut | Unrelated

definition live :: "int \<Rightarrow> string \<Rightarrow> bool" where
  "live now t \<longleftrightarrow> \<not> isTokenExpired now [TOKEN_KEY \<mapsto> t]"

inductive spec_step :: "session \<Rightarrow> session_event \<Rightarrow> session \<Rightarrow> bool" where
  sign_in: "spec_step s (SignedIn t) (if t = [] then Out else In t)"
| failed: "spec_step s SignInFailed s"
| answered: "spec_step s Answered s"
| rejected: "spec_step s Rejected Out"
| entered: "live now t \<Longrightarrow> spec_step (In t) (Entered now) (In t)"
| expired: "\<not> live now t \<Longrightarrow> spec_step (In t) (TurnedAway now) Out"
| refused: "spec_step Out (TurnedAway now) Out"
| sign_out: "spec_step s SignedOut Out"
| unrelated: "spec_step s Unrelated s"

inductive_cases spec_step_enteredE [elim!]: "spec_step s (Entered now) s'"

inductive_simps spec_step_simps:
  "spec_step s (SignedIn t) s'" "spec_step s SignInFailed s'" "spec_step s Answered s'" "spec_step s Rejected s'"
  "spec_step s (TurnedAway now) s'" "spec_step s SignedOut s'" "spec_step s Unrelated s'"

text \<open>The events after which a token is no longer the session's.\<close>

fun ends_session :: "session_event \<Rightarrow> bool" where
  "ends_session (SignedIn _) = True"
| "ends_session Rejected = True"
| "ends_session (TurnedAway _) = True"
| "ends_session SignedOut = True"
| "ends_session _ = False"

lemma spec_step_kept: "spec_step s l (In t) \<Longrightarrow> \<not> ends_session l \<Longrightarrow> s = In t"
  by (erule spec_step.cases) auto

lemma spec_step_In: "spec_step s l (In t) \<Longrightarrow> ends_session l \<Longrightarrow> l = SignedIn t \<and> t \<noteq> []"
  by (erule spec_step.cases) (auto split: if_splits)

text \<open>A machine that starts signed out and is signed in has been signed in with that token, and nothing has ended the
  session since.\<close>

lemma spec_signed_in:
  "path spec_step Out ls (In t) \<Longrightarrow>
   t \<noteq> [] \<and> (\<exists>before since. ls = before @ SignedIn t # since \<and> (\<forall>l \<in> set since. \<not> ends_session l))"
proof (induction Out ls "In t" arbitrary: t rule: path.induct)
  case (snoc ls s l)
  show ?case
  proof (cases "ends_session l")
    case True
    then show ?thesis using spec_step_In [OF snoc.hyps(3)] by (metis append_Nil2 empty_iff list.set(1))
  next
    case False
    then have s: "s = In t" using spec_step_kept snoc.hyps(3) by blast
    obtain before since where "ls = before @ SignedIn t # since" "\<forall>l \<in> set since. \<not> ends_session l" "t \<noteq> []"
      using snoc.hyps(2) [OF s] by blast
    with False show ?thesis by (intro conjI exI [of _ before] exI [of _ "since @ [l]"]) auto
  qed
qed

section \<open>The browser\<close>

text \<open>Every way the program changes the browser, with the event it is; \<open>match\<close> and \<open>load\<close> are the router.\<close>

definition auth_request :: "string \<Rightarrow> request_init \<Rightarrow> browser \<Rightarrow> request" where
  "auth_request url init w = init_request url init (hdr_spread (bearer (getToken (b_store w))) (ri_headers init))"

definition rejects :: "server \<Rightarrow> browser \<Rightarrow> request \<Rightarrow> bool" where
  "rejects srv w req \<longleftrightarrow> (case srv (b_sent w) req of Inr res \<Rightarrow> res_status res = 401 | Inl _ \<Rightarrow> False)"

inductive browser_step :: "(string \<Rightarrow> route list) \<Rightarrow> (int \<Rightarrow> route list \<Rightarrow> browser \<Rightarrow> (string + unit) \<times> browser)
    \<Rightarrow> browser \<Rightarrow> session_event \<Rightarrow> browser \<Rightarrow> bool" for match load where
  login_ok: "login_submit srv base p w = (p', Some to, w') \<Longrightarrow> getToken (b_store w') = Some t \<Longrightarrow> browser_step match load w (SignedIn t) w'"
| login_failed: "login_submit srv base p w = (p', None, w') \<Longrightarrow> browser_step match load w SignInFailed w'"
| request: "fetchWithAuth srv url init w = (r, w') \<Longrightarrow>
    browser_step match load w (if rejects srv w (auth_request url init w) then Rejected else Answered) w'"
| visit: "guarded (last (match p)) \<Longrightarrow> load now (match p) w = (r, w') \<Longrightarrow>
    browser_step match load w (case r of Inr _ \<Rightarrow> Entered now | Inl _ \<Rightarrow> TurnedAway now) w'"
| visit_open: "\<not> guarded (last (match p)) \<Longrightarrow> load now (match p) w = (r, w') \<Longrightarrow> browser_step match load w Unrelated w'"
| logout: "handleLogout srv base w = (to, w') \<Longrightarrow> browser_step match load w SignedOut w'"
| theme: "browser_step match load w Unrelated (w\<lparr>b_store := pg_store (applyTheme th \<lparr>classes = cs, pg_store = b_store w\<rparr>)\<rparr>)"
| invitation: "invite_submit srv base token q w = (q', to', w') \<Longrightarrow> browser_step match load w Unrelated w'"
| tv_activate: "activate srv base now c w = (r', w') \<Longrightarrow> browser_step match load w Unrelated w'"
| tv_fetch: "wbFetch srv base now pth pid env w = (r'', w') \<Longrightarrow> browser_step match load w Unrelated w'"
| tv_start: "tv_mount srv base now (tp, w) = (tp', w') \<Longrightarrow> browser_step match load w Unrelated w'"
| tv_stop: "tv_disconnect (tp, w) = (tp', w') \<Longrightarrow> browser_step match load w Unrelated w'"

text \<open>The abstraction: the stored token, an empty one counting as none.\<close>

definition session_of :: "browser \<Rightarrow> session" where
  "session_of w = (case getToken (b_store w) of None \<Rightarrow> Out | Some t \<Rightarrow> if t = [] then Out else In t)"

section \<open>What leaves the session alone\<close>

text \<open>A computation that keeps the stored token.\<close>

definition keeps :: "'a io \<Rightarrow> bool" where
  "keeps m \<longleftrightarrow> (\<forall>w. getToken (b_store (snd (m w))) = getToken (b_store w))"

lemma keepsD: "keeps m \<Longrightarrow> m w = (r, w') \<Longrightarrow> getToken (b_store w') = getToken (b_store w)"
  unfolding keeps_def by (metis snd_conv)

lemma keeps_basic:
  "keeps (io_return x)" "keeps (io_throw e)" "keeps (io_lift r)" "keeps (js_fetch srv req)" "keeps (plain_fetch srv url init)"
  by (simp_all add: keeps_def io_return_def io_throw_def io_lift_def js_fetch_def plain_fetch_def)

lemma keeps_bind: "keeps m \<Longrightarrow> (\<And>x. keeps (f x)) \<Longrightarrow> keeps (io_bind m f)"
  by (simp add: keeps_def io_bind_def split: prod.split sum.split) (metis snd_conv)

lemma keeps_store: "(\<And>m. getToken (f m) = getToken m) \<Longrightarrow> keeps (with_store f)"
  by (simp add: keeps_def with_store_def)

lemma keeps_checks: "keeps (require_ok msg res)" "keeps (json_or msg res)" "keeps (field d k)"
  by (simp_all add: require_ok_def json_or_def field_def keeps_basic keeps_bind)

lemmas keeps_intros = keeps_bind keeps_store keeps_basic keeps_checks

lemma tv_tokens_kept:
  "getToken (saveTokens now a r p x n m) = getToken m" "getToken (clearWbTokens m) = getToken m"
  by (simp_all add: getToken_def saveTokens_def clearWbTokens_def store_simps TOKEN_KEY_def WB_ACCESS_KEY_def WB_REFRESH_KEY_def
      WB_PROJECT_KEY_def WB_EXPIRES_KEY_def WB_PROFILE_KEY_def Let_def)

lemma keeps_activate: "keeps (activate srv base now c)"
  unfolding activate_def by (intro keeps_intros tv_tokens_kept)

lemma keeps_refresh: "keeps (refreshAccessToken srv base now)"
proof -
  have "keeps (io_bind (plain_fetch srv u i)
      (\<lambda>res. if \<not> res_ok res then io_bind (with_store clearWbTokens) (\<lambda>_. io_return JNull)
         else io_bind (io_lift (res_json res)) (\<lambda>d. io_bind (field d ''access_token'') (\<lambda>a. io_bind (field d ''project_id'') (\<lambda>p.
           io_bind (field d ''expires_in'') (\<lambda>x.
             io_bind (with_store (saveTokens now a None (Some (jnullish p (JStr []))) x None)) (\<lambda>_. io_return (nullish a JNull))))))))" for u i
    by (rule keeps_bind [OF keeps_basic(5)]) (simp add: keeps_intros tv_tokens_kept)
  then show ?thesis unfolding keeps_def refreshAccessToken_def by (auto split: option.split)
qed

lemma keeps_wbFetch: "keeps (wbFetch srv base now pth pid env)"
proof -
  have g: "keeps (wb_get srv base pth pid env a)" for a by (simp add: wb_get_def keeps_basic Let_def)
  have "keeps (io_bind (refreshAccessToken srv base now)
      (\<lambda>access. if \<not> jtruthy access then io_throw (Error ''unauthenticated'') else wb_get srv base pth pid env (jstring access)))"
    by (rule keeps_bind [OF keeps_refresh]) (simp add: g keeps_basic)
  with g show ?thesis unfolding keeps_def wbFetch_def by auto
qed

lemma keeps_acceptInvite: "keeps (acceptInvite srv base token name password)"
  unfolding acceptInvite_def by (rule keeps_bind [OF keeps_basic(5)]) (simp add: keeps_intros)

lemma session_of_cong: "getToken (b_store w') = getToken (b_store w) \<Longrightarrow> session_of w' = session_of w"
  by (simp add: session_of_def)

section \<open>Refinement\<close>

lemma login_failed_keeps: "login_submit srv base p w = (p', None, w') \<Longrightarrow> getToken (b_store w') = getToken (b_store w)"
  by (auto simp: login_submit_def login_sends Let_def split: sum.splits prod.splits if_splits)

lemma request_token:
  "fetchWithAuth srv url init w = (r, w') \<Longrightarrow>
   getToken (b_store w') = (if rejects srv w (auth_request url init w) then None else getToken (b_store w))"
  by (auto simp: fetchWithAuth_def auth_request_def rejects_def io_bind_fetch getToken_def clearAuth_def store_simps Let_def
      split: sum.splits if_splits)

lemma logout_token: "handleLogout srv base w = (to, w') \<Longrightarrow> getToken (b_store w') = None"
  by (auto simp: handleLogout_def getToken_def clearAuth_def store_simps split: prod.splits)

lemma theme_token: "getToken (pg_store (applyTheme th pg)) = getToken (pg_store pg)"
  by (simp add: applyTheme_def getToken_def store_simps TOKEN_KEY_def THEME_KEY_def)

lemma invite_token: "invite_submit srv base token q w = (q', to', w') \<Longrightarrow> getToken (b_store w') = getToken (b_store w)"
  by (auto simp: invite_submit_def dest: keepsD [OF keeps_acceptInvite] split: prod.splits sum.splits)

lemma tv_mount_token: "tv_mount srv base now (tp, w) = (tp', w') \<Longrightarrow> getToken (b_store w') = getToken (b_store w)"
  by (auto simp: tv_mount_def Let_def dest: keepsD [OF keeps_refresh] split: prod.splits sum.splits if_splits)

lemma tv_disconnect_token: "tv_disconnect (tp, w) = (tp', w') \<Longrightarrow> getToken (b_store w') = getToken (b_store w)"
  by (auto simp: tv_disconnect_def tv_tokens_kept)

lemmas unrelated_token = login_failed_keeps invite_token tv_mount_token tv_disconnect_token logout_token
  keepsD [OF keeps_activate] keepsD [OF keeps_wbFetch]

lemma expired_token: "getToken m = Some t \<Longrightarrow> isTokenExpired now m \<longleftrightarrow> \<not> live now t"
  unfolding live_def by (simp add: isTokenExpired_def getToken_def getItem_def)

lemma guard_step:
  assumes "layout_beforeLoad now w = (r, w')"
  shows "spec_step (session_of w) (case r of Inr _ \<Rightarrow> Entered now | Inl _ \<Rightarrow> TurnedAway now) (session_of w')"
proof (cases "truthy (getToken (b_store w))")
  case False
  then have "session_of w = Out" by (auto simp: session_of_def truthy_def split: option.splits)
  with False assms show ?thesis
    by (auto simp: layout_beforeLoad_def isAuthenticated_def spec_step_simps Let_def)
next
  case True
  then obtain t where t: "getToken (b_store w) = Some t" "t \<noteq> []" by (auto simp: truthy_iff)
  then have s: "session_of w = In t" by (simp add: session_of_def)
  show ?thesis
  proof (cases "live now t")
    case True
    with assms t have "r = Inr ()" "w' = w"
      by (auto simp: layout_beforeLoad_def isAuthenticated_def expired_token Let_def)
    with s True show ?thesis by (simp add: spec_step.entered)
  next
    case False
    with assms t have "r = Inl ''/login''" "getToken (b_store w') = None"
      by (auto simp: layout_beforeLoad_def isAuthenticated_def expired_token getToken_def clearAuth_def store_simps Let_def)
    with s False show ?thesis by (simp add: session_of_def spec_step.expired)
  qed
qed

lemma browser_refines:
  assumes "router match load" "browser_step match load w l w'"
  shows "spec_step (session_of w) l (session_of w')"
  using assms(2)
proof cases
  case (visit p now r)
  with router.load_visit [OF assms(1), of now p w] have "layout_beforeLoad now w = (r, w')" by simp
  from guard_step [OF this] show ?thesis using visit(1) by simp
next
  case (visit_open p now r)
  with router.load_visit [OF assms(1), of now p w] show ?thesis by (simp add: spec_step_simps)
next
  case (request srv url init r)
  show ?thesis using request_token [OF request(2)] unfolding request(1)
    by (auto simp: session_of_def spec_step_simps)
qed (auto simp: spec_step_simps session_of_def theme_token dest: unrelated_token)

text \<open>The router's contract gives the refinement.\<close>

sublocale router \<subseteq> session: simulation "browser_step match load" spec_step session_of
  by unfold_locales (rule browser_refines [OF router_axioms])

context router
begin

lemma browser_path: "path (browser_step match load) w es w' \<Longrightarrow> path spec_step (session_of w) es (session_of w')"
  by (rule session.path_sim)

end

section \<open>Properties\<close>



text \<open>C11. Nobody enters the application without having signed in: in a browser that holds no session at the start, when a page of
  the application is entered, an earlier login was accepted with a token that has not expired by then, and between the two
  there was no other accepted login, no logout, no answer 401 and no refused entry.\<close>

theorem entry_needs_sign_in:
  assumes "router match load" "path (browser_step match load) w (es @ [Entered now]) w'" "getToken (b_store w) = None"
  shows "\<exists>t before since. es = before @ SignedIn t # since \<and> live now t \<and> getToken (b_store w') = Some t
    \<and> (\<forall>e \<in> set since. e \<notin> {Rejected, SignedOut} \<and> (\<forall>u. e \<noteq> SignedIn u) \<and> (\<forall>n. e \<noteq> TurnedAway n))"
proof -
  have "path spec_step Out (es @ [Entered now]) (session_of w')"
    using router.browser_path [OF assms(1,2)] assms(3)
    by (simp add: session_of_def)
  then obtain s where s: "path spec_step Out es s" "spec_step s (Entered now) (session_of w')" by (elim path_snocE) simp_all
  from s(2) obtain t where t: "s = In t" "session_of w' = In t" "live now t" by blast
  from spec_signed_in [OF s(1) [unfolded t(1)]] obtain before since where
    "es = before @ SignedIn t # since" "\<forall>e \<in> set since. \<not> ends_session e" by blast
  moreover have "getToken (b_store w') = Some t"
    using t(2) by (auto simp: session_of_def split: option.splits if_splits)
  ultimately show ?thesis using t(3) by (intro exI [of _ t] exI [of _ before] exI [of _ since]) auto
qed

theorem entry_needs_sign_in_witness:
  "\<exists>t before since. [SignedIn sample_token] = before @ SignedIn t # since \<and> live 5000 t"
proof -
  let ?w = "\<lparr>b_store = Map.empty, b_href = None, b_sent = []\<rparr> :: browser"
  let ?kvs = "[(''token'', JStr sample_token), (''user'', JObj [])]"
  let ?srv = "(\<lambda>_ _. Inr \<lparr>res_status = 200, res_json = Inr (JObj ?kvs)\<rparr>) :: server"
  obtain req where login: "login_submit ?srv [] login_init ?w =
      (login_init\<lparr>lp_error := [], lp_loading := False\<rparr>, Some ''/app'',
       ?w\<lparr>b_sent := b_sent ?w @ [req], b_store := setAuth sample_token (JObj []) (b_store ?w)\<rparr>)"
    using login_accepted [of ?srv ?w ?kvs sample_token "JObj []" "[]" login_init] by auto
  let ?v = "?w\<lparr>b_sent := b_sent ?w @ [req], b_store := setAuth sample_token (JObj []) (b_store ?w)\<rparr>"
  have tok: "getToken (b_store ?v) = Some sample_token" by (simp add: setAuth_def getToken_def store_simps)
  have "sample_token \<noteq> []" by (simp add: sample_token_def)
  with tok sample_token_valid have guard: "layout_beforeLoad 5000 ?v = (Inr (), ?v)"
    unfolding layout_beforeLoad_def isAuthenticated_def Let_def by (simp add: expired_token live_def)
  have app: "last (table_match ''/app'') = AppLayoutIndexRoute" "guarded AppLayoutIndexRoute"
    by (simp_all add: table_match_def FileRoutesByTo_def guarded_branch route_branch_def eval_nat_numeral)
  with guard table_router.load_visit [of 5000 "''/app''" ?v] have load: "run_guards 5000 (table_match ''/app'') ?v = (Inr (), ?v)" by simp
  have "path (browser_step table_match run_guards) ?w ([] @ [SignedIn sample_token]) ?v"
    by (rule path.snoc [OF path.Nil]) (rule browser_step.login_ok [OF login tok])
  moreover have "browser_step table_match run_guards ?v (Entered 5000) ?v"
    using browser_step.visit [of table_match "''/app''" run_guards 5000 ?v "Inr ()" ?v] app load by simp
  ultimately have "path (browser_step table_match run_guards) ?w (([] @ [SignedIn sample_token]) @ [Entered 5000]) ?v"
    by (rule path.snoc)
  from entry_needs_sign_in [OF table_router.router_axioms this] show ?thesis
    by (simp add: getToken_def getItem_def) blast
qed

end
