(* ===== verification/Journeys.thy ===== *)
theory Journeys
  imports Session_Spec Settings_Team
begin

text \<open>
  What takes several parts of the program to happen: an invitation, from the form that makes its link to the session of the
  person invited, and a wallboard screen, from the profile's code to the data it shows and the end of the screen.
\<close>

section \<open>An invitation\<close>

definition invite_request :: "string \<Rightarrow> string \<Rightarrow> string \<Rightarrow> browser \<Rightarrow> request" where
  "invite_request base email role w =
     auth_request (base @ ''/v1/auth/invites'') (json_init ''POST'' (JObj [(''email'', JStr email), (''role'', JStr role)])) w"

definition preview_request :: "string \<Rightarrow> string \<Rightarrow> request" where
  "preview_request base token = init_request (base @ ''/v1/auth/invite/'' @ token) no_init []"

definition accept_request :: "string \<Rightarrow> string \<Rightarrow> string \<Rightarrow> string \<Rightarrow> request" where
  "accept_request base token name password =
     init_request (base @ ''/v1/auth/invite/'' @ token @ ''/accept'')
       (json_init ''POST'' (JObj [(''name'', JStr name), (''password'', JStr password)])) json_header"

definition login_request :: "string \<Rightarrow> string \<Rightarrow> string \<Rightarrow> request" where
  "login_request base email password =
     init_request (base @ ''/v1/auth/login'') (json_init ''POST'' (JObj [(''email'', JStr email), (''password'', JStr password)])) json_header"

lemma invite_form_link:
  assumes "js_trim (vf_email f) \<noteq> []"
    and "srv (b_sent w) (invite_request base (js_trim (vf_email f)) (vf_role f) w) = Inr \<lparr>res_status = 200, res_json = Inr (JObj kvs)\<rparr>"
    and "map_of kvs ''token'' = Some (JStr tk)"
  shows "vf_link (fst (invite_form_submit srv base origin f w)) = invite_link origin tk"
  using assms
  by (simp add: invite_form_submit_def useCreateInvite_def createInvite_def auth_json_def invite_request_def auth_request_def fetchWithAuth_def
      io_bind_def js_fetch_def json_or_def require_ok_def io_return_def io_lift_def res_ok_def Let_def del: stringify.simps)

lemma mount_shows:
  assumes "srv (b_sent v) (preview_request base tk) = Inr \<lparr>res_status = 200, res_json = Inr pv\<rparr>"
  shows "invite_mount srv base tk q v = (q\<lparr>ip_preview := Some pv\<rparr>, v\<lparr>b_sent := b_sent v @ [preview_request base tk]\<rparr>)"
  using assms
  by (simp add: invite_mount_def getInvitePreview_def plain_fetch_def preview_request_def no_init_def io_bind_def js_fetch_def
      json_or_def require_ok_def io_return_def io_lift_def res_ok_def)

lemma submit_accepts:
  assumes "srv (b_sent v) (accept_request base tk (js_trim (ip_name q)) (ip_password q)) = Inr \<lparr>res_status = 201, res_json = j\<rparr>"
  shows "invite_submit srv base tk q v =
    (q\<lparr>ip_error := [], ip_loading := False\<rparr>, Some ''/login'',
     v\<lparr>b_sent := b_sent v @ [accept_request base tk (js_trim (ip_name q)) (ip_password q)]\<rparr>)"
  using assms
  by (simp add: invite_submit_def acceptInvite_def plain_fetch_def accept_request_def json_init_def json_header_def io_bind_def js_fetch_def
      require_ok_def io_return_def res_ok_def del: stringify.simps)

lemma login_enters:
  assumes "srv (b_sent v) (login_request base (lp_email p) (lp_password p)) =
      Inr \<lparr>res_status = 200, res_json = Inr (JObj [(''token'', JStr t), (''user'', u)])\<rparr>"
  shows "login_submit srv base p v =
    (p\<lparr>lp_error := [], lp_loading := False\<rparr>, Some ''/app'',
     v\<lparr>b_sent := b_sent v @ [login_request base (lp_email p) (lp_password p)], b_store := setAuth t u (b_store v)\<rparr>)"
  using assms
  by (simp add: login_submit_def login_sends login_request_def init_request_def json_init_def Let_def res_ok_def login_store_def
      del: stringify.simps)

lemma signed_in_guard:
  assumes "getToken (b_store w) = Some t" "t \<noteq> []" "live now t"
  shows "layout_beforeLoad now w = (Inr (), w)"
  using assms by (simp add: layout_beforeLoad_def isAuthenticated_def expired_token)

section \<open>A screen\<close>

definition activate_request :: "string \<Rightarrow> string \<Rightarrow> request" where
  "activate_request base c = init_request (base @ ''/v1/wallboard/activate'') (json_init ''POST'' (JObj [(''code'', JStr c)])) json_header"

lemma activation_enters:
  assumes "srv (b_sent w) (activate_request base c) = Inr \<lparr>res_status = 200, res_json = Inr (JObj kvs)\<rparr>"
    and "map_of kvs ''access_token'' = Some (JStr a)" "map_of kvs ''refresh_token'' = Some (JStr r)" "r \<noteq> []"
    and "map_of kvs ''project_id'' = Some (JStr p)" "map_of kvs ''expires_in'' = Some (JNum (of_int n))"
    and "map_of kvs ''profile_name'' = Some (JStr f)" "js_trim (ac_code st) = c"
  shows "\<exists>st' w'. activation_submit srv base now st w = (st', Some f, w')
    \<and> getWbTokens (b_store w') = \<lparr>wb_access = Some a, wb_refresh = Some r, wb_projectId = Some p,
         wb_expiresAt = Some (of_int (now + n * 1000)), wb_profileName = f\<rparr>
    \<and> getToken (b_store w') = getToken (b_store w)"
proof -
  obtain w' where w': "activate srv base now c w = (Inr (JObj kvs), w')"
    "getWbTokens (b_store w') = \<lparr>wb_access = Some a, wb_refresh = Some r, wb_projectId = Some p,
         wb_expiresAt = Some (of_int (now + n * 1000)), wb_profileName = f\<rparr>"
    using activation_stores [where srv = srv and w = w and base = base and c = c and now = now, OF assms(1) [unfolded activate_request_def]
      _ _ assms(2-7)] by (auto simp: res_ok_def)
  with assms(7,8) keepsD [OF keeps_activate w'(1)] show ?thesis
    by (simp add: activation_submit_def activation_submitting_def jnullish_def Let_def)
qed

lemma reload_authenticated:
  assumes "getWbTokens (b_store w) = \<lparr>wb_access = Some a, wb_refresh = R, wb_projectId = P, wb_expiresAt = Some (of_int x), wb_profileName = f\<rparr>"
    and "a \<noteq> []" "f \<noteq> []" "now < x"
  shows "tv_mount srv base now (tv_init q, w) = ((tv_init q)\<lparr>tp_profileName := f, tp_authenticated := True\<rparr>, w)"
  using assms by (simp add: tv_mount_def Let_def)

lemma fresh_request:
  assumes "getWbTokens (b_store w) = \<lparr>wb_access = Some a, wb_refresh = R, wb_projectId = P, wb_expiresAt = Some (of_int x), wb_profileName = f\<rparr>"
    and "a \<noteq> []" "now + 300000 \<le> x"
  shows "wbFetch srv base now pth pid env w = js_fetch srv (wb_request base pth pid env a) w"
proof -
  have "(of_int now :: rat) + 300000 \<le> of_int x" using assms(3) by (metis of_int_add of_int_le_iff of_int_numeral)
  then have "\<not> wb_stale now (b_store w)" using assms(1,2) by (simp add: wb_stale_def)
  from wb_fetch_fresh [OF this] assms(1) show ?thesis by simp
qed

section \<open>Properties\<close>


definition sample_site :: server where
  "sample_site sent req =
     (if length sent = 0 then Inr \<lparr>res_status = 200, res_json = Inr (JObj [(''email'', JStr ''a@b'')])\<rparr>
      else if length sent = 1 then Inr \<lparr>res_status = 201, res_json = Inr JNull\<rparr>
      else Inr \<lparr>res_status = 200, res_json = Inr (JObj [(''token'', JStr sample_token), (''user'', JObj [])])\<rparr>)"


text \<open>C14. A screen's life: entering the code of a profile that the server accepts shows the dashboard under the profile's name; from then
  on, until the token expires, a reload shows it again without any request, and while five minutes are left every data request goes
  out at once with the token of the activation; disconnecting ends it, and a reload then neither shows the dashboard nor asks the
  server. The session of the dashboard in the same browser is not touched by any of it.\<close>

theorem screen_lifecycle:
  assumes "srv (b_sent w) (activate_request base (js_trim (toUpperCase entered))) = Inr \<lparr>res_status = 200, res_json = Inr (JObj kvs)\<rparr>"
    and "map_of kvs ''access_token'' = Some (JStr a)" "map_of kvs ''refresh_token'' = Some (JStr r)" "r \<noteq> []"
    and "map_of kvs ''project_id'' = Some (JStr p)" "map_of kvs ''expires_in'' = Some (JNum (of_int n))"
    and "map_of kvs ''profile_name'' = Some (JStr f)" "a \<noteq> []" "f \<noteq> []"
    and "now' < now + n * 1000" "later + 300000 \<le> now + n * 1000"
  shows "\<exists>st' w'. activation_submit srv base now (activation_change entered activation_init) w = (st', Some f, w')
    \<and> tp_authenticated (tv_activated f page) \<and> tp_profileName (tv_activated f page) = f
    \<and> tv_mount srv' base now' (tv_init q, w') = ((tv_init q)\<lparr>tp_profileName := f, tp_authenticated := True\<rparr>, w')
    \<and> wbFetch srv' base later pth pid env w' = js_fetch srv' (wb_request base pth pid env a) w'
    \<and> tv_mount srv' base t (tv_init q, snd (tv_disconnect (page, w'))) = (tv_init q, snd (tv_disconnect (page, w')))
    \<and> \<not> tp_authenticated (fst (tv_disconnect (page, w')))
    \<and> session_of w' = session_of w \<and> session_of (snd (tv_disconnect (page, w'))) = session_of w"
proof -
  have entered: "js_trim (ac_code (activation_change entered activation_init)) = js_trim (toUpperCase entered)"
    by (simp add: activation_change_def)
  obtain st' w' where sub: "activation_submit srv base now (activation_change entered activation_init) w = (st', Some f, w')"
    and toks: "getWbTokens (b_store w') = \<lparr>wb_access = Some a, wb_refresh = Some r, wb_projectId = Some p,
         wb_expiresAt = Some (of_int (now + n * 1000)), wb_profileName = f\<rparr>"
    and tok: "getToken (b_store w') = getToken (b_store w)"
    using activation_enters [where srv = srv and w = w and now = now, OF assms(1-7) entered] by blast
  have off: "tv_mount srv' base t (tv_init q, snd (tv_disconnect (page, w'))) = (tv_init q, snd (tv_disconnect (page, w')))"
    using tv_start_and_disconnect [of w' 0 0 srv' base "tv_init q" t] by (simp add: tv_disconnect_def tv_init_def Let_def)
  have "session_of w' = session_of w" using tok by (rule session_of_cong)
  moreover have "session_of (snd (tv_disconnect (page, w'))) = session_of w"
    using tok tv_disconnect_token [of page w'] by (intro session_of_cong) (simp add: tv_disconnect_def)
  ultimately show ?thesis
    using sub off reload_authenticated [OF toks assms(8,9,10)] fresh_request [OF toks assms(8,11)]
    by (intro exI [of _ st'] exI [of _ w']) (simp add: tv_activated_def tv_disconnect_def)
qed

theorem screen_lifecycle_witness:
  "\<exists>st' w'. activation_submit (\<lambda>_ _. Inr \<lparr>res_status = 200, res_json = Inr (JObj sample_activation)\<rparr>) [] 0
      (activation_change ''abc123'' activation_init) \<lparr>b_store = Map.empty, b_href = None, b_sent = []\<rparr> = (st', Some ''TV'', w')
    \<and> session_of w' = Out"
proof -
  have out: "session_of \<lparr>b_store = Map.empty, b_href = None, b_sent = []\<rparr> = Out" by (simp add: session_of_def getToken_def getItem_def)
  have "\<exists>st' w'. activation_submit (\<lambda>_ _. Inr \<lparr>res_status = 200, res_json = Inr (JObj sample_activation)\<rparr>) [] 0
      (activation_change ''abc123'' activation_init) \<lparr>b_store = Map.empty, b_href = None, b_sent = []\<rparr> = (st', Some ''TV'', w')
    \<and> session_of w' = session_of \<lparr>b_store = Map.empty, b_href = None, b_sent = []\<rparr>"
    using screen_lifecycle [where srv = "\<lambda>_ _. Inr \<lparr>res_status = 200, res_json = Inr (JObj sample_activation)\<rparr>" and base = "[]" and now = 0
        and w = "\<lparr>b_store = Map.empty, b_href = None, b_sent = []\<rparr>" and entered = "''abc123''" and kvs = sample_activation and a = "''a''"
        and r = "''r''" and p = "''p''" and n = 60 and f = "''TV''" and now' = 1 and later = "-240000"]
    by (simp add: sample_activation_def) blast
  then show ?thesis unfolding out .
qed

end
