(* ===== verification/Spec2Isabelle.thy ===== *)
theory Spec2Isabelle
  imports Node_Sdk Browser_Sdk Studio_View Tv_View Pages Sessions Anomalies Insights Routes Chart Dashboard_View
    Settings_Keys Settings_Monitors Settings_Notify Settings_Team Settings_Tv Journeys
begin

text \<open>
  Verification of the TypeScript parts of BatAudit: the SDKs that record audit events
  (\<open>src/sdks/node\<close>, \<open>src/sdks/browser\<close>) and the dashboard that shows them (\<open>src/frontend/src\<close>).

  \<^bold>\<open>The program.\<close> An SDK builds one event per request of the instrumented program (an Express or Fastify
  exchange, a Lambda invocation, a \<open>fetch\<close> or an \<open>XMLHttpRequest\<close>) and posts it to the Writer service,
  with up to three retries. The dashboard logs a user in, keeps the token in \<open>localStorage\<close>, and reads
  the Reader service through one client function per endpoint (\<open>http\<close>), one query or mutation hook per
  client (\<open>queries\<close>), and pages that turn their state into queries and their answers into markup
  (\<open>routes\<close>, \<open>components\<close>). The services are Go programs; to the TypeScript code they are the answers
  of the network, and here they are the parameter \<open>srv\<close> (\<open>net\<close> for the delivery loop), about which
  nothing is assumed except where a theorem says so.

  \<^bold>\<open>How code becomes definitions.\<close> A pure function is a HOL function of the same name (with a prefix where
  two files use one name). An \<open>async\<close> function is a computation on the record \<open>browser\<close> (storage, location,
  requests sent) that returns or throws (\<open>Http.io\<close>). A React component is a record of its state variables,
  one definition per handler, and a \<open>view\<close>: the tree of the texts and controls it shows, each control with
  the action of its handler and, for a button, whether it is enabled. Where the order of answers matters
  (delivery, key generation, removals, profiles) the answers are events of a step function or of an
  \<open>inductive\<close> run, so that they interleave with the user's. An exception is a value of \<open>js_error\<close>. A string
  is the list of its UTF-8 bytes, a number a rational.

  \<^bold>\<open>Theories, in the order they build on each other.\<close>

  \<^item> \<open>Prelude\<close>: string, number and option operations of the language; \<open>localStorage\<close> (locale \<open>kv_store\<close>),
    state machines (\<open>run\<close>, locale \<open>inv_machine\<close>) and codecs (locale \<open>text_codec\<close>). \<open>Json\<close>: values, \<open>stringify\<close>
    and \<open>json_parse\<close>, with \<open>parse_stringify\<close>. \<open>Http\<close>: percent-encoding, query strings, requests. \<open>Dates\<close>: ISO dates.
    \<open>View\<close>: trees of markup.
  \<^item> \<open>Sender\<close>: \<open>_sendWithRetry\<close>, \<open>send\<close> and \<open>flush\<close> of both clients, as one call and as a machine of interleaved calls
    that refines it. \<open>Node_Sdk\<close>: \<open>sdks/node/src\<close> (client, Express, Fastify, Lambda). \<open>Browser_Sdk\<close>:
    \<open>sdks/browser/src\<close> (client, interceptors, \<open>init\<close>).
  \<^item> \<open>Auth\<close>: \<open>lib/auth.ts\<close>, \<open>lib/api.ts\<close>, \<open>lib/theme.ts\<close> and the guard of \<open>_layout.tsx\<close>. \<open>Api_Clients\<close>: \<open>http/*\<close>.
    \<open>Queries\<close>: \<open>queries/*\<close>. \<open>Wallboard\<close>: \<open>http/wallboard.ts\<close> and its queries.
  \<^item> \<open>Nav\<close>: pagination, sidebar, header, project and environment contexts. \<open>Time_Range\<close>: the range picker.
    \<open>Dashboard\<close>: \<open>_layout/index.tsx\<close>. \<open>Pages\<close>: login, invitation, event dialog and cards. \<open>Sessions\<close>, \<open>Anomalies\<close>,
    \<open>Insights\<close>: the pages of these names.
  \<^item> \<open>Studio\<close>: \<open>http/studio.ts\<close> and the state of \<open>query.tsx\<close> and \<open>studio.tsx\<close>; \<open>Studio_View\<close>: what they show.
    \<open>Tv\<close>, \<open>Tv_View\<close>: \<open>routes/tv.tsx\<close>.
  \<^item> \<open>Settings_Keys\<close>, \<open>Settings_Monitors\<close>, \<open>Settings_Notify\<close>, \<open>Settings_Team\<close>, \<open>Settings_Tv\<close>: the pages under
    \<open>_layout/settings\<close> (\<open>api-keys.tsx\<close>; \<open>healthcheck.tsx\<close>; \<open>notifications.tsx\<close>; \<open>members.tsx\<close> and \<open>users.tsx\<close>;
    \<open>wallboard.tsx\<close>, \<open>retention.tsx\<close> and the guard of \<open>settings.tsx\<close>).
  \<^item> \<open>Ui\<close>: the primitives of \<open>components/ui\<close>, as functions from their props to an element and its classes; \<open>Chart\<close>:
    \<open>chart.tsx\<close>, with its context, its style sheet, tooltip and legend. \<open>Dashboard_View\<close>: what \<open>_layout/index.tsx\<close> shows, and
    the steps of the mounted page.
  \<^item> \<open>Routes\<close>: \<open>routeTree.gen.ts\<close>, \<open>main.tsx\<close>, \<open>__root.tsx\<close>, \<open>_layout.tsx\<close> and the guards on the way to a page (locale
    \<open>router\<close>, interpreted on the route table). \<open>Session_Spec\<close>: the abstract session, signed in or not, and the
    \<open>simulation\<close> of it by storage, guard and requests. \<open>Journeys\<close>: an invitation from the member page to the first
    entry, and a screen from its activation to its disconnection.

  \<^bold>\<open>What is shown.\<close>

  \<^item> Delivery: the exact schedule of attempts and pauses, that \<open>flush\<close> resolves only when every call pending at its
    start has settled, and that pending calls drain in a bounded number of steps.
  \<^item> SDKs: one event per exchange with the fields of the exchange, agreement of the two middlewares, events that read
    back from the posted body, retry loops of both clients that agree, patching that is undone.
  \<^item> Session: token expiry, the effect of a 401 on every client, the guard; that every run of logins, requests, visits and
    logouts refines the abstract session (\<open>Session_Spec.session_refines\<close>), so that nobody enters without a sign-in
    before; that every page under the application is guarded and every link leads to a route of the table; and the
    life of one session (\<open>session_lifecycle\<close> below, which joins login, requests, guard and logout).
  \<^item> Journeys: the invitation that is created, opened and accepted signs its user in, and a screen that
    entered an accepted code shows the dashboard across reloads until it is disconnected.
  \<^item> Queries and pages: filters reach the server unchanged and unmixed; ranges, exports, alert windows and rankings ask
    for what they show; every dashboard control keeps a valid search; sorting is a stable sort; pagination stays in
    range, and its markup marks the current page and no other; links follow the role.
  \<^item> Reports: exact substitution of variables, CSV and report bodies that read back, widgets and layout that
    stay consistent.
  \<^item> Wallboard: renewal of tokens, and the carousel that shows every monitor.
  \<^item> Settings: the normal form of slugs, keys generated one at a time and shown once, removals confirmed, one monitor form
    at a time whose body reads back, the VAPID key decoded byte by byte, push subscriptions that survive a reload.

  Lemmas named in the findings of the manifest show where the code does not do what it means to, such as
  \<open>Settings_Tv.revoke_ignores_status\<close> and \<open>Settings_Notify.push_state_outlives_project\<close>.

  \<^bold>\<open>Bounds and fuel.\<close> The JSON parser takes fuel: twice the length of the text plus two, enough because each
  step of a value consumes a character and opens at most one list; \<open>parse_stringify\<close> shows that every printed value
  is read back with it. \<open>frac_digits\<close> prints at most 17 fractional digits, the most a double needs. The retry loop ends
  by itself after the four attempts of \<open>RETRY_DELAYS_MS\<close>; a pending call takes at most eight steps of the machine.
  Everything else is structural recursion or has its own termination proof.

  \<^bold>\<open>Parameters.\<close> The server, the clock and the time zone, \<open>Date.parse\<close> (\<open>date_parser\<close>), the locale's texts, \<open>date-fns\<close>, the
  browser's URL parser and push interfaces, random ids, and of TanStack Query only the data its queries
  hold and the matching of keys by prefix. Of TanStack Router the matching of a location (\<open>match\<close>) and the loading of a route
  (\<open>load\<close>), of the class libraries (\<open>cn\<close>, \<open>cva\<close>) the merging of classes (\<open>L\<close>).

  \<^bold>\<open>Not modelled.\<close> Styling, icons and the layout of boxes in the pages; the chart and grid libraries beyond the data they get and the
  callbacks they fire; the inside of the third-party components that \<open>components/ui\<close> wraps; the Go
  services; configuration, documentation and tests. Binary rounding of numbers, and case mapping outside ASCII
  except where a theory says otherwise.
\<close>

section \<open>A session from login to logout\<close>

lemma auth_headers:
  "req_headers (last (b_sent (snd (fetchWithAuth srv url no_init w)))) = bearer (getToken (b_store w))"
  by (simp add: fetchWithAuth_def no_init_def hdr_spread_def io_bind_def js_fetch_def init_request_def Let_def split: sum.split)

lemma refused_without_token: "getToken (b_store w) = None \<Longrightarrow> fst (layout_beforeLoad now w) = Inl ''/login''"
  by (simp add: layout_beforeLoad_def isAuthenticated_def)

lemma guard_open:
  assumes "getToken (b_store w) = Some t" "t \<noteq> []" "\<not> isTokenExpired now [TOKEN_KEY \<mapsto> t]"
  shows "layout_beforeLoad now w = (Inr (), w)"
proof -
  have "isTokenExpired now (b_store w) = isTokenExpired now [TOKEN_KEY \<mapsto> t]"
    by (rule isTokenExpired_cong) (use assms(1) in \<open>simp add: getToken_def getItem_def\<close>)
  with assms show ?thesis by (simp add: layout_beforeLoad_def isAuthenticated_def)
qed

lemma unauthorized_clears:
  "b_store (snd (fetchWithAuth (\<lambda>_ _. Inr \<lparr>res_status = 401, res_json = j\<rparr>) url init w)) = clearAuth (b_store w)"
  by (simp add: fetchWithAuth_def io_bind_def js_fetch_def Let_def)

text \<open>A session, from the login page to its end: when the server accepts the credentials, the page goes
  to the application, the guard lets the visitor in while the token is valid, the header knows the user
  the server sent, and every authenticated request carries the token the server sent; a request that
  is answered 401 and a logout with any answer both end the session, so that the guard refuses entry.\<close>

lemma session_lifecycle:
  assumes "srv (b_sent w) = (\<lambda>req. Inr \<lparr>res_status = 200, res_json = Inr (JObj kvs)\<rparr>)"
    and "map_of kvs ''token'' = Some (JStr t)" "t \<noteq> []" "map_of kvs ''user'' = Some u" "wf_json u"
    and "\<not> isTokenExpired now [TOKEN_KEY \<mapsto> t]"
  shows "\<exists>p' w1. login_submit srv base p w = (p', Some ''/app'', w1) \<and> lp_error p' = []
    \<and> layout_beforeLoad now w1 = (Inr (), w1)
    \<and> getUser (b_store w1) = u
    \<and> req_headers (last (b_sent (snd (fetchWithAuth srv' url no_init w1)))) = [(''Authorization'', ''Bearer '' @ t)]
    \<and> fst (layout_beforeLoad now (snd (fetchWithAuth (\<lambda>_ _. Inr \<lparr>res_status = 401, res_json = j\<rparr>) url no_init w1))) = Inl ''/login''
    \<and> fst (layout_beforeLoad now (snd (handleLogout srv' base w1))) = Inl ''/login''"
proof -
  obtain req where l: "login_submit srv base p w =
    (p\<lparr>lp_error := [], lp_loading := False\<rparr>, Some ''/app'', w\<lparr>b_sent := b_sent w @ [req], b_store := setAuth t u (b_store w)\<rparr>)"
    using login_accepted [where srv = srv and w = w, OF assms(1,2,4)] by blast
  let ?w1 = "w\<lparr>b_sent := b_sent w @ [req], b_store := setAuth t u (b_store w)\<rparr>"
  have tok: "getToken (b_store ?w1) = Some t" and usr: "getUser (b_store ?w1) = u"
    using session_storage [OF assms(5)] by simp_all
  have out: "getToken (b_store (snd (handleLogout srv' base ?w1))) = None"
    using logout_store [of srv' base ?w1]
    by (auto simp: handleLogout_def useLogout_def getToken_def clearAuth_def store_simps split: prod.split)
  have gone: "getToken (clearAuth m) = None" for m by (simp add: getToken_def clearAuth_def store_simps)
  show ?thesis
    using l guard_open [OF tok assms(3,6)] usr auth_headers [of srv' url ?w1] tok assms(3)
      refused_without_token [OF out] refused_without_token [of "snd (fetchWithAuth (\<lambda>_ _. Inr \<lparr>res_status = 401, res_json = j\<rparr>) url no_init ?w1)"]
      unauthorized_clears [of j url no_init ?w1] gone
    by (intro exI [of _ "p\<lparr>lp_error := [], lp_loading := False\<rparr>"] exI [of _ ?w1]) (simp add: bearer_def)
qed

end
